(* ===== verification/Prusti_Prelude.thy ===== *)
theory Prusti_Prelude
  imports Main "HOL-Library.AList" "HOL-Library.Sublist"
begin

text \<open>
  Shared vocabulary of the development: results of fallible Rust code, executions that may
  panic, insertion-ordered maps (\<^verbatim>\<open>FxIndexMap\<close>), and generic lemmas on lists that the
  component theories use through the simplifier or through the collections declared here.
\<close>

named_theorems spec_simps \<open>unfolding rules for the parts of specifications\<close>

section \<open>Results and panics\<close>

text \<open>
  \<^verbatim>\<open>Result<T, E>\<close> is \<^typ>\<open>'e + 'a\<close>, with \<^const>\<open>Inl\<close> for the error. The operator
  \<^verbatim>\<open>?\<close> is \<open>rbind\<close>.
\<close>

definition rbind :: "'e + 'a \<Rightarrow> ('a \<Rightarrow> 'e + 'b) \<Rightarrow> 'e + 'b" where
  "rbind r f = (case r of Inl e \<Rightarrow> Inl e | Inr a \<Rightarrow> f a)"

lemma rbind_simps [simp]:
  "rbind (Inl e) f = Inl e"
  "rbind (Inr a) f = f a"
  by (simp_all add: rbind_def)

lemma rbind_eq_Inr: "rbind r f = Inr b \<longleftrightarrow> (\<exists>a. r = Inr a \<and> f a = Inr b)"
  by (cases r) auto

text \<open>Collecting an iterator of results stops at the first error, as \<^verbatim>\<open>collect\<close> does.\<close>

fun collect_results :: "('e + 'a) list \<Rightarrow> 'e + 'a list" where
  "collect_results [] = Inr []"
| "collect_results (r # rs) = rbind r (\<lambda>a. rbind (collect_results rs) (\<lambda>as. Inr (a # as)))"

lemma collect_results_Inr: "collect_results rs = Inr as \<longleftrightarrow> rs = map Inr as"
proof (induction rs arbitrary: as)
  case Nil
  then show ?case by auto
next
  case (Cons r rs)
  then show ?case by (cases as; cases r) (auto simp: rbind_eq_Inr)
qed

text \<open>
  An execution either returns a value or unwinds. The panic payload is \<^const>\<open>Some\<close> message
  when it is a \<^verbatim>\<open>&str\<close> or a \<^verbatim>\<open>String\<close>, and \<^const>\<open>None\<close> for any other payload.
\<close>

datatype 'a exec = Value 'a | Panicked "string option"

abbreviation panic :: "string \<Rightarrow> 'a exec" where
  "panic msg \<equiv> Panicked (Some msg)"

text \<open>
  The arguments of a call are evaluated from left to right, and the first panic is the panic of the
  whole.
\<close>

definition bind_exec :: "'a exec \<Rightarrow> ('a \<Rightarrow> 'b exec) \<Rightarrow> 'b exec" where
  "bind_exec e f = (case e of Value a \<Rightarrow> f a | Panicked p \<Rightarrow> Panicked p)"

definition map2_exec :: "('a \<Rightarrow> 'b \<Rightarrow> 'c) \<Rightarrow> 'a exec \<Rightarrow> 'b exec \<Rightarrow> 'c exec" where
  "map2_exec f a b = bind_exec a (\<lambda>x. map_exec (f x) b)"

definition map3_exec :: "('a \<Rightarrow> 'b \<Rightarrow> 'c \<Rightarrow> 'd) \<Rightarrow> 'a exec \<Rightarrow> 'b exec \<Rightarrow> 'c exec \<Rightarrow> 'd exec" where
  "map3_exec f a b c = bind_exec a (\<lambda>x. map2_exec (f x) b c)"

primrec all_exec :: "'a exec list \<Rightarrow> 'a list exec" where
  "all_exec [] = Value []"
| "all_exec (e # es) = map2_exec (#) e (all_exec es)"

primrec opt_exec :: "'a exec option \<Rightarrow> 'a option exec" where
  "opt_exec None = Value None"
| "opt_exec (Some e) = map_exec Some e"

text \<open>A loop that passes its state on.\<close>

primrec fold_exec :: "('a \<Rightarrow> 's \<Rightarrow> 's exec) \<Rightarrow> 'a list \<Rightarrow> 's \<Rightarrow> 's exec" where
  "fold_exec f [] s = Value s"
| "fold_exec f (x # xs) s = bind_exec (f x s) (fold_exec f xs)"

fun returns :: "'a exec \<Rightarrow> bool" where
  "returns (Value _) = True"
| "returns (Panicked _) = False"

lemma bind_exec_simps [simp]: "bind_exec (Value a) f = f a" "bind_exec (Panicked p) f = Panicked p"
  by (simp_all add: bind_exec_def)

lemma exec_eq_Value [simp]:
  "bind_exec e g = Value r \<longleftrightarrow> (\<exists>x. e = Value x \<and> g x = Value r)"
  "map_exec f1 e = Value y \<longleftrightarrow> (\<exists>x. e = Value x \<and> y = f1 x)"
  "map2_exec f2 a b = Value y2 \<longleftrightarrow> (\<exists>x1 x2. a = Value x1 \<and> b = Value x2 \<and> y2 = f2 x1 x2)"
  "map3_exec f3 a b c = Value y3 \<longleftrightarrow> (\<exists>x1 x2 x3. a = Value x1 \<and> b = Value x2 \<and> c = Value x3 \<and> y3 = f3 x1 x2 x3)"
  by (cases e; cases a; cases b; cases c; auto simp: bind_exec_def map2_exec_def map3_exec_def)+

lemma all_exec_Value: "all_exec es = Value xs \<longleftrightarrow> es = map Value xs"
  by (induction es arbitrary: xs) auto

lemma opt_exec_Value: "opt_exec e = Value x \<longleftrightarrow> e = map_option Value x"
  by (cases e; cases x) auto

lemma returns_iff: "returns e \<longleftrightarrow> (\<exists>x. e = Value x)"
  by (cases e) simp_all

lemma returns_exec_simps [simp]:
  "returns (map_exec f1 e) = returns e"
  "returns (map2_exec f2 a b) = (returns a \<and> returns b)"
  "returns (map3_exec f3 a b c) = (returns a \<and> returns b \<and> returns c)"
  "returns (all_exec es) = list_all returns es"
  "returns (opt_exec oe) = pred_option returns oe"
proof -
  show "returns (all_exec es) = list_all returns es"
    by (induction es) (auto simp: returns_iff)
  show "returns (opt_exec oe) = pred_option returns oe"
    by (cases oe) (auto simp: returns_iff)
qed (auto simp: returns_iff)

lemma all_exec_map: "all_exec (map f xs) = Value ys \<longleftrightarrow> list_all2 (\<lambda>x y. f x = Value y) xs ys"
  by (induction xs arbitrary: ys) (auto simp: list_all2_Cons1)

lemma all_exec_member: "all_exec (map f xs) = Value ys \<Longrightarrow> y \<in> set ys \<Longrightarrow> \<exists>x \<in> set xs. f x = Value y"
  by (induction xs arbitrary: ys) auto

lemma opt_exec_map: "opt_exec (map_option f x) = Value y \<longleftrightarrow> rel_option (\<lambda>x y. f x = Value y) x y"
  by (cases x; cases y) auto

lemma fold_exec_append: "fold_exec f (xs @ ys) s = bind_exec (fold_exec f xs s) (fold_exec f ys)"
  by (induction xs arbitrary: s) (simp_all add: bind_exec_def split: exec.split)

lemma fold_exec_invariant:
  assumes "fold_exec f xs s = Value s'" and "P s" and "\<And>x s s'. x \<in> set xs \<Longrightarrow> P s \<Longrightarrow> f x s = Value s' \<Longrightarrow> P s'"
  shows "P s'"
  using assms
proof (induction xs arbitrary: s)
  case (Cons x xs)
  then obtain s1 where "f x s = Value s1" "fold_exec f xs s1 = Value s'" by auto
  then show ?case using Cons by (meson list.set_intros)
qed simp

lemma fold_exec_returns:
  assumes "P s" and "\<And>x s. x \<in> set xs \<Longrightarrow> P s \<Longrightarrow> \<exists>s'. f x s = Value s' \<and> P s'"
  shows "\<exists>s'. fold_exec f xs s = Value s' \<and> P s'"
  using assms
proof (induction xs arbitrary: s)
  case (Cons x xs)
  then obtain s1 where "f x s = Value s1" "P s1" by (metis list.set_intros(1))
  then show ?case using Cons.IH [of s1] Cons.prems(2) by auto
qed simp

text \<open>
  Stateful code that may diverge (\<^const>\<open>None\<close>: the fuel ran out) or panic. A panic unwinds
  through \<open>seq_exec\<close> with the state reached so far.
\<close>

type_synonym ('s, 'a) run = "('a exec \<times> 's) option"

definition seq_exec :: "('s, 'a) run \<Rightarrow> ('a \<Rightarrow> 's \<Rightarrow> ('s, 'b) run) \<Rightarrow> ('s, 'b) run" where
  "seq_exec m f =
     (case m of
        None \<Rightarrow> None
      | Some (Panicked p, s) \<Rightarrow> Some (Panicked p, s)
      | Some (Value a, s) \<Rightarrow> f a s)"

lemma seq_exec_simps [simp]:
  "seq_exec None f = None"
  "seq_exec (Some (Panicked p, s)) f = Some (Panicked p, s)"
  "seq_exec (Some (Value a, s)) f = f a s"
  by (simp_all add: seq_exec_def)

lemma seq_exec_Some:
  assumes "seq_exec m f = Some (r, s')"
  obtains p s where "m = Some (Panicked p, s)" "r = Panicked p" "s' = s"
  | a s where "m = Some (Value a, s)" "f a s = Some (r, s')"
  using assms by (auto simp: seq_exec_def split: option.splits exec.splits)

text \<open>One step after the other; a panic skips the rest.\<close>

definition and_then ::
  "('m \<Rightarrow> unit exec \<times> 'm) \<Rightarrow> ('m \<Rightarrow> unit exec \<times> 'm) \<Rightarrow> 'm \<Rightarrow> unit exec \<times> 'm" where
  "and_then f g m = (case f m of (Panicked p, m') \<Rightarrow> (Panicked p, m') | (Value _, m') \<Rightarrow> g m')"

definition skip_step :: "'m \<Rightarrow> unit exec \<times> 'm" where
  "skip_step m = (Value (), m)"

text \<open>The same step for every element of a list.\<close>

definition for_each :: "('a \<Rightarrow> 'm \<Rightarrow> unit exec \<times> 'm) \<Rightarrow> 'a list \<Rightarrow> 'm \<Rightarrow> unit exec \<times> 'm" where
  "for_each f xs = foldr and_then (map f xs) (Pair (Value ()))"

lemma and_then_Value: "and_then f g m = (Value u, m') \<longleftrightarrow> (\<exists>m1. f m = (Value (), m1) \<and> g m1 = (Value u, m'))"
  by (auto simp: and_then_def split: exec.splits prod.splits)

lemma for_each_simps [simp]:
  "for_each f [] m = (Value (), m)"
  "for_each f (x # xs) m = and_then (f x) (for_each f xs) m"
  by (simp_all add: for_each_def)

lemma and_then_step: "f m = (Value u, m1) \<Longrightarrow> and_then f g m = g m1"
  by (simp add: and_then_def)

lemma for_each_append: "for_each f (xs @ ys) m = and_then (for_each f xs) (for_each f ys) m"
proof (induction xs arbitrary: m)
  case Nil
  then show ?case by (simp add: and_then_def)
next
  case (Cons x xs)
  then show ?case by (auto simp: and_then_def split: exec.splits prod.splits)
qed

text \<open>Steps that never panic are a fold.\<close>

lemma for_each_fold: "(\<And>x m. x \<in> set xs \<Longrightarrow> f x m = (Value (), g x m)) \<Longrightarrow> for_each f xs m = (Value (), fold g xs m)"
  by (induction xs arbitrary: m) (simp_all add: and_then_def)

section \<open>Insertion-ordered maps\<close>

text \<open>
  An \<^verbatim>\<open>FxIndexMap\<close> iterates in insertion order; inserting an existing key keeps its
  position. That is \<^const>\<open>AList.update\<close> on association lists. \<^verbatim>\<open>swap_remove\<close> moves the
  last entry into the place of the removed one.
\<close>

type_synonym ('k, 'v) index_map = "('k \<times> 'v) list"

definition swap_remove :: "'k \<Rightarrow> ('k, 'v) index_map \<Rightarrow> 'v option \<times> ('k, 'v) index_map" where
  "swap_remove k m =
     (case map_of m k of
        None \<Rightarrow> (None, m)
      | Some v \<Rightarrow>
          let before = takeWhile (\<lambda>p. fst p \<noteq> k) m;
              after = tl (dropWhile (\<lambda>p. fst p \<noteq> k) m)
          in (Some v, before @ (if after = [] then [] else last after # butlast after)))"

lemma takeWhile_dropWhile_key:
  assumes "map_of m k = Some v"
  shows "m = takeWhile (\<lambda>p. fst p \<noteq> k) m @ (k, v) # tl (dropWhile (\<lambda>p. fst p \<noteq> k) m)"
  using assms by (induction m) (auto split: if_splits)

lemma rotate_last_set: "xs \<noteq> [] \<Longrightarrow> set (last xs # butlast xs) = set xs"
  by (metis Un_insert_right append_butlast_last_id list.simps(15) list.set(1) set_append sup_bot.right_neutral)

lemma rotate_last_distinct:
  assumes "xs \<noteq> []" "distinct (map f xs)"
  shows "distinct (map f (last xs # butlast xs))"
proof -
  have "distinct (map f (butlast xs @ [last xs]))" using assms by simp
  then show ?thesis by simp
qed

lemma swap_remove_fst: "fst (swap_remove k m) = map_of m k"
  by (simp add: swap_remove_def Let_def split: option.split)

lemma swap_remove_distinct:
  assumes "distinct (map fst m)"
  shows "distinct (map fst (snd (swap_remove k m)))"
    and "set (snd (swap_remove k m)) = {p \<in> set m. fst p \<noteq> k}"
proof -
  have "distinct (map fst (snd (swap_remove k m))) \<and>
        set (snd (swap_remove k m)) = {p \<in> set m. fst p \<noteq> k}"
  proof (cases "map_of m k")
    case None
    then have "snd (swap_remove k m) = m" by (simp add: swap_remove_def)
    moreover have "k \<notin> fst ` set m" using None by (simp add: map_of_eq_None_iff)
    ultimately show ?thesis using assms by force
  next
    case (Some v)
    define b a where "b = takeWhile (\<lambda>p. fst p \<noteq> k) m"
      and "a = tl (dropWhile (\<lambda>p. fst p \<noteq> k) m)"
    have m: "m = b @ (k, v) # a" using takeWhile_dropWhile_key [OF Some] by (simp add: a_def b_def)
    have d: "distinct (map fst b @ k # map fst a)" using assms m by (metis list.simps(9) map_append fst_conv)
    have s: "snd (swap_remove k m) = b @ (if a = [] then [] else last a # butlast a)"
      using Some by (simp add: swap_remove_def a_def b_def Let_def)
    define a' where "a' = (if a = [] then [] else last a # butlast a)"
    have a': "set a' = set a" "distinct (map fst a')"
      using d rotate_last_set [of a] rotate_last_distinct [of a fst] by (auto simp: a'_def)
    have "set (map fst a') = fst ` set a" using a'(1) by simp
    then have "distinct (map fst (b @ a'))" using d a'(2) by auto
    moreover have "set (b @ a') = {p \<in> set m. fst p \<noteq> k}" using d a'(1) by (force simp: m)
    ultimately show ?thesis using s by (simp add: a'_def)
  qed
  then show "distinct (map fst (snd (swap_remove k m)))"
    and "set (snd (swap_remove k m)) = {p \<in> set m. fst p \<noteq> k}" by simp_all
qed

lemma swap_remove_map_of:
  assumes "distinct (map fst m)"
  shows "map_of (snd (swap_remove k m)) = (map_of m)(k := None)"
proof
  fix j
  let ?m = "snd (swap_remove k m)"
  have d: "distinct (map fst ?m)" and s: "set ?m = {p \<in> set m. fst p \<noteq> k}"
    using swap_remove_distinct [OF assms] by auto
  have "map_of ?m j = Some v \<longleftrightarrow> ((map_of m)(k := None)) j = Some v" for v
    using d assms by (auto simp: map_of_eq_Some_iff [OF d] map_of_eq_Some_iff [OF assms] s)
  then show "map_of ?m j = ((map_of m)(k := None)) j" by (metis option.exhaust)
qed

lemma map_of_update [simp]: "map_of (AList.update k v m) = (map_of m)(k \<mapsto> v)"
  by (rule update_conv')

lemma set_update_subset: "set (AList.update k v m) \<subseteq> insert (k, v) (set m)"
  by (induction m) auto

lemma map_of_update_None: "map_of (AList.update k v m) j = None \<longleftrightarrow> map_of m j = None \<and> j \<noteq> k"
  by simp

section \<open>Lists\<close>

text \<open>Rust loops of the form \<^verbatim>\<open>while last matches { pop }\<close> on a vector.\<close>

definition pop_while :: "('a \<Rightarrow> bool) \<Rightarrow> 'a list \<Rightarrow> 'a list" where
  "pop_while P xs = rev (dropWhile P (rev xs))"

definition popped_while :: "('a \<Rightarrow> bool) \<Rightarrow> 'a list \<Rightarrow> 'a list" where
  "popped_while P xs = takeWhile P (rev xs)"

lemma pop_while_snoc: "pop_while P (xs @ [x]) = (if P x then pop_while P xs else xs @ [x])"
  by (simp add: pop_while_def)

lemma pop_while_Nil [simp]: "pop_while P [] = []"
  by (simp add: pop_while_def)

lemma pop_while_append_popped: "pop_while P xs @ rev (popped_while P xs) = xs"
  unfolding pop_while_def popped_while_def
  by (metis rev_append rev_rev_ident takeWhile_dropWhile_id)

lemma map_filter_append: "List.map_filter f (xs @ ys) = List.map_filter f xs @ List.map_filter f ys"
  by (simp add: map_filter_def)

lemma takeWhile_snoc_stop:
  "\<not> P x \<Longrightarrow> takeWhile P (xs @ [x]) = takeWhile P xs"
  "list_ex (\<lambda>y. \<not> P y) xs \<Longrightarrow> takeWhile P (xs @ [x]) = takeWhile P xs"
  by (induction xs) auto

section \<open>Decimal numbers\<close>

text \<open>The decimal form that \<^verbatim>\<open>format!\<close> gives an unsigned integer.\<close>

fun digits :: "nat \<Rightarrow> string" where
  "digits n = (if n < 10 then [''0123456789'' ! n] else digits (n div 10) @ [''0123456789'' ! (n mod 10)])"

declare digits.simps [simp del]

text \<open>\<^verbatim>\<open>ToString\<close> for signed integers.\<close>

definition int_to_string :: "int \<Rightarrow> string" where
  "int_to_string i = (if i < 0 then CHR ''-'' # digits (nat (- i)) else digits (nat i))"

text \<open>A string in single quotes.\<close>

definition quoted :: "string \<Rightarrow> string" where
  "quoted s = CHR 0x27 # s @ [CHR 0x27]"

lemma digits_nonempty [simp]: "digits n \<noteq> []"
  by (subst digits.simps) simp

definition digit_value :: "char \<Rightarrow> nat option" where
  "digit_value c =
     (if c \<in> set ''0123456789'' then Some (of_char c - 48) else None)"

definition decimal :: "string \<Rightarrow> nat option" where
  "decimal s =
     (if s = [] then None
      else foldl (\<lambda>acc c. case (acc, digit_value c) of (Some n, Some d) \<Rightarrow> Some (10 * n + d) | _ \<Rightarrow> None)
        (Some 0) s)"

lemma decimal_snoc:
  "s \<noteq> [] \<Longrightarrow> decimal (s @ [c]) =
     (case (decimal s, digit_value c) of (Some n, Some d) \<Rightarrow> Some (10 * n + d) | _ \<Rightarrow> None)"
  by (simp add: decimal_def)

lemma digit_value_nth: "d < 10 \<Longrightarrow> digit_value (''0123456789'' ! d) = Some d"
proof -
  assume "d < 10"
  then have "d \<in> {0, 1, 2, 3, 4, 5, 6, 7, 8, 9}" by auto
  then show ?thesis by (elim insertE) (simp_all add: digit_value_def)
qed

lemma decimal_digits: "decimal (digits n) = Some n"
proof (induction n rule: digits.induct)
  case (1 n)
  show ?case
  proof (cases "n < 10")
    case True
    then show ?thesis by (subst digits.simps) (simp add: decimal_def digit_value_nth)
  next
    case False
    then show ?thesis using 1
      by (subst digits.simps) (simp add: decimal_snoc digit_value_nth)
  qed
qed

lemma digits_eq_iff [simp]: "digits m = digits n \<longleftrightarrow> m = n"
  by (metis decimal_digits option.inject)

lemma digits_digit: "c \<in> set (digits n) \<Longrightarrow> \<exists>d < 10. c = ''0123456789'' ! d"
proof (induction n rule: digits.induct)
  case (1 n)
  then show ?case by (cases "n < 10") (subst (asm) digits.simps, force)+
qed

lemma digit_char: "c \<in> set (digits n) \<Longrightarrow> c \<in> set ''0123456789''"
proof -
  assume "c \<in> set (digits n)"
  then obtain d where d: "d < 10" "c = ''0123456789'' ! d" using digits_digit by blast
  then have "d < length ''0123456789''" by simp
  then show ?thesis using d(2) nth_mem by metis
qed

text \<open>\<^verbatim>\<open>str::parse::<usize>\<close>: an optional plus sign, digits, and a value of 64 bits.\<close>

definition parse_usize :: "string \<Rightarrow> nat option" where
  "parse_usize s =
     (case decimal (case s of c # cs \<Rightarrow> if c = CHR ''+'' then cs else s | [] \<Rightarrow> s) of
        None \<Rightarrow> None
      | Some n \<Rightarrow> if n < 2 ^ 64 then Some n else None)"

lemma parse_usize_digits: "n < 2 ^ 64 \<Longrightarrow> parse_usize (digits n) = Some n"
proof -
  assume n: "n < 2 ^ 64"
  obtain c cs where c: "digits n = c # cs" by (cases "digits n") auto
  then obtain d where d: "d < 10" "c = ''0123456789'' ! d" using digits_digit [of c n] by auto
  then have "d \<in> {0, 1, 2, 3, 4, 5, 6, 7, 8, 9}" by auto
  then have "c \<noteq> CHR ''+''" using d(2) by (elim insertE) simp_all
  then show ?thesis using n c decimal_digits [of n] by (simp add: parse_usize_def)
qed

section \<open>Parts of strings\<close>

definition strip_prefix :: "string \<Rightarrow> string \<Rightarrow> string option" where
  "strip_prefix p s = (if take (length p) s = p then Some (drop (length p) s) else None)"

definition strip_suffix :: "string \<Rightarrow> string \<Rightarrow> string option" where
  "strip_suffix p s = map_option rev (strip_prefix (rev p) (rev s))"

lemma strip_prefix_append [simp]: "strip_prefix p (p @ s) = Some s"
  by (simp add: strip_prefix_def)

lemma strip_suffix_append [simp]: "strip_suffix p (s @ p) = Some s"
  by (simp add: strip_suffix_def)

text \<open>What follows the last dot.\<close>

definition after_last_dot :: "string \<Rightarrow> string option" where
  "after_last_dot s =
     (if CHR ''.'' \<in> set s then Some (rev (takeWhile (\<lambda>c. c \<noteq> CHR ''.'') (rev s))) else None)"

end
