(* ===== verification/Viper_Ident.thy ===== *)
theory Viper_Ident
  imports Prusti_Prelude
begin

text \<open>
  \<^verbatim>\<open>vir/src/viper_ident.rs\<close>: Rust names (paths with generics, lifetimes, references) are
  made into Viper identifiers by replacing each special character with a \<^verbatim>\<open>$..$\<close> escape.
\<close>

definition sanitize_char :: "char \<Rightarrow> string option" where
  "sanitize_char c =
     (if c = CHR ''<'' then Some ''$lt$''
      else if c = CHR ''>'' then Some ''$gt$''
      else if c = CHR '' '' then Some ''$sp$''
      else if c = CHR '','' then Some ''$com$''
      else if c = CHR '':'' then Some ''$col$''
      else if c = CHR 0x27 then Some ''$sq$''
      else if c = CHR ''&'' then Some ''$amp$''
      else if c = CHR ''-'' then Some ''$hyp$''
      else if c = CHR ''('' then Some ''$lp$''
      else if c = CHR '')'' then Some ''$rp$''
      else if c = CHR ''['' then Some ''$lb$''
      else if c = CHR '']'' then Some ''$rb$''
      else if c = CHR ''{'' then Some ''$lc$''
      else if c = CHR ''}'' then Some ''$rc$''
      else if c = CHR ''?'' then Some ''$qm$''
      else if c = CHR '';'' then Some ''$sc$''
      else if c = CHR ''#'' then Some ''$oc$''
      else if c = CHR ''/'' then Some ''$fs$''
      else if c = CHR ''*'' then Some ''$as$''
      else if c = CHR ''='' then Some ''$eq$''
      else if c = CHR ''+'' then Some ''$pl$''
      else if c = CHR ''!'' then Some ''$ex$''
      else None)"

definition sanitize_str :: "string \<Rightarrow> string" where
  "sanitize_str s =
     concat (map (\<lambda>c. case sanitize_char c of Some e \<Rightarrow> e | None \<Rightarrow> [c]) s)"

definition is_valid_identifier :: "string \<Rightarrow> bool" where
  "is_valid_identifier s = list_all (\<lambda>c. sanitize_char c = None) s"

text \<open>\<^verbatim>\<open>ViperIdent::new\<close> and \<^verbatim>\<open>ViperIdent::sanitize\<close>; a failing assertion is a panic.\<close>

datatype viper_ident = ViperIdent string

definition ident_new :: "string \<Rightarrow> viper_ident exec" where
  "ident_new s =
     (if is_valid_identifier s then Value (ViperIdent s)
      else panic ''assertion failed: is_valid_identifier(ident)'')"

definition ident_sanitize :: "string \<Rightarrow> viper_ident exec" where
  "ident_sanitize s =
     (let ident = sanitize_str s in
      if is_valid_identifier ident then Value (ViperIdent ident)
      else panic ''assertion failed: is_valid_identifier(ident.as_str())'')"

fun to_str :: "viper_ident \<Rightarrow> string" where
  "to_str (ViperIdent s) = s"

lemma is_valid_simps [simp]:
  "is_valid_identifier []"
  "is_valid_identifier (c # s) \<longleftrightarrow> sanitize_char c = None \<and> is_valid_identifier s"
  "is_valid_identifier (s @ t) \<longleftrightarrow> is_valid_identifier s \<and> is_valid_identifier t"
  by (auto simp: is_valid_identifier_def)

lemma sanitize_str_simps [simp]:
  "sanitize_str [] = []"
  "sanitize_str (c # s) = (case sanitize_char c of Some e \<Rightarrow> e | None \<Rightarrow> [c]) @ sanitize_str s"
  "sanitize_str (s @ t) = sanitize_str s @ sanitize_str t"
  by (simp_all add: sanitize_str_def)

section \<open>Sanitising is total, stable and reversible\<close>

lemma sanitize_char_SomeE:
  assumes "sanitize_char c = Some e"
  obtains n where "e = CHR ''$'' # n @ ''$''" and "CHR ''$'' \<notin> set n" and "is_valid_identifier n"
proof -
  have "\<exists>n. e = CHR ''$'' # n @ ''$'' \<and> CHR ''$'' \<notin> set n \<and> is_valid_identifier n"
    by (rule exI [of _ "butlast (tl e)"])
       (use assms in \<open>auto simp: sanitize_char_def is_valid_identifier_def split: if_splits\<close>)
  then show thesis using that by blast
qed

lemma sanitize_char_dollar [simp]: "sanitize_char CHR ''$'' = None"
  by (simp add: sanitize_char_def)

text \<open>The escape table read backwards.\<close>

definition unsanitize :: "string \<Rightarrow> char option" where
  "unsanitize e =
     map_of [(''$lt$'', CHR ''<''), (''$gt$'', CHR ''>''), (''$sp$'', CHR '' ''),
       (''$com$'', CHR '',''), (''$col$'', CHR '':''), (''$sq$'', CHR 0x27),
       (''$amp$'', CHR ''&''), (''$hyp$'', CHR ''-''), (''$lp$'', CHR ''(''),
       (''$rp$'', CHR '')''), (''$lb$'', CHR ''[''), (''$rb$'', CHR '']''),
       (''$lc$'', CHR ''{''), (''$rc$'', CHR ''}''), (''$qm$'', CHR ''?''),
       (''$sc$'', CHR '';''), (''$oc$'', CHR ''#''), (''$fs$'', CHR ''/''),
       (''$as$'', CHR ''*''), (''$eq$'', CHR ''=''), (''$pl$'', CHR ''+''),
       (''$ex$'', CHR ''!'')] e"

lemma unsanitize_char: "sanitize_char c = Some e \<Longrightarrow> unsanitize e = Some c"
  unfolding sanitize_char_def unsanitize_def by (simp split: if_splits; clarsimp)

lemma sanitize_char_inj:
  assumes "sanitize_char c = Some e" and "sanitize_char d = Some e"
  shows "c = d"
  using assms unsanitize_char by (metis option.inject)

lemma sanitize_str_valid: "is_valid_identifier (sanitize_str s)"
  by (induction s) (auto split: option.split elim: sanitize_char_SomeE)

lemma sanitize_str_id: "is_valid_identifier s \<Longrightarrow> sanitize_str s = s"
  by (induction s) auto

lemma dollar_delimited_eq:
  assumes "CHR ''$'' \<notin> set n" and "CHR ''$'' \<notin> set m" and "n @ CHR ''$'' # s = m @ CHR ''$'' # t"
  shows "n = m \<and> s = t"
  using assms by (induction n arbitrary: m) (auto simp: Cons_eq_append_conv append_eq_Cons_conv)

lemma sanitize_step_inj:
  assumes "c \<noteq> CHR ''$''" and "d \<noteq> CHR ''$''"
    and "(case sanitize_char c of Some e \<Rightarrow> e | None \<Rightarrow> [c]) @ s =
         (case sanitize_char d of Some e \<Rightarrow> e | None \<Rightarrow> [d]) @ t"
  shows "c = d \<and> s = t"
proof (cases "sanitize_char c"; cases "sanitize_char d")
  fix e e' assume ce: "sanitize_char c = Some e" and de: "sanitize_char d = Some e'"
  obtain n where n: "e = CHR ''$'' # n @ ''$''" "CHR ''$'' \<notin> set n" using sanitize_char_SomeE [OF ce] by metis
  obtain m where m: "e' = CHR ''$'' # m @ ''$''" "CHR ''$'' \<notin> set m" using sanitize_char_SomeE [OF de] by metis
  have "n = m \<and> s = t" using assms(3) ce de n m by (intro dollar_delimited_eq) auto
  with n m ce de show ?thesis using sanitize_char_inj by simp
qed (use assms in \<open>auto elim!: sanitize_char_SomeE\<close>)

lemma sanitize_str_nonempty: "c # s \<noteq> [] \<Longrightarrow> sanitize_str (c # s) \<noteq> []"
  by (auto split: option.split elim: sanitize_char_SomeE)

lemma sanitize_str_inj:
  assumes "CHR ''$'' \<notin> set s" and "CHR ''$'' \<notin> set t" and "sanitize_str s = sanitize_str t"
  shows "s = t"
  using assms
proof (induction s arbitrary: t)
  case Nil
  then show ?case using sanitize_str_nonempty by (cases t) (metis sanitize_str_simps(1))+
next
  case (Cons c s)
  then obtain d u where t: "t = d # u"
    using sanitize_str_nonempty by (cases t) (metis list.distinct(1) sanitize_str_simps(1))+
  have "c = d \<and> sanitize_str s = sanitize_str u"
    by (rule sanitize_step_inj) (use Cons.prems t in auto)
  then show ?case using Cons t by auto
qed

section \<open>Identifiers\<close>

text \<open>\<^const>\<open>ident_sanitize\<close> never fails its assertion: it turns every Rust name into an
  identifier that \<^const>\<open>ident_new\<close> accepts, and it leaves a name that is already valid as it is.\<close>

theorem ident_sanitize_valid:
  "\<exists>i. ident_sanitize s = Value i \<and> ident_new (to_str i) = Value i \<and>
       (to_str i = s \<longleftrightarrow> is_valid_identifier s)"
proof -
  let ?i = "ViperIdent (sanitize_str s)"
  have "sanitize_str s = s \<longleftrightarrow> is_valid_identifier s"
    using sanitize_str_valid [of s] sanitize_str_id [of s] by metis
  then have "ident_sanitize s = Value ?i \<and> ident_new (to_str ?i) = Value ?i \<and>
      (to_str ?i = s \<longleftrightarrow> is_valid_identifier s)"
    by (simp add: ident_sanitize_def ident_new_def sanitize_str_valid)
  then show ?thesis ..
qed

text \<open>C32: Different Rust names without dollar signs get different Viper identifiers.\<close>

theorem ident_sanitize_inj:
  assumes "CHR ''$'' \<notin> set s" and "CHR ''$'' \<notin> set t" and "ident_sanitize s = ident_sanitize t"
  shows "s = t"
proof -
  have "ident_sanitize u = Value (ViperIdent (sanitize_str u))" for u
    by (simp add: ident_sanitize_def sanitize_str_valid)
  then show ?thesis using assms by (simp add: sanitize_str_inj)
qed

theorem ident_sanitize_inj_witness:
  "ident_sanitize ''Vec<T>'' \<noteq> ident_sanitize ''Vec[T]''"
  by (rule notI, drule ident_sanitize_inj [rotated 2]) simp_all

text \<open>
  With dollar signs in names, which Rust identifiers cannot contain, two names can meet.
\<close>

lemma sanitize_str_not_inj: "sanitize_str ''<'' = sanitize_str ''$lt$''"
  by (simp add: sanitize_char_def)

end
