(* ===== verification/Task_Encoder.thy ===== *)
theory Task_Encoder
  imports Prusti_Prelude
begin

text \<open>
  \<^verbatim>\<open>task-encoder/src\<close>: the framework in which every part of the encoding from MIR to Viper
  is a cached task. The trait \<^verbatim>\<open>TaskEncoder\<close> is a record of its items, indexed by the
  encoder; the bodies of \<^verbatim>\<open>do_encode_full\<close> are programs over the operations the framework
  offers them (\<open>enc_prog\<close>), so that the statements below hold for every encoder that can be
  written against the trait. The caches, watchers, the pending queue and the cells shared by
  \<^verbatim>\<open>on_any_requested\<close> make up the state.
\<close>

section \<open>Data\<close>

type_synonym span = nat

abbreviation (input) DUMMY_SP :: span where
  "DUMMY_SP \<equiv> 0"

type_synonym dep_chain = "(string \<times> string \<times> span list) list"

datatype ('x, 'q) task_error =
    EnqueueingError 'q
  | EncodingError 'x
  | DependencyError dep_chain
  | CyclicError
  | PanicError string

datatype ('o, 'x) encode_full_error =
    AlreadyEncoded
  | FullEncodingError 'x "'o option"
  | FullDependencyError dep_chain

record ('k, 'o) task_deps =
  task_key :: "'k option"
  deps_local :: "'o list"
  deps_dep :: "'o list"

definition deps_new :: "('k, 'o) task_deps" where
  "deps_new = \<lparr>task_key = None, deps_local = [], deps_dep = []\<rparr>"

datatype ('k, 'o, 'x, 'q) cache_state =
    Enqueued
  | Started 'o
  | Encoded 'o "('k, 'o) task_deps" 'o 'o
  | ErrorEnqueue "('x, 'q) task_error" "span list"
  | ErrorEncode 'o "('k, 'o) task_deps" "('x, 'q) task_error" "'o option" "span list"

type_synonym ('o, 'x, 'q) encode_result = "('x, 'q) task_error + ('o \<times> 'o \<times> 'o) option"

text \<open>
  The closures registered as triggers. \<open>Act_take\<close> is the closure of
  \<^verbatim>\<open>on_any_requested\<close>, which takes its continuation out of the shared cell.
\<close>

datatype ('e, 't, 'k, 'o, 'x, 'q) action =
    Done
  | Act_panic "string option"
  | Act_encode 'e 't bool span "('o, 'x, 'q) encode_result \<Rightarrow> ('e, 't, 'k, 'o, 'x, 'q) action"
  | Act_encode_ref 'e 't span "('x, 'q) task_error + 'o \<Rightarrow> ('e, 't, 'k, 'o, 'x, 'q) action"
  | Act_enqueue 'e 't "('e, 't, 'k, 'o, 'x, 'q) action"
  | Act_on_task 'e 'k "('e, 't, 'k, 'o, 'x, 'q) action" "('e, 't, 'k, 'o, 'x, 'q) action"
  | Act_on_all 'e "'k list" "('e, 't, 'k, 'o, 'x, 'q) action" "('e, 't, 'k, 'o, 'x, 'q) action"
  | Act_on_any 'e "'k list" "('e, 't, 'k, 'o, 'x, 'q) action" "('e, 't, 'k, 'o, 'x, 'q) action"
  | Act_take nat

datatype require_kind = Req_ref | Req_local | Req_dep

text \<open>
  A body of \<^verbatim>\<open>do_encode_full\<close>. Each operation hands its result to the rest of the program,
  which may inspect an error instead of propagating it with \<^verbatim>\<open>?\<close>.
\<close>

datatype ('e, 't, 'k, 'o, 'x, 'q) enc_prog =
    Return "('o, 'x) encode_full_error + 'o \<times> 'o"
  | Panic "string option"
  | Emit_output_ref 'k 'o "('o, 'x) encode_full_error + unit \<Rightarrow> ('e, 't, 'k, 'o, 'x, 'q) enc_prog"
  | Check_cycle "('o, 'x) encode_full_error + unit \<Rightarrow> ('e, 't, 'k, 'o, 'x, 'q) enc_prog"
  | Require require_kind 'e 't "span option"
      "('o, 'x) encode_full_error + 'o \<Rightarrow> ('e, 't, 'k, 'o, 'x, 'q) enc_prog"
  | Enqueue 'e 't "('e, 't, 'k, 'o, 'x, 'q) enc_prog"
  | On_task_requested 'e 'k "('e, 't, 'k, 'o, 'x, 'q) action" "('e, 't, 'k, 'o, 'x, 'q) enc_prog"
  | On_all_requested 'e "'k list" "('e, 't, 'k, 'o, 'x, 'q) action" "('e, 't, 'k, 'o, 'x, 'q) enc_prog"
  | On_any_requested 'e "'k list" "('e, 't, 'k, 'o, 'x, 'q) action" "('e, 't, 'k, 'o, 'x, 'q) enc_prog"

text \<open>The items of the trait, and the \<^verbatim>\<open>Debug\<close> implementation of its keys.\<close>

record ('e, 't, 'k, 'o, 'x, 'q) task_encoder =
  ENCODER_NAME :: "'e \<Rightarrow> string"
  describe_task :: "'e \<Rightarrow> 't \<Rightarrow> string"
  describe_error :: "'e \<Rightarrow> 'x \<Rightarrow> string"
  debug_key :: "'e \<Rightarrow> 'k \<Rightarrow> string"
  task_to_key :: "'e \<Rightarrow> 't \<Rightarrow> 'k"
  do_encode_full :: "'e \<Rightarrow> 'k \<Rightarrow> ('e, 't, 'k, 'o, 'x, 'q) enc_prog"

record ('e, 't, 'k, 'o, 'x, 'q) enc_state =
  caches :: "'e \<Rightarrow> ('k, ('k, 'o, 'x, 'q) cache_state) index_map"
  watchers :: "'e \<Rightarrow> ('k, ('e, 't, 'k, 'o, 'x, 'q) action list) index_map"
  pending :: "('e, 't, 'k, 'o, 'x, 'q) action list"
  slots :: "('e, 't, 'k, 'o, 'x, 'q) action option list"

abbreviation entry ::
  "('e, 't, 'k, 'o, 'x, 'q) enc_state \<Rightarrow> 'e \<Rightarrow> 'k \<Rightarrow> ('k, 'o, 'x, 'q) cache_state option" where
  "entry s e k \<equiv> map_of (caches s e) k"

definition cache_insert ::
  "'e \<Rightarrow> 'k \<Rightarrow> ('k, 'o, 'x, 'q) cache_state \<Rightarrow> ('e, 't, 'k, 'o, 'x, 'q) enc_state
   \<Rightarrow> ('e, 't, 'k, 'o, 'x, 'q) enc_state" where
  "cache_insert e k v s = s\<lparr>caches := (caches s)(e := AList.update k v (caches s e))\<rparr>"

section \<open>Triggers\<close>

definition queue_action ::
  "('e, 't, 'k, 'o, 'x, 'q) action \<Rightarrow> ('e, 't, 'k, 'o, 'x, 'q) enc_state
   \<Rightarrow> ('e, 't, 'k, 'o, 'x, 'q) enc_state" where
  "queue_action f s = s\<lparr>pending := pending s @ [f]\<rparr>"

definition fire_watchers ::
  "'e \<Rightarrow> 'k \<Rightarrow> ('e, 't, 'k, 'o, 'x, 'q) enc_state \<Rightarrow> ('e, 't, 'k, 'o, 'x, 'q) enc_state" where
  "fire_watchers e k s =
     (case swap_remove k (watchers s e) of
        (fired, w) \<Rightarrow>
          let s' = s\<lparr>watchers := (watchers s)(e := w)\<rparr>
          in case fired of
               None \<Rightarrow> s'
             | Some fs \<Rightarrow> s'\<lparr>pending := pending s' @ fs\<rparr>)"

definition on_task_requested ::
  "'e \<Rightarrow> 'k \<Rightarrow> ('e, 't, 'k, 'o, 'x, 'q) action \<Rightarrow> ('e, 't, 'k, 'o, 'x, 'q) enc_state
   \<Rightarrow> ('e, 't, 'k, 'o, 'x, 'q) enc_state" where
  "on_task_requested e k f s =
     (if entry s e k \<noteq> None then queue_action f s
      else s\<lparr>watchers := (watchers s)(e :=
             AList.update k ((case map_of (watchers s e) k of None \<Rightarrow> [] | Some fs \<Rightarrow> fs) @ [f])
               (watchers s e))\<rparr>)"

definition on_all_requested ::
  "'e \<Rightarrow> 'k list \<Rightarrow> ('e, 't, 'k, 'o, 'x, 'q) action \<Rightarrow> ('e, 't, 'k, 'o, 'x, 'q) enc_state
   \<Rightarrow> ('e, 't, 'k, 'o, 'x, 'q) enc_state" where
  "on_all_requested e ks f s =
     (if ks = [] then queue_action f s
      else on_task_requested e (last ks) (Act_on_all e (butlast ks) f Done) s)"

definition on_any_requested ::
  "'e \<Rightarrow> 'k list \<Rightarrow> ('e, 't, 'k, 'o, 'x, 'q) action \<Rightarrow> ('e, 't, 'k, 'o, 'x, 'q) enc_state
   \<Rightarrow> ('e, 't, 'k, 'o, 'x, 'q) enc_state" where
  "on_any_requested e ks f s =
     fold (\<lambda>k. on_task_requested e k (Act_take (length (slots s)))) ks
       (s\<lparr>slots := slots s @ [Some f]\<rparr>)"

text \<open>\<^verbatim>\<open>TaskEncoder::enqueue\<close>. Its final assertion is the panic branch.\<close>

definition enqueue ::
  "('e, 't, 'k, 'o, 'x, 'q) task_encoder \<Rightarrow> 'e \<Rightarrow> 't \<Rightarrow> ('e, 't, 'k, 'o, 'x, 'q) enc_state
   \<Rightarrow> unit exec \<times> ('e, 't, 'k, 'o, 'x, 'q) enc_state" where
  "enqueue T e t s =
     (let k = task_to_key T e t in
      if entry s e k \<noteq> None then (Value (), s)
      else
        let s1 = fire_watchers e k s;
            old = entry s1 e k;
            s2 = cache_insert e k Enqueued s1
        in if old = None then (Value (), s2) else (panic ''assertion failed: old.is_none()'', s2))"

section \<open>Dependencies\<close>

type_synonym ('e, 't, 'k, 'o, 'x, 'q) enc_run =
  "('e, 't, 'k, 'o, 'x, 'q) enc_state \<Rightarrow>
   (('e, 't, 'k, 'o, 'x, 'q) enc_state, ('o, 'x, 'q) encode_result) run"

fun terminal :: "('k, 'o, 'x, 'q) cache_state option \<Rightarrow> bool" where
  "terminal (Some (Encoded _ _ _ _)) = True"
| "terminal (Some (ErrorEncode _ _ _ _ _)) = True"
| "terminal (Some (ErrorEnqueue _ _)) = True"
| "terminal _ = False"

definition check_cycle ::
  "'e \<Rightarrow> ('k, 'o) task_deps \<Rightarrow> ('e, 't, 'k, 'o, 'x, 'q) enc_state
   \<Rightarrow> ('o, 'x) encode_full_error + unit" where
  "check_cycle e d s =
     (case task_key d of
        None \<Rightarrow> Inr ()
      | Some k \<Rightarrow> if terminal (entry s e k) then Inl AlreadyEncoded else Inr ())"

text \<open>The stringified condition in the message of the second assertion is abbreviated.\<close>

definition emit_output_ref ::
  "('e, 't, 'k, 'o, 'x, 'q) task_encoder \<Rightarrow> 'e \<Rightarrow> 'k \<Rightarrow> 'o \<Rightarrow> ('k, 'o) task_deps
   \<Rightarrow> ('e, 't, 'k, 'o, 'x, 'q) enc_state
   \<Rightarrow> ((('o, 'x) encode_full_error + unit) \<times> ('k, 'o) task_deps) exec
       \<times> ('e, 't, 'k, 'o, 'x, 'q) enc_state" where
  "emit_output_ref T e k r d s =
     (if task_key d \<noteq> None
      then (panic (''output ref already set for task key '' @ debug_key T e k), s)
      else
        let d' = d\<lparr>task_key := Some k\<rparr> in
        case check_cycle e d' s of
          Inl err \<Rightarrow> (Value (Inl err, d'), s)
        | Inr _ \<Rightarrow>
            let old = entry s e k; s' = cache_insert e k (Started r) s
            in case old of
                 Some Enqueued \<Rightarrow> (Value (Inr (), d'), s')
               | Some (Started _) \<Rightarrow> (Value (Inr (), d'), s')
               | _ \<Rightarrow> (panic ''assertion failed: E::with_cache'', s'))"

definition push_span ::
  "'e \<Rightarrow> 'k \<Rightarrow> span \<Rightarrow> ('e, 't, 'k, 'o, 'x, 'q) enc_state \<Rightarrow> ('e, 't, 'k, 'o, 'x, 'q) enc_state" where
  "push_span e k sp s =
     (case entry s e k of
        Some (ErrorEncode r d err dep sps) \<Rightarrow> cache_insert e k (ErrorEncode r d err dep (sps @ [sp])) s
      | Some (ErrorEnqueue err sps) \<Rightarrow> cache_insert e k (ErrorEnqueue err (sps @ [sp])) s
      | _ \<Rightarrow> s)"

fun dep_chain_tail ::
  "('e, 't, 'k, 'o, 'x, 'q) task_encoder \<Rightarrow> 'e \<Rightarrow> ('x, 'q) task_error \<Rightarrow> dep_chain" where
  "dep_chain_tail T e (EnqueueingError _) = [(ENCODER_NAME T e, ''? EnqueueingError'', [])]"
| "dep_chain_tail T e (EncodingError err) = [(ENCODER_NAME T e, describe_error T e err, [])]"
| "dep_chain_tail T e (DependencyError items) = items"
| "dep_chain_tail T e CyclicError = [(ENCODER_NAME T e, ''? CyclicError'', [])]"
| "dep_chain_tail T e (PanicError _) = [(ENCODER_NAME T e, ''? PanicError'', [])]"

definition require_common ::
  "('e, 't, 'k, 'o, 'x, 'q) task_encoder \<Rightarrow> 'e \<Rightarrow> ('k, 'o) task_deps \<Rightarrow> 'e \<Rightarrow> 't \<Rightarrow> span option
   \<Rightarrow> ('x, 'q) task_error + 'a \<Rightarrow> ('e, 't, 'k, 'o, 'x, 'q) enc_state
   \<Rightarrow> (('o, 'x) encode_full_error + 'a) \<times> ('e, 't, 'k, 'o, 'x, 'q) enc_state" where
  "require_common T e d e' t sp res s =
     (case res of
        Inl err \<Rightarrow>
          (Inl (FullDependencyError
             ((ENCODER_NAME T e', describe_task T e' t, (case sp of None \<Rightarrow> [] | Some x \<Rightarrow> [x]))
              # dep_chain_tail T e' err)),
           (case sp of None \<Rightarrow> s | Some x \<Rightarrow> push_span e' (task_to_key T e' t) x s))
      | Inr a \<Rightarrow>
          (case check_cycle e d s of
             Inl err \<Rightarrow> (Inl err, s)
           | Inr _ \<Rightarrow> (Inr a, s)))"

section \<open>Encoding a task\<close>

definition cached_ref :: "('k, 'o, 'x, 'q) cache_state option \<Rightarrow> 'o option" where
  "cached_ref c =
     (case c of
        Some (Started r) \<Rightarrow> Some r
      | Some (Encoded r _ _ _) \<Rightarrow> Some r
      | Some (ErrorEncode r _ _ _ _) \<Rightarrow> Some r
      | _ \<Rightarrow> None)"

text \<open>\<^verbatim>\<open>TaskEncoder::encode_ref\<close>, over the function \<open>enc\<close> that stands for \<^verbatim>\<open>encode\<close>.\<close>

definition encode_ref ::
  "('e, 't, 'k, 'o, 'x, 'q) task_encoder
   \<Rightarrow> ('e \<Rightarrow> 't \<Rightarrow> bool \<Rightarrow> span \<Rightarrow> ('e, 't, 'k, 'o, 'x, 'q) enc_run)
   \<Rightarrow> 'e \<Rightarrow> 't \<Rightarrow> span \<Rightarrow> ('e, 't, 'k, 'o, 'x, 'q) enc_state
   \<Rightarrow> (('e, 't, 'k, 'o, 'x, 'q) enc_state, ('x, 'q) task_error + 'o) run" where
  "encode_ref T enc e t sp s =
     (let k = task_to_key T e t in
      case cached_ref (entry s e k) of
        Some r \<Rightarrow> Some (Value (Inr r), s)
      | None \<Rightarrow>
          seq_exec (enc e t False sp s) (\<lambda>res s.
            let after = (case cached_ref (entry s e k) of
                           Some r \<Rightarrow> Some (Value (Inr r), s)
                         | None \<Rightarrow> Some (panic ''output ref not found after encoding'', s))
            in case res of
                 Inr _ \<Rightarrow> after
               | Inl (DependencyError _) \<Rightarrow> after
               | Inl err \<Rightarrow> Some (Value (Inl err), s)))"

text \<open>The six \<^verbatim>\<open>require_*\<close> methods; without a span the default span is passed on.\<close>

definition require ::
  "('e, 't, 'k, 'o, 'x, 'q) task_encoder
   \<Rightarrow> ('e \<Rightarrow> 't \<Rightarrow> bool \<Rightarrow> span \<Rightarrow> ('e, 't, 'k, 'o, 'x, 'q) enc_run)
   \<Rightarrow> 'e \<Rightarrow> ('k, 'o) task_deps \<Rightarrow> require_kind \<Rightarrow> 'e \<Rightarrow> 't \<Rightarrow> span option
   \<Rightarrow> ('e, 't, 'k, 'o, 'x, 'q) enc_state
   \<Rightarrow> (('e, 't, 'k, 'o, 'x, 'q) enc_state, ('o, 'x) encode_full_error + 'o) run" where
  "require T enc e d kind e' t sp s =
     (let sp' = (case sp of None \<Rightarrow> DUMMY_SP | Some x \<Rightarrow> x);
          finish = (\<lambda>res s. case require_common T e d e' t sp res s of (r, s') \<Rightarrow> Some (Value r, s'));
          full = (\<lambda>proj. seq_exec (enc e' t True sp' s) (\<lambda>res s.
                    case res of
                      Inl err \<Rightarrow> finish (Inl err) s
                    | Inr None \<Rightarrow> Some (panic ''called `Option::unwrap()` on a `None` value'', s)
                    | Inr (Some out) \<Rightarrow> finish (Inr (proj out)) s))
      in case kind of
           Req_ref \<Rightarrow> seq_exec (encode_ref T enc e' t sp' s) finish
         | Req_local \<Rightarrow> full (\<lambda>(_, l, _). l)
         | Req_dep \<Rightarrow> full (\<lambda>(_, _, dep). dep))"

text \<open>
  The interpreter of encoder bodies: \<open>enc\<close> runs the nested tasks, the rest is structural.
  The dependencies are returned together with the result.
\<close>

primrec run_prog ::
  "('e, 't, 'k, 'o, 'x, 'q) task_encoder
   \<Rightarrow> ('e \<Rightarrow> 't \<Rightarrow> bool \<Rightarrow> span \<Rightarrow> ('e, 't, 'k, 'o, 'x, 'q) enc_run)
   \<Rightarrow> 'e \<Rightarrow> ('e, 't, 'k, 'o, 'x, 'q) enc_prog
   \<Rightarrow> ('k, 'o) task_deps \<Rightarrow> ('e, 't, 'k, 'o, 'x, 'q) enc_state
   \<Rightarrow> (('e, 't, 'k, 'o, 'x, 'q) enc_state,
       (('o, 'x) encode_full_error + 'o \<times> 'o) \<times> ('k, 'o) task_deps) run" where
  "run_prog T enc e (Return r) d s = Some (Value (r, d), s)"
| "run_prog T enc e (Panic p) d s = Some (Panicked p, s)"
| "run_prog T enc e (Emit_output_ref k r c) d s =
     seq_exec (Some (emit_output_ref T e k r d s)) (\<lambda>(res, d') s'. run_prog T enc e (c res) d' s')"
| "run_prog T enc e (Check_cycle c) d s = run_prog T enc e (c (check_cycle e d s)) d s"
| "run_prog T enc e (Require kind e' t sp c) d s =
     seq_exec (require T enc e d kind e' t sp s) (\<lambda>res s'. run_prog T enc e (c res) d s')"
| "run_prog T enc e (Enqueue e' t p) d s =
     seq_exec (Some (enqueue T e' t s)) (\<lambda>_ s'. run_prog T enc e p d s')"
| "run_prog T enc e (On_task_requested e' k f p) d s =
     run_prog T enc e p d (on_task_requested e' k f s)"
| "run_prog T enc e (On_all_requested e' ks f p) d s =
     run_prog T enc e p d (on_all_requested e' ks f s)"
| "run_prog T enc e (On_any_requested e' ks f p) d s =
     run_prog T enc e p d (on_any_requested e' ks f s)"

text \<open>The first part of \<^verbatim>\<open>encode\<close>: the cache lookup, which enqueues an absent task.\<close>

definition encode_in_cache ::
  "'e \<Rightarrow> 'k \<Rightarrow> bool \<Rightarrow> ('e, 't, 'k, 'o, 'x, 'q) enc_state
   \<Rightarrow> ('o, 'x, 'q) encode_result option \<times> ('e, 't, 'k, 'o, 'x, 'q) enc_state" where
  "encode_in_cache e k need_output s =
     (case entry s e k of
        Some (ErrorEnqueue err _) \<Rightarrow> (Some (Inl err), s)
      | Some (ErrorEncode _ _ err _ _) \<Rightarrow> (Some (Inl err), s)
      | Some (Encoded r _ l dep) \<Rightarrow>
          (Some (Inr (if need_output then Some (r, l, dep) else None)), s)
      | Some Enqueued \<Rightarrow> (None, s)
      | Some (Started _) \<Rightarrow> (None, s)
      | None \<Rightarrow> (None, cache_insert e k Enqueued (fire_watchers e k s)))"

text \<open>The closure of \<^verbatim>\<open>map_err\<close> that records a panic of the encoder body.\<close>

definition panic_message :: "string option \<Rightarrow> string" where
  "panic_message p = (case p of Some msg \<Rightarrow> msg | None \<Rightarrow> ''<unknown panic>'')"

definition record_panic ::
  "'e \<Rightarrow> 'k \<Rightarrow> ('x, 'q) task_error \<Rightarrow> span \<Rightarrow> ('e, 't, 'k, 'o, 'x, 'q) enc_state
   \<Rightarrow> ('e, 't, 'k, 'o, 'x, 'q) enc_state" where
  "record_panic e k err sp s =
     (case entry s e k of
        Some (Started r) \<Rightarrow> cache_insert e k (ErrorEncode r deps_new err None [sp]) s
      | _ \<Rightarrow> cache_insert e k (ErrorEnqueue err [sp]) s)"

text \<open>The last part of \<^verbatim>\<open>encode\<close>: the result of the body is recorded and returned.\<close>

definition finish_encode ::
  "('e, 't, 'k, 'o, 'x, 'q) task_encoder \<Rightarrow> 'e \<Rightarrow> 't \<Rightarrow> 'k \<Rightarrow> bool \<Rightarrow> span
   \<Rightarrow> ('o, 'x) encode_full_error + 'o \<times> 'o \<Rightarrow> ('k, 'o) task_deps
   \<Rightarrow> ('e, 't, 'k, 'o, 'x, 'q) enc_state
   \<Rightarrow> ('o, 'x, 'q) encode_result exec \<times> ('e, 't, 'k, 'o, 'x, 'q) enc_state" where
  "finish_encode T e t k need_output sp res deps s =
     (case (case entry s e k of
              Some (Started r) \<Rightarrow> Some r
            | Some (Encoded r _ _ _) \<Rightarrow> Some r
            | _ \<Rightarrow> None) of
        None \<Rightarrow> (panic (''encoder did not provide output ref for task '' @ debug_key T e k), s)
      | Some r \<Rightarrow>
          (case res of
             Inr (l, dep) \<Rightarrow>
               (Value (Inr (if need_output then Some (r, l, dep) else None)),
                cache_insert e k (Encoded r deps l dep) s)
           | Inl AlreadyEncoded \<Rightarrow>
               (case entry s e k of
                  None \<Rightarrow> (panic ''called `Option::unwrap()` on a `None` value'', s)
                | Some (Encoded r l_deps l dep) \<Rightarrow>
                    (Value (Inr (if need_output then Some (r, l, dep) else None)), s)
                | Some (ErrorEnqueue err _) \<Rightarrow> (Value (Inl err), s)
                | Some (ErrorEncode _ _ err _ _) \<Rightarrow> (Value (Inl err), s)
                | Some _ \<Rightarrow> (panic (''encoder did not finish for task '' @ debug_key T e k), s))
           | Inl (FullDependencyError stack) \<Rightarrow>
               let err = DependencyError ((ENCODER_NAME T e, describe_task T e t, []) # stack)
               in (Value (Inl err), cache_insert e k (ErrorEncode r deps err None [sp]) s)
           | Inl (FullEncodingError x dep) \<Rightarrow>
               (Value (Inl (EncodingError x)),
                cache_insert e k (ErrorEncode r deps (EncodingError x) dep [sp]) s)))"

text \<open>
  \<^verbatim>\<open>TaskEncoder::encode\<close>. The fuel bounds the nesting of tasks: running out of it
  (\<^const>\<open>None\<close>) is the unbounded recursion the source warns about for cyclic dependencies.
\<close>

primrec encode ::
  "('e, 't, 'k, 'o, 'x, 'q) task_encoder \<Rightarrow> nat \<Rightarrow> 'e \<Rightarrow> 't \<Rightarrow> bool \<Rightarrow> span
   \<Rightarrow> ('e, 't, 'k, 'o, 'x, 'q) enc_run" where
  "encode T 0 e t need_output sp s = None"
| "encode T (Suc n) e t need_output sp s =
     (let k = task_to_key T e t in
      case encode_in_cache e k need_output s of
        (Some res, s) \<Rightarrow> Some (Value res, s)
      | (None, s) \<Rightarrow>
          (case run_prog T (encode T n) e (do_encode_full T e k) deps_new s of
             None \<Rightarrow> None
           | Some (Panicked p, s) \<Rightarrow>
               let err = PanicError (panic_message p)
               in Some (Value (Inl err), record_panic e k err sp s)
           | Some (Value (res, deps), s) \<Rightarrow>
               Some (finish_encode T e t k need_output sp res deps s)))"

section \<open>Draining the triggers\<close>

text \<open>One closure. The fuel bounds its steps, and the nesting of the tasks it encodes.\<close>

fun run_action ::
  "('e, 't, 'k, 'o, 'x, 'q) task_encoder \<Rightarrow> nat \<Rightarrow> ('e, 't, 'k, 'o, 'x, 'q) action
   \<Rightarrow> ('e, 't, 'k, 'o, 'x, 'q) enc_state \<Rightarrow> (('e, 't, 'k, 'o, 'x, 'q) enc_state, unit) run" where
  "run_action T 0 f s = None"
| "run_action T (Suc n) Done s = Some (Value (), s)"
| "run_action T (Suc n) (Act_panic p) s = Some (Panicked p, s)"
| "run_action T (Suc n) (Act_encode e t need_output sp c) s =
     seq_exec (encode T n e t need_output sp s) (\<lambda>res s'. run_action T n (c res) s')"
| "run_action T (Suc n) (Act_encode_ref e t sp c) s =
     seq_exec (encode_ref T (encode T n) e t sp s) (\<lambda>res s'. run_action T n (c res) s')"
| "run_action T (Suc n) (Act_enqueue e t f) s =
     seq_exec (Some (enqueue T e t s)) (\<lambda>_ s'. run_action T n f s')"
| "run_action T (Suc n) (Act_on_task e k g f) s = run_action T n f (on_task_requested e k g s)"
| "run_action T (Suc n) (Act_on_all e ks g f) s = run_action T n f (on_all_requested e ks g s)"
| "run_action T (Suc n) (Act_on_any e ks g f) s = run_action T n f (on_any_requested e ks g s)"
| "run_action T (Suc n) (Act_take i) s =
     (if i < length (slots s)
      then case slots s ! i of
             None \<Rightarrow> Some (Value (), s)
           | Some f \<Rightarrow> run_action T n f (s\<lparr>slots := (slots s)[i := None]\<rparr>)
      else Some (Value (), s))"

fun drain_triggers ::
  "('e, 't, 'k, 'o, 'x, 'q) task_encoder \<Rightarrow> nat \<Rightarrow> ('e, 't, 'k, 'o, 'x, 'q) enc_state
   \<Rightarrow> (('e, 't, 'k, 'o, 'x, 'q) enc_state, unit) run" where
  "drain_triggers T 0 s = None"
| "drain_triggers T (Suc n) s =
     (case pending s of
        [] \<Rightarrow> Some (Value (), s)
      | f # fs \<Rightarrow>
          seq_exec (run_action T n f (s\<lparr>pending := fs\<rparr>)) (\<lambda>_ s'. drain_triggers T n s'))"

section \<open>Collecting the outputs\<close>

fun all_outputs_local ::
  "('k \<Rightarrow> string) \<Rightarrow> ('k, ('k, 'o, 'x, 'q) cache_state) index_map
   \<Rightarrow> ('o list \<times> ('k \<times> ('x, 'q) task_error \<times> span list) list) exec" where
  "all_outputs_local dbg [] = Value ([], [])"
| "all_outputs_local dbg ((k, c) # m) =
     (case c of
        Encoded _ _ l _ \<Rightarrow>
          (case all_outputs_local dbg m of
             Value (outs, errs) \<Rightarrow> Value (l # outs, errs) | Panicked p \<Rightarrow> Panicked p)
      | ErrorEncode _ _ err _ sps \<Rightarrow>
          (case all_outputs_local dbg m of
             Value (outs, errs) \<Rightarrow> Value (outs, (k, err, sps) # errs) | Panicked p \<Rightarrow> Panicked p)
      | ErrorEnqueue err sps \<Rightarrow>
          (case all_outputs_local dbg m of
             Value (outs, errs) \<Rightarrow> Value (outs, (k, err, sps) # errs) | Panicked p \<Rightarrow> Panicked p)
      | _ \<Rightarrow> panic (''task encoder not completed: '' @ dbg k))"

text \<open>
  The \<^verbatim>\<open>Debug\<close> implementation of errors, over those of the associated error types and of
  compiler spans; the standard library's output for strings, tuples and vectors is written out
  (characters outside ASCII are printed as they are).
\<close>

definition hex_digit :: "nat \<Rightarrow> char" where
  "hex_digit n = ''0123456789abcdef'' ! n"

definition escape_debug :: "char \<Rightarrow> string" where
  "escape_debug c =
     (if c = CHR 0x22 then [CHR 0x5C, CHR 0x22]
      else if c = CHR 0x5C then [CHR 0x5C, CHR 0x5C]
      else if c = CHR 0x0A then [CHR 0x5C, CHR ''n'']
      else if c = CHR 0x0D then [CHR 0x5C, CHR ''r'']
      else if c = CHR 0x09 then [CHR 0x5C, CHR ''t'']
      else if c = CHR 0x00 then [CHR 0x5C, CHR ''0'']
      else
        let n = of_char c :: nat in
        if n < 16 then CHR 0x5C # ''u{'' @ [hex_digit n] @ ''}''
        else if n < 32 \<or> n = 127
        then CHR 0x5C # ''u{'' @ [hex_digit (n div 16), hex_digit (n mod 16)] @ ''}''
        else [c])"

definition debug_str :: "string \<Rightarrow> string" where
  "debug_str s = [CHR 0x22] @ concat (map escape_debug s) @ [CHR 0x22]"

definition join :: "string \<Rightarrow> string list \<Rightarrow> string" where
  "join sep xs = concat (case xs of [] \<Rightarrow> [] | y # ys \<Rightarrow> y # map (\<lambda>x. sep @ x) ys)"

definition debug_list :: "('a \<Rightarrow> string) \<Rightarrow> 'a list \<Rightarrow> string" where
  "debug_list dbg xs = ''['' @ join '', '' (map dbg xs) @ '']''"

definition debug_chain :: "(span \<Rightarrow> string) \<Rightarrow> dep_chain \<Rightarrow> string" where
  "debug_chain dbg_span =
     debug_list (\<lambda>(enc, task, sps).
       ''('' @ debug_str enc @ '', '' @ debug_str task @ '', '' @ debug_list dbg_span sps @ '')'')"

fun debug_task_error ::
  "('x \<Rightarrow> string) \<Rightarrow> ('q \<Rightarrow> string) \<Rightarrow> (span \<Rightarrow> string) \<Rightarrow> ('x, 'q) task_error \<Rightarrow> string" where
  "debug_task_error dx dq ds (EncodingError x) = ''TaskEncoderError { EncodingError: '' @ dx x @ '' }''"
| "debug_task_error dx dq ds (EnqueueingError q) = ''TaskEncoderError { EnqueueingError: '' @ dq q @ '' }''"
| "debug_task_error dx dq ds (DependencyError c) =
     ''TaskEncoderError { DependencyError: '' @ debug_chain ds c @ '' }''"
| "debug_task_error dx dq ds CyclicError = ''TaskEncoderError { CyclicError: '' @ debug_str [] @ '' }''"
| "debug_task_error dx dq ds (PanicError m) = ''TaskEncoderError { PanicError: '' @ debug_str m @ '' }''"

text \<open>
  \<^verbatim>\<open>all_outputs_local_no_errors\<close> returns the outputs and pushes one message per failed task
  onto \<^verbatim>\<open>program.encoder_errors\<close>, at the first recorded span.
\<close>

definition error_report ::
  "('e, 't, 'k, 'o, 'x, 'q) task_encoder \<Rightarrow> (('x, 'q) task_error \<Rightarrow> string) \<Rightarrow> 'e
   \<Rightarrow> 'k \<times> ('x, 'q) task_error \<times> span list \<Rightarrow> string \<times> span" where
  "error_report T debug_err e =
     (\<lambda>(k, err, sps).
        ((case err of
            EncodingError x \<Rightarrow> describe_error T e x
          | _ \<Rightarrow> ''encoder '' @ [CHR 0x27] @ ENCODER_NAME T e @ [CHR 0x27] @ '' failed to encode '' @
                 debug_key T e k @ '':'' @ [CHR 0x0A] @ '' '' @ debug_err err),
         (case sps of [] \<Rightarrow> DUMMY_SP | sp # _ \<Rightarrow> sp)))"

definition all_outputs_local_no_errors ::
  "('e, 't, 'k, 'o, 'x, 'q) task_encoder \<Rightarrow> ('x \<Rightarrow> string) \<Rightarrow> ('q \<Rightarrow> string) \<Rightarrow> (span \<Rightarrow> string) \<Rightarrow> 'e
   \<Rightarrow> ('e, 't, 'k, 'o, 'x, 'q) enc_state \<Rightarrow> (string \<times> span) list
   \<Rightarrow> ('o list \<times> (string \<times> span) list) exec" where
  "all_outputs_local_no_errors T dx dq ds e s encoder_errors =
     (case all_outputs_local (debug_key T e) (caches s e) of
        Panicked p \<Rightarrow> Panicked p
      | Value (outs, errs) \<Rightarrow>
          Value (outs, encoder_errors @ map (error_report T (debug_task_error dx dq ds) e) errs))"

end
