(* ===== verification/Task_Encoder_Laws.thy ===== *)
theory Task_Encoder_Laws
  imports Task_Encoder
begin

text \<open>
  Properties of the task encoder that hold for every encoder body. The locale
  \<open>task_evolution\<close> lifts a relation from the elementary updates of the state to whole runs of
  \<^const>\<open>encode\<close>, \<^const>\<open>encode_ref\<close>, \<^const>\<open>run_action\<close> and \<^const>\<open>drain_triggers\<close>;
  it is interpreted on the order of cache states, on the shape of recorded errors and on the
  trigger invariant.
\<close>

section \<open>Elementary facts\<close>

lemma caches_cache_insert [simp]:
  "entry (cache_insert e k v s) e' k' = (if e' = e \<and> k' = k then Some v else entry s e' k')"
  by (simp add: cache_insert_def)

lemma cache_insert_frame [simp]:
  "watchers (cache_insert e k v s) = watchers s"
  "pending (cache_insert e k v s) = pending s"
  "slots (cache_insert e k v s) = slots s"
  by (simp_all add: cache_insert_def)

lemma fire_watchers_frame [simp]:
  "caches (fire_watchers e k s) = caches s"
  "slots (fire_watchers e k s) = slots s"
  by (simp_all add: fire_watchers_def Let_def split: prod.split option.split)

lemma watchers_fire_watchers:
  "watchers (fire_watchers e k s) = (watchers s)(e := snd (swap_remove k (watchers s e)))"
  by (simp add: fire_watchers_def Let_def split: prod.split option.split)

lemma pending_fire_watchers:
  "pending (fire_watchers e k s) =
     pending s @ (case map_of (watchers s e) k of None \<Rightarrow> [] | Some fs \<Rightarrow> fs)"
  using swap_remove_fst [of k "watchers s e"]
  by (auto simp: fire_watchers_def Let_def split: prod.split option.split)

lemma on_task_requested_frame [simp]:
  "caches (on_task_requested e k f s) = caches s"
  "slots (on_task_requested e k f s) = slots s"
  by (simp_all add: on_task_requested_def queue_action_def)

lemma terminal_iff: "terminal c \<longleftrightarrow> (\<exists>v. c = Some v \<and> v \<noteq> Enqueued \<and> (\<forall>r. v \<noteq> Started r))"
  by (cases c rule: terminal.cases) auto

lemma enqueue_eq:
  "enqueue T e t s =
     (Value (), if entry s e (task_to_key T e t) \<noteq> None then s
                else cache_insert e (task_to_key T e t) Enqueued
                       (fire_watchers e (task_to_key T e t) s))"
  by (simp add: enqueue_def Let_def)

lemma encode_in_cache_Some:
  assumes "encode_in_cache e k need s = (Some res, s')"
  shows "s' = s" and "terminal (entry s e k)"
  using assms by (auto simp: encode_in_cache_def split: option.splits cache_state.splits)

lemma encode_in_cache_None:
  assumes "encode_in_cache e k need s = (None, s')"
  shows "(if entry s e k = None then s' = cache_insert e k Enqueued (fire_watchers e k s) else s' = s)
         \<and> \<not> terminal (entry s' e k) \<and> entry s' e k \<noteq> None"
  using assms by (auto simp: encode_in_cache_def split: option.splits cache_state.splits)

lemma emit_output_ref_state:
  "snd (emit_output_ref T e k r d s) = s \<or>
   (\<not> terminal (entry s e k) \<and> snd (emit_output_ref T e k r d s) = cache_insert e k (Started r) s)"
  by (auto simp: emit_output_ref_def check_cycle_def Let_def
      split: option.split cache_state.split sum.split)

lemma require_common_state:
  "snd (require_common T e d e' t sp res s) = s \<or>
   (\<exists>x. snd (require_common T e d e' t sp res s) = push_span e' (task_to_key T e' t) x s)"
  by (auto simp: require_common_def split: sum.split option.split)

text \<open>Every key a body emits satisfies \<open>P\<close>.\<close>

primrec prog_emits :: "('k \<Rightarrow> bool) \<Rightarrow> ('e, 't, 'k, 'o, 'x, 'q) enc_prog \<Rightarrow> bool" where
  "prog_emits P (Return r) = True"
| "prog_emits P (Panic p) = True"
| "prog_emits P (Emit_output_ref k r c) = (P k \<and> (\<forall>res. prog_emits P (c res)))"
| "prog_emits P (Check_cycle c) = (\<forall>res. prog_emits P (c res))"
| "prog_emits P (Require kind e t sp c) = (\<forall>res. prog_emits P (c res))"
| "prog_emits P (Enqueue e t p) = prog_emits P p"
| "prog_emits P (On_task_requested e k f p) = prog_emits P p"
| "prog_emits P (On_all_requested e ks f p) = prog_emits P p"
| "prog_emits P (On_any_requested e ks f p) = prog_emits P p"

definition emits_own :: "('e, 't, 'k, 'o, 'x, 'q) task_encoder \<Rightarrow> bool" where
  "emits_own T \<longleftrightarrow> (\<forall>e k. prog_emits ((=) k) (do_encode_full T e k))"

lemma prog_emits_all: "prog_emits (\<lambda>_. True) p"
  by (induction p) auto

section \<open>Relations kept by every run\<close>

locale task_evolution =
  fixes T :: "('e, 't, 'k, 'o, 'x, 'q) task_encoder"
    and R :: "('e, 't, 'k, 'o, 'x, 'q) enc_state \<Rightarrow> ('e, 't, 'k, 'o, 'x, 'q) enc_state \<Rightarrow> bool"
    and may_emit :: "'k \<Rightarrow> 'k \<Rightarrow> bool"
  assumes progs: "prog_emits (may_emit k) (do_encode_full T e k)"
    and refl: "R s s"
    and trans: "R s s1 \<Longrightarrow> R s1 s2 \<Longrightarrow> R s s2"
    and present: "R s s' \<Longrightarrow> entry s e k \<noteq> None \<Longrightarrow> entry s' e k \<noteq> None"
    and request: "entry s e k = None \<Longrightarrow> R s (cache_insert e k Enqueued (fire_watchers e k s))"
    and watch: "R s (on_task_requested e k f s)"
    and emit: "may_emit k k' \<Longrightarrow> entry s e k \<noteq> None \<Longrightarrow> \<not> terminal (entry s e k')
               \<Longrightarrow> R s (cache_insert e k' (Started r) s)"
    and spans: "R s (push_span e k sp s)"
    and panics: "entry s e k \<noteq> None \<Longrightarrow> R s (record_panic e k (PanicError m) sp s)"
    and finish: "R s (snd (finish_encode T e t k need sp res deps s))"
    and alloc: "R s (s\<lparr>slots := slots s @ [c]\<rparr>)"
    and take: "R s (s\<lparr>slots := (slots s)[i := None]\<rparr>)"
    and pops: "R s (s\<lparr>pending := q\<rparr>)"
begin

definition keeps :: "('e, 't, 'k, 'o, 'x, 'q) enc_state \<Rightarrow> (('e, 't, 'k, 'o, 'x, 'q) enc_state, 'a) run \<Rightarrow> bool" where
  "keeps s m \<longleftrightarrow> (\<forall>r s'. m = Some (r, s') \<longrightarrow> R s s')"

lemma keepsD: "keeps s m \<Longrightarrow> m = Some (r, s') \<Longrightarrow> R s s'"
  by (simp add: keeps_def)

lemma keeps_None [simp]: "keeps s None"
  by (simp add: keeps_def)

lemma keeps_Some: "R s s' \<Longrightarrow> keeps s (Some (r, s'))"
  by (simp add: keeps_def)

lemma keeps_mono: "R s s' \<Longrightarrow> keeps s' m \<Longrightarrow> keeps s m"
  using trans by (auto simp: keeps_def)

lemma keeps_seq:
  assumes "keeps s m" and "\<And>a s'. m = Some (Value a, s') \<Longrightarrow> keeps s' (f a s')"
  shows "keeps s (seq_exec m f)"
  unfolding keeps_def
proof (intro allI impI)
  fix r s' assume "seq_exec m f = Some (r, s')"
  then show "R s s'"
    by (cases rule: seq_exec_Some) (use assms trans in \<open>auto simp: keeps_def\<close>)
qed

lemma on_all_evolves: "R s (on_all_requested e ks f s)"
  by (simp add: on_all_requested_def queue_action_def watch pops)

lemma fold_watch_evolves: "R s (fold (\<lambda>k. on_task_requested e k (f k)) ks s)"
proof (induction ks arbitrary: s)
  case (Cons k ks)
  show ?case using trans [OF watch Cons] by simp
qed (simp add: refl)

lemma on_any_evolves: "R s (on_any_requested e ks f s)"
  unfolding on_any_requested_def by (rule trans [OF alloc fold_watch_evolves])

lemma enqueue_evolves: "R s (snd (enqueue T e t s))"
  by (simp add: enqueue_eq refl request)

lemma require_common_evolves: "R s (snd (require_common T e d e' t sp res s))"
  using require_common_state [of T e d e' t sp res s] by (elim disjE exE) (simp_all add: refl spans)

lemma finish_require:
  "keeps s (case require_common T e d e' t sp res s of (r, s') \<Rightarrow> Some (Value r, s'))"
  using require_common_evolves [of s e d e' t sp res]
  by (cases "require_common T e d e' t sp res s") (simp add: keeps_Some)

lemma encode_ref_keeps:
  assumes "\<And>e t b sp s. keeps s (enc e t b sp s)"
  shows "keeps s (encode_ref T enc e t sp s)"
  unfolding encode_ref_def Let_def
  by (simp split: option.split)
     (auto intro!: keeps_seq [OF assms] keeps_Some refl split: option.split sum.split task_error.split)

lemma require_keeps:
  assumes "\<And>e t b sp s. keeps s (enc e t b sp s)"
  shows "keeps s (require T enc e d kind e' t sp s)"
proof (cases kind)
  case Req_ref
  then show ?thesis
    by (simp add: require_def Let_def keeps_seq [OF encode_ref_keeps [OF assms] finish_require])
next
  case Req_local
  then show ?thesis
    by (simp add: require_def Let_def)
       (auto intro!: keeps_seq [OF assms] finish_require keeps_Some refl split: sum.split option.split)
next
  case Req_dep
  then show ?thesis
    by (simp add: require_def Let_def)
       (auto intro!: keeps_seq [OF assms] finish_require keeps_Some refl split: sum.split option.split)
qed

lemma run_prog_keeps:
  assumes enc: "\<And>e t b sp s. keeps s (enc e t b sp s)"
    and "prog_emits (may_emit k) p" and "entry s e k \<noteq> None"
  shows "keeps s (run_prog T enc e p d s)"
  using assms(2,3)
proof (induction p arbitrary: d s)
  case (Emit_output_ref k' r c)
  let ?m = "emit_output_ref T e k' r d s"
  have "R s (snd ?m)"
    using emit_output_ref_state [of T e k' r d s] emit Emit_output_ref.prems refl
    by (metis prog_emits.simps(3))
  then have m: "keeps s (Some ?m)" by (auto simp: keeps_def)
  show ?case
    unfolding run_prog.simps
    by (rule keeps_seq [OF m], simp split: prod.split, intro allI impI, rule Emit_output_ref.IH)
       (use Emit_output_ref.prems m present in \<open>auto dest!: keepsD\<close>)
next
  case (Require kind e' t sp c)
  have m: "keeps s (require T enc e d kind e' t sp s)" by (rule require_keeps [OF enc])
  show ?case
    unfolding run_prog.simps
    by (rule keeps_seq [OF m], rule Require.IH)
       (use Require.prems m present in \<open>auto dest!: keepsD\<close>)
next
  case (Enqueue e' t p)
  let ?s = "snd (enqueue T e' t s)"
  have R1: "R s ?s" by (rule enqueue_evolves)
  have "keeps ?s (run_prog T enc e p d ?s)"
    by (rule Enqueue.IH) (use Enqueue.prems present [OF R1] in auto)
  then have "keeps s (run_prog T enc e p d ?s)" by (rule keeps_mono [OF R1])
  then show ?case by (simp add: enqueue_eq)
next
  case (On_task_requested e' k' f p)
  then show ?case
    by (simp, intro keeps_mono [OF watch On_task_requested.IH]) (use present [OF watch] in auto)
next
  case (On_all_requested e' ks f p)
  then show ?case
    by (simp, intro keeps_mono [OF on_all_evolves On_all_requested.IH])
       (use present [OF on_all_evolves] in auto)
next
  case (On_any_requested e' ks f p)
  then show ?case
    by (simp, intro keeps_mono [OF on_any_evolves On_any_requested.IH])
       (use present [OF on_any_evolves] in auto)
qed (auto intro: keeps_Some refl)

lemma encode_keeps: "keeps s (encode T n e t need sp s)"
proof (induction n arbitrary: e t need sp s)
  case (Suc n)
  define k where "k = task_to_key T e t"
  obtain res s1 where c: "encode_in_cache e k need s = (res, s1)" by fastforce
  show ?case
  proof (cases res)
    case (Some x)
    then show ?thesis using c encode_in_cache_Some(1) [of e k need s x s1]
      by (simp add: keeps_Some refl flip: k_def)
  next
    case None
    note s1 = encode_in_cache_None [OF c [unfolded None]]
    have R1: "R s s1" using s1 request [of s e k] refl [of s] by (auto split: if_splits)
    have m: "keeps s1 (run_prog T (encode T n) e (do_encode_full T e k) deps_new s1)"
      using s1 by (intro run_prog_keeps [where k = k] Suc progs) auto
    have "keeps s (encode T (Suc n) e t need sp s)"
    proof (cases "run_prog T (encode T n) e (do_encode_full T e k) deps_new s1")
      case None
      then show ?thesis using c \<open>res = None\<close> by (simp add: Let_def flip: k_def)
    next
      case (Some xs)
      obtain x s2 where x: "xs = (x, s2)" by fastforce
      have R2: "R s1 s2" using keepsD [OF m Some [unfolded x]] .
      have k2: "entry s2 e k \<noteq> None" using present [OF R2] s1 by blast
      have R3: "keeps s2 (encode T (Suc n) e t need sp s)"
      proof (cases x)
        case (Value y)
        obtain r d where y: "y = (r, d)" by fastforce
        obtain r' s3 where f: "finish_encode T e t k need sp r d s2 = (r', s3)" by fastforce
        have "R s2 s3" using finish [of s2 e t k need sp r d] f by simp
        then show ?thesis using c \<open>res = None\<close> Some x Value y f
          by (simp add: Let_def keeps_Some flip: k_def)
      next
        case (Panicked p)
        then show ?thesis using c \<open>res = None\<close> Some x panics [OF k2]
          by (simp add: Let_def keeps_Some flip: k_def)
      qed
      show ?thesis by (rule keeps_mono [OF trans [OF R1 R2] R3])
    qed
    then show ?thesis .
  qed
qed simp

lemmas encode_evolves = encode_keeps [THEN keepsD]

lemma run_action_keeps: "keeps s (run_action T n f s)"
proof (induction n arbitrary: f s)
  case (Suc n)
  show ?case
  proof (cases f)
    case (Act_encode e t need sp c)
    then show ?thesis by (auto intro!: keeps_seq encode_keeps Suc)
  next
    case (Act_encode_ref e t sp c)
    then show ?thesis by (auto intro!: keeps_seq encode_ref_keeps encode_keeps Suc)
  next
    case (Act_enqueue e t g)
    have "keeps s (Some (enqueue T e t s))" using enqueue_evolves by (auto simp: keeps_def enqueue_eq)
    with Act_enqueue show ?thesis by (auto intro!: keeps_seq Suc)
  next
    case (Act_on_task e k g h)
    then show ?thesis using keeps_mono [OF watch Suc] by simp
  next
    case (Act_on_all e ks g h)
    then show ?thesis using keeps_mono [OF on_all_evolves Suc] by simp
  next
    case (Act_on_any e ks g h)
    then show ?thesis using keeps_mono [OF on_any_evolves Suc] by simp
  next
    case (Act_take i)
    then show ?thesis using keeps_mono [OF take Suc] by (auto intro: keeps_Some refl split: option.split)
  qed (auto intro: keeps_Some refl)
qed simp

lemma drain_triggers_keeps: "keeps s (drain_triggers T n s)"
proof (induction n arbitrary: s)
  case (Suc n)
  show ?case
  proof (cases "pending s")
    case (Cons f fs)
    have "keeps s (run_action T n f (s\<lparr>pending := fs\<rparr>))"
      by (rule keeps_mono [OF pops run_action_keeps])
    then show ?thesis using Cons by (auto intro!: keeps_seq Suc)
  qed (simp add: keeps_Some refl)
qed simp

lemmas encode_ref_evolves = encode_ref_keeps [OF encode_keeps, THEN keepsD]
lemmas drain_triggers_evolves = drain_triggers_keeps [THEN keepsD]

end

section \<open>Progress of cache entries\<close>

fun rank :: "('k, 'o, 'x, 'q) cache_state option \<Rightarrow> nat" where
  "rank None = 0"
| "rank (Some Enqueued) = 1"
| "rank (Some (Started _)) = 2"
| "rank (Some _) = 3"

lemma rank_le_3: "rank c \<le> 3"
  by (cases c rule: rank.cases) auto

lemma rank_3_iff: "rank c = 3 \<longleftrightarrow> terminal c"
  by (cases c rule: rank.cases) auto

lemma rank_0_iff: "rank c = 0 \<longleftrightarrow> c = None"
  by (cases c rule: rank.cases) auto

lemma rank_not_terminal: "\<not> terminal c \<Longrightarrow> rank c \<le> 2"
  by (cases c rule: rank.cases) auto

definition progressed ::
  "('e, 't, 'k, 'o, 'x, 'q) enc_state \<Rightarrow> ('e, 't, 'k, 'o, 'x, 'q) enc_state \<Rightarrow> bool" where
  "progressed s s' \<longleftrightarrow> (\<forall>e k. rank (entry s e k) \<le> rank (entry s' e k))"

lemma progressed_insert:
  "rank (entry s e k) \<le> rank (Some v) \<Longrightarrow> progressed s (cache_insert e k v s)"
  by (simp add: progressed_def)

lemma progressed_same: "caches s' = caches s \<Longrightarrow> progressed s s'"
  by (simp add: progressed_def)

lemma progressed_finish: "progressed s (snd (finish_encode T e t k need sp res deps s))"
  by (auto simp: finish_encode_def Let_def progressed_def
      split: option.split cache_state.split sum.split encode_full_error.split)

lemma progressed_present: "progressed s s' \<Longrightarrow> entry s e k \<noteq> None \<Longrightarrow> entry s' e k \<noteq> None"
  by (metis progressed_def rank_0_iff le_zero_eq)

lemma progressed_trans: "progressed s s1 \<Longrightarrow> progressed s1 s2 \<Longrightarrow> progressed s s2"
  unfolding progressed_def by (meson le_trans)

lemma progressed_emit: "\<not> terminal (entry s e k) \<Longrightarrow> progressed s (cache_insert e k (Started r) s)"
  by (rule progressed_insert) (use rank_not_terminal in simp)

lemma progressed_request:
  "entry s e k = None \<Longrightarrow> progressed s (cache_insert e k Enqueued (fire_watchers e k s))"
  by (simp add: progressed_def)

lemma progressed_push_span: "progressed s (push_span e k sp s)"
  by (auto simp: push_span_def progressed_def split: option.split cache_state.split)

lemma progressed_record: "progressed s (record_panic e k err sp s)"
  by (auto simp: record_panic_def progressed_def rank_le_3 split: option.split cache_state.split)

lemmas progressed_laws = prog_emits_all progressed_same progressed_finish progressed_emit
  progressed_request progressed_push_span progressed_record

interpretation ranks: task_evolution T progressed "\<lambda>_ _. True" for T
  by (unfold_locales; (erule (1) progressed_trans progressed_present)?) (simp_all add: progressed_laws)

section \<open>Recorded panics\<close>

text \<open>An entry without output reference that failed records a panic.\<close>

definition panics_recorded :: "('e, 't, 'k, 'o, 'x, 'q) enc_state \<Rightarrow> bool" where
  "panics_recorded s \<longleftrightarrow>
     (\<forall>e k err sps. entry s e k = Some (ErrorEnqueue err sps) \<longrightarrow> (\<exists>m. err = PanicError m))"

definition keeps_recorded ::
  "('e, 't, 'k, 'o, 'x, 'q) enc_state \<Rightarrow> ('e, 't, 'k, 'o, 'x, 'q) enc_state \<Rightarrow> bool" where
  "keeps_recorded s s' \<longleftrightarrow> progressed s s' \<and> (panics_recorded s \<longrightarrow> panics_recorded s')"

lemma panics_recorded_insert:
  "panics_recorded s \<Longrightarrow> (\<And>err sps. v = ErrorEnqueue err sps \<Longrightarrow> \<exists>m. err = PanicError m)
   \<Longrightarrow> panics_recorded (cache_insert e k v s)"
  by (auto simp: panics_recorded_def)

lemma panics_recorded_progress [simp]:
  "panics_recorded s \<Longrightarrow> panics_recorded (cache_insert e k Enqueued s)"
  "panics_recorded s \<Longrightarrow> panics_recorded (cache_insert e k (Started r) s)"
  by (auto intro!: panics_recorded_insert)

lemma panics_recorded_same [simp]:
  "panics_recorded (fire_watchers e k s) = panics_recorded s"
  "panics_recorded (on_task_requested e k f s) = panics_recorded s"
  "panics_recorded (s\<lparr>slots := sl\<rparr>) = panics_recorded s"
  "panics_recorded (s\<lparr>pending := q\<rparr>) = panics_recorded s"
  by (simp_all add: panics_recorded_def)

lemma panics_recorded_finish:
  "panics_recorded s \<Longrightarrow> panics_recorded (snd (finish_encode T e t k need sp res deps s))"
  by (auto simp: finish_encode_def Let_def intro!: panics_recorded_insert
      split: option.split cache_state.split sum.split encode_full_error.split)

lemma panics_recorded_push_span: "panics_recorded s \<Longrightarrow> panics_recorded (push_span e k sp s)"
  by (auto simp: push_span_def panics_recorded_def split: option.split cache_state.split)

lemma panics_recorded_record: "panics_recorded s \<Longrightarrow> panics_recorded (record_panic e k (PanicError m) sp s)"
  by (auto simp: record_panic_def intro!: panics_recorded_insert split: option.split cache_state.split)

lemma keeps_recorded_trans: "keeps_recorded s s1 \<Longrightarrow> keeps_recorded s1 s2 \<Longrightarrow> keeps_recorded s s2"
  unfolding keeps_recorded_def by (blast intro: progressed_trans)

lemma keeps_recorded_present:
  "keeps_recorded s s' \<Longrightarrow> entry s e k \<noteq> None \<Longrightarrow> entry s' e k \<noteq> None"
  unfolding keeps_recorded_def using progressed_present by metis

interpretation recorded: task_evolution T keeps_recorded "\<lambda>_ _. True" for T
  by (unfold_locales; (erule (1) keeps_recorded_trans keeps_recorded_present)?)
     (simp_all add: keeps_recorded_def progressed_laws
      panics_recorded_finish panics_recorded_push_span panics_recorded_record)

section \<open>No lost triggers\<close>

text \<open>Nobody waits for a task that has been requested; cache and watchers have one entry per key.\<close>

definition trigger_inv :: "('e, 't, 'k, 'o, 'x, 'q) enc_state \<Rightarrow> bool" where
  "trigger_inv s \<longleftrightarrow>
     (\<forall>e. distinct (map fst (caches s e)) \<and> distinct (map fst (watchers s e)) \<and>
          (\<forall>k. entry s e k \<noteq> None \<longrightarrow> map_of (watchers s e) k = None))"

definition keeps_triggers ::
  "('e, 't, 'k, 'o, 'x, 'q) enc_state \<Rightarrow> ('e, 't, 'k, 'o, 'x, 'q) enc_state \<Rightarrow> bool" where
  "keeps_triggers s s' \<longleftrightarrow> progressed s s' \<and> (trigger_inv s \<longrightarrow> trigger_inv s')"

lemma trigger_inv_insert:
  "trigger_inv s \<Longrightarrow> entry s e k \<noteq> None \<Longrightarrow> trigger_inv (cache_insert e k v s)"
  by (auto simp: trigger_inv_def cache_insert_def distinct_update simp del: map_of_eq_Some_iff)

lemma trigger_inv_same [simp]:
  "trigger_inv (s\<lparr>slots := sl\<rparr>) = trigger_inv s"
  "trigger_inv (s\<lparr>pending := q\<rparr>) = trigger_inv s"
  by (simp_all add: trigger_inv_def)

lemma trigger_inv_request:
  assumes "trigger_inv s"
  shows "trigger_inv (cache_insert e k Enqueued (fire_watchers e k s))"
proof -
  let ?w = "snd (swap_remove k (watchers s e))"
  have d: "distinct (map fst (watchers s e))" using assms by (simp add: trigger_inv_def)
  have "distinct (map fst ?w)" "map_of ?w = (map_of (watchers s e))(k := None)"
    using swap_remove_distinct [OF d] swap_remove_map_of [OF d] by auto
  then show ?thesis using assms
    by (auto simp: trigger_inv_def cache_insert_def watchers_fire_watchers distinct_update
        simp del: map_of_eq_Some_iff split: if_splits)
qed

lemma trigger_inv_watch: "trigger_inv s \<Longrightarrow> trigger_inv (on_task_requested e k f s)"
  by (auto simp: trigger_inv_def on_task_requested_def queue_action_def distinct_update
      simp del: map_of_eq_Some_iff split: if_splits)

lemma trigger_inv_push_span: "trigger_inv s \<Longrightarrow> trigger_inv (push_span e k sp s)"
  by (auto simp: push_span_def intro!: trigger_inv_insert split: option.split cache_state.split)

lemma trigger_inv_finish:
  "trigger_inv s \<Longrightarrow> trigger_inv (snd (finish_encode T e t k need sp res deps s))"
  by (auto simp: finish_encode_def Let_def intro!: trigger_inv_insert
      split: option.split cache_state.split sum.split encode_full_error.split)

lemma trigger_inv_record:
  "trigger_inv s \<Longrightarrow> entry s e k \<noteq> None \<Longrightarrow> trigger_inv (record_panic e k err sp s)"
  by (auto simp: record_panic_def intro!: trigger_inv_insert split: option.split cache_state.split)

lemma keeps_triggers_trans: "keeps_triggers s s1 \<Longrightarrow> keeps_triggers s1 s2 \<Longrightarrow> keeps_triggers s s2"
  unfolding keeps_triggers_def by (blast intro: progressed_trans)

lemma keeps_triggers_present:
  "keeps_triggers s s' \<Longrightarrow> entry s e k \<noteq> None \<Longrightarrow> entry s' e k \<noteq> None"
  unfolding keeps_triggers_def using progressed_present by metis

lemma trigger_evolution: "emits_own T \<Longrightarrow> task_evolution T keeps_triggers (=)"
  by (unfold_locales; (erule (1) keeps_triggers_trans keeps_triggers_present)?)
     (simp_all add: emits_own_def keeps_triggers_def progressed_laws trigger_inv_insert
      trigger_inv_request trigger_inv_watch trigger_inv_push_span trigger_inv_finish
      trigger_inv_record)

section \<open>Shared cells\<close>

text \<open>A cell of \<^const>\<open>on_any_requested\<close> that has been emptied stays empty.\<close>

definition cells_kept ::
  "('e, 't, 'k, 'o, 'x, 'q) enc_state \<Rightarrow> ('e, 't, 'k, 'o, 'x, 'q) enc_state \<Rightarrow> bool" where
  "cells_kept s s' \<longleftrightarrow>
     length (slots s) \<le> length (slots s') \<and>
     (\<forall>i < length (slots s). slots s ! i = None \<longrightarrow> slots s' ! i = None)"

lemma cells_kept_same: "slots s' = slots s \<Longrightarrow> cells_kept s s'"
  by (simp add: cells_kept_def)

lemma cells_kept_trans: "cells_kept s s1 \<Longrightarrow> cells_kept s1 s2 \<Longrightarrow> cells_kept s s2"
  by (auto simp: cells_kept_def)

lemma cells_kept_slots [simp]:
  "slots (push_span e k sp s) = slots s"
  "slots (record_panic e k err sp s) = slots s"
  "slots (snd (finish_encode T e t k need sp res deps s)) = slots s"
  by (auto simp: push_span_def record_panic_def finish_encode_def Let_def
      split: option.split cache_state.split sum.split encode_full_error.split)

definition keeps_cells ::
  "('e, 't, 'k, 'o, 'x, 'q) enc_state \<Rightarrow> ('e, 't, 'k, 'o, 'x, 'q) enc_state \<Rightarrow> bool" where
  "keeps_cells s s' \<longleftrightarrow> progressed s s' \<and> cells_kept s s'"

lemma keeps_cells_trans: "keeps_cells s s1 \<Longrightarrow> keeps_cells s1 s2 \<Longrightarrow> keeps_cells s s2"
  unfolding keeps_cells_def by (blast intro: progressed_trans cells_kept_trans)

lemma keeps_cells_present:
  "keeps_cells s s' \<Longrightarrow> entry s e k \<noteq> None \<Longrightarrow> entry s' e k \<noteq> None"
  unfolding keeps_cells_def using progressed_present by metis

lemma cells_kept_update:
  "cells_kept s (s\<lparr>slots := slots s @ [c]\<rparr>)"
  "cells_kept s (s\<lparr>slots := (slots s)[i := None]\<rparr>)"
  by (simp add: cells_kept_def nth_append)
     (auto simp: cells_kept_def, metis nth_list_update_eq nth_list_update_neq)

interpretation cells: task_evolution T keeps_cells "\<lambda>_ _. True" for T
  by (unfold_locales; (erule (1) keeps_cells_trans keeps_cells_present)?)
     (simp_all add: keeps_cells_def progressed_laws cells_kept_same cells_kept_update)

lemma run_take:
  assumes "i < length (slots s)" and "slots s ! i = None"
  shows "run_action T (Suc n) (Act_take i) s = Some (Value (), s)"
  using assms by simp

section \<open>What a run of a task leaves in the cache\<close>

definition recorded_result ::
  "bool \<Rightarrow> ('k, 'o, 'x, 'q) cache_state option \<Rightarrow> ('o, 'x, 'q) encode_result option" where
  "recorded_result need_output c =
     (case c of
        Some (Encoded r _ l dep) \<Rightarrow> Some (Inr (if need_output then Some (r, l, dep) else None))
      | Some (ErrorEncode _ _ err _ _) \<Rightarrow> Some (Inl err)
      | Some (ErrorEnqueue err _) \<Rightarrow> Some (Inl err)
      | _ \<Rightarrow> None)"

lemma finish_encode_recorded:
  assumes "finish_encode T e t k need sp res deps s = (Value r, s')"
  shows "recorded_result need (entry s' e k) = Some r"
  using assms
  by (auto simp: finish_encode_def recorded_result_def Let_def
      split: option.splits cache_state.splits sum.splits encode_full_error.splits)

lemma record_panic_recorded: "recorded_result need (entry (record_panic e k err sp s) e k) = Some (Inl err)"
  by (auto simp: record_panic_def recorded_result_def split: option.split cache_state.split)

lemma encode_in_cache_recorded:
  "encode_in_cache e k need s = (Some res, s') \<Longrightarrow> recorded_result need (entry s' e k) = Some res"
  by (auto simp: encode_in_cache_def recorded_result_def split: option.splits cache_state.splits)

lemma encode_recorded:
  assumes "encode T n e t need sp s = Some (Value res, s')"
  shows "recorded_result need (entry s' e (task_to_key T e t)) = Some res"
  using assms
  by (cases n) (auto simp: Let_def record_panic_recorded encode_in_cache_recorded finish_encode_recorded
      split: prod.splits option.splits exec.splits)

lemma finish_encode_panics:
  assumes "finish_encode T e t k need sp res deps s = (Panicked p, s')"
  shows "s' = s \<and> \<not> (terminal (entry s e k) \<and> (\<exists>r d l dep. entry s e k = Some (Encoded r d l dep))) \<and>
         (p = Some (''encoder did not provide output ref for task '' @ debug_key T e k) \<or>
          p = Some (''encoder did not finish for task '' @ debug_key T e k))"
  using assms
  by (auto simp: finish_encode_def Let_def
      split: option.splits cache_state.splits sum.splits encode_full_error.splits)

section \<open>Termination of acyclic encoders\<close>

text \<open>Every task a body requires satisfies \<open>P\<close>.\<close>

primrec prog_requires :: "('e \<Rightarrow> 't \<Rightarrow> bool) \<Rightarrow> ('e, 't, 'k, 'o, 'x, 'q) enc_prog \<Rightarrow> bool" where
  "prog_requires P (Return r) = True"
| "prog_requires P (Panic p) = True"
| "prog_requires P (Emit_output_ref k r c) = (\<forall>res. prog_requires P (c res))"
| "prog_requires P (Check_cycle c) = (\<forall>res. prog_requires P (c res))"
| "prog_requires P (Require kind e t sp c) = (P e t \<and> (\<forall>res. prog_requires P (c res)))"
| "prog_requires P (Enqueue e t p) = prog_requires P p"
| "prog_requires P (On_task_requested e k f p) = prog_requires P p"
| "prog_requires P (On_all_requested e ks f p) = prog_requires P p"
| "prog_requires P (On_any_requested e ks f p) = prog_requires P p"

text \<open>\<^const>\<open>encode\<close> as the cache lookup followed by what happens after the body.\<close>

definition after_body where
  "after_body T e t k need sp m =
     (case m of
        None \<Rightarrow> None
      | Some (Panicked p, s) \<Rightarrow>
          Some (Value (Inl (PanicError (panic_message p))),
                record_panic e k (PanicError (panic_message p)) sp s)
      | Some (Value (res, deps), s) \<Rightarrow> Some (finish_encode T e t k need sp res deps s))"

lemma encode_Suc:
  "encode T (Suc n) e t need sp s =
     (case encode_in_cache e (task_to_key T e t) need s of
        (Some res, s1) \<Rightarrow> Some (Value res, s1)
      | (None, s1) \<Rightarrow>
          after_body T e t (task_to_key T e t) need sp
            (run_prog T (encode T n) e (do_encode_full T e (task_to_key T e t)) deps_new s1))"
  by (simp add: after_body_def Let_def split: prod.split option.split exec.split)

lemma after_body_eq_None: "after_body T e t k need sp m = None \<longleftrightarrow> m = None"
  by (auto simp: after_body_def split: option.split exec.split prod.split)

lemma seq_exec_returns:
  "m \<noteq> None \<Longrightarrow> (\<And>a s'. f a s' \<noteq> None) \<Longrightarrow> seq_exec m f \<noteq> None"
  by (auto simp: seq_exec_def split: option.split exec.split)

lemma encode_ref_returns:
  "(\<And>b sp s. enc e t b sp s \<noteq> None) \<Longrightarrow> encode_ref T enc e t sp s \<noteq> None"
  by (auto simp: encode_ref_def Let_def intro!: seq_exec_returns [simplified]
      split: option.split sum.split task_error.split)

lemma require_returns:
  assumes "\<And>b sp s. enc e' t b sp s \<noteq> None"
  shows "require T enc e d kind e' t sp s \<noteq> None"
proof (cases kind)
  case Req_ref
  then show ?thesis
    by (simp only: require_def Let_def require_kind.case)
       (rule seq_exec_returns [OF encode_ref_returns [of enc e' t, OF assms]], auto split: prod.split)
next
  case Req_local
  then show ?thesis
    by (simp only: require_def Let_def require_kind.case)
       (rule seq_exec_returns [OF assms], auto split: prod.split sum.split option.split)
next
  case Req_dep
  then show ?thesis
    by (simp only: require_def Let_def require_kind.case)
       (rule seq_exec_returns [OF assms], auto split: prod.split sum.split option.split)
qed

lemma run_prog_returns:
  assumes "prog_requires P p" and "\<And>e t b sp s. P e t \<Longrightarrow> enc e t b sp s \<noteq> None"
  shows "run_prog T enc e p d s \<noteq> None"
  using assms(1)
proof (induction p arbitrary: d s)
  case (Require kind e' t sp c)
  then have "require T enc e d kind e' t sp s \<noteq> None"
    using assms(2) by (intro require_returns) simp
  then show ?case using Require by (simp only: run_prog.simps) (rule seq_exec_returns, auto)
next
  case (Emit_output_ref k r c)
  then show ?case by (simp only: run_prog.simps) (rule seq_exec_returns, auto)
next
  case (Enqueue e' t p)
  then show ?case by (simp only: run_prog.simps) (rule seq_exec_returns, auto)
qed simp_all

lemma encode_returns:
  assumes "\<And>e k. prog_requires (\<lambda>e' t. depth e' (task_to_key T e' t) < depth e k) (do_encode_full T e k)"
    and "depth e (task_to_key T e t) < n"
  shows "encode T n e t need sp s \<noteq> None"
  using assms(2)
proof (induction n arbitrary: e t need sp s)
  case (Suc n)
  have "run_prog T (encode T n) e (do_encode_full T e (task_to_key T e t)) deps_new s' \<noteq> None" for s'
    by (rule run_prog_returns [OF assms(1)], rule Suc.IH) (use Suc.prems in simp)
  then show ?case unfolding encode_Suc by (simp add: after_body_eq_None del: not_None_eq split: prod.split option.split)
qed simp

text \<open>More fuel never changes a result.\<close>

lemma seq_exec_mono:
  assumes "seq_exec m f = Some x" and "\<And>y. m = Some y \<Longrightarrow> m' = Some y"
    and "\<And>a s. m = Some (Value a, s) \<Longrightarrow> f a s = Some x \<Longrightarrow> f' a s = Some x"
  shows "seq_exec m' f' = Some x"
  using assms by (auto simp: seq_exec_def split: option.splits exec.splits)

lemma encode_ref_mono:
  assumes "\<And>b sp s y. enc e t b sp s = Some y \<Longrightarrow> enc' e t b sp s = Some y"
    and "encode_ref T enc e t sp s = Some x"
  shows "encode_ref T enc' e t sp s = Some x"
proof (cases "cached_ref (entry s e (task_to_key T e t))")
  case None
  with assms(2) show ?thesis
    by (simp add: encode_ref_def Let_def) (erule seq_exec_mono; simp add: assms(1))
next
  case (Some r)
  with assms(2) show ?thesis by (simp add: encode_ref_def Let_def)
qed

lemma require_mono:
  assumes "\<And>e t b sp s y. enc e t b sp s = Some y \<Longrightarrow> enc' e t b sp s = Some y"
    and "require T enc e d kind e' t sp s = Some x"
  shows "require T enc' e d kind e' t sp s = Some x"
  using assms(2)
  by (cases kind)
     (simp_all add: require_def Let_def, (erule seq_exec_mono; simp add: assms(1) encode_ref_mono [of enc _ _ enc'])+)

lemma run_prog_mono:
  assumes "\<And>e t b sp s y. enc e t b sp s = Some y \<Longrightarrow> enc' e t b sp s = Some y"
    and "run_prog T enc e p d s = Some x"
  shows "run_prog T enc' e p d s = Some x"
  using assms(2)
proof (induction p arbitrary: d s)
  case (Require kind e' t sp c)
  from Require.prems show ?case
    unfolding run_prog.simps
    by (rule seq_exec_mono) (auto intro: require_mono [OF assms(1)] Require.IH)
next
  case (Emit_output_ref k r c)
  from Emit_output_ref.prems show ?case
    unfolding run_prog.simps
    by (rule seq_exec_mono) (auto intro: Emit_output_ref.IH)
next
  case (Enqueue e' t p)
  from Enqueue.prems show ?case
    unfolding run_prog.simps
    by (rule seq_exec_mono) (auto intro: Enqueue.IH)
qed simp_all

lemma encode_Suc_mono: "encode T n e t need sp s = Some x \<Longrightarrow> encode T (Suc n) e t need sp s = Some x"
proof (induction n arbitrary: e t need sp s x)
  case (Suc n)
  define k where "k = task_to_key T e t"
  have mono: "run_prog T (encode T n) e (do_encode_full T e k) deps_new s1 = Some y \<Longrightarrow>
              run_prog T (encode T (Suc n)) e (do_encode_full T e k) deps_new s1 = Some y" for s1 y
    by (rule run_prog_mono [OF Suc.IH])
  have "after_body T e t k need sp (run_prog T (encode T (Suc n)) e (do_encode_full T e k) deps_new s1) = Some x"
    if "after_body T e t k need sp (run_prog T (encode T n) e (do_encode_full T e k) deps_new s1) = Some x" for s1
  proof (cases "run_prog T (encode T n) e (do_encode_full T e k) deps_new s1")
    case None
    then show ?thesis using that by (simp add: after_body_def)
  next
    case (Some y)
    then show ?thesis using that mono [OF Some] by (simp only:)
  qed
  moreover obtain r s1 where c: "encode_in_cache e k need s = (r, s1)" by fastforce
  ultimately show ?case
    using Suc.prems unfolding encode_Suc [of T n] encode_Suc [of T "Suc n"] k_def [symmetric] c
    by (cases r) (simp_all del: encode.simps)
qed simp

lemma encode_mono: "encode T n e t need sp s = Some x \<Longrightarrow> n \<le> m \<Longrightarrow> encode T m e t need sp s = Some x"
  by (induction m) (auto simp: le_Suc_eq intro: encode_Suc_mono simp del: encode.simps)

section \<open>Conjunctive triggers\<close>

lemma drain_on_all:
  assumes "pending s = []" and "\<forall>k\<in>set b. entry s e k \<noteq> None"
  shows "drain_triggers T (length b + (n + 2)) (on_all_requested e (a @ b) f s) =
         drain_triggers T (n + 2) (on_all_requested e a f s)"
  using assms(2)
proof (induction b rule: rev_induct)
  case (snoc k b)
  let ?act = "Act_on_all e (a @ b) f Done"
  have q: "on_all_requested e (a @ b @ [k]) f s = s\<lparr>pending := [?act]\<rparr>"
    using snoc.prems assms(1)
    by (auto simp: on_all_requested_def on_task_requested_def queue_action_def butlast_append)
  have "s\<lparr>pending := []\<rparr> = s" using assms(1) by simp
  then have "drain_triggers T (length (b @ [k]) + (n + 2)) (on_all_requested e (a @ b @ [k]) f s) =
             drain_triggers T (length b + (n + 2)) (on_all_requested e (a @ b) f s)"
    by (simp add: q split: list.split)
  then show ?case using snoc by simp
qed simp

lemma drain_waiting:
  assumes "pending s = []" and "a \<noteq> []" and "entry s e (last a) = None"
  shows "drain_triggers T (Suc n) (on_all_requested e a f s) = Some (Value (), on_all_requested e a f s)"
  using assms by (simp add: on_all_requested_def on_task_requested_def)

lemma drain_pending:
  "drain_triggers T n s = Some (Value (), s') \<Longrightarrow> pending s' = []"
proof (induction n arbitrary: s)
  case (Suc n)
  show ?case
  proof (cases "pending s")
    case Nil
    then show ?thesis using Suc.prems by simp
  next
    case (Cons f fs)
    then show ?thesis using Suc by (auto elim!: seq_exec_Some)
  qed
qed simp

section \<open>Collected outputs\<close>

lemma all_outputs_local_Value:
  assumes "\<forall>(k, c) \<in> set m. terminal (Some c)"
  shows "all_outputs_local dbg m = Value
     ([l. (k, Encoded r d l dep) \<leftarrow> m],
      concat (map (\<lambda>(k, c). case c of ErrorEncode _ _ err _ sps \<Rightarrow> [(k, err, sps)]
                                    | ErrorEnqueue err sps \<Rightarrow> [(k, err, sps)] | _ \<Rightarrow> []) m))"
  using assms
proof (induction m)
  case (Cons p m)
  then show ?case by (cases p; cases "snd p") auto
qed simp

lemma all_outputs_local_panics:
  assumes "m = m1 @ (k, c) # m2" and "\<forall>(k, c) \<in> set m1. terminal (Some c)" and "\<not> terminal (Some c)"
  shows "all_outputs_local dbg m = panic (''task encoder not completed: '' @ dbg k)"
  unfolding assms(1) using assms(2)
proof (induction m1)
  case Nil
  then show ?case using assms(3) by (cases c) auto
next
  case (Cons p m1)
  then show ?case by (cases p; cases "snd p") auto
qed

end
