(* ===== verification/Task_Encoder_Props.thy ===== *)
theory Task_Encoder_Props
  imports Task_Encoder_Laws
begin

text \<open>
  The properties of the task encoder, and a small table of two encoders on which they are
  evaluated: a function encoder (0) that requires the type encoder (1) for the same key.
\<close>

definition enc_init :: "('e, 't, 'k, 'o, 'x, 'q) enc_state" where
  "enc_init = \<lparr>caches = \<lambda>_. [], watchers = \<lambda>_. [], pending = [], slots = []\<rparr>"

abbreviation demo_init :: "(nat, nat, nat, nat, string, unit) enc_state" where
  "demo_init \<equiv> enc_init"

definition fn_body :: "nat \<Rightarrow> (nat, nat, nat, nat, string, unit) enc_prog" where
  "fn_body k =
     Emit_output_ref k (10 + k) (\<lambda>res. case res of
       Inl err \<Rightarrow> Return (Inl err)
     | Inr _ \<Rightarrow> Require Req_local 1 k None (\<lambda>res. case res of
         Inl err \<Rightarrow> Return (Inl err)
       | Inr l \<Rightarrow> Return (Inr (l, l + 1))))"

definition ty_body :: "nat \<Rightarrow> (nat, nat, nat, nat, string, unit) enc_prog" where
  "ty_body k =
     Emit_output_ref k (20 + k) (\<lambda>res. case res of
       Inl err \<Rightarrow> Return (Inl err)
     | Inr _ \<Rightarrow> Return (if k = 0 then Inl (FullEncodingError ''unsupported'' None) else Inr (k, k)))"

definition demo_encoders :: "(nat, nat, nat, nat, string, unit) task_encoder" where
  "demo_encoders =
     \<lparr>ENCODER_NAME = (\<lambda>e. if e = 0 then ''fn'' else ''ty''), describe_task = (\<lambda>e t. ''task''),
      describe_error = (\<lambda>e x. x), debug_key = (\<lambda>e k. ''key''), task_to_key = (\<lambda>e t. t),
      do_encode_full = (\<lambda>e k. if e = 0 then fn_body k else ty_body k)\<rparr>"

lemmas demo_defs = demo_encoders_def fn_body_def ty_body_def enc_init_def deps_new_def
  encode_in_cache_def finish_encode_def emit_output_ref_def check_cycle_def require_def
  require_common_def encode_ref_def cached_ref_def cache_insert_def fire_watchers_def
  swap_remove_def record_panic_def push_span_def

lemma demo_key [simp]: "task_to_key demo_encoders e t = t"
  by (simp add: demo_encoders_def)

lemma demo_run:
  "encode demo_encoders 2 0 5 True 7 enc_init =
     Some (Value (Inr (Some (15, 5, 6))),
           enc_init\<lparr>caches := (\<lambda>_. [])(0 := [(5, Encoded 15 \<lparr>task_key = Some 5, deps_local = [], deps_dep = []\<rparr> 5 6)],
                                   1 := [(5, Encoded 25 \<lparr>task_key = Some 5, deps_local = [], deps_dep = []\<rparr> 5 5)])\<rparr>)"
  by (simp add: demo_defs numeral_2_eq_2 fun_eq_iff)


section \<open>Results and the cache\<close>

text \<open>C5: Whenever \<^const>\<open>encode\<close> returns, the entry of its task is finished and the result is
  exactly what the entry records: the three outputs of an encoded task (or \<^verbatim>\<open>Ok(None)\<close> when
  the caller does not need them), or the recorded error. In particular a caller that needs the
  output never gets \<^verbatim>\<open>Ok(None)\<close>, so the \<^verbatim>\<open>Option::unwrap\<close> in \<^verbatim>\<open>require_local\<close> and
  \<^verbatim>\<open>require_dep\<close> cannot panic.\<close>

theorem encode_returns_recorded:
  assumes "encode T n e t need sp s = Some (Value res, s')"
  shows "case entry s' e (task_to_key T e t) of
           Some (Encoded r d l dep) \<Rightarrow> res = Inr (if need then Some (r, l, dep) else None)
         | Some (ErrorEncode r d err dep sps) \<Rightarrow> res = Inl err
         | Some (ErrorEnqueue err sps) \<Rightarrow> res = Inl err
         | _ \<Rightarrow> False"
  using encode_recorded [OF assms]
  by (auto simp: recorded_result_def split: option.splits cache_state.splits)

theorem encode_returns_recorded_witness:
  "\<exists>s'. encode demo_encoders 2 0 5 True 7 enc_init = Some (Value (Inr (Some (15, 5, 6))), s') \<and>
        (\<exists>d. entry s' 0 5 = Some (Encoded 15 d 5 6))"
  using encode_returns_recorded [OF demo_run] by (simp add: demo_run)

text \<open>C22: The entries of all caches only move forward, in the order absent, enqueued, started,
  finished, whatever the encoder bodies do and whether the run returns or unwinds; a finished
  entry stays finished and no entry is removed.\<close>

theorem encode_progress:
  assumes "encode T n e t need sp s = Some (r, s')"
  shows "rank (entry s e' k) \<le> rank (entry s' e' k)"
  using ranks.encode_evolves [OF assms] by (simp add: progressed_def)

theorem encode_progress_witness:
  "\<exists>s'. encode demo_encoders 2 0 5 True 7 enc_init = Some (Value (Inr (Some (15, 5, 6))), s') \<and>
        rank (entry demo_init 1 5) \<le> rank (entry s' 1 5)"
  by (rule exI, rule conjI [OF demo_run encode_progress [OF demo_run]])

text \<open>\<^const>\<open>encode_ref\<close> adds no panic of its own: when failed entries without a reference
  record panics (which every run keeps), its \<^verbatim>\<open>panic!\<close> for a missing output reference is
  unreachable, and it unwinds only when the nested \<^const>\<open>encode\<close> does.\<close>

theorem encode_ref_panics:
  assumes "panics_recorded s" and "encode_ref T (encode T n) e t sp s = Some (Panicked p, s')"
  shows "encode T n e t False sp s = Some (Panicked p, s')"
proof -
  let ?k = "task_to_key T e t"
  have c: "cached_ref (entry s e ?k) = None"
    using assms(2) by (auto simp: encode_ref_def Let_def split: option.splits)
  from assms(2) c have "seq_exec (encode T n e t False sp s) (\<lambda>res s.
            let after = (case cached_ref (entry s e ?k) of
                           Some r \<Rightarrow> Some (Value (Inr r), s)
                         | None \<Rightarrow> Some (panic ''output ref not found after encoding'', s))
            in case res of Inr _ \<Rightarrow> after | Inl (DependencyError _) \<Rightarrow> after
               | Inl err \<Rightarrow> Some (Value (Inl err), s)) = Some (Panicked p, s')"
    by (simp add: encode_ref_def Let_def)
  then show ?thesis
  proof (cases rule: seq_exec_Some)
    case (2 res s1)
    have "panics_recorded s1"
      using recorded.encode_evolves [OF 2(1)] assms(1) by (simp add: keeps_recorded_def)
    moreover have "recorded_result False (entry s1 e ?k) = Some res"
      using encode_recorded [OF 2(1)] .
    ultimately show ?thesis using 2(2)
      by (auto simp: Let_def recorded_result_def cached_ref_def panics_recorded_def
          split: sum.splits task_error.splits option.splits cache_state.splits)
  qed simp
qed

text \<open>A body that returns without emitting makes \<^const>\<open>encode\<close> panic.\<close>

definition silent_encoders :: "(nat, nat, nat, nat, string, unit) task_encoder" where
  "silent_encoders = demo_encoders\<lparr>do_encode_full := (\<lambda>e k. Return (Inr (k, k)))\<rparr>"

lemma silent_run:
  "encode silent_encoders 1 0 5 False 7 enc_init =
     Some (panic ''encoder did not provide output ref for task key'',
           enc_init\<lparr>caches := (\<lambda>_. [])(0 := [(5, Enqueued)])\<rparr>)"
  by (simp add: demo_defs silent_encoders_def fun_eq_iff)

theorem encode_ref_panics_witness:
  "\<exists>s'. panics_recorded (enc_init :: (nat, nat, nat, nat, string, unit) enc_state) \<and>
        encode_ref silent_encoders (encode silent_encoders 1) 0 5 7 enc_init =
          Some (panic ''encoder did not provide output ref for task key'', s') \<and>
        encode silent_encoders 1 0 5 False 7 enc_init =
          Some (panic ''encoder did not provide output ref for task key'', s')"
proof -
  have r: "panics_recorded (enc_init :: (nat, nat, nat, nat, string, unit) enc_state)"
    by (simp add: panics_recorded_def enc_init_def)
  have e: "encode_ref silent_encoders (encode silent_encoders 1) 0 5 7 enc_init =
          Some (panic ''encoder did not provide output ref for task key'',
                enc_init\<lparr>caches := (\<lambda>_. [])(0 := [(5, Enqueued)])\<rparr>)"
    by (simp add: demo_defs silent_encoders_def fun_eq_iff)
  show ?thesis using r e encode_ref_panics [OF r e] by blast
qed

text \<open>C28: A panic of an encoder body never leaves \<^const>\<open>encode\<close>, which turns it into a recorded
  \<^verbatim>\<open>PanicError\<close>. The only panics that leave it are its own two complaints about a body that
  returned without emitting its output reference, or claimed to be already encoded when it was
  not; the task is then not left encoded.\<close>

theorem encode_panics:
  assumes "encode T n e t need sp s = Some (Panicked p, s')"
  shows "(p = Some (''encoder did not provide output ref for task '' @ debug_key T e (task_to_key T e t)) \<or>
          p = Some (''encoder did not finish for task '' @ debug_key T e (task_to_key T e t))) \<and>
         (\<forall>r d l dep. entry s' e (task_to_key T e t) \<noteq> Some (Encoded r d l dep))"
  using assms
  by (cases n) (auto simp: encode_Suc after_body_def simp del: encode.simps(2) dest!: finish_encode_panics
      split: prod.splits option.splits exec.splits)

theorem encode_panics_witness:
  "\<exists>s'. encode silent_encoders 1 0 5 False 7 enc_init =
          Some (panic ''encoder did not provide output ref for task key'', s') \<and>
        (\<forall>r d l dep. entry s' 0 5 \<noteq> Some (Encoded r d l dep))"
proof -
  have key: "task_to_key silent_encoders 0 5 = 5" by (simp add: silent_encoders_def)
  show ?thesis
    using silent_run conjunct2 [OF encode_panics [OF silent_run], unfolded key] by blast
qed

section \<open>Triggers\<close>






text \<open>\<^const>\<open>on_all_requested\<close> is a conjunction: with an empty queue, when the keys \<open>b\<close> are
  already requested, draining runs the continuation as if it had been queued directly if \<open>b\<close>
  is everything, and otherwise, if the last key of the remaining ones is not requested, leaves the
  continuation waiting for that key and runs nothing.\<close>

theorem on_all_requested_spec:
  assumes "pending s = []" and "\<forall>k\<in>set b. entry s e k \<noteq> None"
  shows "drain_triggers T (length b + (n + 2)) (on_all_requested e b f s) =
           drain_triggers T (n + 2) (queue_action f s) \<and>
         (a \<noteq> [] \<and> entry s e (last a) = None \<longrightarrow>
          drain_triggers T (length b + (n + 2)) (on_all_requested e (a @ b) f s) =
            Some (Value (), s\<lparr>watchers := (watchers s)(e := AList.update (last a)
                 ((case map_of (watchers s e) (last a) of None \<Rightarrow> [] | Some fs \<Rightarrow> fs)
                  @ [Act_on_all e (butlast a) f Done]) (watchers s e))\<rparr>))"
proof (intro conjI impI)
  show "drain_triggers T (length b + (n + 2)) (on_all_requested e b f s) =
        drain_triggers T (n + 2) (queue_action f s)"
    using drain_on_all [OF assms, of T n "[]" f] by (simp add: on_all_requested_def)
next
  assume a: "a \<noteq> [] \<and> entry s e (last a) = None"
  then show "drain_triggers T (length b + (n + 2)) (on_all_requested e (a @ b) f s) =
        Some (Value (), s\<lparr>watchers := (watchers s)(e := AList.update (last a)
                 ((case map_of (watchers s e) (last a) of None \<Rightarrow> [] | Some fs \<Rightarrow> fs)
                  @ [Act_on_all e (butlast a) f Done]) (watchers s e))\<rparr>)"
    using drain_on_all [OF assms, of T n a f] drain_waiting [OF assms(1), of a e T "n + 1" f]
    by (simp add: on_all_requested_def on_task_requested_def)
qed

theorem on_all_requested_spec_witness:
  "drain_triggers demo_encoders (length [5 :: nat] + (0 + 2))
     (on_all_requested 1 [5] Done (enc_init\<lparr>caches := (\<lambda>_. [])(1 := [(5, Enqueued)])\<rparr>)) =
   drain_triggers demo_encoders (0 + 2)
     (queue_action Done (enc_init\<lparr>caches := (\<lambda>_. [])(1 := [(5, Enqueued)])\<rparr>))"
  by (rule on_all_requested_spec [THEN conjunct1]) (simp_all add: enc_init_def)

text \<open>The continuation of \<^const>\<open>on_any_requested\<close> runs at most once: after one of its
  waiting closures has run, and after any further draining, the other closures that share its
  cell do nothing.\<close>

theorem on_any_requested_once:
  assumes "i < length (slots s)" and "run_action T n (Act_take i) s = Some (r, s1)"
    and "drain_triggers T m s1 = Some (r', s2)"
  shows "run_action T (Suc n') (Act_take i) s2 = Some (Value (), s2)"
proof -
  let ?s0 = "s\<lparr>slots := (slots s)[i := None]\<rparr>"
  have "cells_kept ?s0 s1"
  proof (cases n)
    case (Suc n0)
    show ?thesis
    proof (cases "slots s ! i")
      case None
      then have "(slots s)[i := None] = slots s" by (metis list_update_id)
      then show ?thesis using None assms(1,2) Suc by (simp add: cells_kept_same)
    next
      case (Some f)
      then have "run_action T n0 f ?s0 = Some (r, s1)" using assms(1,2) Suc by simp
      from cells.keepsD [OF cells.run_action_keeps this] show ?thesis by (simp add: keeps_cells_def)
    qed
  qed (use assms in simp)
  moreover have "cells_kept s1 s2"
    using cells.drain_triggers_evolves [OF assms(3)] by (simp add: keeps_cells_def)
  ultimately have "cells_kept ?s0 s2" by (rule cells_kept_trans)
  then show ?thesis using assms(1) by (intro run_take) (auto simp: cells_kept_def)
qed

theorem on_any_requested_once_witness:
  "\<exists>s1 s2. run_action demo_encoders 2 (Act_take 0) (demo_init\<lparr>slots := [Some Done]\<rparr>) = Some (Value (), s1) \<and>
           drain_triggers demo_encoders 1 s1 = Some (Value (), s2) \<and>
           run_action demo_encoders (Suc 3) (Act_take 0) s2 = Some (Value (), s2)"
proof -
  define s1 where "s1 = (demo_init\<lparr>slots := [None]\<rparr>)"
  have 1: "run_action demo_encoders 2 (Act_take 0) (demo_init\<lparr>slots := [Some Done]\<rparr>) = Some (Value (), s1)"
    by (simp add: s1_def numeral_2_eq_2)
  have 2: "drain_triggers demo_encoders 1 s1 = Some (Value (), s1)" by (simp add: s1_def enc_init_def)
  show ?thesis using on_any_requested_once [OF _ 1 2, of 3] 1 2 by auto
qed

section \<open>Termination\<close>

text \<open>C24: When the bodies require only tasks of smaller depth (no cyclic dependencies),
  \<^const>\<open>encode\<close> returns or unwinds, in every state, and the outcome is the same for every
  nesting bound above the depth of the task.\<close>

theorem encode_terminates:
  assumes "\<And>e k. prog_requires (\<lambda>e' t. depth e' (task_to_key T e' t) < depth e k) (do_encode_full T e k)"
  shows "\<exists>r s'. \<forall>n > depth e (task_to_key T e t). encode T n e t need sp s = Some (r, s')"
proof -
  let ?d = "depth e (task_to_key T e t)"
  have "encode T (Suc ?d) e t need sp s \<noteq> None"
    by (rule encode_returns [where depth = depth, OF assms]) simp
  then obtain r s' where "encode T (Suc ?d) e t need sp s = Some (r, s')"
    by (metis not_None_eq surj_pair)
  then have "encode T n e t need sp s = Some (r, s')" if "?d < n" for n
    by (rule encode_mono) (use that in simp)
  then show ?thesis by blast
qed

lemma demo_depth:
  "prog_requires (\<lambda>e' t. (if e' = 0 then 1 else 0) < (if e = 0 then 1 else 0 :: nat)) (do_encode_full demo_encoders e k)"
  by (auto simp: demo_encoders_def fn_body_def ty_body_def split: sum.split)

theorem encode_terminates_witness:
  "\<exists>r s'. \<forall>n > 1. encode demo_encoders n 0 5 True 7 demo_init = Some (r, s')"
  using encode_terminates [where depth = "\<lambda>e k. if e = 0 then 1 else 0" and T = demo_encoders and e = 0 and t = 5
      and need = True and sp = 7 and s = demo_init, OF demo_depth]
  by simp

section \<open>Outputs\<close>

text \<open>\<^const>\<open>all_outputs_local\<close> splits a cache of finished tasks, in insertion order, into the
  local outputs of the encoded ones and the recorded errors of the failed ones; when some task is
  unfinished it panics on the first such task.\<close>

theorem all_outputs_local_spec:
  "all_outputs_local dbg m =
     (case dropWhile (\<lambda>(k, c). terminal (Some c)) m of
        (k, c) # _ \<Rightarrow> panic (''task encoder not completed: '' @ dbg k)
      | [] \<Rightarrow> Value ([l. (k, Encoded r d l dep) \<leftarrow> m],
                concat (map (\<lambda>(k, c). case c of ErrorEncode _ _ err _ sps \<Rightarrow> [(k, err, sps)]
                                              | ErrorEnqueue err sps \<Rightarrow> [(k, err, sps)] | _ \<Rightarrow> []) m)))"
proof (cases "dropWhile (\<lambda>(k, c). terminal (Some c)) m")
  case Nil
  then have "\<forall>(k, c) \<in> set m. terminal (Some c)" by (simp add: dropWhile_eq_Nil_conv)
  then show ?thesis unfolding Nil list.case by (rule all_outputs_local_Value)
next
  case (Cons p m2)
  obtain k c where p: "p = (k, c)" by fastforce
  have m: "m = takeWhile (\<lambda>(k, c). terminal (Some c)) m @ (k, c) # m2"
    using Cons p takeWhile_dropWhile_id [of "\<lambda>(k, c). terminal (Some c)" m] by simp
  have c: "\<not> terminal (Some c)" using Cons p by (simp add: dropWhile_eq_Cons_conv)
  have "\<forall>(k, c) \<in> set (takeWhile (\<lambda>(k, c). terminal (Some c)) m). terminal (Some c)"
    by (auto dest: set_takeWhileD)
  from all_outputs_local_panics [OF m this c] show ?thesis unfolding Cons p list.case prod.case .
qed

section \<open>Nested invocations of the same task\<close>

text \<open>
  When an inner invocation of the same task has failed, the outer invocation panics before it
  looks at the result of its body: the branch that would return the recorded error after
  \<^verbatim>\<open>AlreadyEncoded\<close> is unreachable.
\<close>

lemma finish_encode_inner_failed:
  assumes "terminal (entry s e k)" and "\<forall>r d l dep. entry s e k \<noteq> Some (Encoded r d l dep)"
  shows "finish_encode T e t k need sp (Inl AlreadyEncoded) deps s =
           (panic (''encoder did not provide output ref for task '' @ debug_key T e k), s)"
  using assms
  by (cases "entry s e k" rule: terminal.cases) (auto simp: finish_encode_def)

text \<open>
  Two encoders that depend on each other: 0 requires the reference of 1 before it emits its own,
  1 requires the reference of 0 and then fails. The inner invocation of 0 succeeds, and the outer
  one, which is not told so because \<^verbatim>\<open>require_common\<close> checks for the cycle only after a success,
  replaces the encoded entry by an error.
\<close>

definition cyclic_encoders :: "(nat, nat, nat, nat, string, unit) task_encoder" where
  "cyclic_encoders = demo_encoders\<lparr>do_encode_full := (\<lambda>e k.
     if e = 0 then
       Require Req_ref 1 k None (\<lambda>res. case res of
         Inl err \<Rightarrow> Return (Inl err)
       | Inr _ \<Rightarrow> Emit_output_ref k 10 (\<lambda>res. case res of
           Inl err \<Rightarrow> Return (Inl err)
         | Inr _ \<Rightarrow> Return (Inr (11, 12))))
     else
       Emit_output_ref k 20 (\<lambda>res. case res of
         Inl err \<Rightarrow> Return (Inl err)
       | Inr _ \<Rightarrow> Require Req_local 0 k None (\<lambda>res. case res of
           Inl err \<Rightarrow> Return (Inl err)
         | Inr l \<Rightarrow> if l = 11 then Return (Inl (FullEncodingError ''unsupported'' None))
                    else Return (Inr (l, l)))))\<rparr>"

theorem encoded_entry_overwritten:
  "\<exists>s' err d sps. encode cyclic_encoders 3 0 5 False 7 enc_init = Some (Value (Inl err), s') \<and>
     entry s' 0 5 = Some (ErrorEncode 10 d err None sps)"
  by (simp add: demo_defs cyclic_encoders_def numeral_3_eq_3 Let_def)

text \<open>
  A body that gives up on an error before it emitted its reference leaves its entry enqueued, on
  which \<^const>\<open>all_outputs_local\<close> panics.
\<close>

definition early_error_encoders :: "(nat, nat, nat, nat, string, unit) task_encoder" where
  "early_error_encoders = demo_encoders\<lparr>do_encode_full := (\<lambda>e k.
     if e = 0 then
       Require Req_local 1 k None (\<lambda>res. case res of
         Inl err \<Rightarrow> Return (Inl err)
       | Inr l \<Rightarrow> Emit_output_ref k 10 (\<lambda>res. case res of
           Inl err \<Rightarrow> Return (Inl err)
         | Inr _ \<Rightarrow> Return (Inr (l, l))))
     else ty_body k)\<rparr>"

theorem early_error_left_enqueued:
  "\<exists>s'. encode early_error_encoders 3 0 0 False 7 enc_init =
          Some (panic ''encoder did not provide output ref for task key'', s') \<and>
        all_outputs_local (debug_key early_error_encoders 0) (caches s' 0) =
          panic ''task encoder not completed: key''"
  by (simp add: demo_defs early_error_encoders_def numeral_3_eq_3 Let_def)

end
