(* ===== verification/Preparser_Tokens.thy ===== *)
theory Preparser_Tokens
  imports Prusti_Prelude
begin

text \<open>
  First stage of \<^verbatim>\<open>prusti-specs/src/specifications/preparser.rs\<close>: a Rust token stream is
  mapped to a stream of Prusti tokens, in which the operators of the specification language and
  the Rust operators of lower precedence are recognised. Source spans are erased.
\<close>

section \<open>Tokens\<close>

datatype spacing = Alone | Joint

datatype delimiter = Parenthesis | Brace | Bracket | No_delimiter

datatype token_tree =
    Group delimiter "token_tree list"
  | Ident string
  | Punct char spacing
  | Literal string

type_synonym token_stream = "token_tree list"

datatype rust_op =
    RangeInclusive | LeftShiftAssign | RightShiftAssign | Range | AddAssign | SubtractAssign
  | MultiplyAssign | DivideAssign | ModuloAssign | BitAndAssign | BitXorAssign | Arrow | Comma
  | Semicolon | Assign

datatype binary_op =
  Rust rust_op | Iff | Implies | ImpliesReverse | Or | And | SnapEq | SnapNe

datatype marker_kind = Old | Rel nat | BeforeExpiry

datatype quantifier = Forall | Exists

datatype prusti_token =
    PGroup delimiter "prusti_token list"
  | PToken token_tree
  | BinOp binary_op
  | Outer
  | PQuantifier quantifier
  | SpecEnt bool
  | CallDesc bool
  | ModeMarker marker_kind

section \<open>Recognising operators\<close>

definition operator2 :: "string \<Rightarrow> token_tree \<Rightarrow> token_tree \<Rightarrow> bool" where
  "operator2 op t1 t2 =
     (case (t1, t2) of
        (Punct c1 s1, Punct c2 s2) \<Rightarrow> [c1, c2] = take 2 op \<and> s1 = Joint \<and> s2 = Alone
      | _ \<Rightarrow> False)"

definition operator3 :: "string \<Rightarrow> token_tree \<Rightarrow> token_tree \<Rightarrow> token_tree \<Rightarrow> bool" where
  "operator3 op t1 t2 t3 =
     (case (t1, t2, t3) of
        (Punct c1 s1, Punct c2 s2, Punct c3 s3) \<Rightarrow>
          [c1, c2, c3] = take 3 op \<and> s1 = Joint \<and> s2 = Joint \<and> s3 = Alone
      | _ \<Rightarrow> False)"

definition operator4 :: "string \<Rightarrow> token_tree \<Rightarrow> token_tree \<Rightarrow> token_tree \<Rightarrow> token_tree \<Rightarrow> bool" where
  "operator4 op t1 t2 t3 t4 =
     (case (t1, t2, t3, t4) of
        (Punct c1 s1, Punct c2 s2, Punct c3 s3, Punct c4 s4) \<Rightarrow>
          [c1, c2, c3, c4] = take 4 op \<and> s1 = Joint \<and> s2 = Joint \<and> s3 = Joint \<and> s4 = Alone
      | _ \<Rightarrow> False)"

definition parse_op2 :: "token_tree \<Rightarrow> token_tree \<Rightarrow> prusti_token option" where
  "parse_op2 p1 p2 =
     (if operator2 ''&&'' p1 p2 then Some (BinOp And)
      else if operator2 ''||'' p1 p2 then Some (BinOp Or)
      else if operator2 ''->'' p1 p2 then Some (BinOp Implies)
      else if operator2 ''..'' p1 p2 then Some (BinOp (Rust Range))
      else if operator2 ''+='' p1 p2 then Some (BinOp (Rust AddAssign))
      else if operator2 ''-='' p1 p2 then Some (BinOp (Rust SubtractAssign))
      else if operator2 ''*='' p1 p2 then Some (BinOp (Rust MultiplyAssign))
      else if operator2 ''/='' p1 p2 then Some (BinOp (Rust DivideAssign))
      else if operator2 ''%='' p1 p2 then Some (BinOp (Rust ModuloAssign))
      else if operator2 ''&='' p1 p2 then Some (BinOp (Rust BitAndAssign))
      else if operator2 ''^='' p1 p2 then Some (BinOp (Rust BitXorAssign))
      else if operator2 ''=>'' p1 p2 then Some (BinOp (Rust Arrow))
      else if operator2 ''|='' p1 p2 then Some (SpecEnt False)
      else if operator2 ''~>'' p1 p2 then Some (CallDesc False)
      else None)"

definition parse_op3 :: "token_tree \<Rightarrow> token_tree \<Rightarrow> token_tree \<Rightarrow> prusti_token option" where
  "parse_op3 p1 p2 p3 =
     (if operator3 ''==>'' p1 p2 p3 then Some (BinOp Implies)
      else if operator3 ''<=='' p1 p2 p3 then Some (BinOp ImpliesReverse)
      else if operator3 ''==='' p1 p2 p3 then Some (BinOp SnapEq)
      else if operator3 ''!=='' p1 p2 p3 then Some (BinOp SnapNe)
      else if operator3 ''..='' p1 p2 p3 then Some (BinOp (Rust RangeInclusive))
      else if operator3 ''<<='' p1 p2 p3 then Some (BinOp (Rust LeftShiftAssign))
      else if operator3 ''>>='' p1 p2 p3 then Some (BinOp (Rust RightShiftAssign))
      else if operator3 ''|=!'' p1 p2 p3 then Some (SpecEnt True)
      else if operator3 ''~>!'' p1 p2 p3 then Some (CallDesc True)
      else None)"

definition parse_op4 :: "token_tree \<Rightarrow> token_tree \<Rightarrow> token_tree \<Rightarrow> token_tree \<Rightarrow> prusti_token option" where
  "parse_op4 p1 p2 p3 p4 = (if operator4 ''<==>'' p1 p2 p3 p4 then Some (BinOp Iff) else None)"

text \<open>The three operator arms of the match in \<^verbatim>\<open>PrustiTokenStream::new\<close>, longest first.\<close>

definition op4_prefix :: "token_stream \<Rightarrow> (prusti_token \<times> token_stream) option" where
  "op4_prefix ts =
     (case ts of
        p1 # p2 # p3 # p4 # rest \<Rightarrow> map_option (\<lambda>op. (op, rest)) (parse_op4 p1 p2 p3 p4)
      | _ \<Rightarrow> None)"

definition op3_prefix :: "token_stream \<Rightarrow> (prusti_token \<times> token_stream) option" where
  "op3_prefix ts =
     (case ts of
        p1 # p2 # p3 # rest \<Rightarrow> map_option (\<lambda>op. (op, rest)) (parse_op3 p1 p2 p3)
      | _ \<Rightarrow> None)"

definition op2_prefix :: "token_stream \<Rightarrow> (prusti_token \<times> token_stream) option" where
  "op2_prefix ts =
     (case ts of
        p1 # p2 # rest \<Rightarrow> map_option (\<lambda>op. (op, rest)) (parse_op2 p1 p2)
      | _ \<Rightarrow> None)"

definition op_prefix :: "token_stream \<Rightarrow> (prusti_token \<times> token_stream) option" where
  "op_prefix ts =
     (case op4_prefix ts of
        Some r \<Rightarrow> Some r
      | None \<Rightarrow> (case op3_prefix ts of Some r \<Rightarrow> Some r | None \<Rightarrow> op2_prefix ts))"

text \<open>The inner loop that consumes the rest of a Rust operator.\<close>

fun joint_run :: "token_stream \<Rightarrow> token_stream \<times> token_stream" where
  "joint_run (Punct c sp # ts) =
     (if sp \<noteq> Joint then ([Punct c sp], ts)
      else case joint_run ts of (run, rest) \<Rightarrow> (Punct c sp # run, rest))"
| "joint_run ts = ([], ts)"

definition ident_token :: "string \<Rightarrow> prusti_token" where
  "ident_token i =
     (if i = ''outer'' then Outer
      else if i = ''forall'' then PQuantifier Forall
      else if i = ''exists'' then PQuantifier Exists
      else if i = ''old'' then ModeMarker Old
      else if i = ''rel0'' then ModeMarker (Rel 0)
      else if i = ''rel1'' then ModeMarker (Rel 1)
      else if i = ''before_expiry'' then ModeMarker BeforeExpiry
      else PToken (Ident i))"

lemma op_prefix_size: "op_prefix ts = Some (op, rest) \<Longrightarrow> size_list size rest < size_list size ts"
  by (auto simp: op_prefix_def op4_prefix_def op3_prefix_def op2_prefix_def
      split: list.splits option.splits)

lemma joint_run_append: "fst (joint_run ts) @ snd (joint_run ts) = ts"
  by (induction ts rule: joint_run.induct) (auto split: prod.split)

lemma joint_run_size: "size_list size (snd (joint_run ts)) \<le> size_list size ts"
  by (induction ts rule: joint_run.induct) (auto split: prod.split)

function pts_new :: "token_stream \<Rightarrow> prusti_token list" where
  "pts_new [] = []"
| "pts_new (t # ts) =
     (case op_prefix (t # ts) of
        Some (op, rest) \<Rightarrow> op # pts_new rest
      | None \<Rightarrow>
          (case t of
             Ident i \<Rightarrow> ident_token i # pts_new ts
           | Punct c sp \<Rightarrow>
               (if c = CHR '','' \<and> sp = Alone then BinOp (Rust Comma) # pts_new ts
                else if c = CHR '';'' \<and> sp = Alone then BinOp (Rust Semicolon) # pts_new ts
                else if c = CHR ''='' \<and> sp = Alone then BinOp (Rust Assign) # pts_new ts
                else if sp = Joint
                then PToken t # map PToken (fst (joint_run ts)) @ pts_new (snd (joint_run ts))
                else PToken t # pts_new ts)
           | Group d inner \<Rightarrow> PGroup d (pts_new inner) # pts_new ts
           | Literal l \<Rightarrow> PToken t # pts_new ts))"
  by pat_completeness auto
termination
  by (relation "measure (size_list size)")
     (auto dest: op_prefix_size intro: le_imp_less_Suc joint_run_size)

section \<open>Back to Rust tokens\<close>

definition rust_op_tokens :: "rust_op \<Rightarrow> token_stream" where
  "rust_op_tokens op =
     (case op of
        RangeInclusive \<Rightarrow> [Punct CHR ''.'' Joint, Punct CHR ''.'' Joint, Punct CHR ''='' Alone]
      | LeftShiftAssign \<Rightarrow> [Punct CHR ''<'' Joint, Punct CHR ''<'' Joint, Punct CHR ''='' Alone]
      | RightShiftAssign \<Rightarrow> [Punct CHR ''>'' Joint, Punct CHR ''>'' Joint, Punct CHR ''='' Alone]
      | Range \<Rightarrow> [Punct CHR ''.'' Joint, Punct CHR ''.'' Alone]
      | AddAssign \<Rightarrow> [Punct CHR ''+'' Joint, Punct CHR ''='' Alone]
      | SubtractAssign \<Rightarrow> [Punct CHR ''-'' Joint, Punct CHR ''='' Alone]
      | MultiplyAssign \<Rightarrow> [Punct CHR ''*'' Joint, Punct CHR ''='' Alone]
      | DivideAssign \<Rightarrow> [Punct CHR ''/'' Joint, Punct CHR ''='' Alone]
      | ModuloAssign \<Rightarrow> [Punct CHR ''%'' Joint, Punct CHR ''='' Alone]
      | BitAndAssign \<Rightarrow> [Punct CHR ''&'' Joint, Punct CHR ''='' Alone]
      | BitXorAssign \<Rightarrow> [Punct CHR ''^'' Joint, Punct CHR ''='' Alone]
      | Arrow \<Rightarrow> [Punct CHR ''='' Joint, Punct CHR ''>'' Alone]
      | Comma \<Rightarrow> [Punct CHR '','' Alone]
      | Semicolon \<Rightarrow> [Punct CHR '';'' Alone]
      | Assign \<Rightarrow> [Punct CHR ''='' Alone])"

definition rust_op_translate :: "rust_op \<Rightarrow> token_stream \<Rightarrow> token_stream \<Rightarrow> token_stream" where
  "rust_op_translate op lhs rhs = lhs @ rust_op_tokens op @ rhs"

text \<open>Streams without Prusti syntax, and the Rust tokens they stand for.\<close>

fun rust_token :: "prusti_token \<Rightarrow> bool" where
  "rust_token (PGroup d ts) = list_all rust_token ts"
| "rust_token (PToken t) = True"
| "rust_token (BinOp (Rust op)) = True"
| "rust_token _ = False"

fun untoken :: "prusti_token \<Rightarrow> token_stream" where
  "untoken (PGroup d ts) = [Group d (concat (map untoken ts))]"
| "untoken (PToken t) = [t]"
| "untoken (BinOp (Rust op)) = rust_op_tokens op"
| "untoken _ = []"

lemma parse_op2_rust:
  "parse_op2 p1 p2 = Some op \<Longrightarrow> rust_token op \<Longrightarrow> untoken op = [p1, p2]"
  by (cases p1; cases p2)
     (auto simp: parse_op2_def operator2_def rust_op_tokens_def split: if_splits)

lemma parse_op3_rust:
  "parse_op3 p1 p2 p3 = Some op \<Longrightarrow> rust_token op \<Longrightarrow> untoken op = [p1, p2, p3]"
  by (cases p1; cases p2; cases p3)
     (auto simp: parse_op3_def operator3_def rust_op_tokens_def split: if_splits)

lemma op_prefix_rust:
  assumes "op_prefix ts = Some (op, rest)" and "rust_token op"
  shows "untoken op @ rest = ts"
  using assms parse_op2_rust parse_op3_rust
  by (auto simp: op_prefix_def op4_prefix_def op3_prefix_def op2_prefix_def parse_op4_def
      split: list.splits option.splits if_splits)

lemma ident_token_rust: "rust_token (ident_token i) \<Longrightarrow> untoken (ident_token i) = [Ident i]"
  by (simp add: ident_token_def split: if_splits)

lemma untoken_map_PToken: "concat (map untoken (map PToken ts)) = ts"
  by (induction ts) auto

text \<open>Recognising tokens loses nothing on streams without Prusti syntax.\<close>

lemma untoken_pts_new:
  "list_all rust_token (pts_new ts) \<Longrightarrow> concat (map untoken (pts_new ts)) = ts"
proof (induction ts rule: pts_new.induct)
  case (2 t ts)
  show ?case
  proof (cases "op_prefix (t # ts)")
    case (Some r)
    then show ?thesis using 2 op_prefix_rust [of "t # ts"] by (cases r) auto
  next
    case None
    show ?thesis
    proof (cases t)
      case (Punct c sp)
      have "concat (map untoken (map PToken (fst (joint_run ts)))) @ snd (joint_run ts) = ts"
        using joint_run_append untoken_map_PToken by metis
      then show ?thesis using 2 None Punct
        by (auto simp: rust_op_tokens_def split: if_splits)
    qed (use 2 None ident_token_rust in \<open>auto\<close>)
  qed
qed simp

end
