(* ===== verification/Preparser.thy ===== *)
theory Preparser
  imports Preparser_Tokens
begin

text \<open>
  Second stage of \<^verbatim>\<open>prusti-specs/src/specifications/preparser.rs\<close>: the Pratt parser that
  translates Prusti tokens back to Rust tokens. The crate \<^verbatim>\<open>syn\<close>, which only checks the
  result, is a record of the three parsers the code calls.
\<close>

section \<open>Quoting\<close>

abbreviation pt :: "char \<Rightarrow> token_tree" where
  "pt c \<equiv> Punct c Alone"

definition puncts :: "string \<Rightarrow> token_stream" where
  "puncts s = map (\<lambda>c. Punct c Joint) (butlast s) @ [Punct (last s) Alone]"

definition path_tokens :: "string list \<Rightarrow> token_stream" where
  "path_tokens is = concat (map (\<lambda>i. puncts ''::'' @ [Ident i]) is)"

definition paren :: "token_stream \<Rightarrow> token_tree" where
  "paren ts = Group Parenthesis ts"

definition spec_only_attr :: "token_stream" where
  "spec_only_attr = [pt CHR ''#'', Group Bracket (Ident ''prusti'' # path_tokens [''spec_only''])]"

section \<open>Translation of the constructs\<close>

definition binding_power :: "binary_op \<Rightarrow> nat \<times> nat" where
  "binding_power op =
     (case op of
        Rust _ \<Rightarrow> (0, 0)
      | Iff \<Rightarrow> (4, 3)
      | Implies \<Rightarrow> (6, 5)
      | ImpliesReverse \<Rightarrow> (5, 6)
      | Or \<Rightarrow> (7, 8)
      | And \<Rightarrow> (9, 10)
      | SnapEq \<Rightarrow> (11, 12)
      | SnapNe \<Rightarrow> (11, 12))"

definition new_ref :: "token_tree \<Rightarrow> token_stream" where
  "new_ref t = path_tokens [''prusti_contracts'', ''Ghost'', ''new_ref''] @ [paren [pt CHR ''&'', t]]"

definition op_translate :: "binary_op \<Rightarrow> token_stream \<Rightarrow> token_stream \<Rightarrow> token_stream" where
  "op_translate op raw_lhs raw_rhs =
     (let lhs = paren raw_lhs; rhs = paren raw_rhs in
      case op of
        Rust rop \<Rightarrow> rust_op_translate rop raw_lhs raw_rhs
      | Iff \<Rightarrow> [lhs] @ puncts ''=='' @ [rhs]
      | Implies \<Rightarrow> [pt CHR ''!'', lhs] @ puncts ''||'' @ [rhs]
      | ImpliesReverse \<Rightarrow> [pt CHR ''!'', rhs] @ puncts ''||'' @ [lhs]
      | Or \<Rightarrow> [lhs] @ puncts ''||'' @ [rhs]
      | And \<Rightarrow> [lhs] @ puncts ''&&'' @ [rhs]
      | SnapEq \<Rightarrow> [paren (new_ref lhs @ puncts ''=='' @ new_ref rhs)]
      | SnapNe \<Rightarrow> [paren (new_ref lhs @ puncts ''!='' @ new_ref rhs)])"

definition marker_translate :: "marker_kind \<Rightarrow> token_stream \<Rightarrow> token_stream" where
  "marker_translate kind expr =
     (let call = (\<lambda>name generics. path_tokens [''prusti_contracts'', name] @ generics @ [paren []]);
          generic = (\<lambda>n. puncts ''::'' @ [pt CHR ''<'', Literal (digits n @ ''usize''), pt CHR ''>'']);
          (start, finish) =
            (case kind of
               Old \<Rightarrow> (call ''old_start'' [], call ''old_end'' [])
             | Rel n \<Rightarrow> (call ''rel_start'' (generic n), call ''rel_end'' (generic n))
             | BeforeExpiry \<Rightarrow> (call ''before_expiry_start'' [], call ''before_expiry_end'' []))
      in [paren [Group Brace
            (start @ [pt CHR '';'', Ident ''let'', Ident ''r'', pt CHR ''='', Group Brace expr, pt CHR '';'']
             @ finish @ [pt CHR '';'', Ident ''r''])]])"

definition quantifier_translate ::
  "quantifier \<Rightarrow> token_stream list list \<Rightarrow> token_stream \<Rightarrow> token_stream \<Rightarrow> token_stream" where
  "quantifier_translate q triggers args body =
     (let closure_args = [pt CHR ''|''] @ args @ [pt CHR ''|''];
          trigger_sets = map (\<lambda>set. paren (concat (map (\<lambda>trigger.
            spec_only_attr @ closure_args @ [paren trigger, pt CHR '','']) set))) triggers;
          name = (case q of Forall \<Rightarrow> ''forall'' | Exists \<Rightarrow> ''exists'')
      in path_tokens [''prusti_contracts'', name] @
         [paren ([paren (concat (map (\<lambda>t. [t, pt CHR '','']) trigger_sets)), pt CHR '','', pt CHR ''&'',
                  paren (spec_only_attr @ closure_args @ puncts ''->'' @ [Ident ''bool'', Group Brace body]),
                  pt CHR '',''])])"

text \<open>A specification nested in another one.\<close>

datatype 'a nested_spec = Requires 'a | Ensures 'a | Pure

definition separated :: "token_stream list \<Rightarrow> token_stream" where
  "separated tss = concat (case tss of [] \<Rightarrow> [] | t # ts \<Rightarrow> t # map (\<lambda>x. pt CHR '','' # x) ts)"

definition translate_spec_ent ::
  "bool \<Rightarrow> token_stream \<Rightarrow> token_stream list \<Rightarrow> token_stream nested_spec list \<Rightarrow> token_stream" where
  "translate_spec_ent once cl_expr cl_args contract =
     (let comma = pt CHR '',''; semi = pt CHR '';'';
          once_t = Ident (if once then ''true'' else ''false'');
          idxs = [0 ..< length cl_args];
          generics = map (\<lambda>i. [Ident (''GA'' @ digits i)]) idxs;
          res = Ident ''GR'';
          extract = map (\<lambda>i. Ident (''__extract_arg'' @ digits i)) idxs;
          cl_ref = Ident ''__cl_ref'';
          decl = (\<lambda>name ty.
            spec_only_attr @ [Ident ''fn'', name, pt CHR ''<''] @ separated generics @
            [comma, res, comma, Ident ''F'', pt CHR '':'', Ident ''FnOnce'', paren (separated generics)] @
            puncts ''->'' @ [res, pt CHR ''>'',
              paren [Ident ''_f'', pt CHR '':'', pt CHR ''&'', Ident ''F'']] @
            puncts ''->'' @ [ty, Group Brace [Ident ''unreachable'', pt CHR ''!'', paren []]]);
          closures = (\<lambda>conds. paren (concat (map (\<lambda>c.
            spec_only_attr @ puncts ''||'' @ puncts ''->'' @
            [Ident ''bool'', Group Brace [paren [paren c, pt CHR '':'', Ident ''bool'']], comma]) conds)));
          pres = concat (map (\<lambda>s. case s of Requires c \<Rightarrow> [c] | _ \<Rightarrow> []) contract);
          posts = concat (map (\<lambda>s. case s of Ensures c \<Rightarrow> [c] | _ \<Rightarrow> []) contract)
      in [Group Brace
           ([Ident ''let'', cl_ref, pt CHR ''='', pt CHR ''&''] @ cl_expr @ [semi] @
            concat (map (\<lambda>(i, g). decl i (hd g)) (zip extract generics)) @
            decl (Ident ''__extract_res'') res @
            concat (map (\<lambda>(a, x). [Ident ''let''] @ a @ [pt CHR ''='', x, paren [cl_ref], semi])
              (zip cl_args extract)) @
            [Ident ''let'', Ident ''result'', pt CHR ''='', Ident ''__extract_res'', paren [cl_ref], semi] @
            [Ident ''specification_entailment'',
             paren [once_t, comma, cl_ref, comma, closures pres, comma, closures posts, comma]])])"

section \<open>Token stream operations\<close>

text \<open>
  \<^verbatim>\<open>syn::Error\<close> by its message, a \<^verbatim>\<open>todo!()\<close>, or the exhausted fuel of the model (which
  \<open>expr_bp_enough_fuel\<close> below excludes).
\<close>

datatype parse_error = Syn_error string | Todo string | Out_of_fuel

type_synonym 'a parsed = "parse_error + 'a"

definition pop_group ::
  "delimiter \<Rightarrow> prusti_token list \<Rightarrow> (prusti_token list \<times> prusti_token list) option" where
  "pop_group d ts =
     (case ts of PGroup d' inner # rest \<Rightarrow> if d' = d then Some (inner, rest) else None | _ \<Rightarrow> None)"

definition is_closure_brace :: "prusti_token \<Rightarrow> bool" where
  "is_closure_brace t = (t = PToken (pt CHR ''|''))"

fun until_brace :: "prusti_token list \<Rightarrow> (prusti_token list \<times> prusti_token list) option" where
  "until_brace [] = None"
| "until_brace (t # ts) =
     (if is_closure_brace t then Some ([], ts)
      else map_option (\<lambda>(args, rest). (t # args, rest)) (until_brace ts))"

definition pop_closure_args ::
  "prusti_token list \<Rightarrow> (prusti_token list \<times> prusti_token list) option" where
  "pop_closure_args ts =
     (case ts of
        [] \<Rightarrow> None
      | t # rest \<Rightarrow>
          if t = BinOp Or then Some ([], ts)
          else if is_closure_brace t then until_brace rest
          else None)"

definition pop_parenthesized_group ::
  "prusti_token list \<Rightarrow> (prusti_token list \<times> prusti_token list) parsed" where
  "pop_parenthesized_group ts =
     (case ts of
        PGroup Parenthesis inner # rest \<Rightarrow> Inr (inner, rest)
      | _ \<Rightarrow> Inl (Syn_error ''expected parenthesized group''))"

definition pop_single_nested_spec ::
  "prusti_token list \<Rightarrow> (prusti_token list nested_spec \<times> prusti_token list) parsed" where
  "pop_single_nested_spec ts =
     (case ts of
        [] \<Rightarrow> Inl (Syn_error ''expected nested spec'')
      | PToken (Ident i) # rest \<Rightarrow>
          if i = ''requires''
          then rbind (pop_parenthesized_group rest) (\<lambda>(g, r). Inr (Requires g, r))
          else if i = ''ensures''
          then rbind (pop_parenthesized_group rest) (\<lambda>(g, r). Inr (Ensures g, r))
          else if i = ''pure'' then Inr (Pure, rest)
          else Inl (Syn_error (''unexpected nested spec type: '' @ i))
      | _ \<Rightarrow> Inl (Syn_error ''expected identifier''))"

fun split_slice :: "('a \<Rightarrow> bool) \<Rightarrow> 'a list \<Rightarrow> 'a list list" where
  "split_slice P [] = [[]]"
| "split_slice P (x # xs) =
     (if P x then [] # split_slice P xs
      else case split_slice P xs of [] \<Rightarrow> [[x]] | g # gs \<Rightarrow> (x # g) # gs)"

definition split_on :: "binary_op \<Rightarrow> bool \<Rightarrow> prusti_token list \<Rightarrow> prusti_token list list" where
  "split_on op allow_trailing ts =
     (if ts = [] then []
      else
        let res = split_slice (\<lambda>t. t = BinOp op) ts
        in if allow_trailing \<and> length res > 1 \<and> last res = [] then butlast res else res)"

definition parse_rest ::
  "(prusti_token list \<Rightarrow> ('a \<times> prusti_token list) parsed) \<Rightarrow> prusti_token list \<Rightarrow> 'a parsed" where
  "parse_rest f ts =
     rbind (f ts) (\<lambda>(r, rest).
       if rest \<noteq> [] then Inl (Syn_error ''unexpected extra tokens'') else Inr r)"

fun parse_rust_only :: "prusti_token list \<Rightarrow> token_stream parsed" where
  "parse_rust_only [] = Inr []"
| "parse_rust_only (t # ts) =
     rbind (case t of
              PGroup d inner \<Rightarrow> parse_rust_only inner
            | PToken tree \<Rightarrow> Inr [tree]
            | BinOp (Rust op) \<Rightarrow> Inr (rust_op_tokens op)
            | _ \<Rightarrow> Inl (Syn_error ''unexpected Prusti syntax''))
       (\<lambda>a. rbind (parse_rust_only ts) (\<lambda>b. Inr (a @ b)))"

fun nested_parse ::
  "(prusti_token list \<Rightarrow> token_stream parsed) \<Rightarrow> prusti_token list nested_spec
   \<Rightarrow> token_stream nested_spec parsed" where
  "nested_parse parse (Requires ts) = rbind (parse ts) (\<lambda>r. Inr (Requires r))"
| "nested_parse parse (Ensures ts) = rbind (parse ts) (\<lambda>r. Inr (Ensures r))"
| "nested_parse parse Pure = Inr Pure"

definition pop_group_of_nested_specs ::
  "(prusti_token list \<Rightarrow> token_stream parsed) \<Rightarrow> prusti_token list
   \<Rightarrow> (token_stream nested_spec list \<times> prusti_token list) parsed" where
  "pop_group_of_nested_specs parse ts =
     (case pop_group Bracket ts of
        None \<Rightarrow> Inl (Syn_error ''expected nested specification in brackets'')
      | Some (inner, rest) \<Rightarrow>
          rbind (collect_results (map (\<lambda>stream.
              rbind (parse_rest pop_single_nested_spec stream) (nested_parse parse))
            (split_on (Rust Comma) True inner)))
            (\<lambda>specs. Inr (specs, rest)))"

definition extract_triggers ::
  "(prusti_token list \<Rightarrow> token_stream parsed) \<Rightarrow> prusti_token list
   \<Rightarrow> (token_stream list list \<times> prusti_token list) parsed" where
  "extract_triggers parse ts =
     (case rev ts of
        PGroup Bracket triggers # BinOp (Rust Assign) # PToken (Ident i) # BinOp (Rust Comma) # front \<Rightarrow>
          if i = ''triggers''
          then rbind (collect_results (map (\<lambda>stream.
                   case pop_group Parenthesis stream of
                     None \<Rightarrow> Inl (Syn_error ''trigger sets must be tuples of expressions'')
                   | Some (tuple, _) \<Rightarrow> collect_results (map parse (split_on (Rust Comma) True tuple)))
                 (split_on (Rust Comma) True triggers)))
                 (\<lambda>sets. Inr (sets, rev front))
          else Inr ([], ts)
      | _ \<Rightarrow> Inr ([], ts))"

section \<open>The Pratt parser\<close>

text \<open>
  What the code asks \<^verbatim>\<open>syn\<close>: whether a stream is an expression, and for a closure
  \<^verbatim>\<open>| args | 0\<close>, which of its arguments have a type annotation.
\<close>

record syn_api =
  syn_parse_expr :: "token_stream \<Rightarrow> string option"
  syn_closure_inputs :: "token_stream \<Rightarrow> string + bool list"

definition check_closure_args :: "syn_api \<Rightarrow> prusti_token list \<Rightarrow> unit parsed" where
  "check_closure_args S args =
     rbind (parse_rust_only args) (\<lambda>cl_args.
       case syn_closure_inputs S ([pt CHR ''|''] @ cl_args @ [pt CHR ''|'', Literal ''0'']) of
         Inl msg \<Rightarrow> Inl (Syn_error msg)
       | Inr typed \<Rightarrow>
           if list_all id typed then Inr ()
           else Inl (Syn_error ''quantifier arguments must have explicit types''))"

definition quantifier_expr ::
  "syn_api \<Rightarrow> (prusti_token list \<Rightarrow> token_stream parsed) \<Rightarrow> quantifier \<Rightarrow> prusti_token list
   \<Rightarrow> token_stream parsed" where
  "quantifier_expr S parse q stream =
     (case pop_closure_args stream of
        None \<Rightarrow> Inl (Syn_error ''expected quantifier body'')
      | Some (args, stream) \<Rightarrow>
          rbind (check_closure_args S args) (\<lambda>_.
          rbind (extract_triggers parse stream) (\<lambda>(triggers, stream).
            if args = [] then Inl (Syn_error ''a quantifier must have at least one argument'')
            else rbind (parse args) (\<lambda>args.
                 rbind (parse stream) (\<lambda>body. Inr (quantifier_translate q triggers args body))))))"

text \<open>The first \<^verbatim>\<open>match\<close> of \<^verbatim>\<open>expr_bp\<close>: the initial left-hand side.\<close>

definition expr_prefix ::
  "syn_api \<Rightarrow> (prusti_token list \<Rightarrow> token_stream parsed) \<Rightarrow> prusti_token \<Rightarrow> prusti_token list
   \<Rightarrow> (token_stream \<times> prusti_token list) parsed" where
  "expr_prefix S parse t ts =
     (case t of
        PGroup d inner \<Rightarrow> rbind (parse inner) (\<lambda>r. Inr ([Group d r], ts))
      | Outer \<Rightarrow>
          (case pop_group Parenthesis ts of
             None \<Rightarrow> Inl (Syn_error ''expected parenthesized expression after outer'')
           | Some _ \<Rightarrow> Inl (Todo ''not yet implemented''))
      | ModeMarker kind \<Rightarrow>
          (case pop_group Parenthesis ts of
             None \<Rightarrow> Inl (Syn_error ''expected parenthesized expression after mode marker'')
           | Some (inner, ts) \<Rightarrow> rbind (parse inner) (\<lambda>r. Inr (marker_translate kind r, ts)))
      | PQuantifier q \<Rightarrow>
          (case pop_group Parenthesis ts of
             None \<Rightarrow> Inl (Syn_error ''expected parenthesized expression after quantifier'')
           | Some (inner, ts) \<Rightarrow> rbind (quantifier_expr S parse q inner) (\<lambda>r. Inr (r, ts)))
      | SpecEnt _ \<Rightarrow> Inl (Syn_error ''unexpected operator'')
      | CallDesc _ \<Rightarrow> Inl (Syn_error ''unexpected operator'')
      | BinOp (Rust op) \<Rightarrow> Inr (rust_op_tokens op, ts)
      | BinOp _ \<Rightarrow> Inl (Syn_error ''unexpected binary operator'')
      | PToken tree \<Rightarrow> Inr ([tree], ts))"

fun is_rust :: "binary_op \<Rightarrow> bool" where
  "is_rust (Rust _) = True"
| "is_rust _ = False"

text \<open>
  \<^verbatim>\<open>expr_bp\<close> with its loop. \<^verbatim>\<open>PrustiTokenStream::parse\<close> is \<^verbatim>\<open>expr_bp(0)\<close> with the rest of
  the stream dropped.
\<close>

fun expr_bp :: "syn_api \<Rightarrow> nat \<Rightarrow> nat \<Rightarrow> prusti_token list \<Rightarrow> (token_stream \<times> prusti_token list) parsed"
  and expr_loop :: "syn_api \<Rightarrow> nat \<Rightarrow> nat \<Rightarrow> token_stream \<Rightarrow> prusti_token list
    \<Rightarrow> (token_stream \<times> prusti_token list) parsed" where
  "expr_bp S 0 min_bp ts = Inl Out_of_fuel"
| "expr_bp S (Suc n) min_bp [] = Inr ([], [])"
| "expr_bp S (Suc n) min_bp (t # ts) =
     rbind (expr_prefix S (\<lambda>inner. rbind (expr_bp S n 0 inner) (\<lambda>(r, _). Inr r)) t ts)
       (\<lambda>(lhs, ts). expr_loop S n min_bp lhs ts)"
| "expr_loop S 0 min_bp lhs ts = Inl Out_of_fuel"
| "expr_loop S (Suc n) min_bp lhs [] = Inr (lhs, [])"
| "expr_loop S (Suc n) min_bp lhs (t # ts) =
     (let parse = (\<lambda>inner. rbind (expr_bp S n 0 inner) (\<lambda>(r, _). Inr r)) in
      case t of
        PGroup d inner \<Rightarrow> rbind (parse inner) (\<lambda>r. expr_loop S n min_bp (lhs @ [Group d r]) ts)
      | PToken tree \<Rightarrow> expr_loop S n min_bp (lhs @ [tree]) ts
      | SpecEnt once \<Rightarrow>
          (case pop_closure_args ts of
             None \<Rightarrow> Inl (Syn_error ''expected closure arguments'')
           | Some (args, ts) \<Rightarrow>
               rbind (pop_group_of_nested_specs parse ts) (\<lambda>(specs, ts).
               rbind (collect_results (map parse (split_on (Rust Comma) True args))) (\<lambda>cl_args.
                 expr_loop S n min_bp (translate_spec_ent once lhs cl_args specs) ts)))
      | CallDesc _ \<Rightarrow> Inl (Todo ''not yet implemented: call desc'')
      | BinOp op \<Rightarrow>
          (case binding_power op of
             (l_bp, r_bp) \<Rightarrow>
               if l_bp < min_bp then Inr (lhs, t # ts)
               else rbind (expr_bp S n r_bp ts) (\<lambda>(rhs, ts).
                 if \<not> is_rust op \<and> rhs = [] then Inl (Syn_error ''expected expression'')
                 else expr_loop S n min_bp (op_translate op lhs rhs) ts))
      | Outer \<Rightarrow> Inl (Syn_error ''unexpected outer'')
      | PQuantifier _ \<Rightarrow> Inl (Syn_error ''unexpected quantifier'')
      | ModeMarker kind \<Rightarrow>
          (case pop_group Parenthesis ts of
             None \<Rightarrow> Inl (Syn_error ''expected parenthesized expression after mode marker'')
           | Some (inner, ts) \<Rightarrow>
               rbind (parse inner) (\<lambda>r. expr_loop S n min_bp (lhs @ marker_translate kind r) ts)))"

text \<open>A bound on the fuel a stream needs.\<close>

fun weight :: "prusti_token \<Rightarrow> nat" where
  "weight (PGroup d ts) = 2 + sum_list (map weight ts)"
| "weight _ = 2"

definition weights :: "prusti_token list \<Rightarrow> nat" where
  "weights ts = sum_list (map weight ts)"

definition pts_parse :: "syn_api \<Rightarrow> prusti_token list \<Rightarrow> token_stream parsed" where
  "pts_parse S ts = rbind (expr_bp S (weights ts + 2) 0 ts) (\<lambda>(r, _). Inr r)"

definition parse_pledge ::
  "syn_api \<Rightarrow> prusti_token list \<Rightarrow> (token_stream option \<times> token_stream) parsed" where
  "parse_pledge S ts =
     (case split_on (Rust Arrow) False ts of
        [b] \<Rightarrow> rbind (pts_parse S b) (\<lambda>r. Inr (None, r))
      | [a, b] \<Rightarrow> rbind (pts_parse S a) (\<lambda>ra. rbind (pts_parse S b) (\<lambda>rb. Inr (Some ra, rb)))
      | _ \<Rightarrow> Inl (Syn_error ''too many arrows in after_expiry''))"

definition parse_assert_pledge ::
  "syn_api \<Rightarrow> prusti_token list \<Rightarrow> (token_stream option \<times> token_stream \<times> token_stream) parsed" where
  "parse_assert_pledge S ts =
     rbind (case split_on (Rust Arrow) False ts of
              [body] \<Rightarrow> Inr (None, body)
            | [ref, body] \<Rightarrow> rbind (pts_parse S ref) (\<lambda>r. Inr (Some r, body))
            | _ \<Rightarrow> Inl (Syn_error ''too many arrows in assert_on_expiry''))
       (\<lambda>(ref, body).
          case split_on (Rust Comma) False body of
            [a, b] \<Rightarrow> rbind (pts_parse S a) (\<lambda>ra. rbind (pts_parse S b) (\<lambda>rb. Inr (ref, ra, rb)))
          | _ \<Rightarrow> Inl (Syn_error ''missing assertion''))"

definition syn_check :: "syn_api \<Rightarrow> token_stream \<Rightarrow> unit parsed" where
  "syn_check S ts = (case syn_parse_expr S ts of None \<Rightarrow> Inr () | Some msg \<Rightarrow> Inl (Syn_error msg))"

definition parse_prusti :: "syn_api \<Rightarrow> token_stream \<Rightarrow> token_stream parsed" where
  "parse_prusti S tokens =
     rbind (pts_parse S (pts_new tokens)) (\<lambda>parsed. rbind (syn_check S parsed) (\<lambda>_. Inr parsed))"

definition check_result_reference :: "string \<Rightarrow> token_stream option \<Rightarrow> unit parsed" where
  "check_result_reference msg reference =
     (case reference of
        None \<Rightarrow> Inr ()
      | Some ts \<Rightarrow> if ts = [Ident ''result''] then Inr () else Inl (Syn_error msg))"

definition parse_prusti_pledge :: "syn_api \<Rightarrow> token_stream \<Rightarrow> token_stream parsed" where
  "parse_prusti_pledge S tokens =
     rbind (parse_pledge S (pts_new tokens)) (\<lambda>(reference, rhs).
     rbind (check_result_reference (''reference of after_expiry must be '' @ [CHR 0x22] @ ''result'' @ [CHR 0x22]) reference) (\<lambda>_.
     rbind (syn_check S rhs) (\<lambda>_. Inr rhs)))"

definition parse_prusti_assert_pledge ::
  "syn_api \<Rightarrow> token_stream \<Rightarrow> (token_stream \<times> token_stream) parsed" where
  "parse_prusti_assert_pledge S tokens =
     rbind (parse_assert_pledge S (pts_new tokens)) (\<lambda>(reference, lhs, rhs).
     rbind (check_result_reference (''reference of assert_on_expiry must be '' @ [CHR 0x22] @ ''result'' @ [CHR 0x22]) reference) (\<lambda>_.
     rbind (syn_check S lhs) (\<lambda>_. rbind (syn_check S rhs) (\<lambda>_. Inr (lhs, rhs)))))"

section \<open>Type-conditional specification refinements\<close>

text \<open>
  Where-predicates as \<^verbatim>\<open>syn\<close> returns them: whether a type predicate (or a trait bound in it)
  has \<^verbatim>\<open>for<..>\<close> lifetimes, its bounds, and its tokens.
\<close>

datatype type_param_bound = Lifetime_bound | Trait_bound bool

datatype where_predicate =
  Type_predicate bool "type_param_bound list" token_stream | Lifetime_predicate | Eq_predicate

record syn_where =
  syn_where_keyword :: "token_stream \<Rightarrow> string + token_stream"
  syn_where_predicate :: "token_stream \<Rightarrow> string + where_predicate \<times> token_stream"
  syn_comma :: "token_stream \<Rightarrow> string + token_stream"

definition disallowed_lifetime_error :: "'a parsed" where
  "disallowed_lifetime_error =
     Inl (Syn_error ''lifetimes are not allowed in type-conditional spec refinement trait bounds'')"

fun validate_trait_bounds :: "type_param_bound list \<Rightarrow> unit parsed" where
  "validate_trait_bounds [] = Inr ()"
| "validate_trait_bounds (Lifetime_bound # bs) = disallowed_lifetime_error"
| "validate_trait_bounds (Trait_bound lifetimes # bs) =
     (if lifetimes then disallowed_lifetime_error else validate_trait_bounds bs)"

definition validate_predicate :: "where_predicate \<Rightarrow> token_stream parsed" where
  "validate_predicate p =
     (case p of
        Type_predicate lifetimes bounds ts \<Rightarrow>
          if lifetimes then disallowed_lifetime_error
          else rbind (validate_trait_bounds bounds) (\<lambda>_. Inr ts)
      | Lifetime_predicate \<Rightarrow> disallowed_lifetime_error
      | Eq_predicate \<Rightarrow>
          Inl (Syn_error ''equality constraints are not allowed in type-conditional spec refinements''))"

text \<open>
  The note that \<^verbatim>\<open>with_type_cond_spec_example\<close> attaches to an error of \<^verbatim>\<open>syn\<close> leaves its
  message unchanged.
\<close>

definition syn_result :: "string + 'a \<Rightarrow> 'a parsed" where
  "syn_result r = (case r of Inl msg \<Rightarrow> Inl (Syn_error msg) | Inr a \<Rightarrow> Inr a)"

fun parse_trait_bounds ::
  "syn_where \<Rightarrow> nat \<Rightarrow> token_stream \<Rightarrow> (token_stream list \<times> token_stream) parsed" where
  "parse_trait_bounds W 0 input = Inl Out_of_fuel"
| "parse_trait_bounds W (Suc n) input =
     rbind (syn_result (syn_where_predicate W input)) (\<lambda>(predicate, input).
     rbind (validate_predicate predicate) (\<lambda>bound.
     rbind (syn_result (syn_comma W input)) (\<lambda>input.
       case input of
         [] \<Rightarrow> Inr ([bound], input)
       | Group Bracket _ # _ \<Rightarrow> Inr ([bound], input)
       | _ \<Rightarrow> rbind (parse_trait_bounds W n input) (\<lambda>(bounds, rest). Inr (bound # bounds, rest)))))"

definition parse_type_cond_spec ::
  "syn_api \<Rightarrow> syn_where \<Rightarrow> token_stream \<Rightarrow> (token_stream list \<times> token_stream nested_spec list) parsed" where
  "parse_type_cond_spec S W tokens =
     rbind (syn_result (syn_where_keyword W tokens)) (\<lambda>input.
     rbind (parse_trait_bounds W (Suc (length input)) input) (\<lambda>(trait_bounds, input).
     rbind (parse_rest (pop_group_of_nested_specs (pts_parse S)) (pts_new input)) (\<lambda>specs.
       Inr (trait_bounds, specs))))"

end
