(* ===== verification/Preparser_Laws.thy ===== *)
theory Preparser_Laws
  imports Preparser
begin

text \<open>
  Properties of the preparser: it always returns, it consumes its whole input, it is the identity
  on streams without Prusti syntax, and it translates every expression according to the binding
  powers of its operators.
\<close>

section \<open>The fuel is enough\<close>

definition returns :: "'a parsed \<Rightarrow> bool" where
  "returns r \<longleftrightarrow> r \<noteq> Inl Out_of_fuel"

lemma returns_simps [simp]:
  "returns (Inr a)" "returns (Inl (Syn_error m))" "returns (Inl (Todo m))"
  by (simp_all add: returns_def)

lemma returns_rbind: "returns r \<Longrightarrow> (\<And>a. r = Inr a \<Longrightarrow> returns (f a)) \<Longrightarrow> returns (rbind r f)"
  by (cases r) (auto simp: returns_def)

lemma returns_collect: "(\<And>r. r \<in> set rs \<Longrightarrow> returns r) \<Longrightarrow> returns (collect_results rs)"
  by (induction rs) (auto intro!: returns_rbind)

lemma weights_simps [simp]:
  "weights [] = 0"
  "weights (t # ts) = weight t + weights ts"
  "weights (ts @ us) = weights ts + weights us"
  "weights (rev ts) = weights ts"
  "weight (PGroup d ts) = 2 + weights ts"
  by (simp_all add: weights_def rev_map [symmetric])

declare weight.simps(1) [simp del]

lemma weight_ge: "2 \<le> weight t"
  by (cases t) auto

lemma pop_group_weights: "pop_group d ts = Some (inner, rest) \<Longrightarrow> weights ts = 2 + weights inner + weights rest"
  by (auto simp: pop_group_def split: list.splits prusti_token.splits if_splits)

lemma until_brace_weights: "until_brace ts = Some (args, rest) \<Longrightarrow> weights args + weights rest \<le> weights ts"
  by (induction ts arbitrary: args) (auto split: if_splits)

lemma pop_closure_args_weights:
  "pop_closure_args ts = Some (args, rest) \<Longrightarrow> weights args + weights rest \<le> weights ts"
  using until_brace_weights
  by (fastforce simp: pop_closure_args_def split: list.splits if_splits)

lemma split_slice_weights: "g \<in> set (split_slice P ts) \<Longrightarrow> weights g \<le> weights ts"
  by (induction P ts arbitrary: g rule: split_slice.induct) (fastforce split: if_splits list.splits)+

lemma split_on_weights: "g \<in> set (split_on op b ts) \<Longrightarrow> weights g \<le> weights ts"
  by (auto simp: split_on_def Let_def split: if_splits dest: in_set_butlastD intro: split_slice_weights)

lemma parse_rust_only_returns: "returns (parse_rust_only ts)"
  by (induction ts rule: parse_rust_only.induct)
     (auto intro!: returns_rbind split: prusti_token.split binary_op.split)

lemma pop_single_nested_spec_returns: "returns (pop_single_nested_spec ts)"
  by (auto simp: pop_single_nested_spec_def pop_parenthesized_group_def intro!: returns_rbind
      split: list.split prusti_token.split token_tree.split delimiter.split)

lemma pop_single_nested_spec_weights:
  "pop_single_nested_spec ts = Inr (spec, rest) \<Longrightarrow>
     (\<forall>g. spec = Requires g \<or> spec = Ensures g \<longrightarrow> weights g \<le> weights ts)"
  by (auto simp: pop_single_nested_spec_def pop_parenthesized_group_def rbind_eq_Inr
      split: list.splits prusti_token.splits token_tree.splits delimiter.splits if_splits)

lemma nested_specs_returns:
  assumes "\<And>us. weights us \<le> weights ts \<Longrightarrow> returns (parse us)"
  shows "returns (pop_group_of_nested_specs parse ts)"
proof (cases "pop_group Bracket ts")
  case (Some p)
  obtain inner rest where p: "p = (inner, rest)" by fastforce
  have w: "weights inner \<le> weights ts" using pop_group_weights [of Bracket ts inner rest] Some p by simp
  have "returns (rbind (parse_rest pop_single_nested_spec g) (nested_parse parse))"
    if "g \<in> set (split_on (Rust Comma) True inner)" for g
  proof -
    have g: "weights g \<le> weights ts" using split_on_weights [OF that] w by simp
    have "returns (nested_parse parse spec)" if spec: "parse_rest pop_single_nested_spec g = Inr spec" for spec
    proof -
      obtain rest where "pop_single_nested_spec g = Inr (spec, rest)"
        using spec by (auto simp: parse_rest_def rbind_eq_Inr split: if_splits)
      from pop_single_nested_spec_weights [OF this] show ?thesis
        using g by (cases spec) (auto intro!: returns_rbind assms)
    qed
    moreover have "returns (parse_rest pop_single_nested_spec g)"
      by (auto simp: parse_rest_def intro!: returns_rbind pop_single_nested_spec_returns)
    ultimately show ?thesis by (intro returns_rbind)
  qed
  then have "returns (collect_results (map (\<lambda>stream.
      rbind (parse_rest pop_single_nested_spec stream) (nested_parse parse)) (split_on (Rust Comma) True inner)))"
    by (intro returns_collect) auto
  then show ?thesis using Some p
    by (simp add: pop_group_of_nested_specs_def) (rule returns_rbind, simp_all)
qed (simp add: pop_group_of_nested_specs_def)

lemma nested_specs_weights:
  "pop_group_of_nested_specs parse ts = Inr (specs, rest) \<Longrightarrow> weights rest \<le> weights ts"
  using pop_group_weights [of Bracket ts]
  by (fastforce simp: pop_group_of_nested_specs_def rbind_eq_Inr split: option.splits)

lemma extract_triggers_cases:
  obtains "extract_triggers parse ts = Inr ([], ts)"
  | triggers front where
      "ts = front @ [BinOp (Rust Comma), PToken (Ident ''triggers''), BinOp (Rust Assign), PGroup Bracket triggers]"
      "extract_triggers parse ts =
         rbind (collect_results (map (\<lambda>stream.
                   case pop_group Parenthesis stream of
                     None \<Rightarrow> Inl (Syn_error ''trigger sets must be tuples of expressions'')
                   | Some (tuple, _) \<Rightarrow> collect_results (map parse (split_on (Rust Comma) True tuple)))
                 (split_on (Rust Comma) True triggers)))
                 (\<lambda>sets. Inr (sets, front))"
proof (cases "\<exists>triggers front. ts = front @ [BinOp (Rust Comma), PToken (Ident ''triggers''),
    BinOp (Rust Assign), PGroup Bracket triggers]")
  case True
  then show ?thesis using that(2) by (auto simp: extract_triggers_def)
next
  case False
  have "extract_triggers parse ts = Inr ([], ts)"
  proof (rule ccontr)
    assume "extract_triggers parse ts \<noteq> Inr ([], ts)"
    then obtain triggers f where "rev ts = PGroup Bracket triggers # BinOp (Rust Assign) #
        PToken (Ident ''triggers'') # BinOp (Rust Comma) # f"
      by (auto simp: extract_triggers_def split: list.splits prusti_token.splits delimiter.splits
          binary_op.splits rust_op.splits token_tree.splits if_splits)
    then have "ts = rev f @ [BinOp (Rust Comma), PToken (Ident ''triggers''), BinOp (Rust Assign),
        PGroup Bracket triggers]"
      by (simp add: rev_eq_Cons_iff)
    then show False using False by blast
  qed
  then show ?thesis using that(1) by blast
qed

lemma extract_triggers_returns:
  assumes "\<And>us. weights us \<le> weights ts \<Longrightarrow> returns (parse us)"
  shows "returns (extract_triggers parse ts)"
proof (cases rule: extract_triggers_cases [of parse ts])
  case (2 triggers front)
  have "returns (case pop_group Parenthesis g of
                     None \<Rightarrow> Inl (Syn_error ''trigger sets must be tuples of expressions'')
                   | Some (tuple, _) \<Rightarrow> collect_results (map parse (split_on (Rust Comma) True tuple)))"
    if "g \<in> set (split_on (Rust Comma) True triggers)" for g
    using split_on_weights [OF that] 2(1)
    by (auto split: option.split dest!: pop_group_weights split_on_weights intro!: returns_collect assms)
  then show ?thesis unfolding 2(2) by (auto intro!: returns_rbind returns_collect)
qed simp

lemma extract_triggers_weights:
  "extract_triggers parse ts = Inr (sets, rest) \<Longrightarrow> weights rest \<le> weights ts"
proof (cases rule: extract_triggers_cases [of parse ts])
  case (2 triggers front)
  assume "extract_triggers parse ts = Inr (sets, rest)"
  then have "rest = front" unfolding 2(2) by (auto simp: rbind_eq_Inr)
  then show ?thesis using 2(1) by simp
qed simp

lemma check_closure_args_returns: "returns (check_closure_args S args)"
  by (auto simp: check_closure_args_def intro!: returns_rbind parse_rust_only_returns split: sum.split)

lemma quantifier_expr_returns:
  assumes "\<And>us. weights us \<le> weights ts \<Longrightarrow> returns (parse us)"
  shows "returns (quantifier_expr S parse q ts)"
proof (cases "pop_closure_args ts")
  case (Some p)
  obtain args rest where p: "p = (args, rest)" by fastforce
  have w: "weights args + weights rest \<le> weights ts" using pop_closure_args_weights Some p by blast
  have "returns (extract_triggers parse rest)" using assms w by (intro extract_triggers_returns) simp
  then show ?thesis using Some p w
    by (auto simp: quantifier_expr_def intro!: returns_rbind check_closure_args_returns assms
        dest!: extract_triggers_weights)
qed (simp add: quantifier_expr_def)

lemma expr_prefix_returns:
  assumes "\<And>us. weights us + 2 \<le> weights (t # ts) \<Longrightarrow> returns (parse us)"
  shows "returns (expr_prefix S parse t ts)"
  using assms
  by (auto simp: expr_prefix_def intro!: returns_rbind quantifier_expr_returns
      split: prusti_token.split option.split binary_op.split dest!: pop_group_weights)

lemma expr_prefix_weights:
  "expr_prefix S parse t ts = Inr (lhs, rest) \<Longrightarrow> weights rest \<le> weights ts"
  by (auto simp: expr_prefix_def rbind_eq_Inr dest!: pop_group_weights
      split: prusti_token.splits option.splits binary_op.splits)

text \<open>A parse that returns and leaves at most a stream of weight \<open>w\<close>.\<close>

definition leaves :: "nat \<Rightarrow> ('a \<times> prusti_token list) parsed \<Rightarrow> bool" where
  "leaves w r \<longleftrightarrow> returns r \<and> (\<forall>a rest. r = Inr (a, rest) \<longrightarrow> weights rest \<le> w)"

lemma leaves_simps [simp]:
  "leaves w (Inr (a, rest)) \<longleftrightarrow> weights rest \<le> w"
  "leaves w (Inl (Syn_error m))" "leaves w (Inl (Todo m))"
  by (auto simp: leaves_def)

lemma leaves_mono: "leaves w r \<Longrightarrow> w \<le> w' \<Longrightarrow> leaves w' r"
  by (fastforce simp: leaves_def)

lemma leaves_rbind: "returns r \<Longrightarrow> (\<And>a. r = Inr a \<Longrightarrow> leaves w (f a)) \<Longrightarrow> leaves w (rbind r f)"
  by (cases r) (auto simp: leaves_def returns_def)

lemma leavesD: "leaves w r \<Longrightarrow> returns r" "leaves w r \<Longrightarrow> r = Inr (a, rest) \<Longrightarrow> weights rest \<le> w"
  by (auto simp: leaves_def)

lemma expr_loop_leaves_step:
  assumes E: "\<And>bp ts. weights ts + 2 \<le> n \<Longrightarrow> leaves (weights ts) (expr_bp S n bp ts)"
    and L: "\<And>bp lhs ts. weights ts + 1 \<le> n \<Longrightarrow> leaves (weights ts) (expr_loop S n bp lhs ts)"
    and w: "weights (t # ts) + 1 \<le> Suc n"
  shows "leaves (weights (t # ts)) (expr_loop S (Suc n) bp lhs (t # ts))"
proof -
  let ?parse = "\<lambda>inner. rbind (expr_bp S n 0 inner) (\<lambda>(r, _). Inr r)"
  have P: "returns (?parse us)" if "weights us + 2 \<le> n" for us
    using leavesD(1) [OF E [OF that]] by (auto intro!: returns_rbind)
  have n: "weights ts + 2 \<le> n" using w weight_ge [of t] by simp
  have rest: "leaves (weights (t # ts)) (expr_loop S n bp lhs' us)" if "weights us \<le> weights ts" for lhs' us
    using leaves_mono [OF L] that n by simp
  show ?thesis
  proof (cases t)
    case (PGroup d inner)
    then show ?thesis using w rest by (auto simp: Let_def intro!: leaves_rbind P)
  next
    case (PToken tree)
    then show ?thesis using rest by simp
  next
    case (BinOp op)
    obtain l r where b: "binding_power op = (l, r)" by fastforce
    note E' = E [OF n, of r]
    show ?thesis using BinOp b rest leavesD(2) [OF E']
      by (auto intro!: leaves_rbind leavesD(1) [OF E'])
  next
    case (SpecEnt once)
    have s: "returns (pop_group_of_nested_specs ?parse us)" if "weights us \<le> weights ts" for us
      by (rule nested_specs_returns, rule P) (use that n in simp)
    have c: "returns (collect_results (map ?parse (split_on (Rust Comma) True us)))"
      if "weights us \<le> weights ts" for us
    proof (rule returns_collect)
      fix r assume "r \<in> set (map ?parse (split_on (Rust Comma) True us))"
      then obtain g where "g \<in> set (split_on (Rust Comma) True us)" "r = ?parse g" by auto
      then show "returns r" using split_on_weights [of g "Rust Comma" True us] that n
        by (simp del: split_paired_Ex) (intro P, simp)
    qed
    show ?thesis
    proof (cases "pop_closure_args ts")
      case (Some p)
      obtain args us where p: "p = (args, us)" by fastforce
      have pw: "weights args + weights us \<le> weights ts" using pop_closure_args_weights Some p by blast
      have "leaves (weights (t # ts))
         (rbind (pop_group_of_nested_specs ?parse us) (\<lambda>(specs, us).
               rbind (collect_results (map ?parse (split_on (Rust Comma) True args))) (\<lambda>cl_args.
                 expr_loop S n bp (translate_spec_ent once lhs cl_args specs) us)))"
      proof (rule leaves_rbind)
        fix a assume "pop_group_of_nested_specs ?parse us = Inr a"
        moreover obtain specs vs where a: "a = (specs, vs)" by fastforce
        ultimately have "weights vs \<le> weights us" using nested_specs_weights by blast
        then show "leaves (weights (t # ts)) (case a of (specs, us) \<Rightarrow>
               rbind (collect_results (map ?parse (split_on (Rust Comma) True args))) (\<lambda>cl_args.
                 expr_loop S n bp (translate_spec_ent once lhs cl_args specs) us))"
          unfolding a prod.case using pw by (intro leaves_rbind rest c) simp_all
      qed (use s pw in simp)
      then show ?thesis using SpecEnt Some p by (simp add: Let_def)
    qed (simp add: SpecEnt)
  next
    case (ModeMarker k)
    show ?thesis
    proof (cases "pop_group Parenthesis ts")
      case (Some p)
      obtain inner us where p: "p = (inner, us)" by fastforce
      note pw = pop_group_weights [OF Some [unfolded p]]
      show ?thesis using ModeMarker Some p pw n
        by (simp add: Let_def) (intro leaves_rbind P leaves_mono [OF L], simp_all)
    qed (simp add: ModeMarker)
  qed simp_all
qed

lemma expr_bp_leaves_step:
  assumes E: "\<And>bp ts. weights ts + 2 \<le> n \<Longrightarrow> leaves (weights ts) (expr_bp S n bp ts)"
    and L: "\<And>bp lhs ts. weights ts + 1 \<le> n \<Longrightarrow> leaves (weights ts) (expr_loop S n bp lhs ts)"
    and w: "weights (t # ts) + 2 \<le> Suc n"
  shows "leaves (weights (t # ts)) (expr_bp S (Suc n) bp (t # ts))"
proof -
  let ?parse = "\<lambda>inner. rbind (expr_bp S n 0 inner) (\<lambda>(r, _). Inr r)"
  have P: "returns (?parse us)" if "weights us + 2 \<le> n" for us
    using leavesD(1) [OF E [OF that]] by (auto intro!: returns_rbind)
  show ?thesis unfolding expr_bp.simps
  proof (rule leaves_rbind)
    show "returns (expr_prefix S ?parse t ts)"
      by (rule expr_prefix_returns, rule P) (use w in simp)
    fix a assume "expr_prefix S ?parse t ts = Inr a"
    moreover obtain lhs us where a: "a = (lhs, us)" by fastforce
    ultimately have "weights us \<le> weights ts" using expr_prefix_weights by blast
    then show "leaves (weights (t # ts)) (case a of (lhs, us) \<Rightarrow> expr_loop S n bp lhs us)"
      unfolding a prod.case using w weight_ge [of t] by (intro leaves_mono [OF L]) simp_all
  qed
qed

lemma expr_leaves:
  "weights ts + 2 \<le> n \<Longrightarrow> leaves (weights ts) (expr_bp S n bp ts)"
  "weights us + 1 \<le> n \<Longrightarrow> leaves (weights us) (expr_loop S n bp' lhs us)"
proof (induction n arbitrary: bp ts bp' lhs us)
  case (Suc n)
  {
    case 1
    then show ?case by (cases ts) (simp, metis Suc expr_bp_leaves_step)
  next
    case 2
    then show ?case by (cases us) (simp, metis Suc expr_loop_leaves_step)
  }
qed simp_all

section \<open>More fuel gives the same result\<close>

definition extends :: "'a parsed \<Rightarrow> 'a parsed \<Rightarrow> bool" where
  "extends r r' \<longleftrightarrow> (returns r \<longrightarrow> r' = r)"

lemma extends_refl [simp]: "extends r r"
  by (simp add: extends_def)

lemma extends_rbind:
  "extends r r' \<Longrightarrow> (\<And>a. extends (f a) (f' a)) \<Longrightarrow> extends (rbind r f) (rbind r' f')"
  by (cases r) (auto simp: extends_def returns_def)

lemma extends_collect:
  "(\<And>x. x \<in> set xs \<Longrightarrow> extends (f x) (f' x)) \<Longrightarrow>
   extends (collect_results (map f xs)) (collect_results (map f' xs))"
  by (induction xs) (auto intro!: extends_rbind)

lemma extends_nested_parse:
  assumes "\<And>ts. extends (p ts) (p' ts)"
  shows "extends (nested_parse p spec) (nested_parse p' spec)"
  by (cases spec) (auto intro!: extends_rbind assms)

lemma extends_nested_specs:
  assumes "\<And>ts. extends (p ts) (p' ts)"
  shows "extends (pop_group_of_nested_specs p ts) (pop_group_of_nested_specs p' ts)"
  by (auto simp: pop_group_of_nested_specs_def split: option.split
      intro!: extends_rbind extends_collect extends_nested_parse assms)

lemma extends_triggers:
  assumes "\<And>ts. extends (p ts) (p' ts)"
  shows "extends (extract_triggers p ts) (extract_triggers p' ts)"
proof (cases rule: extract_triggers_cases [of p ts])
  case 1
  show ?thesis
  proof (cases rule: extract_triggers_cases [of p' ts])
    case (2 triggers front)
    then show ?thesis
      by (auto simp: extract_triggers_def split: option.split intro!: extends_rbind extends_collect assms)
  qed (simp add: 1)
next
  case (2 triggers front)
  then show ?thesis
    by (auto simp: extract_triggers_def split: option.split intro!: extends_rbind extends_collect assms)
qed

lemma extends_prefix:
  assumes "\<And>ts. extends (p ts) (p' ts)"
  shows "extends (expr_prefix S p t ts) (expr_prefix S p' t ts)"
  by (auto simp: expr_prefix_def quantifier_expr_def intro!: extends_rbind extends_triggers assms
      split: prusti_token.split option.split binary_op.split)

lemma extends_parse:
  "(\<And>bp ts. extends (expr_bp S n bp ts) (expr_bp S m bp ts)) \<Longrightarrow>
   extends (rbind (expr_bp S n 0 ts) (\<lambda>(r, _). Inr r)) (rbind (expr_bp S m 0 ts) (\<lambda>(r, _). Inr r))"
  by (rule extends_rbind) auto

lemma expr_extends:
  "extends (expr_bp S n bp ts) (expr_bp S (Suc n) bp ts)"
  "extends (expr_loop S n bp' lhs us) (expr_loop S (Suc n) bp' lhs us)"
proof (induction n arbitrary: bp ts bp' lhs us)
  case 0
  {
    case 1
    show ?case by (simp add: extends_def returns_def)
  next
    case 2
    show ?case by (simp add: extends_def returns_def)
  }
next
  case (Suc n)
  note p = extends_parse [of S n "Suc n", OF Suc(1)]
  {
    case 1
    show ?case
    proof (cases ts)
      case (Cons t ts')
      show ?thesis unfolding Cons expr_bp.simps(3)
        by (intro extends_rbind extends_prefix p) (simp split: prod.split add: Suc(2) del: expr_loop.simps)
    qed simp
  next
    case 2
    show ?case
    proof (cases us)
      case (Cons t ts')
      show ?thesis unfolding Cons expr_loop.simps(3) Let_def
        by (cases t)
           (simp_all only: prusti_token.case, auto simp del: expr_loop.simps expr_bp.simps
            split: prod.split option.split
            intro!: extends_rbind extends_nested_specs extends_collect p Suc)
    qed simp
  }
qed

lemma expr_mono:
  assumes "n \<le> m"
  shows "expr_bp S n bp ts = Inr x \<Longrightarrow> expr_bp S m bp ts = Inr x"
    and "expr_loop S n bp lhs ts = Inr x \<Longrightarrow> expr_loop S m bp lhs ts = Inr x"
  using assms
proof (induction m)
  case (Suc m)
  {
    case 1
    then show ?case using Suc(1) expr_extends(1) [of S m bp ts]
      by (auto simp: le_Suc_eq extends_def simp del: expr_bp.simps)
  next
    case 2
    then show ?case using Suc(2) expr_extends(2) [of S m bp lhs ts]
      by (auto simp: le_Suc_eq extends_def simp del: expr_loop.simps)
  }
qed simp_all

lemma pts_parse_eqI:
  assumes "expr_bp S n 0 ts = Inr (r, rest)"
  shows "pts_parse S ts = Inr r"
proof -
  let ?m = "weights ts + 2"
  have "returns (expr_bp S ?m 0 ts)" using leavesD(1) [OF expr_leaves(1) [of ts ?m]] by simp
  moreover have "expr_bp S (max n ?m) 0 ts = Inr (r, rest)" using expr_mono(1) [OF _ assms] by simp
  moreover have "extends (expr_bp S ?m 0 ts) (expr_bp S (?m + k) 0 ts)" for k
  proof (induction k)
    case (Suc k)
    then show ?case using expr_extends(1) [of S "?m + k" 0 ts]
      by (auto simp: extends_def simp del: expr_bp.simps)
  qed simp
  then have "extends (expr_bp S ?m 0 ts) (expr_bp S (max n ?m) 0 ts)"
    by (metis le_add_diff_inverse max.cobounded2)
  ultimately have "expr_bp S ?m 0 ts = Inr (r, rest)" by (simp add: extends_def)
  then show ?thesis by (simp add: pts_parse_def)
qed

text \<open>At the lowest binding power nothing is left over, so dropping the rest loses nothing.\<close>

lemma expr_consumes_all:
  "expr_bp S n 0 ts = Inr (r, rest) \<Longrightarrow> rest = []"
  "expr_loop S n 0 lhs ts = Inr (r, rest) \<Longrightarrow> rest = []"
proof (induction n arbitrary: ts lhs r rest)
  case (Suc n)
  {
    case 1
    then show ?case by (cases ts) (auto simp: rbind_eq_Inr dest: Suc)
  next
    case 2
    then show ?case
      by (cases ts)
         (auto simp: rbind_eq_Inr Let_def split: prusti_token.splits option.splits prod.splits if_splits dest: Suc)
  }
qed simp_all

section \<open>The parser without fuel\<close>

definition parses_bp where
  "parses_bp S bp ts r rest \<longleftrightarrow> (\<exists>n. expr_bp S n bp ts = Inr (r, rest))"

definition parses_loop where
  "parses_loop S bp lhs ts r rest \<longleftrightarrow> (\<exists>n. expr_loop S n bp lhs ts = Inr (r, rest))"

lemma parses_pts: "parses_bp S 0 ts r rest \<Longrightarrow> pts_parse S ts = Inr r"
  using pts_parse_eqI by (auto simp: parses_bp_def)

lemma parses_bp_Nil: "parses_bp S bp [] [] []"
  unfolding parses_bp_def by (rule exI [of _ "Suc 0"]) simp

lemma parses_loop_Nil: "parses_loop S bp lhs [] lhs []"
  unfolding parses_loop_def by (rule exI [of _ "Suc 0"]) simp

lemma parses_loop_stop:
  "fst (binding_power op) < bp \<Longrightarrow> parses_loop S bp lhs (BinOp op # ts) lhs (BinOp op # ts)"
  unfolding parses_loop_def by (rule exI [of _ "Suc 0"]) (simp add: case_prod_beta)

lemma parses_loop_token:
  "parses_loop S bp (lhs @ [t]) ts r rest \<Longrightarrow> parses_loop S bp lhs (PToken t # ts) r rest"
  unfolding parses_loop_def by (erule exE, rule_tac x = "Suc n" in exI) simp

lemma parses_bp_token:
  "parses_loop S bp [t] ts r rest \<Longrightarrow> parses_bp S bp (PToken t # ts) r rest"
  unfolding parses_loop_def parses_bp_def
  by (erule exE, rule_tac x = "Suc n" in exI) (simp add: expr_prefix_def)

lemma parses_bp_rust:
  "parses_loop S bp (rust_op_tokens op) ts r rest \<Longrightarrow> parses_bp S bp (BinOp (Rust op) # ts) r rest"
  unfolding parses_loop_def parses_bp_def
  by (erule exE, rule_tac x = "Suc n" in exI) (simp add: expr_prefix_def)

text \<open>Two runs with different fuel are run again with the larger one.\<close>

lemma parses_both:
  assumes "parses_bp S bp ts r rest" and "parses_loop S bp' lhs us r' rest'"
  obtains n where "expr_bp S n bp ts = Inr (r, rest)" and "expr_loop S n bp' lhs us = Inr (r', rest')"
proof -
  obtain n m where "expr_bp S n bp ts = Inr (r, rest)" "expr_loop S m bp' lhs us = Inr (r', rest')"
    using assms by (auto simp: parses_bp_def parses_loop_def)
  then have "expr_bp S (max n m) bp ts = Inr (r, rest)" "expr_loop S (max n m) bp' lhs us = Inr (r', rest')"
    using expr_mono [of n "max n m"] expr_mono [of m "max n m"] by auto
  then show thesis by (rule that)
qed

lemma parses_loop_group:
  assumes "parses_bp S 0 inner g rest0" and "parses_loop S bp (lhs @ [Group d g]) ts r rest"
  shows "parses_loop S bp lhs (PGroup d inner # ts) r rest"
proof -
  obtain n where "expr_bp S n 0 inner = Inr (g, rest0)" "expr_loop S n bp (lhs @ [Group d g]) ts = Inr (r, rest)"
    using parses_both [OF assms] .
  then show ?thesis unfolding parses_loop_def by (intro exI [of _ "Suc n"]) simp
qed

lemma parses_bp_group:
  assumes "parses_bp S 0 inner g rest0" and "parses_loop S bp [Group d g] ts r rest"
  shows "parses_bp S bp (PGroup d inner # ts) r rest"
proof -
  obtain n where "expr_bp S n 0 inner = Inr (g, rest0)" "expr_loop S n bp [Group d g] ts = Inr (r, rest)"
    using parses_both [OF assms] .
  then show ?thesis unfolding parses_bp_def by (intro exI [of _ "Suc n"]) (simp add: expr_prefix_def)
qed

lemma parses_loop_marker:
  assumes "parses_bp S 0 inner g rest0" and "parses_loop S bp (lhs @ marker_translate k g) ts r rest"
  shows "parses_loop S bp lhs (ModeMarker k # PGroup Parenthesis inner # ts) r rest"
proof -
  obtain n where "expr_bp S n 0 inner = Inr (g, rest0)"
      "expr_loop S n bp (lhs @ marker_translate k g) ts = Inr (r, rest)"
    using parses_both [OF assms] .
  then show ?thesis unfolding parses_loop_def by (intro exI [of _ "Suc n"]) (simp add: pop_group_def)
qed

lemma parses_bp_marker:
  assumes "parses_bp S 0 inner g rest0" and "parses_loop S bp (marker_translate k g) ts r rest"
  shows "parses_bp S bp (ModeMarker k # PGroup Parenthesis inner # ts) r rest"
proof -
  obtain n where "expr_bp S n 0 inner = Inr (g, rest0)"
      "expr_loop S n bp (marker_translate k g) ts = Inr (r, rest)"
    using parses_both [OF assms] .
  then show ?thesis unfolding parses_bp_def
    by (intro exI [of _ "Suc n"]) (simp add: expr_prefix_def pop_group_def)
qed

lemma parses_loop_binop:
  assumes "bp \<le> fst (binding_power op)" and "parses_bp S (snd (binding_power op)) ts rhs us"
    and "is_rust op \<or> rhs \<noteq> []" and "parses_loop S bp (op_translate op lhs rhs) us r rest"
  shows "parses_loop S bp lhs (BinOp op # ts) r rest"
proof -
  obtain n where "expr_bp S n (snd (binding_power op)) ts = Inr (rhs, us)"
      "expr_loop S n bp (op_translate op lhs rhs) us = Inr (r, rest)"
    using parses_both [OF assms(2,4)] .
  then show ?thesis using assms(1,3) unfolding parses_loop_def
    by (intro exI [of _ "Suc n"]) (auto split: prod.split)
qed

section \<open>Streams without Prusti syntax\<close>

lemma rust_parses:
  "list_all rust_token ts \<Longrightarrow> parses_bp S 0 ts (concat (map untoken ts)) []"
  "list_all rust_token ts \<Longrightarrow> parses_loop S 0 lhs ts (lhs @ concat (map untoken ts)) []"
proof (induction "weights ts" arbitrary: ts lhs rule: less_induct)
  case less
  have E: "parses_bp S 0 us (concat (map untoken us)) []" if "weights us < weights ts" "list_all rust_token us" for us
    using less(1) that by blast
  have L: "parses_loop S 0 l us (l @ concat (map untoken us)) []"
    if "weights us < weights ts" "list_all rust_token us" for us l
    using less(2) that by blast
  {
    case 1
    show ?case
    proof (cases ts)
      case (Cons t us)
      have us: "weights us < weights ts" "list_all rust_token us" using 1 Cons weight_ge [of t] by auto
      show ?thesis
      proof (cases t rule: rust_token.cases)
        case (1 d inner)
        have i: "parses_bp S 0 inner (concat (map untoken inner)) []"
          using E [of inner] \<open>list_all rust_token ts\<close> Cons 1 by simp
        show ?thesis using parses_bp_group [OF i L [OF us]] Cons 1 by simp
      next
        case (2 tt)
        show ?thesis using parses_bp_token [OF L [OF us]] Cons 2 by simp
      next
        case (3 op)
        show ?thesis using parses_bp_rust [OF L [OF us]] Cons 3 by simp
      qed (use \<open>list_all rust_token ts\<close> Cons in simp_all)
    qed (simp add: parses_bp_Nil)
  next
    case 2
    show ?case
    proof (cases ts)
      case (Cons t us)
      have us: "weights us < weights ts" "list_all rust_token us" using 2 Cons weight_ge [of t] by auto
      show ?thesis
      proof (cases t rule: rust_token.cases)
        case (1 d inner)
        have i: "parses_bp S 0 inner (concat (map untoken inner)) []"
          using E [of inner] \<open>list_all rust_token ts\<close> Cons 1 by simp
        show ?thesis using parses_loop_group [OF i L [OF us]] Cons 1 by simp
      next
        case (2 tt)
        show ?thesis using parses_loop_token [OF L [OF us]] Cons 2 by simp
      next
        case (3 op)
        have "parses_loop S 0 lhs (BinOp (Rust op) # us) (op_translate (Rust op) lhs (concat (map untoken us))) []"
          by (rule parses_loop_binop [where us = "[]"])
             (use E [OF us] parses_loop_Nil in \<open>auto simp: binding_power_def\<close>)
        then show ?thesis using Cons 3 by (simp add: op_translate_def rust_op_translate_def)
      qed (use \<open>list_all rust_token ts\<close> Cons in simp_all)
    qed (simp add: parses_loop_Nil)
  }
qed

section \<open>Expressions and binding powers\<close>

text \<open>
  Expressions of the specification language: operands are non-empty runs of Rust tokens, groups
  and marked expressions (\<^verbatim>\<open>old(..)\<close> and its kin), combined by binary operators.
\<close>

datatype spec_expr = Operand "operand_item list" | Binary binary_op spec_expr spec_expr
  and operand_item = Tok token_tree | Grp delimiter "spec_expr option" | Marked marker_kind spec_expr

primrec print_expr :: "spec_expr \<Rightarrow> prusti_token list"
  and print_item :: "operand_item \<Rightarrow> prusti_token list" where
  "print_expr (Operand its) = concat (map print_item its)"
| "print_expr (Binary op l r) = print_expr l @ [BinOp op] @ print_expr r"
| "print_item (Tok t) = [PToken t]"
| "print_item (Grp d e) = [PGroup d (case map_option print_expr e of None \<Rightarrow> [] | Some ts \<Rightarrow> ts)]"
| "print_item (Marked k e) = [ModeMarker k, PGroup Parenthesis (print_expr e)]"

primrec meaning :: "spec_expr \<Rightarrow> token_stream"
  and item_meaning :: "operand_item \<Rightarrow> token_stream" where
  "meaning (Operand its) = concat (map item_meaning its)"
| "meaning (Binary op l r) = op_translate op (meaning l) (meaning r)"
| "item_meaning (Tok t) = [t]"
| "item_meaning (Grp d e) = [Group d (case map_option meaning e of None \<Rightarrow> [] | Some ts \<Rightarrow> ts)]"
| "item_meaning (Marked k e) = marker_translate k (meaning e)"

text \<open>The operators on the left and right spine of an expression.\<close>

fun left_ops :: "spec_expr \<Rightarrow> binary_op list" where
  "left_ops (Operand _) = []"
| "left_ops (Binary op l r) = op # left_ops l"

fun right_ops :: "spec_expr \<Rightarrow> binary_op list" where
  "right_ops (Operand _) = []"
| "right_ops (Binary op l r) = op # right_ops r"

text \<open>
  An expression that needs no further parentheses: the operators on the left spine of a right
  operand bind at least as tightly as the operator asks of its right side, and the operators on
  the right spine of a left operand bind tighter than the operator pulls on its left side.
\<close>

primrec wellbound :: "spec_expr \<Rightarrow> bool"
  and item_wellbound :: "operand_item \<Rightarrow> bool" where
  "wellbound (Operand its) = (its \<noteq> [] \<and> list_all id (map item_wellbound its))"
| "wellbound (Binary op l r) =
     (wellbound l \<and> wellbound r \<and>
      (\<forall>op' \<in> set (left_ops r). snd (binding_power op) \<le> fst (binding_power op')) \<and>
      (\<forall>op' \<in> set (right_ops l). fst (binding_power op) < snd (binding_power op')))"
| "item_wellbound (Tok t) = True"
| "item_wellbound (Grp d e) = (case map_option wellbound e of None \<Rightarrow> True | Some b \<Rightarrow> b)"
| "item_wellbound (Marked k e) = wellbound e"

definition follows :: "spec_expr \<Rightarrow> prusti_token list \<Rightarrow> bool" where
  "follows e rest \<longleftrightarrow>
     (case rest of
        [] \<Rightarrow> True
      | BinOp op # _ \<Rightarrow> \<forall>op' \<in> set (right_ops e). fst (binding_power op) < snd (binding_power op')
      | _ \<Rightarrow> False)"

lemma op_translate_nonempty: "op_translate op l r \<noteq> []"
  by (cases op) (auto simp: op_translate_def rust_op_translate_def rust_op_tokens_def puncts_def Let_def
      split: rust_op.split)

lemma item_meaning_nonempty: "item_meaning i \<noteq> []"
  by (cases i) (auto simp: marker_translate_def Let_def split: prod.split)

lemma meaning_nonempty: "wellbound e \<Longrightarrow> meaning e \<noteq> []"
  by (cases e) (auto simp: op_translate_nonempty item_meaning_nonempty neq_Nil_conv)

lemma follows_Nil [simp]: "follows e []"
  by (simp add: follows_def)

lemma follows_Binary: "follows (Binary op l r) rest \<Longrightarrow> follows r rest"
  by (auto simp: follows_def split: list.splits prusti_token.splits)

lemma follows_stop: "follows (Binary op l r) rest \<Longrightarrow> parses_loop S (snd (binding_power op)) lhs rest lhs rest"
  by (auto simp: follows_def parses_loop_Nil split: list.splits prusti_token.splits intro!: parses_loop_stop)

text \<open>An item is parsed as part of an operand, given that nested expressions are.\<close>

definition item_ok :: "syn_api \<Rightarrow> operand_item \<Rightarrow> bool" where
  "item_ok S i \<longleftrightarrow> (\<forall>bp ts r rest.
     (parses_loop S bp (item_meaning i) ts r rest \<longrightarrow> parses_bp S bp (print_item i @ ts) r rest) \<and>
     (\<forall>lhs. parses_loop S bp (lhs @ item_meaning i) ts r rest \<longrightarrow> parses_loop S bp lhs (print_item i @ ts) r rest))"

lemma items_loop:
  "list_all (item_ok S) its \<Longrightarrow> parses_loop S bp (lhs @ concat (map item_meaning its)) ts r rest \<Longrightarrow>
   parses_loop S bp lhs (concat (map print_item its) @ ts) r rest"
proof (induction its arbitrary: lhs)
  case (Cons i its)
  then have "parses_loop S bp (lhs @ item_meaning i) (concat (map print_item its) @ ts) r rest" by simp
  then show ?case using Cons.prems(1) by (simp add: item_ok_def)
qed simp

lemma items_bp:
  assumes "list_all (item_ok S) its" and "its \<noteq> []"
    and "parses_loop S bp (concat (map item_meaning its)) ts r rest"
  shows "parses_bp S bp (concat (map print_item its) @ ts) r rest"
proof (cases its)
  case (Cons i js)
  then have "parses_loop S bp (item_meaning i) (concat (map print_item js) @ ts) r rest"
    using assms by (intro items_loop) auto
  then show ?thesis using assms(1) Cons by (simp add: item_ok_def)
qed (use assms in simp)

lemma wellbound_parses:
  "wellbound e \<Longrightarrow> (\<forall>op' \<in> set (left_ops e). bp \<le> fst (binding_power op')) \<Longrightarrow> follows e rest \<Longrightarrow>
   parses_loop S bp (meaning e) rest r rest' \<Longrightarrow> parses_bp S bp (print_expr e @ rest) r rest'"
  "item_wellbound i \<Longrightarrow> item_ok S i"
proof (induction e and i arbitrary: bp rest r rest' and rule: spec_expr.induct operand_item.induct)
  case (Operand its)
  then have "list_all (item_ok S) its" by (auto simp: list_all_iff)
  then show ?case using Operand by (auto intro!: items_bp)
next
  case (Binary op l rr)
  have "parses_bp S (snd (binding_power op)) (print_expr rr @ rest) (meaning rr) rest"
    using Binary.prems by (intro Binary.IH(2)) (auto intro: follows_Binary follows_stop)
  then have "parses_loop S bp (meaning l) (BinOp op # print_expr rr @ rest) r rest'"
    using Binary.prems meaning_nonempty [of rr] by (intro parses_loop_binop) auto
  then show ?case using Binary.prems Binary.IH(1) [of bp "BinOp op # print_expr rr @ rest"]
    by (simp add: follows_def)
next
  case (Tok t)
  show ?case by (auto simp: item_ok_def intro: parses_bp_token parses_loop_token)
next
  case (Grp d e)
  have "parses_bp S 0 (case map_option print_expr e of None \<Rightarrow> [] | Some ts \<Rightarrow> ts)
          (case map_option meaning e of None \<Rightarrow> [] | Some ts \<Rightarrow> ts) []"
  proof (cases e)
    case (Some x)
    then show ?thesis using Grp.IH [of x 0 "[]"] Grp.prems by (simp add: parses_loop_Nil)
  qed (simp add: parses_bp_Nil)
  then show ?case by (auto simp: item_ok_def intro: parses_bp_group parses_loop_group)
next
  case (Marked k e)
  have "parses_bp S 0 (print_expr e) (meaning e) []"
    using Marked.IH [of 0 "[]"] Marked.prems by (simp add: parses_loop_Nil)
  then show ?case by (auto simp: item_ok_def intro: parses_bp_marker parses_loop_marker)
qed

end
