(* ===== verification/Preparser_Props.thy ===== *)
theory Preparser_Props
  imports Preparser_Laws
begin

text \<open>The properties of the preparser, and its unit tests evaluated in the model.\<close>

section \<open>Correct translation\<close>

text \<open>C9: The parser translates every expression according to the binding powers of its
  operators: if the expression respects them (so that it is written without further parentheses),
  parsing its tokens gives the compositional translation of the expression, with implication and
  equivalence right associative, snapshot equality binding tighter than conjunction, conjunction
  tighter than disjunction, and so on.\<close>

theorem pts_parse_correct:
  assumes "wellbound e"
  shows "pts_parse S (print_expr e) = Inr (meaning e)"
proof -
  have "parses_bp S 0 (print_expr e @ []) (meaning e) []"
    using assms by (intro wellbound_parses) (simp_all add: parses_loop_Nil)
  then show ?thesis by (simp add: parses_pts)
qed

abbreviation ident_operand :: "string \<Rightarrow> spec_expr" where
  "ident_operand i \<equiv> Operand [Tok (Ident i)]"

definition accept_all :: syn_api where
  "accept_all = \<lparr>syn_parse_expr = (\<lambda>_. None), syn_closure_inputs = (\<lambda>_. Inr [True])\<rparr>"

theorem pts_parse_correct_witness:
  "pts_parse accept_all
     [PToken (Ident ''a''), BinOp Implies, PToken (Ident ''b''), BinOp And, PToken (Ident ''c''),
      BinOp Implies, PToken (Ident ''d'')] =
   Inr ([pt CHR ''!'', paren [Ident ''a'']] @ puncts ''||'' @
        [paren ([pt CHR ''!'', paren ([paren [Ident ''b'']] @ puncts ''&&'' @ [paren [Ident ''c'']])] @
           puncts ''||'' @ [paren [Ident ''d'']])])"
  using pts_parse_correct [of "Binary Implies (ident_operand ''a'')
      (Binary Implies (Binary And (ident_operand ''b'') (ident_operand ''c'')) (ident_operand ''d''))"
      accept_all]
  by (simp add: binding_power_def op_translate_def)

text \<open>C23: On token streams in which no Prusti syntax is recognised, the preparser is the identity:
  plain Rust expressions reach \<^verbatim>\<open>syn\<close> token for token as the user wrote them.\<close>

theorem parse_prusti_rust_identity:
  assumes "list_all rust_token (pts_new tokens)" and "syn_parse_expr S tokens = None"
  shows "parse_prusti S tokens = Inr tokens"
proof -
  have "pts_parse S (pts_new tokens) = Inr tokens"
    using parses_pts [OF rust_parses(1) [OF assms(1)]] untoken_pts_new [OF assms(1)] by simp
  then show ?thesis using assms(2) by (simp add: parse_prusti_def syn_check_def)
qed

theorem parse_prusti_rust_identity_witness:
  "parse_prusti accept_all
     [Ident ''x'', Punct CHR ''+'' Joint, Punct CHR ''='' Alone,
      Group Parenthesis [Literal ''1'', Punct CHR '','' Alone, Ident ''y'']] =
   Inr [Ident ''x'', Punct CHR ''+'' Joint, Punct CHR ''='' Alone,
      Group Parenthesis [Literal ''1'', Punct CHR '','' Alone, Ident ''y'']]"
  by (rule parse_prusti_rust_identity)
     (code_simp, simp add: accept_all_def)

section \<open>Totality\<close>

lemma pts_parse_returns: "returns (pts_parse S ts)"
  using leavesD(1) [OF expr_leaves(1) [of ts "weights ts + 2"]]
  by (auto simp: pts_parse_def intro!: returns_rbind)

lemma syn_check_returns: "returns (syn_check S ts)"
  by (simp add: syn_check_def split: option.split)

lemma check_result_reference_returns: "returns (check_result_reference m r)"
  by (simp add: check_result_reference_def split: option.split)

text \<open>Parsing specifications, pledges and assert-pledges always ends: whatever the tokens, it
  gives a translation, a syntax error or one of the two \<^verbatim>\<open>todo!()\<close> panics.\<close>

theorem parse_prusti_total:
  "parse_prusti S tokens \<noteq> Inl Out_of_fuel \<and>
   parse_prusti_pledge S tokens \<noteq> Inl Out_of_fuel \<and>
   parse_prusti_assert_pledge S tokens \<noteq> Inl Out_of_fuel"
proof -
  have "returns (parse_pledge S ts)" for ts
    by (auto simp: parse_pledge_def intro!: returns_rbind pts_parse_returns split: list.split)
  moreover have "returns (parse_assert_pledge S ts)" for ts
    by (auto simp: parse_assert_pledge_def intro!: returns_rbind pts_parse_returns split: list.split)
  ultimately have "returns (parse_prusti S tokens)" "returns (parse_prusti_pledge S tokens)"
      "returns (parse_prusti_assert_pledge S tokens)"
    by (auto simp: parse_prusti_def parse_prusti_pledge_def parse_prusti_assert_pledge_def
        intro!: returns_rbind pts_parse_returns syn_check_returns check_result_reference_returns)
  then show ?thesis by (simp add: returns_def)
qed

text \<open>\<^verbatim>\<open>PrustiTokenStream::parse\<close> drops what \<^verbatim>\<open>expr_bp(0)\<close> leaves in the stream; that is
  always nothing, so no token of a specification is silently ignored.\<close>

theorem expr_bp_consumes_all:
  assumes "expr_bp S n 0 ts = Inr (r, rest)"
  shows "rest = []"
  using expr_consumes_all(1) [OF assms] .

theorem expr_bp_consumes_all_witness:
  "\<exists>r rest. expr_bp accept_all 9 0 [PToken (Ident ''a''), BinOp Iff, PToken (Ident ''b'')] = Inr (r, rest) \<and> rest = []"
proof -
  obtain r rest where "expr_bp accept_all 9 0 [PToken (Ident ''a''), BinOp Iff, PToken (Ident ''b'')] = Inr (r, rest)"
    by (simp add: eval_nat_numeral expr_prefix_def binding_power_def)
  then show ?thesis using expr_bp_consumes_all by blast
qed

section \<open>Pledges\<close>

lemma split_slice_none: "list_all (\<lambda>x. \<not> P x) xs \<Longrightarrow> split_slice P xs = [xs]"
  by (induction xs) auto

lemma split_slice_one:
  "list_all (\<lambda>x. \<not> P x) xs \<Longrightarrow> list_all (\<lambda>x. \<not> P x) ys \<Longrightarrow> P s \<Longrightarrow>
   split_slice P (xs @ s # ys) = [xs, ys]"
  by (induction xs) (auto simp: split_slice_none)

text \<open>A pledge \<^verbatim>\<open>lhs => rhs\<close> is accepted only for the reference \<^verbatim>\<open>result\<close>: when both sides
  parse (and have no further top-level arrow), the pledge is its translated right-hand side if the
  translated left-hand side is exactly \<^verbatim>\<open>result\<close> and \<^verbatim>\<open>syn\<close> accepts it, and an error
  otherwise.\<close>

theorem parse_prusti_pledge_spec:
  assumes "pts_new tokens = lhs @ BinOp (Rust Arrow) # rhs"
    and "BinOp (Rust Arrow) \<notin> set lhs" and "BinOp (Rust Arrow) \<notin> set rhs"
    and "pts_parse S lhs = Inr l" and "pts_parse S rhs = Inr r"
  shows "parse_prusti_pledge S tokens =
           (if l = [Ident ''result'']
            then case syn_parse_expr S r of None \<Rightarrow> Inr r | Some msg \<Rightarrow> Inl (Syn_error msg)
            else Inl (Syn_error (''reference of after_expiry must be '' @ [CHR 0x22] @ ''result'' @ [CHR 0x22])))"
proof -
  have "list_all (\<lambda>x. x \<noteq> BinOp (Rust Arrow)) lhs" "list_all (\<lambda>x. x \<noteq> BinOp (Rust Arrow)) rhs"
    using assms(2,3) by (auto simp: list_all_iff)
  then have "split_on (Rust Arrow) False (lhs @ BinOp (Rust Arrow) # rhs) = [lhs, rhs]"
    using split_slice_one [of "\<lambda>t. t = BinOp (Rust Arrow)" lhs rhs "BinOp (Rust Arrow)"]
    by (simp add: split_on_def)
  then show ?thesis using assms
    by (simp add: parse_prusti_pledge_def parse_pledge_def check_result_reference_def syn_check_def
        split: option.split)
qed

theorem parse_prusti_pledge_spec_witness:
  "parse_prusti_pledge accept_all ([Ident ''result''] @ puncts ''=>'' @ [Ident ''b'']) = Inr [Ident ''b'']"
proof -
  have 1: "pts_new ([Ident ''result''] @ puncts ''=>'' @ [Ident ''b'']) =
      [PToken (Ident ''result'')] @ BinOp (Rust Arrow) # [PToken (Ident ''b'')]" by code_simp
  have 2: "pts_parse accept_all [PToken (Ident ''result'')] = Inr [Ident ''result'']" by code_simp
  have 3: "pts_parse accept_all [PToken (Ident ''b'')] = Inr [Ident ''b'']" by code_simp
  show ?thesis using parse_prusti_pledge_spec [OF 1 _ _ 2 3] by (simp add: accept_all_def)
qed

section \<open>Unit tests\<close>

text \<open>The expected outputs of the unit tests in \<^verbatim>\<open>preparser.rs\<close>, as tokens.\<close>

lemma unit_test_implies:
  "parse_prusti accept_all ([Ident ''a''] @ puncts ''==>'' @ [Ident ''b'']) =
     Inr ([pt CHR ''!'', paren [Ident ''a'']] @ puncts ''||'' @ [paren [Ident ''b'']])"
  by code_simp

lemma unit_test_implies_assoc:
  "parse_prusti accept_all ([Ident ''a''] @ puncts ''==>'' @ [Ident ''b''] @ puncts ''==>'' @ [Ident ''c'']) =
     Inr ([pt CHR ''!'', paren [Ident ''a'']] @ puncts ''||'' @
       [paren ([pt CHR ''!'', paren [Ident ''b'']] @ puncts ''||'' @ [paren [Ident ''c'']])])"
  by code_simp

lemma unit_test_snap_eq:
  "parse_prusti accept_all ([Ident ''a''] @ puncts ''==='' @ [Ident ''b'', pt CHR ''+'', Ident ''c'']) =
     Inr [paren (new_ref (paren [Ident ''a'']) @ puncts ''=='' @
       new_ref (paren [Ident ''b'', pt CHR ''+'', Ident ''c'']))]"
  by code_simp

lemma unit_test_precedence:
  "parse_prusti accept_all
     ([Group Parenthesis ([Ident ''a''] @ puncts ''==>'' @ [Ident ''b''] @ puncts ''&&'' @ [Ident ''c''])] @
      puncts ''==>'' @ [Ident ''d''] @ puncts ''||'' @ [Ident ''e'']) =
   Inr ([pt CHR ''!'', paren [paren ([pt CHR ''!'', paren [Ident ''a'']] @ puncts ''||'' @
           [paren ([paren [Ident ''b'']] @ puncts ''&&'' @ [paren [Ident ''c'']])])]] @ puncts ''||'' @
        [paren ([paren [Ident ''d'']] @ puncts ''||'' @ [paren [Ident ''e'']])])"
  by code_simp

lemma unit_test_forall_triggers:
  "parse_prusti accept_all
     [Ident ''forall'', paren ([pt CHR ''|'', Ident ''x'', pt CHR '':'', Ident ''i32'', pt CHR ''|'', Ident ''a''] @
        puncts ''==>'' @ [Ident ''b'', pt CHR '','', Ident ''triggers'', pt CHR ''='',
          Group Bracket [paren [Ident ''c'', pt CHR '',''], pt CHR '','',
            paren [Ident ''d'', pt CHR '','', Ident ''e'']]])] =
   Inr (quantifier_translate Forall [[[Ident ''c'']], [[Ident ''d''], [Ident ''e'']]]
     [Ident ''x'', pt CHR '':'', Ident ''i32'']
     ([pt CHR ''!'', paren [Ident ''a'']] @ puncts ''||'' @ [paren [Ident ''b'']]))"
  by code_simp

section \<open>Rejected inputs\<close>

text \<open>
  A specification entailment for a closure without arguments is always rejected: the token
  \<^verbatim>\<open>||\<close> is recognised as the empty argument list but stays in the stream, where the bracketed
  specifications are expected.
\<close>

theorem spec_ent_without_args_rejected:
  "expr_loop S (Suc n) bp lhs (SpecEnt once # BinOp Or # ts) =
     Inl (Syn_error ''expected nested specification in brackets'')"
  by (simp add: pop_closure_args_def pop_group_of_nested_specs_def pop_group_def)

text \<open>
  The check that quantifier arguments are typed sees them without delimiters: the argument
  \<^verbatim>\<open>x: (i32, i32)\<close> becomes the two arguments \<^verbatim>\<open>x: i32, i32\<close>.
\<close>

theorem quantifier_args_lose_delimiters:
  "parse_rust_only (pts_new [Ident ''x'', pt CHR '':'', paren [Ident ''i32'', pt CHR '','', Ident ''i32'']]) =
     Inr [Ident ''x'', pt CHR '':'', Ident ''i32'', pt CHR '','', Ident ''i32'']"
  by code_simp

end
