(* ===== verification/Smt_Log_Parser.thy ===== *)
theory Smt_Log_Parser
  imports Prusti_Prelude "HOL-Library.Word"
begin

text \<open>
  \<^verbatim>\<open>smt-log-analyzer/src/parser.rs\<close>: the parser for one line of a Z3 log. The cursor is the
  string of the characters still to be read. Character classes are those of ASCII.
\<close>

section \<open>Types and errors\<close>

type_synonym smt_id = "32 word"
type_synonym quantifier_id = "32 word"
type_synonym term_id = "32 word"
type_synonym fingerprint = "64 word"

definition BUILTIN_QUANTIFIER_ID :: quantifier_id where
  "BUILTIN_QUANTIFIER_ID = - 1"

datatype error_kind = ConsumeFailed | ParseIdFailed | EofCheckFailed

text \<open>An \<^verbatim>\<open>Error\<close> with the remaining line, or a panic.\<close>

datatype smt_fail = Parse_error error_kind string | Smt_panic string

type_synonym 'a smt_result = "smt_fail + 'a"

datatype event_kind =
  EPop | EPush | EMkQuant | EMkApp | ENewMatch | EInstDiscovered | EInstance | EUnrecognized
  | EAttachMeaning | EMkVar

datatype theory_kind = Arith | Basic | Datatype | UserSort

datatype quant_term = Single term_id | Pair term_id term_id

section \<open>The cursor\<close>

definition is_whitespace :: "char \<Rightarrow> bool" where
  "is_whitespace c = (c \<in> {CHR '' '', CHR 0x09, CHR 0x0A, CHR 0x0B, CHR 0x0C, CHR 0x0D})"

definition in_range :: "char \<Rightarrow> char \<Rightarrow> char \<Rightarrow> bool" where
  "in_range lo hi c = ((of_char lo :: nat) \<le> of_char c \<and> of_char c \<le> (of_char hi :: nat))"

definition is_alphabetic :: "char \<Rightarrow> bool" where
  "is_alphabetic c = (in_range CHR ''a'' CHR ''z'' c \<or> in_range CHR ''A'' CHR ''Z'' c)"

definition is_digit :: "char \<Rightarrow> bool" where
  "is_digit c = in_range CHR ''0'' CHR ''9'' c"

definition is_ascii_hexdigit :: "char \<Rightarrow> bool" where
  "is_ascii_hexdigit c =
     (is_digit c \<or> in_range CHR ''a'' CHR ''f'' c \<or> in_range CHR ''A'' CHR ''F'' c)"

definition remaining :: "string \<Rightarrow> string" where
  "remaining s = filter (\<lambda>c. c \<noteq> CHR 0x0A) s"

definition try_consume :: "char \<Rightarrow> string \<Rightarrow> bool \<times> string" where
  "try_consume c s = (case s of x # r \<Rightarrow> if x = c then (True, r) else (False, s) | [] \<Rightarrow> (False, s))"

definition consume :: "char \<Rightarrow> string \<Rightarrow> string smt_result" where
  "consume c s =
     (case try_consume c s of
        (True, r) \<Rightarrow> Inr r
      | (False, r) \<Rightarrow> Inl (Parse_error ConsumeFailed (remaining r)))"

text \<open>
  \<^verbatim>\<open>position\<close> unwraps the next character, before and after the loop: the line must not end
  within the consumed word.
\<close>

definition consume_while :: "(char \<Rightarrow> bool) \<Rightarrow> string \<Rightarrow> (string \<times> string) smt_result" where
  "consume_while P s =
     (if s = [] \<or> dropWhile P s = [] then Inl (Smt_panic ''called `Option::unwrap()` on a `None` value'')
      else Inr (takeWhile P s, dropWhile P s))"

definition skip_whitespace :: "string \<Rightarrow> string" where
  "skip_whitespace s = dropWhile is_whitespace s"

section \<open>Words, numbers and identifiers\<close>

definition is_word_char :: "char \<Rightarrow> bool" where
  "is_word_char c = (is_alphabetic c \<or> c = CHR ''-'')"

definition event_of_name :: "string \<Rightarrow> event_kind option" where
  "event_of_name kind =
     (if kind = ''pop'' then Some EPop
      else if kind = ''push'' then Some EPush
      else if kind = ''mk-quant'' then Some EMkQuant
      else if kind = ''mk-app'' then Some EMkApp
      else if kind = ''mk-var'' then Some EMkVar
      else if kind = ''new-match'' then Some ENewMatch
      else if kind = ''inst-discovered'' then Some EInstDiscovered
      else if kind = ''instance'' then Some EInstance
      else if kind = ''attach-meaning'' then Some EAttachMeaning
      else if kind \<in> {''tool-version'', ''attach-var-names'', ''mk-proof'', ''attach-enode'',
        ''end-of-instance'', ''mk-lambda'', ''begin-check'', ''assign'', ''eq-expl'',
        ''decide-and-or'', ''resolve-lit'', ''resolve-process'', ''conflict'', ''eof''}
      then Some EUnrecognized
      else None)"

definition parse_event_kind :: "string \<Rightarrow> (event_kind \<times> string) smt_result" where
  "parse_event_kind s =
     (case try_consume CHR ''['' s of
        (False, r) \<Rightarrow> Inr (EUnrecognized, r)
      | (True, r) \<Rightarrow>
          rbind (consume_while is_word_char r) (\<lambda>(kind, r).
            case event_of_name kind of
              None \<Rightarrow> Inl (Smt_panic (''not implemented: got: '' @ [CHR 0x22] @ kind @ [CHR 0x22]))
            | Some e \<Rightarrow> rbind (consume CHR '']'' r) (\<lambda>r. Inr (e, r))))"

text \<open>The panic of \<^verbatim>\<open>parse_theory\<close> also quotes the whole line.\<close>

definition parse_theory :: "string \<Rightarrow> (theory_kind \<times> string) smt_result" where
  "parse_theory s =
     rbind (consume_while is_word_char (skip_whitespace s)) (\<lambda>(kind, r).
       let found = (\<lambda>k. rbind (consume CHR ''#'' r) (\<lambda>r. Inr (k, r)))
       in if kind = ''basic'' then found Basic
          else if kind = ''arith'' then found Arith
          else if kind = ''datatype'' then found Datatype
          else if kind = ''user-sort'' then found UserSort
          else Inl (Smt_panic ''not implemented: got line''))"

text \<open>
  \<^verbatim>\<open>parse_number\<close> reads hexadecimal digits but converts them as a decimal \<^verbatim>\<open>u32\<close>; a failed
  conversion is a panic.
\<close>

definition parse_number :: "string \<Rightarrow> (32 word \<times> string) smt_result" where
  "parse_number s =
     rbind (consume_while is_ascii_hexdigit (skip_whitespace s)) (\<lambda>(digs, r).
       case decimal digs of
         Some n \<Rightarrow> if n < 2 ^ 32 then Inr (of_nat n, r) else Inl (Smt_panic ''explicit panic'')
       | None \<Rightarrow> Inl (Smt_panic ''explicit panic''))"

definition hex_value :: "char \<Rightarrow> nat" where
  "hex_value c =
     (if is_digit c then of_char c - 48
      else if in_range CHR ''a'' CHR ''f'' c then of_char c - 87 else of_char c - 55)"

definition parse_hex_number :: "string \<Rightarrow> (fingerprint \<times> string) smt_result" where
  "parse_hex_number s =
     rbind (consume CHR ''0'' (skip_whitespace s)) (\<lambda>r.
       case try_consume CHR ''x'' r of
         (False, r) \<Rightarrow> Inr (0, r)
       | (True, r) \<Rightarrow>
           rbind (consume_while is_ascii_hexdigit r) (\<lambda>(digs, r).
             let n = foldl (\<lambda>acc c. 16 * acc + hex_value c) 0 digs
             in if digs = [] \<or> 2 ^ 64 \<le> n
                then Inl (Smt_panic ''called `Result::unwrap()` on an `Err` value'')
                else Inr (of_nat n, r)))"

definition try_parse_id :: "string \<Rightarrow> (smt_id option \<times> string) smt_result" where
  "try_parse_id s =
     (case try_consume CHR ''#'' (skip_whitespace s) of
        (True, r) \<Rightarrow> rbind (parse_number r) (\<lambda>(n, r). Inr (Some n, r))
      | (False, r) \<Rightarrow> Inr (None, r))"

definition parse_id :: "string \<Rightarrow> (smt_id \<times> string) smt_result" where
  "parse_id s =
     rbind (try_parse_id s) (\<lambda>(id, r).
       case id of
         Some i \<Rightarrow> Inr (i, r)
       | None \<Rightarrow> Inl (Parse_error ParseIdFailed (remaining r)))"

definition try_parse_quant_term :: "string \<Rightarrow> (quant_term option \<times> string) smt_result" where
  "try_parse_quant_term s =
     (case try_consume CHR ''('' (skip_whitespace s) of
        (True, r) \<Rightarrow>
          rbind (parse_id r) (\<lambda>(original, r).
          rbind (parse_id r) (\<lambda>(matched, r).
          rbind (consume CHR '')'' r) (\<lambda>r.
            Inr (Some (if original \<noteq> matched then Pair original matched else Single matched), r))))
      | (False, r) \<Rightarrow> rbind (try_parse_id r) (\<lambda>(id, r). Inr (map_option Single id, r)))"

definition is_valid_name :: "char \<Rightarrow> bool" where
  "is_valid_name c = (is_alphabetic c \<or> is_digit c \<or> c \<in> set ''$.<>=!%@-[]_#'')"

definition parse_name :: "string \<Rightarrow> (string \<times> string) smt_result" where
  "parse_name s = consume_while is_valid_name (skip_whitespace s)"

definition check_eof :: "string \<Rightarrow> unit smt_result" where
  "check_eof s =
     (let r = skip_whitespace s in
      if r = [] then Inr () else Inl (Parse_error EofCheckFailed (remaining r)))"

section \<open>Progress of the cursor\<close>

lemma skip_whitespace_length: "length (skip_whitespace s) \<le> length s"
  by (simp add: skip_whitespace_def length_dropWhile_le)

lemma consume_while_append: "consume_while P s = Inr (w, r) \<Longrightarrow> s = w @ r \<and> r \<noteq> [] \<and> list_all P w \<and> \<not> P (hd r)"
  by (auto simp: consume_while_def list_all_iff dest: set_takeWhileD split: if_splits)
     (metis dropWhile_eq_Nil_conv hd_dropWhile)

lemma parse_number_length: "parse_number s = Inr (n, r) \<Longrightarrow> length r \<le> length s"
  using skip_whitespace_length [of s]
  by (auto simp: parse_number_def rbind_eq_Inr dest!: consume_while_append split: option.splits if_splits)

lemma try_parse_id_length:
  "try_parse_id s = Inr (i, r) \<Longrightarrow> length r \<le> length s \<and> (i \<noteq> None \<longrightarrow> length r < length s)"
  using skip_whitespace_length [of s]
  by (cases "skip_whitespace s")
     (auto simp: try_parse_id_def try_consume_def rbind_eq_Inr skip_whitespace_length
      dest!: parse_number_length split: if_splits)

lemma parse_id_length: "parse_id s = Inr (i, r) \<Longrightarrow> length r < length s"
  by (auto simp: parse_id_def rbind_eq_Inr dest!: try_parse_id_length split: option.splits)

lemma try_consume_length: "try_consume c s = (b, r) \<Longrightarrow> length r \<le> length s"
  by (auto simp: try_consume_def split: list.splits if_splits)

lemma consume_length: "consume c s = Inr r \<Longrightarrow> length r \<le> length s"
  by (auto simp: consume_def split: prod.splits bool.splits dest: try_consume_length)

lemma try_parse_quant_term_length:
  assumes "try_parse_quant_term s = Inr (t, r)" and "t \<noteq> None"
  shows "length r < length s"
proof -
  obtain b r0 where t: "try_consume CHR ''('' (skip_whitespace s) = (b, r0)" by fastforce
  have r0: "length r0 \<le> length s"
    using try_consume_length [OF t] skip_whitespace_length [of s] by simp
  show ?thesis
  proof (cases b)
    case True
    then obtain i r1 j r2 where "parse_id r0 = Inr (i, r1)" "parse_id r1 = Inr (j, r2)" "consume CHR '')'' r2 = Inr r"
      using assms t by (auto simp: try_parse_quant_term_def rbind_eq_Inr)
    then show ?thesis using r0 parse_id_length [of r0 i r1] parse_id_length [of r1 j r2] consume_length [of "CHR '')''" r2 r] by simp
  next
    case False
    then obtain i where "try_parse_id r0 = Inr (i, r)" "i \<noteq> None"
      using assms t by (auto simp: try_parse_quant_term_def rbind_eq_Inr)
    then show ?thesis using r0 try_parse_id_length [of r0 i r] by simp
  qed
qed

text \<open>The loops \<^verbatim>\<open>while let Some(..) = parser.try_parse_id()?\<close>.\<close>

function parse_ids :: "string \<Rightarrow> (smt_id list \<times> string) smt_result" where
  "parse_ids s =
     (case try_parse_id s of
        Inl e \<Rightarrow> Inl e
      | Inr (None, r) \<Rightarrow> Inr ([], r)
      | Inr (Some i, r) \<Rightarrow> rbind (parse_ids r) (\<lambda>(is, r). Inr (i # is, r)))"
  by pat_completeness auto
termination
  by (relation "measure length") (auto dest: try_parse_id_length)

declare parse_ids.simps [simp del]

section \<open>Reading back printed numbers\<close>

lemma digits_hexdigit: "c \<in> set (digits n) \<Longrightarrow> is_ascii_hexdigit c"
proof -
  assume "c \<in> set (digits n)"
  then obtain d where "d < 10" "c = ''0123456789'' ! d" using digits_digit by blast
  then have "d \<in> {0, 1, 2, 3, 4, 5, 6, 7, 8, 9}" by auto
  then show ?thesis using \<open>c = _\<close>
    by (elim insertE) (simp_all add: is_ascii_hexdigit_def is_digit_def in_range_def)
qed

lemma digits_not_whitespace: "c \<in> set (digits n) \<Longrightarrow> \<not> is_whitespace c"
  using digits_hexdigit [of c n]
  by (auto simp: is_whitespace_def) (simp_all add: is_ascii_hexdigit_def is_digit_def in_range_def)

lemma parse_number_digits:
  assumes "n < 2 ^ 32" and "r \<noteq> []" and "\<not> is_ascii_hexdigit (hd r)"
  shows "parse_number (CHR '' '' # digits n @ r) = Inr (of_nat n, r)"
proof -
  obtain c cs where c: "digits n = c # cs" using digits_nonempty [of n] by (cases "digits n") auto
  have "\<not> is_whitespace c" using digits_not_whitespace [of c n] c by simp
  then have skip: "skip_whitespace (CHR '' '' # digits n @ r) = digits n @ r"
    using c by (simp add: skip_whitespace_def is_whitespace_def)
  obtain d ds where r: "r = d # ds" "\<not> is_ascii_hexdigit d" using assms(2,3) by (cases r) auto
  have "takeWhile is_ascii_hexdigit (digits n @ r) = digits n"
    using digits_hexdigit [of _ n] r by (subst takeWhile_append2) simp_all
  moreover have "dropWhile is_ascii_hexdigit (digits n @ r) = r"
    using digits_hexdigit [of _ n] r by (subst dropWhile_append2) simp_all
  ultimately have "consume_while is_ascii_hexdigit (digits n @ r) = Inr (digits n, r)"
    using assms(2) by (simp add: consume_while_def)
  then show ?thesis using assms(1) by (simp add: parse_number_def skip decimal_digits)
qed

end
