(* ===== verification/Smt_Log_State.thy ===== *)
theory Smt_Log_State
  imports Smt_Log_Parser "HOL-Library.Product_Lexorder"
begin

text \<open>
  \<^verbatim>\<open>smt-log-analyzer/src/state.rs\<close>: the counters kept while reading a Z3 log. The hash maps are
  association lists; all results that depend on them are independent of their order, except for the
  order of lines in an error message. Scope levels are \<^verbatim>\<open>u32\<close> values; the flag
  \<open>overflow_checks\<close> distinguishes builds in which leaving the range of \<^verbatim>\<open>u32\<close> panics from those
  in which it wraps around. The counters are \<^verbatim>\<open>usize\<close> and are modelled as natural numbers.
\<close>

section \<open>Events\<close>

type_synonym level = "32 word"

record scope_event =
  level :: level

record counted_event = scope_event +
  counter :: nat

record term_event = scope_event +
  event_term :: term_id

record label_event = scope_event +
  label :: string

datatype smt_term =
    FunctionApplication string "term_id list"
  | Variable "32 word"
  | AttachMeaning string string

record largest_pop_data =
  quantifier_matches_removed :: nat
  active_scopes_popped :: level
  removed_quantifiers :: "(quantifier_id \<times> nat) list"
  popped_labels :: "label_event list"
  trace_prefix :: "label_event list"

record smt_state =
  quantifiers :: "(quantifier_id, string) index_map"
  terms :: "(term_id, smt_term) index_map"
  quantifiers_matched_events :: "(quantifier_id, counted_event list) index_map"
  quantifiers_inst_disovered_events :: "(theory_kind, counted_event list) index_map"
  total_quantifiers_matched_counters :: "(quantifier_id, nat) index_map"
  total_quantifiers_inst_disovered_counters :: "(theory_kind, nat) index_map"
  max_quantifier_matched_event_counters :: "(quantifier_id, nat) index_map"
  max_quantifier_inst_discovered_event_counters :: "(theory_kind, nat) index_map"
  unique_quantifier_triggers :: "(quantifier_id, term_id list) index_map"
  term_used_in_trigger_events :: "(quantifier_id, term_event list) index_map"
  max_term_used_in_trigger_event_counters :: "(quantifier_id, nat) index_map"
  multi_term_quantifiers :: "(quantifier_id, term_id list) index_map"
  total_quantifiers_instance_counters :: nat
  quantifiers_instance_events :: "counted_event list"
  max_quantifier_instance_event_counters :: nat
  smt_trace :: "label_event list"
  largest_pop :: largest_pop_data
  current_active_scopes_count :: level
  traced_quantifier :: "quantifier_id option"
  traced_quantifier_triggers :: "string option"

definition state_default :: smt_state where
  "state_default =
     \<lparr>quantifiers = [], terms = [], quantifiers_matched_events = [],
      quantifiers_inst_disovered_events = [], total_quantifiers_matched_counters = [],
      total_quantifiers_inst_disovered_counters = [], max_quantifier_matched_event_counters = [],
      max_quantifier_inst_discovered_event_counters = [], unique_quantifier_triggers = [],
      term_used_in_trigger_events = [], max_term_used_in_trigger_event_counters = [],
      multi_term_quantifiers = [], total_quantifiers_instance_counters = 0,
      quantifiers_instance_events = [], max_quantifier_instance_event_counters = 0, smt_trace = [],
      largest_pop = \<lparr>quantifier_matches_removed = 0, active_scopes_popped = 0,
        removed_quantifiers = [], popped_labels = [], trace_prefix = []\<rparr>,
      current_active_scopes_count = 0, traced_quantifier = None, traced_quantifier_triggers = None\<rparr>"

abbreviation unwrap_panic :: "'a smt_result" where
  "unwrap_panic \<equiv> Inl (Smt_panic ''called `Option::unwrap()` on a `None` value'')"

definition get_mut :: "'k \<Rightarrow> ('k, 'v) index_map \<Rightarrow> ('v \<Rightarrow> 'v) \<Rightarrow> ('k, 'v) index_map smt_result" where
  "get_mut k m f =
     (case map_of m k of None \<Rightarrow> unwrap_panic | Some v \<Rightarrow> Inr (AList.update k (f v) m))"

section \<open>Registering events\<close>

text \<open>An event of the current level is counted on the last entry if that has the same level.\<close>

definition register_counted :: "level \<Rightarrow> counted_event list \<Rightarrow> counted_event list" where
  "register_counted c events =
     (if events \<noteq> [] \<and> level (last events) = c
      then butlast events @ [(last events)\<lparr>counter := counter (last events) + 1\<rparr>]
      else events @ [\<lparr>level = c, counter = 1\<rparr>])"

definition counter_sum :: "counted_event list \<Rightarrow> nat" where
  "counter_sum events = sum_list (map counter events)"

definition register_label :: "string \<Rightarrow> smt_state \<Rightarrow> smt_state" where
  "register_label l s =
     s\<lparr>smt_trace := smt_trace s @ [\<lparr>level = current_active_scopes_count s, label = l\<rparr>]\<rparr>"

definition register_quantifier :: "quantifier_id \<Rightarrow> string \<Rightarrow> smt_state \<Rightarrow> smt_state" where
  "register_quantifier q name s =
     s\<lparr>quantifiers := AList.update q name (quantifiers s),
       quantifiers_matched_events := AList.update q [] (quantifiers_matched_events s),
       total_quantifiers_matched_counters := AList.update q 0 (total_quantifiers_matched_counters s),
       max_quantifier_matched_event_counters := AList.update q 0 (max_quantifier_matched_event_counters s),
       unique_quantifier_triggers := AList.update q [] (unique_quantifier_triggers s),
       term_used_in_trigger_events := AList.update q [] (term_used_in_trigger_events s),
       max_term_used_in_trigger_event_counters := AList.update q 0 (max_term_used_in_trigger_event_counters s)\<rparr>"

definition register_matched_quantifier :: "quantifier_id \<Rightarrow> smt_state \<Rightarrow> smt_state smt_result" where
  "register_matched_quantifier q s =
     rbind (get_mut q (total_quantifiers_matched_counters s) (\<lambda>n. n + 1)) (\<lambda>totals.
     rbind (get_mut q (quantifiers_matched_events s) (register_counted (current_active_scopes_count s))) (\<lambda>evs.
       Inr (s\<lparr>total_quantifiers_matched_counters := totals, quantifiers_matched_events := evs\<rparr>)))"

definition register_theory :: "theory_kind \<Rightarrow> smt_state \<Rightarrow> smt_state" where
  "register_theory t s =
     s\<lparr>quantifiers_inst_disovered_events := AList.update t [] (quantifiers_inst_disovered_events s),
       total_quantifiers_inst_disovered_counters := AList.update t 0 (total_quantifiers_inst_disovered_counters s),
       max_quantifier_inst_discovered_event_counters :=
         AList.update t 0 (max_quantifier_inst_discovered_event_counters s)\<rparr>"

definition register_inst_discovered :: "theory_kind \<Rightarrow> smt_state \<Rightarrow> smt_state smt_result" where
  "register_inst_discovered t s =
     rbind (get_mut t (total_quantifiers_inst_disovered_counters s) (\<lambda>n. n + 1)) (\<lambda>totals.
     rbind (get_mut t (quantifiers_inst_disovered_events s) (register_counted (current_active_scopes_count s))) (\<lambda>evs.
       Inr (s\<lparr>total_quantifiers_inst_disovered_counters := totals, quantifiers_inst_disovered_events := evs\<rparr>)))"

text \<open>The ellipsis that \<^verbatim>\<open>render_term\<close> prints at depth zero, in UTF-8.\<close>

definition ellipsis :: string where
  "ellipsis = [CHR 0xE2, CHR 0x80, CHR 0xA6]"

definition word_digits :: "32 word \<Rightarrow> string" where
  "word_digits w = digits (unat w)"

fun render_term :: "(term_id, smt_term) index_map \<Rightarrow> nat \<Rightarrow> term_id \<Rightarrow> string" where
  "render_term ts 0 t = ellipsis"
| "render_term ts (Suc depth) t =
     (case map_of ts t of
        None \<Rightarrow> ''n/a''
      | Some (FunctionApplication name args) \<Rightarrow>
          if args = [] then name
          else ''('' @ name @ concat (map (\<lambda>a. '' '' @ render_term ts depth a) args) @ '')''
      | Some (Variable i) \<Rightarrow> ''var('' @ word_digits i @ '')''
      | Some (AttachMeaning ident val) \<Rightarrow> ''( '' @ ident @ '' '' @ val @ '' )'')"

definition newline :: string where
  "newline = [CHR 0x0A]"

definition trace_quantifier_trigger :: "quantifier_id \<Rightarrow> term_id \<Rightarrow> smt_state \<Rightarrow> smt_state smt_result" where
  "trace_quantifier_trigger q t s =
     (case traced_quantifier s of
        None \<Rightarrow> Inr s
      | Some traced \<Rightarrow>
          (case map_of (unique_quantifier_triggers s) q of
             None \<Rightarrow> Inl (Smt_panic ''no entry found for key'')
           | Some triggers \<Rightarrow>
               if t \<notin> set triggers \<and> traced = q
               then case traced_quantifier_triggers s of
                      None \<Rightarrow> unwrap_panic
                    | Some buf \<Rightarrow>
                        Inr (s\<lparr>traced_quantifier_triggers :=
                          Some (buf @ word_digits t @ '','' @ render_term (terms s) 30 t @ newline)\<rparr>)
               else Inr s))"

definition register_matched_trigger_term ::
  "quantifier_id \<Rightarrow> term_id \<Rightarrow> smt_state \<Rightarrow> smt_state smt_result" where
  "register_matched_trigger_term q t s =
     rbind (trace_quantifier_trigger q t s) (\<lambda>s.
     rbind (get_mut q (unique_quantifier_triggers s) (List.insert t)) (\<lambda>uniq.
       case map_of (term_used_in_trigger_events s) q of
         None \<Rightarrow> Inl (Smt_panic (''quantifier_id: '' @ word_digits q))
       | Some evs \<Rightarrow>
           Inr (s\<lparr>unique_quantifier_triggers := uniq,
             multi_term_quantifiers :=
               (if \<exists>e \<in> set evs. event_term e = t
                then AList.update q
                  ((case map_of (multi_term_quantifiers s) q of None \<Rightarrow> [] | Some ts \<Rightarrow> ts) @ [t])
                  (multi_term_quantifiers s)
                else multi_term_quantifiers s),
             term_used_in_trigger_events :=
               AList.update q (evs @ [\<lparr>level = current_active_scopes_count s, event_term = t\<rparr>])
                 (term_used_in_trigger_events s)\<rparr>)))"

definition mark_quantifier_for_tracing :: "quantifier_id option \<Rightarrow> smt_state \<Rightarrow> smt_state smt_result" where
  "mark_quantifier_for_tracing q s =
     (if traced_quantifier s \<noteq> None
      then Inl (Smt_panic ''assertion failed: self.traced_quantifier.is_none()'')
      else Inr (case q of
        None \<Rightarrow> s\<lparr>traced_quantifier := None\<rparr>
      | Some i \<Rightarrow> s\<lparr>traced_quantifier := q,
                     traced_quantifier_triggers := Some (word_digits i @ '','' @ newline)\<rparr>))"

definition register_instance :: "smt_state \<Rightarrow> smt_state" where
  "register_instance s =
     s\<lparr>total_quantifiers_instance_counters := total_quantifiers_instance_counters s + 1,
       quantifiers_instance_events :=
         register_counted (current_active_scopes_count s) (quantifiers_instance_events s)\<rparr>"

definition register_term :: "term_id \<Rightarrow> smt_term \<Rightarrow> smt_state \<Rightarrow> smt_state" where
  "register_term t d s = s\<lparr>terms := AList.update t d (terms s)\<rparr>"

definition register_term_function_application ::
  "term_id \<Rightarrow> string \<Rightarrow> term_id list \<Rightarrow> smt_state \<Rightarrow> smt_state" where
  "register_term_function_application t name args = register_term t (FunctionApplication name args)"

definition register_term_bound_variable :: "term_id \<Rightarrow> 32 word \<Rightarrow> smt_state \<Rightarrow> smt_state" where
  "register_term_bound_variable t index = register_term t (Variable index)"

definition register_term_attach_meaning :: "term_id \<Rightarrow> string \<Rightarrow> string \<Rightarrow> smt_state \<Rightarrow> smt_state" where
  "register_term_attach_meaning t ident val = register_term t (AttachMeaning ident val)"

section \<open>Scopes\<close>

definition add_u32 :: "bool \<Rightarrow> 32 word \<Rightarrow> 32 word \<Rightarrow> 32 word smt_result" where
  "add_u32 overflow_checks a b =
     (if overflow_checks \<and> unat a + unat b \<ge> 2 ^ 32
      then Inl (Smt_panic ''attempt to add with overflow'') else Inr (a + b))"

definition sub_u32 :: "bool \<Rightarrow> 32 word \<Rightarrow> 32 word \<Rightarrow> 32 word smt_result" where
  "sub_u32 overflow_checks a b =
     (if overflow_checks \<and> a < b
      then Inl (Smt_panic ''attempt to subtract with overflow'') else Inr (a - b))"

definition push_scope :: "bool \<Rightarrow> smt_state \<Rightarrow> smt_state smt_result" where
  "push_scope overflow_checks s =
     rbind (add_u32 overflow_checks (current_active_scopes_count s) 1) (\<lambda>c.
       Inr (s\<lparr>current_active_scopes_count := c\<rparr>))"

definition above :: "level \<Rightarrow> 'a scope_event_scheme \<Rightarrow> bool" where
  "above c e = (c < level e)"

text \<open>The maxima are raised to the current sizes before events are removed.\<close>

fun raise_max :: "('k, nat) index_map \<Rightarrow> ('k \<times> nat) list \<Rightarrow> ('k, nat) index_map smt_result" where
  "raise_max m [] = Inr m"
| "raise_max m ((k, n) # kns) =
     rbind (get_mut k m (\<lambda>old. if old < n then n else old)) (\<lambda>m'. raise_max m' kns)"

definition map_values :: "('v \<Rightarrow> 'w) \<Rightarrow> ('k, 'v) index_map \<Rightarrow> ('k, 'w) index_map" where
  "map_values f m = map (\<lambda>(k, v). (k, f v)) m"

definition update_largest_pop ::
  "level \<Rightarrow> (quantifier_id \<times> nat) list \<Rightarrow> label_event list \<Rightarrow> label_event list
   \<Rightarrow> largest_pop_data \<Rightarrow> largest_pop_data" where
  "update_largest_pop scopes_to_pop removed removed_labels trace lp =
     (let total = sum_list (map snd removed) in
      if quantifier_matches_removed lp < total
      then \<lparr>quantifier_matches_removed = total, active_scopes_popped = scopes_to_pop,
            removed_quantifiers = filter (\<lambda>(q, n). n > 0) removed,
            popped_labels = rev removed_labels, trace_prefix = trace\<rparr>
      else lp)"

definition pop_scopes :: "bool \<Rightarrow> level \<Rightarrow> smt_state \<Rightarrow> smt_state smt_result" where
  "pop_scopes overflow_checks scopes_to_pop s =
     rbind (sub_u32 overflow_checks (current_active_scopes_count s) scopes_to_pop) (\<lambda>c.
     rbind (raise_max (max_term_used_in_trigger_event_counters s)
              (map_values length (term_used_in_trigger_events s))) (\<lambda>max_terms.
     rbind (raise_max (max_quantifier_inst_discovered_event_counters s)
              (map_values counter_sum (quantifiers_inst_disovered_events s))) (\<lambda>max_insts.
     rbind (raise_max (max_quantifier_matched_event_counters s)
              (map_values counter_sum (quantifiers_matched_events s))) (\<lambda>max_matched.
       let trace = pop_while (above c) (smt_trace s);
           removed_labels = popped_while (above c) (smt_trace s);
           removed = map_values (\<lambda>evs. counter_sum (popped_while (above c) evs)) (quantifiers_matched_events s)
       in Inr (s\<lparr>current_active_scopes_count := c,
            max_quantifier_instance_event_counters :=
              max (max_quantifier_instance_event_counters s) (counter_sum (quantifiers_instance_events s)),
            quantifiers_instance_events := pop_while (above c) (quantifiers_instance_events s),
            max_term_used_in_trigger_event_counters := max_terms,
            term_used_in_trigger_events := map_values (pop_while (above c)) (term_used_in_trigger_events s),
            smt_trace := trace,
            max_quantifier_inst_discovered_event_counters := max_insts,
            quantifiers_inst_disovered_events :=
              map_values (pop_while (above c)) (quantifiers_inst_disovered_events s),
            max_quantifier_matched_event_counters := max_matched,
            quantifiers_matched_events := map_values (pop_while (above c)) (quantifiers_matched_events s),
            largest_pop := update_largest_pop scopes_to_pop removed removed_labels trace (largest_pop s)\<rparr>)))))"

definition pop_all_scopes :: "bool \<Rightarrow> smt_state \<Rightarrow> smt_state smt_result" where
  "pop_all_scopes overflow_checks s = pop_scopes overflow_checks (current_active_scopes_count s) s"

end
