(* ===== verification/Smt_Log_Analyzer.thy ===== *)
theory Smt_Log_Analyzer
  imports Smt_Log_State
begin

text \<open>
  \<^verbatim>\<open>smt-log-analyzer/src/lib.rs\<close> and the reporting half of \<^verbatim>\<open>state.rs\<close>: processing the lines
  of a log, the statistics that are written, and the bounds that are checked. The log file is the
  list of its lines (each with its line end), the files written are values.
\<close>

section \<open>Processing a line\<close>

record smt_settings =
  write_statistics_flag :: bool
  quantifier_instantiations_ignore_builtin :: bool
  quantifier_instantiations_bound_global_kind :: "nat option"
  quantifier_instantiations_bound_trace :: "nat option"
  quantifier_instantiations_bound_trace_kind :: "nat option"
  unique_triggers_bound :: "nat option"
  unique_triggers_bound_total :: "nat option"
  check_active_scopes_count :: "32 word option"
  pop_scopes_by_one :: bool
  trace_quantifier_triggers :: "quantifier_id option"

primrec pop_by_one :: "bool \<Rightarrow> nat \<Rightarrow> smt_state \<Rightarrow> smt_state smt_result" where
  "pop_by_one checks 0 s = Inr s"
| "pop_by_one checks (Suc n) s = rbind (pop_scopes checks 1 s) (pop_by_one checks n)"

definition assert_eq :: "'a \<Rightarrow> 'a \<Rightarrow> unit smt_result" where
  "assert_eq a b = (if a = b then Inr () else Inl (Smt_panic ''assertion `left == right` failed''))"

definition register_quant_term :: "quantifier_id \<Rightarrow> quant_term \<Rightarrow> smt_state \<Rightarrow> smt_state smt_result" where
  "register_quant_term q t s =
     (case t of
        Single matched \<Rightarrow> register_matched_trigger_term q matched s
      | Pair original matched \<Rightarrow>
          rbind (register_matched_trigger_term q original s) (register_matched_trigger_term q matched))"

function register_quant_terms ::
  "quantifier_id \<Rightarrow> string \<Rightarrow> smt_state \<Rightarrow> (smt_state \<times> string) smt_result" where
  "register_quant_terms q line s =
     (case try_parse_quant_term line of
        Inl e \<Rightarrow> Inl e
      | Inr (None, r) \<Rightarrow> Inr (s, r)
      | Inr (Some t, r) \<Rightarrow> rbind (register_quant_term q t s) (\<lambda>s. register_quant_terms q r s))"
  by pat_completeness auto
termination
  by (relation "measure (\<lambda>(q, line, s). length line)") (auto dest: try_parse_quant_term_length)

declare register_quant_terms.simps [simp del]

definition starts_with :: "string \<Rightarrow> string \<Rightarrow> bool" where
  "starts_with s p = (take (length p) s = p)"

definition process_pop :: "bool \<Rightarrow> smt_settings \<Rightarrow> string \<Rightarrow> smt_state \<Rightarrow> smt_state smt_result" where
  "process_pop checks st line s =
     rbind (parse_number line) (\<lambda>(scopes_to_pop, r).
     rbind (parse_number r) (\<lambda>(active, r).
     rbind (check_eof r) (\<lambda>_.
     rbind (assert_eq (current_active_scopes_count s) active) (\<lambda>_.
       if pop_scopes_by_one st then pop_by_one checks (unat scopes_to_pop) s
       else pop_scopes checks scopes_to_pop s))))"

definition process_push :: "bool \<Rightarrow> string \<Rightarrow> smt_state \<Rightarrow> smt_state smt_result" where
  "process_push checks line s =
     rbind (parse_number line) (\<lambda>(active, r).
     rbind (check_eof r) (\<lambda>_.
     rbind (assert_eq (current_active_scopes_count s) active) (\<lambda>_. push_scope checks s)))"

definition process_mk_app :: "string \<Rightarrow> smt_state \<Rightarrow> smt_state smt_result" where
  "process_mk_app line s =
     rbind (try_parse_id line) (\<lambda>(id, r).
       case id of
         None \<Rightarrow> Inr s
       | Some term_id \<Rightarrow>
           rbind (parse_name r) (\<lambda>(ident, r).
             if starts_with ident ''basic_block_marker'' then Inr (register_label ident s)
             else rbind (parse_ids r) (\<lambda>(args, r).
               Inr (register_term_function_application term_id ident args s))))"

definition process_mk_var :: "string \<Rightarrow> smt_state \<Rightarrow> smt_state smt_result" where
  "process_mk_var line s =
     rbind (try_parse_id line) (\<lambda>(id, r).
       case id of
         None \<Rightarrow> Inr s
       | Some term_id \<Rightarrow> rbind (parse_number r) (\<lambda>(index, _). Inr (register_term_bound_variable term_id index s)))"

definition process_attach_meaning :: "string \<Rightarrow> smt_state \<Rightarrow> smt_state smt_result" where
  "process_attach_meaning line s =
     rbind (parse_id line) (\<lambda>(term_id, r).
     rbind (parse_name r) (\<lambda>(ident, r).
       Inr (register_term_attach_meaning term_id ident (remaining (skip_whitespace r)) s)))"

definition process_mk_quant :: "string \<Rightarrow> smt_state \<Rightarrow> smt_state smt_result" where
  "process_mk_quant line s =
     (case parse_id line of
        Inl (Parse_error _ _) \<Rightarrow> Inr s
      | Inl (Smt_panic m) \<Rightarrow> Inl (Smt_panic m)
      | Inr (q, r) \<Rightarrow> rbind (parse_name r) (\<lambda>(name, _). Inr (register_quantifier q name s)))"

definition process_new_match :: "string \<Rightarrow> smt_state \<Rightarrow> smt_state smt_result" where
  "process_new_match line s =
     rbind (parse_hex_number line) (\<lambda>(fingerprint, r).
       if fingerprint \<noteq> 0 then
         rbind (parse_id r) (\<lambda>(q, r).
         rbind (register_matched_quantifier q s) (\<lambda>s.
         rbind (parse_id r) (\<lambda>(_, r).
         rbind (parse_ids r) (\<lambda>(_, r).
         rbind (consume CHR '';'' r) (\<lambda>r.
         rbind (register_quant_terms q r s) (\<lambda>(s, r).
         rbind (check_eof r) (\<lambda>_. Inr s)))))))
       else register_matched_quantifier BUILTIN_QUANTIFIER_ID s)"

definition process_inst_discovered :: "string \<Rightarrow> smt_state \<Rightarrow> smt_state smt_result" where
  "process_inst_discovered line s =
     rbind (parse_name line) (\<lambda>(name, r).
     rbind (assert_eq name ''theory-solving'') (\<lambda>_.
     rbind (parse_hex_number r) (\<lambda>(fingerprint, r).
     rbind (assert_eq fingerprint 0) (\<lambda>_.
     rbind (parse_theory r) (\<lambda>(theory, _). register_inst_discovered theory s)))))"

definition process_line :: "bool \<Rightarrow> smt_settings \<Rightarrow> smt_state \<Rightarrow> string \<Rightarrow> smt_state smt_result" where
  "process_line checks st s line =
     rbind (parse_event_kind line) (\<lambda>(kind, r).
       case kind of
         EPop \<Rightarrow> process_pop checks st r s
       | EPush \<Rightarrow> process_push checks r s
       | EMkApp \<Rightarrow> process_mk_app r s
       | EMkVar \<Rightarrow> process_mk_var r s
       | EAttachMeaning \<Rightarrow> process_attach_meaning r s
       | EMkQuant \<Rightarrow> process_mk_quant r s
       | ENewMatch \<Rightarrow> process_new_match r s
       | EInstDiscovered \<Rightarrow> process_inst_discovered r s
       | EInstance \<Rightarrow> Inr (register_instance s)
       | EUnrecognized \<Rightarrow> Inr s)"

section \<open>Reports\<close>

instantiation theory_kind :: linorder
begin

fun theory_rank :: "theory_kind \<Rightarrow> nat" where
  "theory_rank Arith = 0"
| "theory_rank Basic = 1"
| "theory_rank Datatype = 2"
| "theory_rank UserSort = 3"

definition less_eq_theory_kind :: "theory_kind \<Rightarrow> theory_kind \<Rightarrow> bool" where
  "less_eq_theory_kind a b = (theory_rank a \<le> theory_rank b)"

definition less_theory_kind :: "theory_kind \<Rightarrow> theory_kind \<Rightarrow> bool" where
  "less_theory_kind a b = (theory_rank a < theory_rank b)"

instance
proof
  fix a b c :: theory_kind
  show "a < b \<longleftrightarrow> a \<le> b \<and> \<not> b \<le> a" by (auto simp: less_eq_theory_kind_def less_theory_kind_def)
  show "a \<le> a" by (simp add: less_eq_theory_kind_def)
  show "a \<le> b \<Longrightarrow> b \<le> c \<Longrightarrow> a \<le> c" by (simp add: less_eq_theory_kind_def)
  show "a \<le> b \<Longrightarrow> b \<le> a \<Longrightarrow> a = b" by (cases a; cases b) (simp_all add: less_eq_theory_kind_def)
  show "a \<le> b \<or> b \<le> a" by (auto simp: less_eq_theory_kind_def)
qed

end

definition debug_theory :: "theory_kind \<Rightarrow> string" where
  "debug_theory t =
     (case t of Arith \<Rightarrow> ''Arith'' | Basic \<Rightarrow> ''Basic'' | Datatype \<Rightarrow> ''Datatype'' | UserSort \<Rightarrow> ''UserSort'')"

definition index :: "('k, 'v) index_map \<Rightarrow> 'k \<Rightarrow> 'v smt_result" where
  "index m k =
     (case map_of m k of None \<Rightarrow> Inl (Smt_panic ''no entry found for key'') | Some v \<Rightarrow> Inr v)"

definition sorted_counts :: "('k :: linorder, nat) index_map \<Rightarrow> (nat \<times> 'k) list" where
  "sorted_counts m = sort (map (\<lambda>(k, n). (n, k)) m)"

definition quantifier_matches_counts :: "smt_state \<Rightarrow> (nat \<times> quantifier_id) list" where
  "quantifier_matches_counts s = sorted_counts (max_quantifier_matched_event_counters s)"

datatype output_file = Csv string "string list list" | Raw string string

definition quantifier_rows :: "smt_state \<Rightarrow> (nat \<times> quantifier_id) list \<Rightarrow> string list list smt_result" where
  "quantifier_rows s counts =
     collect_results (map (\<lambda>(n, q).
       rbind (index (quantifiers s) q) (\<lambda>name. Inr [word_digits q, name, digits n])) counts)"

definition quantifier_csv ::
  "smt_state \<Rightarrow> string \<Rightarrow> string \<Rightarrow> (quantifier_id, nat) index_map \<Rightarrow> output_file smt_result" where
  "quantifier_csv s file column counts =
     rbind (quantifier_rows s (sorted_counts counts)) (\<lambda>rows.
       Inr (Csv file ([''Quantifier ID'', ''Quantifier Name'', column] # rows)))"

definition matches_csv :: "smt_state \<Rightarrow> string \<Rightarrow> output_file smt_result" where
  "matches_csv s file =
     rbind (collect_results (map (\<lambda>(n, q).
       rbind (index (total_quantifiers_matched_counters s) q) (\<lambda>total.
       rbind (index (quantifiers s) q) (\<lambda>name.
         Inr [word_digits q, name, digits n, digits total]))) (quantifier_matches_counts s)))
     (\<lambda>rows. Inr (Csv file ([''Quantifier ID'', ''Quantifier Name'', ''Matches'', ''Total Matches''] # rows)))"

definition discoveries_csv :: "smt_state \<Rightarrow> string \<Rightarrow> output_file smt_result" where
  "discoveries_csv s file =
     rbind (collect_results (map (\<lambda>(n, t).
       rbind (index (total_quantifiers_inst_disovered_counters s) t) (\<lambda>total.
         Inr [debug_theory t, digits n, digits total]))
       (sorted_counts (max_quantifier_inst_discovered_event_counters s))))
     (\<lambda>rows. Inr (Csv file ([''Theory'', ''Discoveries'', ''Total Discoveries''] # rows)))"

definition label_rows :: "string \<Rightarrow> label_event list \<Rightarrow> string list list" where
  "label_rows popped evs = map (\<lambda>e. [label e, word_digits (level e), popped]) evs"

definition instances_csv :: "smt_state \<Rightarrow> string \<Rightarrow> output_file" where
  "instances_csv s file =
     Csv file
       [[''Total Quantifier Instance Count'', ''Max Trace Quantifier Instance Count''],
        [digits (total_quantifiers_instance_counters s), digits (max_quantifier_instance_event_counters s)]]"

definition largest_pop_files :: "smt_state \<Rightarrow> string \<Rightarrow> output_file smt_result list" where
  "largest_pop_files s input_file =
     [quantifier_csv s (input_file @ ''.largest_pop_matches.csv'') ''Matches Removed''
        (removed_quantifiers (largest_pop s)),
      Inr (Csv (input_file @ ''.largest_pop_labels.csv'')
        ([''Basic Block Label'', ''Level'', ''Was popped?''] #
         label_rows ''false'' (trace_prefix (largest_pop s)) @
         label_rows ''true'' (popped_labels (largest_pop s))))]"

definition traced_files :: "smt_state \<Rightarrow> string \<Rightarrow> output_file smt_result list" where
  "traced_files s input_file =
     (case traced_quantifier s of
        None \<Rightarrow> []
      | Some q \<Rightarrow>
          [case traced_quantifier_triggers s of
             None \<Rightarrow> unwrap_panic
           | Some buf \<Rightarrow> Inr (Raw (input_file @ ''.quantifier-'' @ word_digits q @ ''-triggers.csv'') buf)])"

text \<open>\<^verbatim>\<open>write_statistics\<close>: the files in the order they are written; the line it prints is left out.\<close>

definition write_statistics :: "string \<Rightarrow> smt_state \<Rightarrow> output_file list smt_result" where
  "write_statistics input_file s =
     collect_results
      ([Inr (instances_csv s (input_file @ ''.instances.csv'')),
        quantifier_csv s (input_file @ ''.triggers.csv'') ''Trigger Count''
          (max_term_used_in_trigger_event_counters s),
        quantifier_csv s (input_file @ ''.unique-triggers.csv'') ''Unique trigger Count''
          (map_values length (unique_quantifier_triggers s)),
        quantifier_csv s (input_file @ ''.multi-triggers.csv'') ''Trigger Count''
          (map_values length (multi_term_quantifiers s)),
        matches_csv s (input_file @ ''.matches.csv''),
        discoveries_csv s (input_file @ ''.inst-discoveries.csv'')] @
       largest_pop_files s input_file @ traced_files s input_file)"

section \<open>Bounds\<close>

definition explanatory_quantifier_name :: "smt_state \<Rightarrow> quantifier_id \<Rightarrow> string smt_result" where
  "explanatory_quantifier_name s q =
     rbind (index (quantifiers s) q) (\<lambda>name.
       Inr (if starts_with name ''k!''
            then name @ '' (quantifiers with name k!<line> are defined on <line>'' @ [CHR 0x27] @
                 ''th line of the smt2 file)''
            else name))"

definition violation :: "smt_state \<Rightarrow> quantifier_id \<Rightarrow> string \<Rightarrow> nat \<Rightarrow> string \<Rightarrow> nat option \<Rightarrow> string list smt_result" where
  "violation s q before n after bound =
     (case bound of
        None \<Rightarrow> Inr []
      | Some b \<Rightarrow>
          if b < n
          then rbind (explanatory_quantifier_name s q) (\<lambda>name.
            Inr [''Quantifier '' @ name @ '' (id='' @ word_digits q @ '')'' @ before @ digits n @ after @
                 '' (allowed: '' @ digits b @ '')''])
          else Inr [])"

definition is_ignored :: "smt_settings \<Rightarrow> quantifier_id \<Rightarrow> bool" where
  "is_ignored st q = (q = BUILTIN_QUANTIFIER_ID \<and> quantifier_instantiations_ignore_builtin st)"

definition instantiation_violations ::
  "smt_settings \<Rightarrow> smt_state \<Rightarrow> (nat \<times> quantifier_id) list \<Rightarrow> string list smt_result" where
  "instantiation_violations st s counts =
     rbind (collect_results (map (\<lambda>(n, q).
       rbind (index (total_quantifiers_matched_counters s) q) (\<lambda>total.
       rbind (if n < total
              then violation s q '' instantiated '' n '' times in trace''
                     (quantifier_instantiations_bound_trace_kind st)
              else Inr []) (\<lambda>v1.
       rbind (violation s q '' instantiated '' n '' times in trace and in total''
                (quantifier_instantiations_bound_global_kind st)) (\<lambda>v2.
         Inr (v1 @ v2))))) counts))
     (\<lambda>vs. Inr (concat vs))"

definition trigger_violations ::
  "smt_settings \<Rightarrow> smt_state \<Rightarrow> (quantifier_id \<times> term_id list) list \<Rightarrow> string list smt_result" where
  "trigger_violations st s triggers =
     rbind (collect_results (map (\<lambda>(q, ts).
       violation s q '' has '' (length ts) '' unique triggers'' (unique_triggers_bound st)) triggers))
     (\<lambda>vs. Inr (concat vs))"

definition assert_smt :: "bool \<Rightarrow> string \<Rightarrow> unit smt_result" where
  "assert_smt b msg = (if b then Inr () else Inl (Smt_panic msg))"

text \<open>\<open>within n bound msg\<close> asserts that a count stays within a bound, where one is given.\<close>

definition within :: "nat \<Rightarrow> nat option \<Rightarrow> (nat \<Rightarrow> string) \<Rightarrow> unit smt_result" where
  "within n bound msg = (case bound of None \<Rightarrow> Inr () | Some b \<Rightarrow> assert_smt (n \<le> b) (msg b))"

definition lines_of :: "string list \<Rightarrow> string" where
  "lines_of xs = concat (case xs of [] \<Rightarrow> [] | y # ys \<Rightarrow> y # map (\<lambda>x. newline @ x) ys)"

definition check_bounds :: "string \<Rightarrow> smt_settings \<Rightarrow> smt_state \<Rightarrow> unit smt_result" where
  "check_bounds input_file st s =
     (if quantifier_instantiations_bound_trace st = None \<and>
         quantifier_instantiations_bound_trace_kind st = None \<and>
         quantifier_instantiations_bound_global_kind st = None
      then Inr ()
      else
        let counts = filter (\<lambda>(n, q). \<not> is_ignored st q) (quantifier_matches_counts s);
            triggers = filter (\<lambda>(q, ts). \<not> is_ignored st q) (unique_quantifier_triggers s);
            total = sum_list (map fst counts);
            total_triggers = sum_list (map (\<lambda>(q, ts). length ts) triggers)
        in rbind (instantiation_violations st s counts) (\<lambda>violating.
           rbind (assert_smt (violating = [])
             (''the number of allowed instantiations (in '' @ input_file @
              '') were exceeded by the following quantifiers:'' @ newline @ lines_of violating)) (\<lambda>_.
           rbind (within total (quantifier_instantiations_bound_trace st) (\<lambda>b.
              ''the number of quantifier instantiations (in '' @ input_file @ '') on a specific trace ('' @
              digits total @ '') exceeded the allowed bound ('' @ digits b @ '')'')) (\<lambda>_.
           rbind (trigger_violations st s triggers) (\<lambda>violating.
           rbind (assert_smt (violating = [])
             (''the number of allowed unique triggers (in '' @ input_file @
              '') were exceeded by the following quantifiers:'' @ newline @ lines_of violating)) (\<lambda>_.
           within total_triggers (unique_triggers_bound_total st) (\<lambda>b.
              ''the number of unique triggers ('' @ digits total_triggers @ '') exceeded the allowed bound ('' @
              digits b @ '') in '' @ input_file)))))))"

section \<open>The analysis\<close>

definition initial_state :: "smt_settings \<Rightarrow> smt_state smt_result" where
  "initial_state st =
     mark_quantifier_for_tracing (trace_quantifier_triggers st)
       (register_theory UserSort (register_theory Datatype (register_theory Basic (register_theory Arith
         (register_quantifier BUILTIN_QUANTIFIER_ID ''builtin quantifier'' state_default)))))"

text \<open>
  How an analysis panics: on an error in a line, reported with the number of the line, or with a
  message.
\<close>

datatype analysis_panic = Line_error nat error_kind string | Message string

definition on_line :: "nat \<Rightarrow> 'a smt_result \<Rightarrow> analysis_panic + 'a" where
  "on_line n r =
     (case r of
        Inr x \<Rightarrow> Inr x
      | Inl (Parse_error k rest) \<Rightarrow> Inl (Line_error n k rest)
      | Inl (Smt_panic msg) \<Rightarrow> Inl (Message msg))"

fun process_lines ::
  "bool \<Rightarrow> smt_settings \<Rightarrow> nat \<Rightarrow> smt_state \<Rightarrow> string list \<Rightarrow> analysis_panic + smt_state" where
  "process_lines checks st n s [] = Inr s"
| "process_lines checks st n s (l # ls) =
     rbind (on_line (n + 1) (process_line checks st s l)) (\<lambda>s. process_lines checks st (n + 1) s ls)"

text \<open>
  \<^verbatim>\<open>analyze\<close>: every line but the last is processed. The result is the files written and the
  panic, if any; where writing the statistics itself panics, the files written before are not
  recorded.
\<close>

definition analyze ::
  "bool \<Rightarrow> smt_settings \<Rightarrow> string \<Rightarrow> string list \<Rightarrow> output_file list \<times> (analysis_panic + unit)" where
  "analyze checks st input_file lines =
     (case rbind (on_line 0 (initial_state st)) (\<lambda>s.
           rbind (on_line 0 (assert_smt (lines \<noteq> []) ''assertion failed: reader.read_line(&mut prev_line)? > 0'')) (\<lambda>_.
           rbind (process_lines checks st 0 s (butlast lines)) (\<lambda>s.
           rbind (on_line 0 (pop_all_scopes checks s)) (\<lambda>s'.
             Inr (current_active_scopes_count s, s'))))) of
        Inl f \<Rightarrow> ([], Inl f)
      | Inr (scopes_left, s) \<Rightarrow>
          (case on_line 0 (if write_statistics_flag st then write_statistics input_file s else Inr []) of
             Inl f \<Rightarrow> ([], Inl f)
           | Inr files \<Rightarrow>
               (files, on_line 0 (
                rbind (case check_active_scopes_count st of
                         None \<Rightarrow> Inr () | Some n \<Rightarrow> assert_eq scopes_left n) (\<lambda>_.
                  check_bounds input_file st s)))))"

end
