(* ===== verification/Smt_Log_Spec.thy ===== *)
theory Smt_Log_Spec
  imports Smt_Log_Analyzer
begin

text \<open>
  What the SMT log analyzer counts, independently of how: a log is a sequence of events, every
  counter is a stack with one entry per open scope together with the largest sum the stack has
  had. \<open>abs_state\<close> reads these stacks off the state of the analyzer, which keeps lists of
  events with levels and updates its maxima only when scopes are closed.
\<close>

section \<open>Counters with scopes\<close>

text \<open>The innermost scope comes first in \<open>frames\<close>.\<close>

record scoped =
  peak :: nat
  frames :: "nat list"

definition scoped_new :: "nat \<Rightarrow> scoped" where
  "scoped_new d = \<lparr>peak = 0, frames = replicate (Suc d) 0\<rparr>"

definition scoped_push :: "scoped \<Rightarrow> scoped" where
  "scoped_push c = c\<lparr>frames := 0 # frames c\<rparr>"

definition scoped_pop :: "nat \<Rightarrow> scoped \<Rightarrow> scoped" where
  "scoped_pop n c = c\<lparr>frames := drop n (frames c)\<rparr>"

definition scoped_hit :: "scoped \<Rightarrow> scoped" where
  "scoped_hit c =
     (let fs = (hd (frames c) + 1) # tl (frames c)
      in \<lparr>peak = max (peak c) (sum_list fs), frames = fs\<rparr>)"

section \<open>Logs\<close>

datatype log_event =
    Push
  | Pop nat
  | Label string
  | New_quantifier quantifier_id
  | Match quantifier_id "term_id list"
  | Discovered theory_kind
  | Instance
  | Other

record log_spec =
  depth :: nat
  match_total :: "quantifier_id \<Rightarrow> nat option"
  match_log :: "quantifier_id \<Rightarrow> scoped option"
  trigger_log :: "quantifier_id \<Rightarrow> scoped option"
  trigger_terms :: "quantifier_id \<Rightarrow> term_id set option"
  theory_total :: "theory_kind \<Rightarrow> nat option"
  theory_log :: "theory_kind \<Rightarrow> scoped option"
  instance_total :: nat
  instance_log :: scoped
  label_frames :: "string list list"

definition modify :: "'k \<Rightarrow> ('v \<Rightarrow> 'v) \<Rightarrow> ('k \<Rightarrow> 'v option) \<Rightarrow> 'k \<Rightarrow> 'v option" where
  "modify k f m = m(k := map_option f (m k))"

definition modify_all :: "('v \<Rightarrow> 'v) \<Rightarrow> ('k \<Rightarrow> 'v option) \<Rightarrow> 'k \<Rightarrow> 'v option" where
  "modify_all f m = (\<lambda>k. map_option f (m k))"

definition spec_scopes ::
  "nat \<Rightarrow> (scoped \<Rightarrow> scoped) \<Rightarrow> (string list list \<Rightarrow> string list list) \<Rightarrow> log_spec \<Rightarrow> log_spec" where
  "spec_scopes d f g a =
     a\<lparr>depth := d, match_log := modify_all f (match_log a), trigger_log := modify_all f (trigger_log a),
       theory_log := modify_all f (theory_log a), instance_log := f (instance_log a),
       label_frames := g (label_frames a)\<rparr>"

definition spec_step :: "log_event \<Rightarrow> log_spec \<Rightarrow> log_spec" where
  "spec_step ev a =
     (case ev of
        Push \<Rightarrow> spec_scopes (depth a + 1) scoped_push (\<lambda>fs. [] # fs) a
      | Pop n \<Rightarrow> spec_scopes (depth a - n) (scoped_pop n) (drop n) a
      | Label l \<Rightarrow> a\<lparr>label_frames := (hd (label_frames a) @ [l]) # tl (label_frames a)\<rparr>
      | New_quantifier q \<Rightarrow>
          a\<lparr>match_total := (match_total a)(q \<mapsto> 0),
            match_log := (match_log a)(q \<mapsto> scoped_new (depth a)),
            trigger_log := (trigger_log a)(q \<mapsto> scoped_new (depth a)),
            trigger_terms := (trigger_terms a)(q \<mapsto> {})\<rparr>
      | Match q ts \<Rightarrow>
          a\<lparr>match_total := modify q Suc (match_total a),
            match_log := modify q scoped_hit (match_log a),
            trigger_log := modify q (scoped_hit ^^ length ts) (trigger_log a),
            trigger_terms := modify q (\<lambda>us. us \<union> set ts) (trigger_terms a)\<rparr>
      | Discovered t \<Rightarrow>
          a\<lparr>theory_total := modify t Suc (theory_total a), theory_log := modify t scoped_hit (theory_log a)\<rparr>
      | Instance \<Rightarrow>
          a\<lparr>instance_total := instance_total a + 1, instance_log := scoped_hit (instance_log a)\<rparr>
      | Other \<Rightarrow> a)"

text \<open>The start: no scope but the outermost, the builtin quantifier and the four theories.\<close>

definition spec_init :: log_spec where
  "spec_init =
     \<lparr>depth = 0, match_total = [BUILTIN_QUANTIFIER_ID \<mapsto> 0],
      match_log = [BUILTIN_QUANTIFIER_ID \<mapsto> scoped_new 0],
      trigger_log = [BUILTIN_QUANTIFIER_ID \<mapsto> scoped_new 0],
      trigger_terms = [BUILTIN_QUANTIFIER_ID \<mapsto> {}],
      theory_total = (\<lambda>t. Some 0), theory_log = (\<lambda>t. Some (scoped_new 0)),
      instance_total = 0, instance_log = scoped_new 0, label_frames = [[]]\<rparr>"

definition spec_run :: "log_event list \<Rightarrow> log_spec" where
  "spec_run evs = fold spec_step evs spec_init"

section \<open>The event of a line\<close>

definition quant_term_ids :: "quant_term \<Rightarrow> term_id list" where
  "quant_term_ids t = (case t of Single m \<Rightarrow> [m] | Pair a m \<Rightarrow> [a, m])"

function matched_terms :: "string \<Rightarrow> term_id list" where
  "matched_terms line =
     (case try_parse_quant_term line of
        Inr (Some t, r) \<Rightarrow> quant_term_ids t @ matched_terms r
      | _ \<Rightarrow> [])"
  by pat_completeness auto
termination
  by (relation "measure length") (auto dest: try_parse_quant_term_length)

declare matched_terms.simps [simp del]

definition or_else :: "'b \<Rightarrow> 'e + 'a \<Rightarrow> ('a \<Rightarrow> 'b) \<Rightarrow> 'b" where
  "or_else d r f = (case r of Inl _ \<Rightarrow> d | Inr a \<Rightarrow> f a)"

definition match_event :: "string \<Rightarrow> log_event" where
  "match_event line =
     or_else Other (parse_hex_number line) (\<lambda>(fingerprint, r).
       if fingerprint = 0 then Match BUILTIN_QUANTIFIER_ID []
       else or_else Other (parse_id r) (\<lambda>(q, r).
            or_else Other (parse_id r) (\<lambda>(_, r).
            or_else Other (parse_ids r) (\<lambda>(_, r).
            or_else Other (consume CHR '';'' r) (\<lambda>r. Match q (matched_terms r))))))"

definition label_event_of :: "string \<Rightarrow> log_event" where
  "label_event_of line =
     or_else Other (try_parse_id line) (\<lambda>(t, r).
       if t = None then Other
       else or_else Other (parse_name r) (\<lambda>(ident, r).
         if starts_with ident ''basic_block_marker'' then Label ident else Other))"

definition line_event :: "string \<Rightarrow> log_event" where
  "line_event line =
     or_else Other (parse_event_kind line) (\<lambda>(kind, r).
       case kind of
         EPop \<Rightarrow> or_else Other (parse_number r) (\<lambda>(n, _). Pop (unat n))
       | EPush \<Rightarrow> Push
       | EMkApp \<Rightarrow> label_event_of r
       | EMkQuant \<Rightarrow> or_else Other (parse_id r) (\<lambda>(q, _). New_quantifier q)
       | ENewMatch \<Rightarrow> match_event r
       | EInstDiscovered \<Rightarrow>
           or_else Other (parse_name r) (\<lambda>(_, r).
           or_else Other (parse_hex_number r) (\<lambda>(_, r).
           or_else Other (parse_theory r) (\<lambda>(t, _). Discovered t)))
       | EInstance \<Rightarrow> Instance
       | _ \<Rightarrow> Other)"

section \<open>Abstraction\<close>

text \<open>The events of level \<open>i\<close>, and a list with one entry for each open scope.\<close>

definition at_level :: "nat \<Rightarrow> 'x scope_event_scheme list \<Rightarrow> 'x scope_event_scheme list" where
  "at_level i evs = filter (\<lambda>e. unat (level e) = i) evs"

definition frames_by :: "('x scope_event_scheme list \<Rightarrow> 'b) \<Rightarrow> level \<Rightarrow> 'x scope_event_scheme list \<Rightarrow> 'b list" where
  "frames_by g c evs = map (\<lambda>i. g (at_level i evs)) (rev [0..<Suc (unat c)])"

definition abs_scoped ::
  "('x scope_event_scheme list \<Rightarrow> nat) \<Rightarrow> level \<Rightarrow> nat \<Rightarrow> 'x scope_event_scheme list \<Rightarrow> scoped" where
  "abs_scoped g c m evs = \<lparr>peak = max m (g evs), frames = frames_by g c evs\<rparr>"

definition abs_logs ::
  "('x scope_event_scheme list \<Rightarrow> nat) \<Rightarrow> level \<Rightarrow> ('k, nat) index_map
   \<Rightarrow> ('k, 'x scope_event_scheme list) index_map \<Rightarrow> 'k \<Rightarrow> scoped option" where
  "abs_logs g c maxs evs k =
     (case (map_of maxs k, map_of evs k) of
        (Some m, Some es) \<Rightarrow> Some (abs_scoped g c m es)
      | _ \<Rightarrow> None)"

definition abs_state :: "smt_state \<Rightarrow> log_spec" where
  "abs_state s =
     (let c = current_active_scopes_count s in
      \<lparr>depth = unat c,
       match_total = map_of (total_quantifiers_matched_counters s),
       match_log = abs_logs counter_sum c (max_quantifier_matched_event_counters s) (quantifiers_matched_events s),
       trigger_log = abs_logs length c (max_term_used_in_trigger_event_counters s) (term_used_in_trigger_events s),
       trigger_terms = (\<lambda>q. map_option set (map_of (unique_quantifier_triggers s) q)),
       theory_total = map_of (total_quantifiers_inst_disovered_counters s),
       theory_log = abs_logs counter_sum c (max_quantifier_inst_discovered_event_counters s)
         (quantifiers_inst_disovered_events s),
       instance_total = total_quantifiers_instance_counters s,
       instance_log = abs_scoped counter_sum c (max_quantifier_instance_event_counters s)
         (quantifiers_instance_events s),
       label_frames = frames_by (map label) c (smt_trace s)\<rparr>)"

section \<open>Well-formed states\<close>

definition log_ok :: "level \<Rightarrow> 'x scope_event_scheme list \<Rightarrow> bool" where
  "log_ok c evs = (sorted (map level evs) \<and> (\<forall>e \<in> set evs. level e \<le> c))"

definition all_logs :: "level \<Rightarrow> ('k, 'x scope_event_scheme list) index_map \<Rightarrow> bool" where
  "all_logs c m = (\<forall>evs \<in> snd ` set m. log_ok c evs)"

definition keys_are :: "'k set \<Rightarrow> ('k, 'v) index_map \<Rightarrow> bool" where
  "keys_are K m = (distinct (map fst m) \<and> set (map fst m) = K)"

definition quantifier_ids :: "smt_state \<Rightarrow> quantifier_id set" where
  "quantifier_ids s = set (map fst (quantifiers s))"

text \<open>Every registered quantifier and every theory has an entry in each of the maps.\<close>

definition keys_ok :: "smt_state \<Rightarrow> bool" where
  "keys_ok s =
     (let Q = quantifier_ids s in
      BUILTIN_QUANTIFIER_ID \<in> Q \<and>
      keys_are Q (quantifiers_matched_events s) \<and>
      keys_are Q (total_quantifiers_matched_counters s) \<and>
      keys_are Q (max_quantifier_matched_event_counters s) \<and>
      keys_are Q (unique_quantifier_triggers s) \<and>
      keys_are Q (term_used_in_trigger_events s) \<and>
      keys_are Q (max_term_used_in_trigger_event_counters s) \<and>
      keys_are UNIV (quantifiers_inst_disovered_events s) \<and>
      keys_are UNIV (total_quantifiers_inst_disovered_counters s) \<and>
      keys_are UNIV (max_quantifier_inst_discovered_event_counters s) \<and>
      set (map fst (multi_term_quantifiers s)) \<subseteq> Q \<and>
      set (map fst (removed_quantifiers (largest_pop s))) \<subseteq> Q)"

text \<open>The events of every log are ordered by their levels, which are those of open scopes.\<close>

definition logs_ok :: "smt_state \<Rightarrow> bool" where
  "logs_ok s =
     (let c = current_active_scopes_count s in
      all_logs c (quantifiers_matched_events s) \<and>
      all_logs c (term_used_in_trigger_events s) \<and>
      all_logs c (quantifiers_inst_disovered_events s) \<and>
      log_ok c (quantifiers_instance_events s) \<and>
      log_ok c (smt_trace s))"

definition tracing_ok :: "smt_state \<Rightarrow> bool" where
  "tracing_ok s = (traced_quantifier s \<noteq> None \<longrightarrow> traced_quantifier_triggers s \<noteq> None)"

definition smt_wf :: "smt_state \<Rightarrow> bool" where
  "smt_wf s = (keys_ok s \<and> logs_ok s \<and> tracing_ok s)"

end
