(* ===== verification/Smt_Log_Laws.thy ===== *)
theory Smt_Log_Laws
  imports Smt_Log_Spec
begin

text \<open>
  The laws behind the SMT log analyzer. The locale \<open>scoped_log\<close> is the contract of a log of
  events with levels: adding an event changes the innermost scope only. From it follows that
  opening and closing scopes and adding events are the operations on stacks of counters that the
  specification uses. It is interpreted on the three kinds of logs of the analyzer.
\<close>

section \<open>Levels\<close>

lemma add_u32_checked: "add_u32 True a 1 = Inr c \<Longrightarrow> unat c = unat a + 1"
  by (auto simp: add_u32_def unat_word_ariths split: if_splits)

lemma sub_u32_checked: "sub_u32 True a b = Inr c \<Longrightarrow> unat b \<le> unat a \<and> unat c = unat a - unat b"
  by (auto simp: sub_u32_def word_le_nat_alt unat_sub not_less split: if_splits)

lemma log_ok_Nil [simp]: "log_ok c []"
  by (simp add: log_ok_def)

lemma log_ok_mono: "log_ok c evs \<Longrightarrow> c \<le> c' \<Longrightarrow> log_ok c' evs"
  by (auto simp: log_ok_def)

lemma pop_while_above_id: "(\<forall>e \<in> set evs. level e \<le> c) \<Longrightarrow> pop_while (above c) evs = evs"
  by (cases evs rule: rev_cases) (auto simp: pop_while_snoc above_def)

lemma pop_while_above:
  "sorted (map level evs) \<Longrightarrow> pop_while (above c) evs = filter (\<lambda>e. level e \<le> c) evs"
proof (induction evs rule: rev_induct)
  case Nil
  then show ?case by simp
next
  case (snoc e evs)
  then have "\<forall>x \<in> set evs. level x \<le> level e" by (simp add: sorted_append)
  then have "level e \<le> c \<Longrightarrow> filter (\<lambda>e. level e \<le> c) evs = evs"
    by (auto intro!: filter_True)
  then show ?case using snoc by (auto simp: pop_while_snoc above_def not_less sorted_append)
qed

lemma log_ok_pop: "log_ok c evs \<Longrightarrow> log_ok c' (pop_while (above c') evs)"
  by (auto simp: log_ok_def pop_while_above sorted_filter)

lemma log_ok_snoc: "log_ok c evs \<Longrightarrow> level e = c \<Longrightarrow> log_ok c (evs @ [e])"
  by (auto simp: log_ok_def sorted_append)

section \<open>Frames\<close>

lemma frames_by_Suc:
  assumes "unat c' = unat c + 1"
  shows "frames_by g c' evs = g (at_level (unat c') evs) # frames_by g c evs"
  using assms by (simp add: frames_by_def)

lemma frames_by_unfold:
  "frames_by g c evs = g (at_level (unat c) evs) # map (\<lambda>i. g (at_level i evs)) (rev [0..<unat c])"
  by (simp add: frames_by_def)

lemma at_level_above:
  assumes "log_ok c evs" and "unat c < i"
  shows "at_level i evs = []"
proof -
  have "unat (level e) \<le> unat c" if "e \<in> set evs" for e
    using assms(1) that by (simp add: log_ok_def word_le_nat_alt)
  then show ?thesis using assms(2) by (fastforce simp: at_level_def filter_empty_conv)
qed

lemma frames_by_push:
  assumes "log_ok c evs" and "unat c' = unat c + 1"
  shows "frames_by g c' evs = g [] # frames_by g c evs"
  using assms by (simp add: frames_by_Suc at_level_above)

lemma at_level_pop:
  assumes "log_ok c evs" and "i \<le> unat c'"
  shows "at_level i (pop_while (above c') evs) = at_level i evs"
  using assms
  by (auto simp: at_level_def log_ok_def pop_while_above word_le_nat_alt intro!: filter_cong)

lemma drop_rev_upt: "n \<le> k \<Longrightarrow> drop n (rev [0..<Suc k]) = rev [0..<Suc (k - n)]"
  by (simp add: drop_rev Suc_diff_le del: upt_Suc)

lemma frames_by_pop:
  assumes "log_ok c evs" and "n \<le> unat c" and "unat c' = unat c - n"
  shows "frames_by g c' (pop_while (above c') evs) = drop n (frames_by g c evs)"
proof -
  have "frames_by g c' (pop_while (above c') evs) = map (\<lambda>i. g (at_level i evs)) (rev [0..<Suc (unat c')])"
    unfolding frames_by_def
    by (intro map_cong refl) (use at_level_pop [OF assms(1), of _ c'] in auto)
  then show ?thesis
    by (simp only: frames_by_def drop_map drop_rev_upt [OF assms(2)] assms(3))
qed

lemma frames_by_Nil: "frames_by g c [] = replicate (Suc (unat c)) (g [])"
  by (simp add: frames_by_def at_level_def map_replicate_const del: upt_Suc)

section \<open>The contract of a log\<close>

locale scoped_log =
  fixes size_of :: "'x scope_event_scheme list \<Rightarrow> nat"
    and add :: "level \<Rightarrow> 'a \<Rightarrow> 'x scope_event_scheme list \<Rightarrow> 'x scope_event_scheme list"
  assumes size_of_append: "size_of (xs @ ys) = size_of xs + size_of ys"
    and add_ok: "log_ok c evs \<Longrightarrow> log_ok c (add c a evs)"
    and add_outer: "i \<noteq> unat c \<Longrightarrow> at_level i (add c a evs) = at_level i evs"
    and add_inner: "log_ok c evs \<Longrightarrow> size_of (at_level (unat c) (add c a evs)) = size_of (at_level (unat c) evs) + 1"
begin

lemma size_of_Nil: "size_of [] = 0"
  using size_of_append [of "[]" "[]"] by simp

lemma size_of_filter: "size_of evs = size_of (filter P evs) + size_of (filter (\<lambda>e. \<not> P e) evs)"
proof (induction evs)
  case Nil
  then show ?case by (simp add: size_of_Nil)
next
  case (Cons e evs)
  then show ?case
    using size_of_append [of "[e]" evs] size_of_append [of "[e]" "filter P evs"]
      size_of_append [of "[e]" "filter (\<lambda>e. \<not> P e) evs"]
    by simp
qed

lemma sum_levels:
  "(\<Sum>i \<leftarrow> rev [0..<n]. size_of (at_level i evs)) = size_of (filter (\<lambda>e. unat (level e) < n) evs)"
proof (induction n)
  case 0
  then show ?case by (simp add: size_of_Nil)
next
  case (Suc n)
  have "filter (\<lambda>e. unat (level e) = n) (filter (\<lambda>e. unat (level e) < Suc n) evs) = at_level n evs"
    by (auto simp: at_level_def intro: filter_cong)
  moreover have "filter (\<lambda>e. unat (level e) \<noteq> n) (filter (\<lambda>e. unat (level e) < Suc n) evs) =
      filter (\<lambda>e. unat (level e) < n) evs"
    by (auto intro: filter_cong)
  ultimately show ?case
    using Suc size_of_filter [of "filter (\<lambda>e. unat (level e) < Suc n) evs" "\<lambda>e. unat (level e) = n"]
    by simp
qed

lemma sum_frames:
  assumes "log_ok c evs"
  shows "sum_list (frames_by size_of c evs) = size_of evs"
proof -
  have "filter (\<lambda>e. unat (level e) < Suc (unat c)) evs = evs"
    using assms by (auto simp: log_ok_def word_le_nat_alt less_Suc_eq_le intro: filter_True)
  then show ?thesis using sum_levels [of evs "Suc (unat c)"]
    by (simp only: frames_by_def)
qed

lemma frames_add:
  assumes "log_ok c evs"
  shows "frames_by size_of c (add c a evs) =
    (hd (frames_by size_of c evs) + 1) # tl (frames_by size_of c evs)"
  using assms by (simp add: frames_by_unfold add_inner add_outer)

lemma size_of_add: "log_ok c evs \<Longrightarrow> size_of (add c a evs) = size_of evs + 1"
  using sum_frames [of c evs] sum_frames [of c "add c a evs"]
  by (simp add: add_ok frames_add frames_by_unfold [of size_of c evs])

lemma abs_hit:
  assumes "log_ok c evs"
  shows "abs_scoped size_of c m (add c a evs) = scoped_hit (abs_scoped size_of c m evs)"
proof -
  have "sum_list (frames_by size_of c (add c a evs)) = size_of evs + 1"
    using assms by (simp add: sum_frames add_ok size_of_add)
  then show ?thesis using assms
    by (simp add: abs_scoped_def scoped_hit_def Let_def frames_add size_of_add)
qed

lemma abs_push:
  "log_ok c evs \<Longrightarrow> unat c' = unat c + 1 \<Longrightarrow> abs_scoped size_of c' m evs = scoped_push (abs_scoped size_of c m evs)"
  by (simp add: abs_scoped_def scoped_push_def frames_by_push size_of_Nil)

lemma size_of_pop: "size_of (pop_while P evs) \<le> size_of evs"
  using size_of_append [of "pop_while P evs" "rev (popped_while P evs)"] by (simp add: pop_while_append_popped)

lemma abs_pop:
  assumes "log_ok c evs" and "n \<le> unat c" and "unat c' = unat c - n"
  shows "abs_scoped size_of c' (max m (size_of evs)) (pop_while (above c') evs) =
    scoped_pop n (abs_scoped size_of c m evs)"
  using assms size_of_pop [of "above c'" evs]
  by (simp add: abs_scoped_def scoped_pop_def frames_by_pop max_def)

lemma abs_new: "abs_scoped size_of c 0 [] = scoped_new (unat c)"
  by (simp add: abs_scoped_def scoped_new_def frames_by_Nil size_of_Nil)

end

lemma counter_sum_append: "counter_sum (xs @ ys) = counter_sum xs + counter_sum ys"
  by (simp add: counter_sum_def)

lemma register_counted_ok: "log_ok c evs \<Longrightarrow> log_ok c (register_counted c evs)"
  by (cases evs rule: rev_cases)
     (auto simp: register_counted_def log_ok_def sorted_append)

lemma register_counted_outer: "i \<noteq> unat c \<Longrightarrow> at_level i (register_counted c evs) = at_level i evs"
  by (cases evs rule: rev_cases) (auto simp: register_counted_def at_level_def)

lemma register_counted_inner:
  "counter_sum (at_level (unat c) (register_counted c evs)) = counter_sum (at_level (unat c) evs) + 1"
  by (cases evs rule: rev_cases) (auto simp: register_counted_def at_level_def counter_sum_def)

interpretation counted: scoped_log counter_sum "\<lambda>c (_ :: unit). register_counted c"
  by unfold_locales
     (simp_all add: counter_sum_append register_counted_ok register_counted_outer register_counted_inner)

interpretation term_log: scoped_log length "\<lambda>c t evs. evs @ [\<lparr>level = c, event_term = t\<rparr>]"
  by unfold_locales (simp_all add: log_ok_snoc, simp_all add: at_level_def)

interpretation label_log: scoped_log length "\<lambda>c l evs. evs @ [\<lparr>level = c, label = l\<rparr>]"
  by unfold_locales (simp_all add: log_ok_snoc, simp_all add: at_level_def)

section \<open>Maps of logs\<close>

lemma get_mut_Inr: "get_mut k m f = Inr m' \<longleftrightarrow> (\<exists>v. map_of m k = Some v \<and> m' = AList.update k (f v) m)"
  by (auto simp: get_mut_def split: option.splits)

lemma keys_are_map_of: "keys_are K m \<Longrightarrow> map_of m k = None \<longleftrightarrow> k \<notin> K"
  by (simp add: keys_are_def map_of_eq_None_iff)

lemma keys_are_lookup: "keys_are K m \<Longrightarrow> k \<in> K \<Longrightarrow> \<exists>v. map_of m k = Some v"
  using keys_are_map_of [of K m k] by auto

lemma keys_are_Some: "keys_are K m \<Longrightarrow> map_of m k = Some v \<Longrightarrow> k \<in> K"
  using keys_are_map_of [of K m k] by auto

lemma keys_are_update: "keys_are K m \<Longrightarrow> keys_are (insert k K) (AList.update k v m)"
  by (simp add: keys_are_def distinct_update dom_update)

lemma keys_are_update_same: "keys_are K m \<Longrightarrow> k \<in> K \<Longrightarrow> keys_are K (AList.update k v m)"
  using keys_are_update [of K m k v] by (simp add: insert_absorb)

lemma map_fst_map_values [simp]: "map fst (map_values f m) = map fst m"
  by (simp add: map_values_def case_prod_beta comp_def)

lemma keys_are_map_values [simp]: "keys_are K (map_values f m) = keys_are K m"
  by (simp add: keys_are_def)

lemma map_of_map_values: "map_of (map_values f m) k = map_option f (map_of m k)"
  by (simp add: map_values_def map_of_map)

lemma snd_map_values: "snd ` set (map_values f m) = f ` snd ` set m"
  by (force simp: map_values_def)

lemma update_values: "v' \<in> snd ` set (AList.update k v m) \<Longrightarrow> v' = v \<or> v' \<in> snd ` set m"
  by (induction m) (auto split: if_splits)

lemma map_of_value: "map_of m k = Some v \<Longrightarrow> v \<in> snd ` set m"
  by (force dest: map_of_SomeD)

lemma all_logs_lookup: "all_logs c m \<Longrightarrow> map_of m k = Some evs \<Longrightarrow> log_ok c evs"
  using map_of_value [of m k evs] by (auto simp: all_logs_def)

lemma all_logs_update: "all_logs c m \<Longrightarrow> log_ok c evs \<Longrightarrow> all_logs c (AList.update k evs m)"
  unfolding all_logs_def
proof
  fix evs'
  assume "\<forall>evs \<in> snd ` set m. log_ok c evs" and "log_ok c evs"
    and "evs' \<in> snd ` set (AList.update k evs m)"
  then show "log_ok c evs'" using update_values [of evs' k evs m] by blast
qed

lemma all_logs_mono: "all_logs c m \<Longrightarrow> c \<le> c' \<Longrightarrow> all_logs c' m"
  unfolding all_logs_def by (blast intro: log_ok_mono)

lemma all_logs_pop: "all_logs c m \<Longrightarrow> all_logs c' (map_values (pop_while (above c')) m)"
  by (auto simp: all_logs_def snd_map_values log_ok_pop)

lemma raise_max_keys: "raise_max m kns = Inr m' \<Longrightarrow> keys_are K m \<Longrightarrow> keys_are K m'"
proof (induction kns arbitrary: m)
  case Nil
  then show ?case by simp
next
  case (Cons kn kns)
  then show ?case
    by (cases kn) (auto simp: rbind_eq_Inr get_mut_Inr intro!: keys_are_update_same dest: keys_are_Some)
qed

lemma raise_max_lookup:
  "raise_max m kns = Inr m' \<Longrightarrow> distinct (map fst kns) \<Longrightarrow>
   map_of m' k = (case map_of kns k of None \<Rightarrow> map_of m k | Some n \<Rightarrow> map_option (\<lambda>old. max old n) (map_of m k))"
proof (induction kns arbitrary: m)
  case Nil
  then show ?case by simp
next
  case (Cons kn kns)
  obtain j n where kn: "kn = (j, n)" by (cases kn)
  obtain v where v: "map_of m j = Some v"
    and m': "raise_max (AList.update j (if v < n then n else v) m) kns = Inr m'"
    using Cons.prems kn by (auto simp: rbind_eq_Inr get_mut_Inr)
  have "map_of kns j = None" using Cons.prems kn by (simp add: map_of_eq_None_iff)
  then show ?case using Cons.IH [OF m'] Cons.prems kn v
    by (auto simp: max_def split: option.splits)
qed

lemma raise_max_defined:
  "set (map fst kns) \<subseteq> set (map fst m) \<Longrightarrow> \<exists>m'. raise_max m kns = Inr m'"
proof (induction kns arbitrary: m)
  case Nil
  then show ?case by simp
next
  case (Cons kn kns)
  obtain j n where kn: "kn = (j, n)" by (cases kn)
  obtain v where v: "map_of m j = Some v"
    using Cons.prems kn by (cases "map_of m j") (auto simp: map_of_eq_None_iff)
  have "set (map fst kns) \<subseteq> set (map fst (AList.update j (if v < n then n else v) m))"
    using Cons.prems by (auto simp: dom_update)
  then show ?case using Cons.IH kn v by (simp add: get_mut_def)
qed

context scoped_log
begin

lemma abs_logs_add:
  assumes "map_of evs k = Some es" and "log_ok c es"
  shows "abs_logs size_of c maxs (AList.update k (add c a es) evs) =
    modify k scoped_hit (abs_logs size_of c maxs evs)"
  using assms by (auto simp: abs_logs_def modify_def abs_hit fun_eq_iff split: option.splits)

lemma abs_logs_push:
  assumes "all_logs c evs" and "unat c' = unat c + 1"
  shows "abs_logs size_of c' maxs evs = modify_all scoped_push (abs_logs size_of c maxs evs)"
proof
  fix k
  show "abs_logs size_of c' maxs evs k = modify_all scoped_push (abs_logs size_of c maxs evs) k"
    using assms(2) abs_push [OF all_logs_lookup [OF assms(1)]]
    by (auto simp: abs_logs_def modify_all_def split: option.splits)
qed

lemma abs_logs_pop:
  assumes "raise_max maxs (map_values size_of evs) = Inr maxs'" and "keys_are K evs"
    and "all_logs c evs" and "n \<le> unat c" and "unat c' = unat c - n"
  shows "abs_logs size_of c' maxs' (map_values (pop_while (above c')) evs) =
    modify_all (scoped_pop n) (abs_logs size_of c maxs evs)"
proof
  fix k
  have "map_of maxs' k =
      (case map_of evs k of None \<Rightarrow> map_of maxs k | Some es \<Rightarrow> map_option (\<lambda>m. max m (size_of es)) (map_of maxs k))"
    using raise_max_lookup [OF assms(1), of k] assms(2)
    by (simp add: map_of_map_values keys_are_def split: option.splits)
  then show "abs_logs size_of c' maxs' (map_values (pop_while (above c')) evs) k =
      modify_all (scoped_pop n) (abs_logs size_of c maxs evs) k"
    using abs_pop [OF all_logs_lookup [OF assms(3)] assms(4,5)]
    by (auto simp: abs_logs_def modify_all_def map_of_map_values split: option.splits)
qed

lemma abs_logs_new:
  "abs_logs size_of c (AList.update k 0 maxs) (AList.update k [] evs) =
     (abs_logs size_of c maxs evs)(k \<mapsto> scoped_new (unat c))"
  by (auto simp: abs_logs_def abs_new fun_eq_iff split: option.splits)

end

end
