(* ===== verification/Smt_Log_Refine.thy ===== *)
theory Smt_Log_Refine
  imports Smt_Log_Laws
begin

text \<open>
  Every operation of the SMT log analyzer keeps the state well formed and does on the abstract
  state what the specification says for the event. Levels are checked for overflow throughout.
\<close>

definition simulates :: "smt_state \<Rightarrow> log_event \<Rightarrow> smt_state \<Rightarrow> bool" where
  "simulates s ev s' = (smt_wf s' \<and> abs_state s' = spec_step ev (abs_state s))"

text \<open>What one matched term adds to the event of its match.\<close>

definition spec_trigger :: "quantifier_id \<Rightarrow> term_id \<Rightarrow> log_spec \<Rightarrow> log_spec" where
  "spec_trigger q t a =
     a\<lparr>trigger_log := modify q scoped_hit (trigger_log a),
       trigger_terms := modify q (\<lambda>us. us \<union> {t}) (trigger_terms a)\<rparr>"

lemmas smt_wf_unfold = smt_wf_def keys_ok_def logs_ok_def tracing_ok_def quantifier_ids_def Let_def

lemma smt_wf_keys:
  assumes "smt_wf s"
  shows "keys_are (quantifier_ids s) (quantifiers_matched_events s)"
    and "keys_are (quantifier_ids s) (total_quantifiers_matched_counters s)"
    and "keys_are (quantifier_ids s) (max_quantifier_matched_event_counters s)"
    and "keys_are (quantifier_ids s) (unique_quantifier_triggers s)"
    and "keys_are (quantifier_ids s) (term_used_in_trigger_events s)"
    and "keys_are (quantifier_ids s) (max_term_used_in_trigger_event_counters s)"
    and "keys_are UNIV (quantifiers_inst_disovered_events s)"
    and "keys_are UNIV (total_quantifiers_inst_disovered_counters s)"
    and "keys_are UNIV (max_quantifier_inst_discovered_event_counters s)"
    and "set (map fst (multi_term_quantifiers s)) \<subseteq> quantifier_ids s"
    and "set (map fst (removed_quantifiers (largest_pop s))) \<subseteq> quantifier_ids s"
  using assms by (simp_all add: smt_wf_unfold)

lemma smt_wf_logs:
  assumes "smt_wf s"
  shows "all_logs (current_active_scopes_count s) (quantifiers_matched_events s)"
    and "all_logs (current_active_scopes_count s) (term_used_in_trigger_events s)"
    and "all_logs (current_active_scopes_count s) (quantifiers_inst_disovered_events s)"
    and "log_ok (current_active_scopes_count s) (quantifiers_instance_events s)"
    and "log_ok (current_active_scopes_count s) (smt_trace s)"
  using assms by (simp_all add: smt_wf_unfold)

section \<open>Registering events\<close>

lemma register_label_simulates: "smt_wf s \<Longrightarrow> simulates s (Label l) (register_label l s)"
  by (simp add: simulates_def register_label_def smt_wf_unfold log_ok_snoc abs_state_def
      spec_step_def frames_by_unfold at_level_def)

lemma register_quantifier_wf: "smt_wf s \<Longrightarrow> smt_wf (register_quantifier q name s)"
  by (simp add: smt_wf_unfold register_quantifier_def dom_update keys_are_update all_logs_update)
     (metis subset_insertI2)

lemma register_quantifier_simulates:
  assumes "smt_wf s"
  shows "simulates s (New_quantifier q) (register_quantifier q name s)"
proof -
  have "(\<lambda>p. map_option set (map_of (AList.update q [] (unique_quantifier_triggers s)) p)) =
      (\<lambda>p. map_option set (map_of (unique_quantifier_triggers s) p))(q \<mapsto> {})"
    by auto
  then have "abs_state (register_quantifier q name s) = spec_step (New_quantifier q) (abs_state s)"
    by (simp add: abs_state_def register_quantifier_def spec_step_def Let_def
        counted.abs_logs_new term_log.abs_logs_new)
  then show ?thesis using assms by (simp add: simulates_def register_quantifier_wf)
qed

lemma register_instance_simulates: "smt_wf s \<Longrightarrow> simulates s Instance (register_instance s)"
  by (simp add: simulates_def register_instance_def smt_wf_unfold register_counted_ok abs_state_def
      spec_step_def counted.abs_hit)

lemma register_term_simulates: "smt_wf s \<Longrightarrow> simulates s Other (register_term t d s)"
  by (simp add: simulates_def register_term_def smt_wf_unfold abs_state_def spec_step_def)

lemma unchanged_simulates: "smt_wf s \<Longrightarrow> simulates s Other s"
  by (simp add: simulates_def spec_step_def)

lemma modify_id [simp]: "modify k (\<lambda>x. x) m = m" "modify k id m = m"
  by (simp_all add: modify_def fun_eq_iff option.map_ident option.map_id)

lemma modify_update: "map_of m k = Some v \<Longrightarrow> map_of (AList.update k (f v) m) = modify k f (map_of m)"
  by (simp add: modify_def)

lemma register_matched_quantifier_simulates:
  assumes "smt_wf s" and "register_matched_quantifier q s = Inr s'"
  shows "simulates s (Match q []) s'"
proof -
  let ?c = "current_active_scopes_count s"
  obtain n evs where n: "map_of (total_quantifiers_matched_counters s) q = Some n"
    and evs: "map_of (quantifiers_matched_events s) q = Some evs"
    and s': "s' = s\<lparr>total_quantifiers_matched_counters := AList.update q (n + 1) (total_quantifiers_matched_counters s),
      quantifiers_matched_events := AList.update q (register_counted ?c evs) (quantifiers_matched_events s)\<rparr>"
    using assms(2) by (auto simp: register_matched_quantifier_def rbind_eq_Inr get_mut_Inr)
  have ok: "log_ok ?c evs" using assms(1) evs by (auto simp: smt_wf_unfold intro: all_logs_lookup)
  have q: "q \<in> quantifier_ids s" using assms(1) n by (auto simp: smt_wf_unfold dest: keys_are_Some)
  have "smt_wf s'" using assms(1) q ok
    by (simp add: s' smt_wf_unfold keys_are_update_same all_logs_update register_counted_ok)
  moreover have "abs_state s' = spec_step (Match q []) (abs_state s)"
    using modify_update [OF n, of Suc] counted.abs_logs_add [OF evs ok]
    by (simp add: abs_state_def s' spec_step_def Let_def del: map_of_update)
  ultimately show ?thesis by (simp add: simulates_def)
qed

lemma register_inst_discovered_simulates:
  assumes "smt_wf s" and "register_inst_discovered t s = Inr s'"
  shows "simulates s (Discovered t) s'"
proof -
  let ?c = "current_active_scopes_count s"
  obtain n evs where n: "map_of (total_quantifiers_inst_disovered_counters s) t = Some n"
    and evs: "map_of (quantifiers_inst_disovered_events s) t = Some evs"
    and s': "s' = s\<lparr>total_quantifiers_inst_disovered_counters :=
        AList.update t (n + 1) (total_quantifiers_inst_disovered_counters s),
      quantifiers_inst_disovered_events :=
        AList.update t (register_counted ?c evs) (quantifiers_inst_disovered_events s)\<rparr>"
    using assms(2) by (auto simp: register_inst_discovered_def rbind_eq_Inr get_mut_Inr)
  have ok: "log_ok ?c evs" using assms(1) evs by (auto simp: smt_wf_unfold intro: all_logs_lookup)
  have "smt_wf s'" using assms(1) ok
    by (simp add: s' smt_wf_unfold keys_are_update_same all_logs_update register_counted_ok)
  moreover have "abs_state s' = spec_step (Discovered t) (abs_state s)"
    using modify_update [OF n, of Suc] counted.abs_logs_add [OF evs ok]
    by (simp add: abs_state_def s' spec_step_def Let_def del: map_of_update)
  ultimately show ?thesis by (simp add: simulates_def)
qed

section \<open>Matched terms\<close>

lemma trace_quantifier_trigger_other:
  assumes "trace_quantifier_trigger q t s = Inr s'" and "smt_wf s"
  shows "\<exists>buf. s' = s\<lparr>traced_quantifier_triggers := buf\<rparr> \<and> smt_wf s'"
proof -
  have "s' = s \<or> (\<exists>buf. s' = s\<lparr>traced_quantifier_triggers := Some buf\<rparr>)"
    using assms(1) by (auto simp: trace_quantifier_trigger_def split: option.splits if_splits)
  moreover have "s = s\<lparr>traced_quantifier_triggers := traced_quantifier_triggers s\<rparr>" by simp
  moreover have "smt_wf (s\<lparr>traced_quantifier_triggers := Some buf\<rparr>)" for buf
    using assms(2) by (simp add: smt_wf_unfold)
  ultimately show ?thesis using assms(2) by metis
qed

lemma register_matched_trigger_term_simulates:
  assumes "smt_wf s" and "register_matched_trigger_term q t s = Inr s'"
  shows "smt_wf s' \<and> abs_state s' = spec_trigger q t (abs_state s)"
proof -
  let ?c = "current_active_scopes_count s"
  obtain s1 where "trace_quantifier_trigger q t s = Inr s1"
    using assms(2) by (auto simp: register_matched_trigger_term_def rbind_eq_Inr)
  with trace_quantifier_trigger_other [OF this assms(1)] obtain buf
    where s1: "trace_quantifier_trigger q t s = Inr (s\<lparr>traced_quantifier_triggers := buf\<rparr>)"
      and wf: "smt_wf (s\<lparr>traced_quantifier_triggers := buf\<rparr>)"
    by blast
  obtain us where us: "map_of (unique_quantifier_triggers s) q = Some us"
    using assms(2) s1 by (auto simp: register_matched_trigger_term_def rbind_eq_Inr get_mut_Inr)
  obtain evs where evs: "map_of (term_used_in_trigger_events s) q = Some evs"
    using assms(2) s1 by (cases "map_of (term_used_in_trigger_events s) q")
      (auto simp: register_matched_trigger_term_def rbind_eq_Inr)
  define multi where "multi =
    (if \<exists>e \<in> set evs. event_term e = t
     then AList.update q ((case map_of (multi_term_quantifiers s) q of None \<Rightarrow> [] | Some ts \<Rightarrow> ts) @ [t])
       (multi_term_quantifiers s)
     else multi_term_quantifiers s)"
  have s': "s' = s\<lparr>traced_quantifier_triggers := buf,
      unique_quantifier_triggers := AList.update q (List.insert t us) (unique_quantifier_triggers s),
      multi_term_quantifiers := multi,
      term_used_in_trigger_events := AList.update q (evs @ [\<lparr>level = ?c, event_term = t\<rparr>])
        (term_used_in_trigger_events s)\<rparr>"
    using assms(2) s1 us evs
    by (cases "\<exists>e \<in> set evs. event_term e = t")
       (auto simp: register_matched_trigger_term_def get_mut_def multi_def)
  have multi: "set (map fst multi) \<subseteq> insert q (set (map fst (multi_term_quantifiers s)))"
    by (simp add: multi_def dom_update subset_insertI)
  have ok: "log_ok ?c evs" using assms(1) evs by (auto simp: smt_wf_unfold intro: all_logs_lookup)
  have q: "q \<in> quantifier_ids s" using assms(1) us by (auto simp: smt_wf_unfold dest: keys_are_Some)
  have "set (map fst multi) \<subseteq> quantifier_ids s" using multi q assms(1) by (auto simp: smt_wf_unfold)
  then have "smt_wf s'" using wf q ok
    by (simp add: s' smt_wf_unfold keys_are_update_same all_logs_update log_ok_snoc)
  moreover have "(\<lambda>p. map_option set (map_of (AList.update q (List.insert t us) (unique_quantifier_triggers s)) p)) =
      modify q (\<lambda>us. us \<union> {t}) (\<lambda>p. map_option set (map_of (unique_quantifier_triggers s) p))"
    using us by (auto simp: modify_def)
  then have "abs_state s' = spec_trigger q t (abs_state s)"
    using term_log.abs_logs_add [OF evs ok]
    by (simp add: abs_state_def s' spec_trigger_def Let_def del: map_of_update)
  ultimately show ?thesis by blast
qed

lemma register_quant_term_simulates:
  assumes "smt_wf s" and "register_quant_term q t s = Inr s'"
  shows "smt_wf s' \<and> abs_state s' = fold (spec_trigger q) (quant_term_ids t) (abs_state s)"
proof (cases t)
  case (Single m)
  then show ?thesis using assms register_matched_trigger_term_simulates [of s q m s']
    by (simp add: register_quant_term_def quant_term_ids_def)
next
  case (Pair a m)
  then obtain s1 where s1: "register_matched_trigger_term q a s = Inr s1" "register_matched_trigger_term q m s1 = Inr s'"
    using assms(2) by (auto simp: register_quant_term_def rbind_eq_Inr)
  then show ?thesis using Pair assms(1) register_matched_trigger_term_simulates [of s q a s1]
      register_matched_trigger_term_simulates [of s1 q m s']
    by (simp add: quant_term_ids_def)
qed

lemma register_quant_terms_simulates:
  "smt_wf s \<Longrightarrow> register_quant_terms q line s = Inr (s', r) \<Longrightarrow>
   smt_wf s' \<and> abs_state s' = fold (spec_trigger q) (matched_terms line) (abs_state s)"
proof (induction q line s rule: register_quant_terms.induct)
  case (1 q line s)
  show ?case
  proof (cases "try_parse_quant_term line")
    case (Inl e)
    then show ?thesis using 1 by (subst (asm) register_quant_terms.simps) simp
  next
    case (Inr p)
    obtain t0 r0 where p: "p = (t0, r0)" by fastforce
    show ?thesis
    proof (cases t0)
      case None
      then show ?thesis using 1 Inr p
        by (subst (asm) (2) register_quant_terms.simps, subst matched_terms.simps) simp
    next
      case (Some t)
      then obtain s1 where s1: "register_quant_term q t s = Inr s1" "register_quant_terms q r0 s1 = Inr (s', r)"
        using 1 Inr p by (subst (asm) (2) register_quant_terms.simps) (auto simp: rbind_eq_Inr)
      have "matched_terms line = quant_term_ids t @ matched_terms r0"
        using Inr p Some by (subst matched_terms.simps) simp
      then show ?thesis
        using 1(1) [OF Inr p [symmetric] Some _ s1(2)] register_quant_term_simulates [OF 1(2) s1(1)] by simp
    qed
  qed
qed

lemma modify_comp: "modify k f (modify k g m) = modify k (f \<circ> g) m"
  by (auto simp: modify_def option.map_comp)

lemma fold_spec_trigger:
  "fold (spec_trigger q) ts a =
     a\<lparr>trigger_log := modify q (scoped_hit ^^ length ts) (trigger_log a),
       trigger_terms := modify q (\<lambda>us. us \<union> set ts) (trigger_terms a)\<rparr>"
proof (induction ts arbitrary: a)
  case Nil
  then show ?case by simp
next
  case (Cons t ts)
  let ?b = "spec_trigger q t a"
  have "fold (spec_trigger q) (t # ts) a =
      ?b\<lparr>trigger_log := modify q (scoped_hit ^^ length ts) (trigger_log ?b),
         trigger_terms := modify q (\<lambda>us. us \<union> set ts) (trigger_terms ?b)\<rparr>"
    by (simp add: Cons)
  moreover have "modify q (scoped_hit ^^ length ts) (trigger_log ?b) =
      modify q (scoped_hit ^^ length (t # ts)) (trigger_log a)"
    by (simp add: spec_trigger_def modify_comp funpow_Suc_right del: funpow.simps)
  moreover have "(\<lambda>us. us \<union> set ts) \<circ> insert t = (\<lambda>us. us \<union> set (t # ts))" by auto
  then have "modify q (\<lambda>us. us \<union> set ts) (trigger_terms ?b) = modify q (\<lambda>us. us \<union> set (t # ts)) (trigger_terms a)"
    by (simp add: spec_trigger_def modify_comp)
  moreover have "?b\<lparr>trigger_log := l, trigger_terms := m\<rparr> = a\<lparr>trigger_log := l, trigger_terms := m\<rparr>" for l m
    by (simp add: spec_trigger_def)
  ultimately show ?case by (simp only:)
qed

lemma spec_match:
  "fold (spec_trigger q) ts (spec_step (Match q []) a) = spec_step (Match q ts) a"
  by (simp add: fold_spec_trigger spec_step_def)

section \<open>Scopes\<close>

lemma push_scope_simulates:
  assumes "smt_wf s" and "push_scope True s = Inr s'"
  shows "simulates s Push s'"
proof -
  let ?c = "current_active_scopes_count s"
  obtain c where s': "s' = s\<lparr>current_active_scopes_count := c\<rparr>" and "add_u32 True ?c 1 = Inr c"
    using assms(2) by (auto simp: push_scope_def rbind_eq_Inr)
  then have c: "unat c = unat ?c + 1" by (simp add: add_u32_checked)
  then have "?c \<le> c" by (simp add: word_le_nat_alt)
  then have "smt_wf s'" using assms(1)
    by (simp add: s' smt_wf_unfold all_logs_mono [of ?c _ c] log_ok_mono [of ?c _ c])
  moreover note ok = smt_wf_logs [OF assms(1)]
  have "abs_state s' = spec_step Push (abs_state s)"
    using c
    by (simp add: abs_state_def s' spec_step_def spec_scopes_def Let_def frames_by_push [OF ok(5) c]
        counted.abs_logs_push [OF ok(1) c] counted.abs_logs_push [OF ok(3) c]
        term_log.abs_logs_push [OF ok(2) c] counted.abs_push [OF ok(4) c])
  ultimately show ?thesis by (simp add: simulates_def)
qed

lemma pop_scopes_Inr:
  assumes "pop_scopes True n s = Inr s'"
  obtains c maxt maxi maxm where
    "unat n \<le> unat (current_active_scopes_count s)" "unat c = unat (current_active_scopes_count s) - unat n"
    "c = current_active_scopes_count s - n"
    "raise_max (max_term_used_in_trigger_event_counters s)
       (map_values length (term_used_in_trigger_events s)) = Inr maxt"
    "raise_max (max_quantifier_inst_discovered_event_counters s)
       (map_values counter_sum (quantifiers_inst_disovered_events s)) = Inr maxi"
    "raise_max (max_quantifier_matched_event_counters s)
       (map_values counter_sum (quantifiers_matched_events s)) = Inr maxm"
    "s' = s\<lparr>current_active_scopes_count := c,
       max_quantifier_instance_event_counters :=
         max (max_quantifier_instance_event_counters s) (counter_sum (quantifiers_instance_events s)),
       quantifiers_instance_events := pop_while (above c) (quantifiers_instance_events s),
       max_term_used_in_trigger_event_counters := maxt,
       term_used_in_trigger_events := map_values (pop_while (above c)) (term_used_in_trigger_events s),
       smt_trace := pop_while (above c) (smt_trace s),
       max_quantifier_inst_discovered_event_counters := maxi,
       quantifiers_inst_disovered_events :=
         map_values (pop_while (above c)) (quantifiers_inst_disovered_events s),
       max_quantifier_matched_event_counters := maxm,
       quantifiers_matched_events := map_values (pop_while (above c)) (quantifiers_matched_events s),
       largest_pop := update_largest_pop n
         (map_values (\<lambda>evs. counter_sum (popped_while (above c) evs)) (quantifiers_matched_events s))
         (popped_while (above c) (smt_trace s)) (pop_while (above c) (smt_trace s)) (largest_pop s)\<rparr>"
proof -
  obtain c where c: "sub_u32 True (current_active_scopes_count s) n = Inr c"
    using assms by (auto simp: pop_scopes_def rbind_eq_Inr)
  then have "c = current_active_scopes_count s - n" by (simp add: sub_u32_def split: if_splits)
  then show ?thesis
    using that [of c] sub_u32_checked [OF c] assms c
    by (auto simp: pop_scopes_def rbind_eq_Inr Let_def)
qed

lemma update_largest_pop_keys:
  "set (map fst (removed_quantifiers (update_largest_pop n removed ls tr lp))) \<subseteq>
   set (map fst removed) \<union> set (map fst (removed_quantifiers lp))"
  by (auto simp: update_largest_pop_def Let_def)

lemma pop_scopes_wf:
  assumes "smt_wf s" and "pop_scopes True n s = Inr s'"
  shows "smt_wf s'"
  using assms(2)
proof (cases rule: pop_scopes_Inr)
  case (1 c maxt maxi maxm)
  note wf = smt_wf_keys [OF assms(1)]
  note keys = raise_max_keys [OF 1(4) wf(6)] raise_max_keys [OF 1(5) wf(9)] raise_max_keys [OF 1(6) wf(3)]
  have "set (map fst (quantifiers_matched_events s)) = quantifier_ids s"
    using wf(1) by (simp add: keys_are_def)
  moreover have "largest_pop s' = update_largest_pop n
      (map_values (\<lambda>evs. counter_sum (popped_while (above c) evs)) (quantifiers_matched_events s))
      (popped_while (above c) (smt_trace s)) (pop_while (above c) (smt_trace s)) (largest_pop s)"
    by (simp add: 1(7))
  ultimately have "set (map fst (removed_quantifiers (largest_pop s'))) \<subseteq> quantifier_ids s"
    using update_largest_pop_keys [of n "map_values (\<lambda>evs. counter_sum (popped_while (above c) evs)) (quantifiers_matched_events s)"
        "popped_while (above c) (smt_trace s)" "pop_while (above c) (smt_trace s)" "largest_pop s"] wf(11)
    by (simp only: map_fst_map_values) blast
  then show ?thesis using assms(1) keys
    by (simp add: 1(7) smt_wf_unfold all_logs_pop [of "current_active_scopes_count s"]
        log_ok_pop [of "current_active_scopes_count s"])
qed

lemma pop_scopes_simulates:
  assumes "smt_wf s" and "pop_scopes True n s = Inr s'"
  shows "simulates s (Pop (unat n)) s'"
  using assms(2)
proof (cases rule: pop_scopes_Inr)
  case (1 c maxt maxi maxm)
  note ok = smt_wf_logs [OF assms(1)] and wf = smt_wf_keys [OF assms(1)]
  have "abs_state s' = spec_step (Pop (unat n)) (abs_state s)"
    using 1(2)
    by (simp add: abs_state_def 1(7) spec_step_def spec_scopes_def Let_def
        frames_by_pop [OF ok(5) 1(1,2)] counted.abs_pop [OF ok(4) 1(1,2)]
        counted.abs_logs_pop [OF 1(5) wf(7) ok(3) 1(1,2)] counted.abs_logs_pop [OF 1(6) wf(1) ok(1) 1(1,2)]
        term_log.abs_logs_pop [OF 1(4) wf(5) ok(2) 1(1,2)])
  then show ?thesis using assms by (simp add: simulates_def pop_scopes_wf)
qed

lemma modify_all_comp: "modify_all f (modify_all g m) = modify_all (f \<circ> g) m"
  by (simp add: modify_all_def option.map_comp)

lemma spec_pop_0 [simp]: "spec_step (Pop 0) a = a"
proof -
  have "scoped_pop 0 = (\<lambda>c. c)" by (simp add: scoped_pop_def fun_eq_iff)
  then show ?thesis by (simp add: spec_step_def spec_scopes_def modify_all_def option.map_ident)
qed

lemma spec_pop_add: "spec_step (Pop m) (spec_step (Pop n) a) = spec_step (Pop (n + m)) a"
proof -
  have "scoped_pop m \<circ> scoped_pop n = scoped_pop (n + m)"
    by (simp add: scoped_pop_def fun_eq_iff add.commute)
  then show ?thesis
    by (simp add: spec_step_def spec_scopes_def modify_all_comp add.commute) (simp add: scoped_pop_def add.commute)
qed

lemma pop_by_one_simulates:
  "smt_wf s \<Longrightarrow> pop_by_one True n s = Inr s' \<Longrightarrow> simulates s (Pop n) s'"
proof (induction n arbitrary: s)
  case 0
  then show ?case by (simp add: simulates_def)
next
  case (Suc n)
  then obtain s1 where s1: "pop_scopes True 1 s = Inr s1" "pop_by_one True n s1 = Inr s'"
    by (auto simp: rbind_eq_Inr)
  have "simulates s (Pop 1) s1" using pop_scopes_simulates [OF Suc(2) s1(1)] by simp
  moreover from this have "simulates s1 (Pop n) s'" using Suc.IH [OF _ s1(2)] by (simp add: simulates_def)
  ultimately show ?case by (simp add: simulates_def spec_pop_add)
qed

lemma pop_scopes_panics:
  "unat (current_active_scopes_count s) < unat n \<Longrightarrow>
   pop_scopes True n s = Inl (Smt_panic ''attempt to subtract with overflow'')"
  by (simp add: pop_scopes_def sub_u32_def word_less_nat_alt)

lemma pop_scopes_defined:
  assumes "smt_wf s" and "unat n \<le> unat (current_active_scopes_count s)"
  shows "\<exists>s'. pop_scopes True n s = Inr s'"
proof -
  note wf = smt_wf_keys [OF assms(1)]
  have maxs: "\<exists>m'. raise_max m (map_values f evs) = Inr m'" if "keys_are K m" "keys_are K evs"
    for K :: "'k set" and m and evs :: "('k, 'v) index_map" and f
    using that raise_max_defined [of "map_values f evs" m] by (simp add: keys_are_def)
  obtain maxt where "raise_max (max_term_used_in_trigger_event_counters s)
      (map_values length (term_used_in_trigger_events s)) = Inr maxt"
    using maxs [OF wf(6,5)] by blast
  moreover obtain maxi where "raise_max (max_quantifier_inst_discovered_event_counters s)
      (map_values counter_sum (quantifiers_inst_disovered_events s)) = Inr maxi"
    using maxs [OF wf(9,7)] by blast
  moreover obtain maxm where "raise_max (max_quantifier_matched_event_counters s)
      (map_values counter_sum (quantifiers_matched_events s)) = Inr maxm"
    using maxs [OF wf(3,1)] by blast
  ultimately show ?thesis
    using assms(2) by (simp add: pop_scopes_def sub_u32_def word_less_nat_alt Let_def)
qed

section \<open>Lines\<close>

lemma process_pop_simulates:
  assumes "smt_wf s" and "process_pop True st r s = Inr s'"
  shows "\<exists>n r'. parse_number r = Inr (n, r') \<and> simulates s (Pop (unat n)) s'"
  using assms
  by (auto simp: process_pop_def rbind_eq_Inr pop_scopes_simulates pop_by_one_simulates split: if_splits)

lemma process_mk_app_simulates:
  assumes "smt_wf s" and "process_mk_app r s = Inr s'"
  shows "simulates s (label_event_of r) s'"
proof -
  obtain i r1 where i: "try_parse_id r = Inr (i, r1)"
    using assms(2) by (auto simp: process_mk_app_def rbind_eq_Inr)
  show ?thesis
  proof (cases i)
    case None
    then show ?thesis using assms i
      by (simp add: process_mk_app_def label_event_of_def or_else_def unchanged_simulates)
  next
    case (Some t)
    then obtain ident r2 where p: "parse_name r1 = Inr (ident, r2)"
      using assms(2) i by (auto simp: process_mk_app_def rbind_eq_Inr)
    show ?thesis using assms i Some p
      by (cases "starts_with ident ''basic_block_marker''")
         (auto simp: process_mk_app_def label_event_of_def or_else_def rbind_eq_Inr register_label_simulates
          register_term_function_application_def register_term_simulates)
  qed
qed

lemma process_new_match_simulates:
  assumes "smt_wf s" and "process_new_match r s = Inr s'"
  shows "simulates s (match_event r) s'"
proof -
  obtain fp r1 where fp: "parse_hex_number r = Inr (fp, r1)"
    using assms(2) by (auto simp: process_new_match_def rbind_eq_Inr)
  show ?thesis
  proof (cases "fp = 0")
    case True
    then show ?thesis using assms fp
      by (simp add: process_new_match_def match_event_def or_else_def register_matched_quantifier_simulates)
  next
    case False
    then obtain q r2 s1 t r3 ids r4 r5 r6 where
      p: "parse_id r1 = Inr (q, r2)" "parse_id r2 = Inr (t, r3)" "parse_ids r3 = Inr (ids, r4)" "consume CHR '';'' r4 = Inr r5"
      and s1: "register_matched_quantifier q s = Inr s1" and s': "register_quant_terms q r5 s1 = Inr (s', r6)"
      using assms(2) fp by (auto simp: process_new_match_def rbind_eq_Inr)
    have "simulates s (Match q []) s1" by (rule register_matched_quantifier_simulates [OF assms(1) s1])
    then have "simulates s (Match q (matched_terms r5)) s'"
      using register_quant_terms_simulates [OF _ s'] by (simp add: simulates_def spec_match)
    then show ?thesis using fp p False by (simp add: match_event_def or_else_def)
  qed
qed

lemma process_line_simulates:
  assumes "smt_wf s" and "process_line True st s line = Inr s'"
  shows "simulates s (line_event line) s'"
proof -
  obtain kind r where k: "parse_event_kind line = Inr (kind, r)"
    using assms(2) by (auto simp: process_line_def rbind_eq_Inr)
  have "simulates s (or_else Other (parse_number r) (\<lambda>(n, _). Pop (unat n))) s'" if "kind = EPop"
    using process_pop_simulates [OF assms(1), of st r s'] assms(2) k that
    by (auto simp: process_line_def or_else_def)
  moreover have "simulates s Push s'" if "kind = EPush"
    using assms k that by (auto simp: process_line_def process_push_def rbind_eq_Inr push_scope_simulates)
  moreover have "simulates s Other s'" if "kind = EMkVar"
    using assms k that
    by (auto simp: process_line_def process_mk_var_def rbind_eq_Inr register_term_bound_variable_def
        register_term_simulates unchanged_simulates split: option.splits)
  moreover have "simulates s Other s'" if "kind = EAttachMeaning"
    using assms k that
    by (auto simp: process_line_def process_attach_meaning_def rbind_eq_Inr register_term_attach_meaning_def
        register_term_simulates)
  moreover have "simulates s (or_else Other (parse_id r) (\<lambda>(q, _). New_quantifier q)) s'" if "kind = EMkQuant"
    using assms k that
    by (auto simp: process_line_def process_mk_quant_def rbind_eq_Inr or_else_def
        register_quantifier_simulates unchanged_simulates split: sum.splits smt_fail.splits)
  moreover have "simulates s (or_else Other (parse_name r) (\<lambda>(_, r). or_else Other (parse_hex_number r) (\<lambda>(_, r).
      or_else Other (parse_theory r) (\<lambda>(t, _). Discovered t)))) s'" if "kind = EInstDiscovered"
    using assms k that
    by (auto simp: process_line_def process_inst_discovered_def rbind_eq_Inr or_else_def
        register_inst_discovered_simulates)
  ultimately show ?thesis
    using assms k process_mk_app_simulates [OF assms(1), of r s'] process_new_match_simulates [OF assms(1), of r s']
    by (cases kind)
       (auto simp: process_line_def line_event_def or_else_def register_instance_simulates unchanged_simulates)
qed

end
