(* ===== verification/Smt_Log_Runs.thy ===== *)
theory Smt_Log_Runs
  imports Smt_Log_Refine
begin

text \<open>
  Runs of the SMT log analyzer: the state after any number of lines, the peaks and totals, the two
  ways of closing scopes, builds without overflow checks, the statistics and the bounds.
\<close>

section \<open>Runs\<close>

text \<open>The state before the first line, by its fields.\<close>

definition start_state :: "quantifier_id option \<Rightarrow> string option \<Rightarrow> smt_state" where
  "start_state tr buf = state_default
    \<lparr>quantifiers := [(BUILTIN_QUANTIFIER_ID, ''builtin quantifier'')],
     quantifiers_matched_events := [(BUILTIN_QUANTIFIER_ID, [])],
     total_quantifiers_matched_counters := [(BUILTIN_QUANTIFIER_ID, 0)],
     max_quantifier_matched_event_counters := [(BUILTIN_QUANTIFIER_ID, 0)],
     unique_quantifier_triggers := [(BUILTIN_QUANTIFIER_ID, [])],
     term_used_in_trigger_events := [(BUILTIN_QUANTIFIER_ID, [])],
     max_term_used_in_trigger_event_counters := [(BUILTIN_QUANTIFIER_ID, 0)],
     quantifiers_inst_disovered_events := [(Arith, []), (Basic, []), (Datatype, []), (UserSort, [])],
     total_quantifiers_inst_disovered_counters := [(Arith, 0), (Basic, 0), (Datatype, 0), (UserSort, 0)],
     max_quantifier_inst_discovered_event_counters := [(Arith, 0), (Basic, 0), (Datatype, 0), (UserSort, 0)],
     traced_quantifier := tr, traced_quantifier_triggers := buf\<rparr>"

text \<open>The counters of a state are the totals and the largest sums of the specification.\<close>

definition reports :: "smt_state \<Rightarrow> log_spec \<Rightarrow> bool" where
  "reports s a =
     (map_of (total_quantifiers_matched_counters s) = match_total a \<and>
      map_of (max_quantifier_matched_event_counters s) = (\<lambda>q. map_option peak (match_log a q)) \<and>
      map_of (max_term_used_in_trigger_event_counters s) = (\<lambda>q. map_option peak (trigger_log a q)) \<and>
      (\<lambda>q. map_option set (map_of (unique_quantifier_triggers s) q)) = trigger_terms a \<and>
      map_of (total_quantifiers_inst_disovered_counters s) = theory_total a \<and>
      map_of (max_quantifier_inst_discovered_event_counters s) = (\<lambda>t. map_option peak (theory_log a t)) \<and>
      total_quantifiers_instance_counters s = instance_total a \<and>
      max_quantifier_instance_event_counters s = peak (instance_log a))"

text \<open>No largest sum exceeds the total.\<close>

definition peak_within :: "scoped option \<Rightarrow> nat option \<Rightarrow> bool" where
  "peak_within c t = (case (c, t) of (Some c, Some t) \<Rightarrow> peak c \<le> t | (c, _) \<Rightarrow> c = None)"

definition peaks_within :: "log_spec \<Rightarrow> bool" where
  "peaks_within a =
     ((\<forall>q. peak_within (match_log a q) (match_total a q)) \<and>
      (\<forall>t. peak_within (theory_log a t) (theory_total a t)) \<and>
      peak (instance_log a) \<le> instance_total a)"

text \<open>A counter with at least one scope, whose sum has been recorded.\<close>

definition tidy :: "scoped \<Rightarrow> bool" where
  "tidy c = (frames c \<noteq> [] \<and> sum_list (frames c) \<le> peak c)"

definition tidy_spec :: "log_spec \<Rightarrow> bool" where
  "tidy_spec a =
     ((\<forall>q. pred_option tidy (match_log a q)) \<and> (\<forall>t. pred_option tidy (theory_log a t)) \<and>
      tidy (instance_log a))"

lemma initial_state_start:
  "initial_state st = Inr (start_state (trace_quantifier_triggers st)
     (map_option (\<lambda>q. word_digits q @ '','' @ newline) (trace_quantifier_triggers st)))"
  by (cases "trace_quantifier_triggers st")
     (simp_all add: initial_state_def register_theory_def register_quantifier_def
      mark_quantifier_for_tracing_def state_default_def start_state_def)

lemma theory_maps:
  "map_of [(Arith, v), (Basic, v), (Datatype, v), (UserSort, v)] = (\<lambda>t. Some v)"
  by (rule ext, case_tac t) simp_all

lemma abs_logs_single: "abs_logs g c [(k, m)] [(k, es)] = [k \<mapsto> abs_scoped g c m es]"
  by (simp add: abs_logs_def fun_eq_iff)

lemma abs_logs_theories:
  "abs_logs counter_sum 0 [(Arith, 0), (Basic, 0), (Datatype, 0), (UserSort, 0)]
     [(Arith, []), (Basic, []), (Datatype, []), (UserSort, [])] = (\<lambda>t. Some (scoped_new 0))"
  by (rule ext) (simp only: abs_logs_def theory_maps, simp add: counted.abs_new)

lemma map_of_single: "map_of [(k, v)] = [k \<mapsto> v]"
  by simp

lemma map_option_single: "(\<lambda>j. map_option f (if j = k then Some v else None)) = [k \<mapsto> f v]"
  by auto

lemma start_state_refines:
  assumes "tr \<noteq> None \<Longrightarrow> buf \<noteq> None"
  shows "smt_wf (start_state tr buf)" and "abs_state (start_state tr buf) = spec_init"
proof -
  have U: "UNIV = {Arith, Basic, Datatype, UserSort}" using theory_kind.exhaust by auto
  show "smt_wf (start_state tr buf)" using assms
    by (auto simp: smt_wf_unfold start_state_def state_default_def keys_are_def all_logs_def U)
  show "abs_state (start_state tr buf) = spec_init"
    by (simp add: abs_state_def spec_init_def start_state_def state_default_def Let_def counted.abs_new
        term_log.abs_new frames_by_Nil abs_logs_single abs_logs_theories theory_maps map_of_single
        map_option_single del: map_of.simps)
qed

lemma initial_state_refines:
  "\<exists>s. initial_state st = Inr s \<and> smt_wf s \<and> abs_state s = spec_init"
  unfolding initial_state_start by (simp add: start_state_refines)

lemma process_lines_refines:
  "smt_wf s \<Longrightarrow> process_lines True st n s ls = Inr s' \<Longrightarrow>
   smt_wf s' \<and> abs_state s' = fold spec_step (map line_event ls) (abs_state s)"
proof (induction ls arbitrary: n s)
  case Nil
  then show ?case by simp
next
  case (Cons l ls)
  then obtain s1 where "process_line True st s l = Inr s1" and s1: "process_lines True st (n + 1) s1 ls = Inr s'"
    by (auto simp: rbind_eq_Inr on_line_def split: sum.splits smt_fail.splits)
  then have "simulates s (line_event l) s1" using Cons.prems(1) by (simp add: process_line_simulates)
  then show ?case using Cons.IH [OF _ s1] by (simp add: simulates_def)
qed

lemma run_refines:
  assumes "initial_state st = Inr s0" and "process_lines True st n s0 ls = Inr s"
  shows "smt_wf s" and "abs_state s = spec_run (map line_event ls)"
  using initial_state_refines [of st] process_lines_refines [OF _ assms(2)] assms(1)
  by (auto simp: spec_run_def)

lemma abs_logs_closed:
  assumes "raise_max maxs (map_values g evs) = Inr maxs'" and "keys_are K maxs" and "keys_are K evs"
  shows "map_of maxs' k = map_option peak (abs_logs g c maxs evs k)"
  using raise_max_lookup [OF assms(1), of k] assms(2,3) keys_are_map_of [OF assms(2), of k] keys_are_map_of [OF assms(3), of k]
  by (auto simp: abs_logs_def abs_scoped_def map_of_map_values keys_are_def split: option.splits)

lemma pop_all_reports:
  assumes "smt_wf s" and "pop_all_scopes True s = Inr s'"
  shows "reports s' (abs_state s)"
  using assms(2) unfolding pop_all_scopes_def
proof (cases rule: pop_scopes_Inr)
  case (1 c maxt maxi maxm)
  note wf = smt_wf_keys [OF assms(1)]
  note closed = abs_logs_closed [OF 1(4) wf(6,5)] abs_logs_closed [OF 1(5) wf(9,7)] abs_logs_closed [OF 1(6) wf(3,1)]
  show ?thesis
    by (simp add: reports_def 1(7) abs_state_def Let_def abs_scoped_def fun_eq_iff
        closed [of _ "current_active_scopes_count s"])
qed

lemma pop_all_defined: "smt_wf s \<Longrightarrow> \<exists>s'. pop_all_scopes True s = Inr s' \<and> smt_wf s' \<and> current_active_scopes_count s' = 0"
proof -
  assume wf: "smt_wf s"
  obtain s' where s': "pop_all_scopes True s = Inr s'"
    using pop_scopes_defined [OF wf, of "current_active_scopes_count s"] by (auto simp: pop_all_scopes_def)
  then have "current_active_scopes_count s' = 0"
    unfolding pop_all_scopes_def by (cases rule: pop_scopes_Inr) simp
  then show ?thesis using s' pop_scopes_wf [OF wf, of _ s'] by (auto simp: pop_all_scopes_def)
qed

section \<open>Peaks and totals\<close>

lemma abs_scoped_tidy: "log_ok c evs \<Longrightarrow> tidy (abs_scoped counter_sum c m evs)"
  using counted.sum_frames [of c evs] by (simp add: tidy_def abs_scoped_def frames_by_unfold)

lemma abs_logs_tidy: "all_logs c evs \<Longrightarrow> pred_option tidy (abs_logs counter_sum c maxs evs k)"
  by (auto simp: abs_logs_def abs_scoped_tidy all_logs_lookup split: option.splits)

lemma abs_state_tidy: "smt_wf s \<Longrightarrow> tidy_spec (abs_state s)"
  using smt_wf_logs [of s]
  by (simp add: tidy_spec_def abs_state_def Let_def abs_scoped_tidy abs_logs_tidy)

lemma scoped_hit_peak: "tidy c \<Longrightarrow> peak c \<le> n \<Longrightarrow> peak (scoped_hit c) \<le> Suc n"
  by (cases "frames c") (auto simp: scoped_hit_def tidy_def Let_def)

lemma peak_within_simps [simp]:
  "peak_within None t"
  "peak_within (Some c) (Some n) = (peak c \<le> n)"
  "\<not> peak_within (Some c) None"
  by (cases t) (simp_all add: peak_within_def)

lemma peak_within_hit:
  "pred_option tidy (m k) \<Longrightarrow> peak_within (m k) (t k) \<Longrightarrow>
   peak_within (modify k scoped_hit m k) (modify k Suc t k)"
  by (cases "m k"; cases "t k") (simp_all add: modify_def scoped_hit_peak)

lemma peak_within_scopes:
  "(\<And>c. peak (f c) = peak c) \<Longrightarrow> peak_within (modify_all f m k) t = peak_within (m k) t"
  by (cases "m k"; cases t) (simp_all add: modify_all_def)

lemma spec_step_peaks:
  assumes "peaks_within a" and "tidy_spec a"
  shows "peaks_within (spec_step ev a)"
proof (cases ev)
  case Push
  then show ?thesis using assms(1)
    by (simp add: peaks_within_def spec_step_def spec_scopes_def peak_within_scopes scoped_push_def)
next
  case (Pop n)
  then show ?thesis using assms(1)
    by (simp add: peaks_within_def spec_step_def spec_scopes_def peak_within_scopes scoped_pop_def)
next
  case (Match q ts)
  have "peak_within (modify q scoped_hit (match_log a) p) (modify q Suc (match_total a) p)" for p
    using assms peak_within_hit [of "match_log a" q "match_total a"]
    by (cases "p = q") (auto simp: peaks_within_def tidy_spec_def modify_def)
  then show ?thesis using Match assms(1) by (simp add: peaks_within_def spec_step_def)
next
  case (Discovered t)
  have "peak_within (modify t scoped_hit (theory_log a) u) (modify t Suc (theory_total a) u)" for u
    using assms peak_within_hit [of "theory_log a" t "theory_total a"]
    by (cases "u = t") (auto simp: peaks_within_def tidy_spec_def modify_def)
  then show ?thesis using Discovered assms(1) by (simp add: peaks_within_def spec_step_def)
next
  case Instance
  then show ?thesis using assms by (simp add: peaks_within_def spec_step_def tidy_spec_def scoped_hit_peak)
qed (use assms in \<open>auto simp: peaks_within_def spec_step_def scoped_new_def\<close>)

lemma process_lines_peaks:
  "smt_wf s \<Longrightarrow> peaks_within (abs_state s) \<Longrightarrow> process_lines True st n s ls = Inr s' \<Longrightarrow> peaks_within (abs_state s')"
proof (induction ls arbitrary: n s)
  case Nil
  then show ?case by simp
next
  case (Cons l ls)
  then obtain s1 where "process_line True st s l = Inr s1" and s1: "process_lines True st (n + 1) s1 ls = Inr s'"
    by (auto simp: rbind_eq_Inr on_line_def split: sum.splits smt_fail.splits)
  then have "simulates s (line_event l) s1" using Cons.prems(1) by (simp add: process_line_simulates)
  then have "smt_wf s1 \<and> peaks_within (abs_state s1)"
    using Cons.prems by (simp add: simulates_def spec_step_peaks abs_state_tidy)
  then show ?case using Cons.IH s1 by blast
qed

lemma spec_init_peaks: "peaks_within spec_init"
  by (auto simp: peaks_within_def spec_init_def scoped_new_def)

section \<open>Closing scopes one by one\<close>

definition forget_largest_pop :: "smt_state \<Rightarrow> smt_state" where
  "forget_largest_pop s = s\<lparr>largest_pop := largest_pop state_default\<rparr>"

lemma raise_max_id:
  "(\<And>k n. (k, n) \<in> set kns \<Longrightarrow> \<exists>v \<ge> n. map_of m k = Some v) \<Longrightarrow> raise_max m kns = Inr m"
proof (induction kns)
  case Nil
  then show ?case by simp
next
  case (Cons kn kns)
  obtain k n where kn: "kn = (k, n)" by (cases kn)
  obtain v where v: "n \<le> v" "map_of m k = Some v" using Cons.prems [of k n] kn by auto
  then have "AList.update k v m = m" by (simp add: update_triv)
  then show ?case using Cons kn v by (simp add: get_mut_def not_less)
qed

lemma raise_max_again:
  assumes "raise_max m (map_values g evs) = Inr m'" and "keys_are K m" and "keys_are K evs"
    and smaller: "\<And>es. g (f es) \<le> (g es :: nat)"
  shows "raise_max m' (map_values g (map_values f evs)) = Inr m'"
proof (rule raise_max_id)
  fix k n
  assume "(k, n) \<in> set (map_values g (map_values f evs))"
  then obtain es where es: "(k, es) \<in> set evs" "n = g (f es)" by (auto simp: map_values_def)
  have d: "distinct (map fst evs)" using assms(3) by (simp add: keys_are_def)
  have m: "map_of evs k = Some es" using es(1) d by simp
  obtain v where "map_of m k = Some v"
    using keys_are_lookup [OF assms(2)] keys_are_Some [OF assms(3) m] by blast
  then have "map_of m' k = Some (max v (g es))"
    using raise_max_lookup [OF assms(1), of k] d m by (simp add: map_of_map_values)
  then show "\<exists>v \<ge> n. map_of m' k = Some v" using es(2) smaller [of es] by (auto simp: max_def)
qed

lemma dropWhile_twice: "(\<And>x. Q x \<Longrightarrow> P x) \<Longrightarrow> dropWhile P (dropWhile Q xs) = dropWhile P xs"
  by (induction xs) auto

lemma pop_while_twice: "c \<le> c' \<Longrightarrow> pop_while (above c) (pop_while (above c') evs) = pop_while (above c) evs"
  using dropWhile_twice [of "above c'" "above c" "rev evs"] by (auto simp: pop_while_def above_def)

lemma map_values_map_values: "map_values f (map_values g m) = map_values (\<lambda>v. f (g v)) m"
  by (simp add: map_values_def case_prod_beta comp_def)

lemma pop_scopes_twice:
  assumes "smt_wf s" and "pop_scopes True m s = Inr s1" and "pop_scopes True n s1 = Inr s2"
  shows "\<exists>s3. pop_scopes True (m + n) s = Inr s3 \<and> forget_largest_pop s3 = forget_largest_pop s2"
  using assms(2)
proof (cases rule: pop_scopes_Inr)
  case 1: (1 c maxt maxi maxm)
  show ?thesis
    using assms(3)
  proof (cases rule: pop_scopes_Inr)
    case 2: (1 c' maxt' maxi' maxm')
    let ?cur = "current_active_scopes_count s"
    note wf = smt_wf_keys [OF assms(1)]
    have "unat (m + n) = unat m + unat n" using 1(1,2) 2(1) unsigned_less [where 'a = nat and w = ?cur]
      by (simp add: 1(7) unat_word_ariths)
    then have le: "unat (m + n) \<le> unat ?cur" using 1(1,2) 2(1) by (simp add: 1(7))
    obtain s3 where s3: "pop_scopes True (m + n) s = Inr s3" using pop_scopes_defined [OF assms(1) le] by blast
    have cc: "c' \<le> c" "?cur - (m + n) = c'" using 2(2,3) 1(3) by (simp_all add: 1(7) word_le_nat_alt)
    have "maxt' = maxt" "maxi' = maxi" "maxm' = maxm"
      using 2(4-6) raise_max_again [OF 1(4) wf(6,5), of "pop_while (above c)"]
        raise_max_again [OF 1(5) wf(9,7), of "pop_while (above c)"]
        raise_max_again [OF 1(6) wf(3,1), of "pop_while (above c)"]
        counted.size_of_pop [of "above c"] term_log.size_of_pop [of "above c"]
      by (simp_all add: 1(7))
    moreover have "max (max k (counter_sum es)) (counter_sum (pop_while (above c) es)) = max k (counter_sum es)" for k es
      using counted.size_of_pop [of "above c" es] by simp
    ultimately have "forget_largest_pop s3 = forget_largest_pop s2"
      by (cases rule: pop_scopes_Inr [OF s3])
         (use 1(4-6) cc in \<open>simp add: forget_largest_pop_def 1(7) 2(7) map_values_map_values pop_while_twice\<close>)
    then show ?thesis using s3 by blast
  qed
qed

lemma pop_by_one_panics:
  "smt_wf s \<Longrightarrow> unat (current_active_scopes_count s) < n \<Longrightarrow>
   pop_by_one True n s = Inl (Smt_panic ''attempt to subtract with overflow'')"
proof (induction n arbitrary: s)
  case 0
  then show ?case by simp
next
  case (Suc n)
  show ?case
  proof (cases "current_active_scopes_count s = 0")
    case True
    then show ?thesis by (simp add: pop_scopes_panics)
  next
    case False
    then have le: "unat (1 :: 32 word) \<le> unat (current_active_scopes_count s)"
      by (simp add: Suc_le_eq unat_gt_0)
    obtain s1 where s1: "pop_scopes True 1 s = Inr s1" using pop_scopes_defined [OF Suc.prems(1) le] by blast
    have "unat (current_active_scopes_count s1) < n"
      using s1 Suc.prems(2) le by (cases rule: pop_scopes_Inr) auto
    then show ?thesis using Suc.IH [OF pop_scopes_wf [OF Suc.prems(1) s1]] s1 by simp
  qed
qed

lemma pop_by_one_agrees:
  "smt_wf s \<Longrightarrow> 0 < n \<Longrightarrow> n \<le> unat (current_active_scopes_count s) \<Longrightarrow>
   \<exists>s1 s2. pop_by_one True n s = Inr s1 \<and> pop_scopes True (of_nat n) s = Inr s2 \<and>
     forget_largest_pop s1 = forget_largest_pop s2"
proof (induction n arbitrary: s)
  case 0
  then show ?case by simp
next
  case (Suc n)
  have "unat (1 :: 32 word) \<le> unat (current_active_scopes_count s)" using Suc.prems(3) by simp
  then obtain s1 where s1: "pop_scopes True 1 s = Inr s1" using pop_scopes_defined [OF Suc.prems(1)] by blast
  have wf: "smt_wf s1" by (rule pop_scopes_wf [OF Suc.prems(1) s1])
  have le: "n \<le> unat (current_active_scopes_count s1)"
    using s1 Suc.prems(3) by (cases rule: pop_scopes_Inr) auto
  show ?case
  proof (cases "n = 0")
    case True
    then show ?thesis using s1 by simp
  next
    case False
    then obtain a b where ab: "pop_by_one True n s1 = Inr a" "pop_scopes True (of_nat n) s1 = Inr b"
      "forget_largest_pop a = forget_largest_pop b"
      using Suc.IH [OF wf _ le] by auto
    obtain c where "pop_scopes True (1 + of_nat n) s = Inr c" "forget_largest_pop c = forget_largest_pop b"
      using pop_scopes_twice [OF Suc.prems(1) s1 ab(2)] by blast
    then show ?thesis using ab s1 by simp
  qed
qed

section \<open>Builds without overflow checks\<close>

lemma pop_scopes_unchecked: "pop_scopes True n s = Inr s' \<Longrightarrow> pop_scopes False n s = Inr s'"
  by (auto simp: pop_scopes_def sub_u32_def rbind_eq_Inr split: if_splits)

lemma pop_by_one_unchecked: "pop_by_one True n s = Inr s' \<Longrightarrow> pop_by_one False n s = Inr s'"
  by (induction n arbitrary: s) (auto simp: rbind_eq_Inr dest: pop_scopes_unchecked)

lemma process_line_unchecked:
  assumes "process_line True st s l = Inr s'"
  shows "process_line False st s l = Inr s'"
proof -
  obtain k r where k: "parse_event_kind l = Inr (k, r)" using assms by (auto simp: process_line_def rbind_eq_Inr)
  then show ?thesis using assms
    by (cases k; cases "pop_scopes_by_one st")
       (auto simp: process_line_def process_pop_def process_push_def push_scope_def add_u32_def rbind_eq_Inr
        dest: pop_scopes_unchecked pop_by_one_unchecked split: if_splits)
qed

lemma process_lines_unchecked:
  "process_lines True st n s ls = Inr s' \<Longrightarrow> process_lines False st n s ls = Inr s'"
proof (induction ls arbitrary: n s)
  case (Cons l ls)
  then obtain s1 where "process_line True st s l = Inr s1" and s1: "process_lines True st (n + 1) s1 ls = Inr s'"
    by (auto simp: rbind_eq_Inr on_line_def split: sum.splits smt_fail.splits)
  then show ?case using Cons.IH by (simp add: process_line_unchecked on_line_def)
qed simp

section \<open>Statistics\<close>

lemma collect_results_defined:
  "(\<And>r. r \<in> set rs \<Longrightarrow> \<exists>a. r = Inr a) \<Longrightarrow> \<exists>as. collect_results rs = Inr as \<and> length as = length rs"
proof (induction rs)
  case (Cons r rs)
  then obtain a as where "r = Inr a" "collect_results rs = Inr as" "length as = length rs" by fastforce
  then show ?case by simp
qed simp

lemma collect_map_defined:
  "(\<And>x. x \<in> set xs \<Longrightarrow> \<exists>a. f x = Inr a) \<Longrightarrow> \<exists>as. collect_results (map f xs) = Inr as"
  using collect_results_defined [of "map f xs"] by auto

lemma index_defined: "k \<in> set (map fst m) \<Longrightarrow> \<exists>v. index m k = Inr v"
  by (cases "map_of m k") (auto simp: index_def map_of_eq_None_iff)

lemma sorted_counts_keys: "(n, k) \<in> set (sorted_counts m) \<Longrightarrow> k \<in> set (map fst m)"
  by (force simp: sorted_counts_def)

lemma name_defined: "q \<in> quantifier_ids s \<Longrightarrow> \<exists>name. index (quantifiers s) q = Inr name"
  by (rule index_defined) (simp add: quantifier_ids_def)

lemma quantifier_csv_defined:
  assumes "set (map fst m) \<subseteq> quantifier_ids s"
  shows "\<exists>x. quantifier_csv s file column m = Inr x"
proof -
  have "\<exists>rows. quantifier_rows s (sorted_counts m) = Inr rows"
    unfolding quantifier_rows_def
  proof (rule collect_map_defined)
    fix x
    assume x: "x \<in> set (sorted_counts m)"
    obtain n q where nq: "x = (n, q)" by fastforce
    then have "q \<in> quantifier_ids s" using sorted_counts_keys [of n q m] x assms by blast
    then show "\<exists>row. (case x of (n, q) \<Rightarrow> rbind (index (quantifiers s) q) (\<lambda>name. Inr [word_digits q, name, digits n])) = Inr row"
      using name_defined [of q s] nq by auto
  qed
  then show ?thesis by (auto simp: quantifier_csv_def)
qed

lemma matches_csv_defined:
  assumes "smt_wf s"
  shows "\<exists>x. matches_csv s file = Inr x"
proof -
  note wf = smt_wf_keys [OF assms]
  have "\<exists>rows. collect_results (map (\<lambda>(n, q).
       rbind (index (total_quantifiers_matched_counters s) q) (\<lambda>total.
       rbind (index (quantifiers s) q) (\<lambda>name.
         Inr [word_digits q, name, digits n, digits total]))) (quantifier_matches_counts s)) = Inr rows"
  proof (rule collect_map_defined)
    fix x
    assume x: "x \<in> set (quantifier_matches_counts s)"
    obtain n q where nq: "x = (n, q)" by fastforce
    have q: "q \<in> quantifier_ids s"
      using sorted_counts_keys [of n q "max_quantifier_matched_event_counters s"] x nq wf(3)
      by (simp add: quantifier_matches_counts_def keys_are_def)
    obtain total where "index (total_quantifiers_matched_counters s) q = Inr total"
      using index_defined [of q "total_quantifiers_matched_counters s"] q wf(2) by (auto simp: keys_are_def)
    then show "\<exists>row. (case x of (n, q) \<Rightarrow> rbind (index (total_quantifiers_matched_counters s) q) (\<lambda>total.
       rbind (index (quantifiers s) q) (\<lambda>name. Inr [word_digits q, name, digits n, digits total]))) = Inr row"
      using name_defined [OF q] nq by auto
  qed
  then show ?thesis by (auto simp: matches_csv_def)
qed

lemma discoveries_csv_defined:
  assumes "smt_wf s"
  shows "\<exists>x. discoveries_csv s file = Inr x"
proof -
  have "\<exists>n. index (total_quantifiers_inst_disovered_counters s) t = Inr n" for t
    using smt_wf_keys(8) [OF assms] index_defined [of t "total_quantifiers_inst_disovered_counters s"]
    by (simp add: keys_are_def)
  then have "\<exists>rows. collect_results (map (\<lambda>(n, t).
       rbind (index (total_quantifiers_inst_disovered_counters s) t) (\<lambda>total.
         Inr [debug_theory t, digits n, digits total])) xs) = Inr rows" for xs
    by (intro collect_map_defined) (metis (mono_tags, lifting) case_prod_beta rbind_simps(2))
  then show ?thesis by (simp add: discoveries_csv_def) (metis rbind_simps(2))
qed

lemma keys_are_subset: "keys_are K m \<Longrightarrow> set (map fst m) \<subseteq> K"
  by (simp add: keys_are_def)

lemma largest_pop_files_defined:
  assumes "smt_wf s" and "r \<in> set (largest_pop_files s f)"
  shows "\<exists>x. r = Inr x"
  using assms(2) quantifier_csv_defined [OF smt_wf_keys(11) [OF assms(1)]] by (auto simp: largest_pop_files_def)

lemma traced_files_defined:
  assumes "smt_wf s" and "r \<in> set (traced_files s f)"
  shows "\<exists>x. r = Inr x"
  using assms by (auto simp: traced_files_def smt_wf_def tracing_ok_def split: option.splits)

lemma write_statistics_defined:
  assumes "smt_wf s"
  shows "\<exists>files. write_statistics f s = Inr files \<and> length files = (if traced_quantifier s = None then 8 else 9)"
proof -
  note wf = smt_wf_keys [OF assms]
  let ?rs = "[Inr (instances_csv s (f @ ''.instances.csv'')),
        quantifier_csv s (f @ ''.triggers.csv'') ''Trigger Count'' (max_term_used_in_trigger_event_counters s),
        quantifier_csv s (f @ ''.unique-triggers.csv'') ''Unique trigger Count''
          (map_values length (unique_quantifier_triggers s)),
        quantifier_csv s (f @ ''.multi-triggers.csv'') ''Trigger Count'' (map_values length (multi_term_quantifiers s)),
        matches_csv s (f @ ''.matches.csv''),
        discoveries_csv s (f @ ''.inst-discoveries.csv'')]"
  note csv = quantifier_csv_defined [OF keys_are_subset [OF wf(6)]]
    quantifier_csv_defined [OF keys_are_subset [OF wf(4) [folded keys_are_map_values [of _ length]]]]
    quantifier_csv_defined [of "map_values length (multi_term_quantifiers s)", unfolded map_fst_map_values, OF wf(10)]
  have "\<exists>x. r = Inr x" if "r \<in> set ?rs" for r
    using that csv matches_csv_defined [OF assms] discoveries_csv_defined [OF assms] by auto
  then have "\<exists>x. r = Inr x" if "r \<in> set (?rs @ largest_pop_files s f @ traced_files s f)" for r
    using that largest_pop_files_defined [OF assms] traced_files_defined [OF assms] by (simp only: set_append) blast
  from collect_results_defined [OF this]
  obtain files where "collect_results (?rs @ largest_pop_files s f @ traced_files s f) = Inr files"
    "length files = length (?rs @ largest_pop_files s f @ traced_files s f)" by blast
  moreover have "length (?rs @ largest_pop_files s f @ traced_files s f) = (if traced_quantifier s = None then 8 else 9)"
    by (auto simp: largest_pop_files_def traced_files_def split: option.splits)
  ultimately show ?thesis by (simp only: write_statistics_def) blast
qed

section \<open>Bounds\<close>

definition within_bound :: "nat \<Rightarrow> nat option \<Rightarrow> bool" where
  "within_bound n bound = (case bound of None \<Rightarrow> True | Some b \<Rightarrow> n \<le> b)"

definition checked_quantifiers :: "smt_settings \<Rightarrow> smt_state \<Rightarrow> quantifier_id set" where
  "checked_quantifiers st s = {q \<in> quantifier_ids s. \<not> is_ignored st q}"

definition bounds_hold :: "smt_settings \<Rightarrow> smt_state \<Rightarrow> bool" where
  "bounds_hold st s =
     (let Q = checked_quantifiers st s;
          matches = (\<lambda>q. the (map_of (max_quantifier_matched_event_counters s) q));
          total = (\<lambda>q. the (map_of (total_quantifiers_matched_counters s) q));
          triggers = (\<lambda>q. length (the (map_of (unique_quantifier_triggers s) q)))
      in (\<forall>q \<in> Q. matches q < total q \<longrightarrow> within_bound (matches q) (quantifier_instantiations_bound_trace_kind st)) \<and>
         (\<forall>q \<in> Q. within_bound (matches q) (quantifier_instantiations_bound_global_kind st)) \<and>
         within_bound (\<Sum>q \<in> Q. matches q) (quantifier_instantiations_bound_trace st) \<and>
         (\<forall>q \<in> Q. within_bound (triggers q) (unique_triggers_bound st)) \<and>
         within_bound (\<Sum>q \<in> Q. triggers q) (unique_triggers_bound_total st))"

lemma collect_map_Inr: "(\<And>x. x \<in> set xs \<Longrightarrow> f x = Inr (g x)) \<Longrightarrow> collect_results (map f xs) = Inr (map g xs)"
  by (induction xs) simp_all

lemma collect_concat:
  assumes "\<And>x. x \<in> set xs \<Longrightarrow> \<exists>ys. f x = Inr ys \<and> (ys = [] \<longleftrightarrow> P x)"
  shows "\<exists>ys. rbind (collect_results (map f xs)) (\<lambda>yss. Inr (concat yss)) = Inr ys \<and>
    (ys = [] \<longleftrightarrow> (\<forall>x \<in> set xs. P x))"
proof -
  have "f x = Inr (projr (f x)) \<and> (projr (f x) = [] \<longleftrightarrow> P x)" if "x \<in> set xs" for x
    using assms [OF that] by auto
  then have "collect_results (map f xs) = Inr (map (\<lambda>x. projr (f x)) xs)"
    and "\<forall>x \<in> set xs. projr (f x) = [] \<longleftrightarrow> P x"
    by (auto intro: collect_map_Inr)
  then show ?thesis by simp
qed

lemma violation_defined:
  assumes "q \<in> quantifier_ids s"
  shows "\<exists>vs. violation s q before n after bound = Inr vs \<and> (vs = [] \<longleftrightarrow> within_bound n bound)"
  using name_defined [OF assms]
  by (auto simp: violation_def explanatory_quantifier_name_def within_bound_def split: option.splits)

lemma sum_counts:
  assumes "distinct (map fst m)"
  shows "sum_list (map fst (filter (\<lambda>(n, q). P q) (map (\<lambda>(k, n). (n, k)) m))) =
    (\<Sum>q \<in> {q \<in> set (map fst m). P q}. the (map_of m q))"
  using assms
proof (induction m)
  case Nil
  then show ?case by simp
next
  case (Cons kn m)
  obtain k n where kn: "kn = (k, n)" by (cases kn)
  have "(\<Sum>q \<in> {q \<in> set (map fst m). P q}. the (map_of ((k, n) # m) q)) =
      (\<Sum>q \<in> {q \<in> set (map fst m). P q}. the (map_of m q))"
    using Cons.prems kn by (intro sum.cong) auto
  moreover have "{q \<in> set (map fst (kn # m)). P q} =
      (if P k then insert k {q \<in> set (map fst m). P q} else {q \<in> set (map fst m). P q})"
    using kn by auto
  moreover have "k \<notin> {q \<in> set (map fst m). P q}" using Cons.prems kn by simp
  ultimately show ?case using Cons kn by simp
qed

lemma sorted_counts_sum:
  assumes "distinct (map fst m)"
  shows "sum_list (map fst (filter (\<lambda>(n, q). P q) (sorted_counts m))) =
    (\<Sum>q \<in> {q \<in> set (map fst m). P q}. the (map_of m q))"
proof -
  let ?xs = "map (\<lambda>(k, n). (n, k)) m"
  have d: "distinct ?xs" using assms by (force simp: distinct_map inj_on_def)
  have "sum_list (map fst (filter (\<lambda>(n, q). P q) (sort ?xs))) = sum_list (map fst (filter (\<lambda>(n, q). P q) ?xs))"
    using sum.distinct_set_conv_list [of "filter (\<lambda>(n, q). P q) (sort ?xs)" fst]
      sum.distinct_set_conv_list [of "filter (\<lambda>(n, q). P q) ?xs" fst] d
    by simp
  then show ?thesis using sum_counts [OF assms, of P] by (simp add: sorted_counts_def)
qed

lemma instantiation_violations_defined:
  assumes "smt_wf s" and "set (map snd counts) \<subseteq> quantifier_ids s"
  shows "\<exists>vs. instantiation_violations st s counts = Inr vs \<and>
    (vs = [] \<longleftrightarrow> (\<forall>(n, q) \<in> set counts.
       (n < the (map_of (total_quantifiers_matched_counters s) q) \<longrightarrow>
          within_bound n (quantifier_instantiations_bound_trace_kind st)) \<and>
       within_bound n (quantifier_instantiations_bound_global_kind st)))"
  unfolding instantiation_violations_def
proof (rule collect_concat)
  fix x
  assume x: "x \<in> set counts"
  obtain n q where nq: "x = (n, q)" by fastforce
  have q: "q \<in> quantifier_ids s" using x nq assms(2) by force
  obtain total where t: "map_of (total_quantifiers_matched_counters s) q = Some total"
    using keys_are_lookup [OF smt_wf_keys(2) [OF assms(1)] q] by blast
  obtain v1 v2 where
    "violation s q '' instantiated '' n '' times in trace'' (quantifier_instantiations_bound_trace_kind st) = Inr v1"
    "v1 = [] \<longleftrightarrow> within_bound n (quantifier_instantiations_bound_trace_kind st)"
    "violation s q '' instantiated '' n '' times in trace and in total'' (quantifier_instantiations_bound_global_kind st) = Inr v2"
    "v2 = [] \<longleftrightarrow> within_bound n (quantifier_instantiations_bound_global_kind st)"
    using violation_defined [OF q] by metis
  then show "\<exists>ys. (case x of (n, q) \<Rightarrow>
       rbind (index (total_quantifiers_matched_counters s) q) (\<lambda>total.
       rbind (if n < total
              then violation s q '' instantiated '' n '' times in trace''
                     (quantifier_instantiations_bound_trace_kind st)
              else Inr []) (\<lambda>v1.
       rbind (violation s q '' instantiated '' n '' times in trace and in total''
                (quantifier_instantiations_bound_global_kind st)) (\<lambda>v2.
         Inr (v1 @ v2))))) = Inr ys \<and>
       (ys = [] \<longleftrightarrow> (case x of (n, q) \<Rightarrow>
         (n < the (map_of (total_quantifiers_matched_counters s) q) \<longrightarrow>
            within_bound n (quantifier_instantiations_bound_trace_kind st)) \<and>
         within_bound n (quantifier_instantiations_bound_global_kind st)))"
    using nq t by (cases "n < total") (auto simp: index_def)
qed

lemma trigger_violations_defined:
  assumes "set (map fst triggers) \<subseteq> quantifier_ids s"
  shows "\<exists>vs. trigger_violations st s triggers = Inr vs \<and>
    (vs = [] \<longleftrightarrow> (\<forall>(q, ts) \<in> set triggers. within_bound (length ts) (unique_triggers_bound st)))"
  unfolding trigger_violations_def
proof (rule collect_concat)
  fix x
  assume x: "x \<in> set triggers"
  obtain q ts where q: "x = (q, ts)" by fastforce
  then have "q \<in> quantifier_ids s" using x assms by force
  then show "\<exists>ys. (case x of (q, ts) \<Rightarrow>
      violation s q '' has '' (length ts) '' unique triggers'' (unique_triggers_bound st)) = Inr ys \<and>
      (ys = [] \<longleftrightarrow> (case x of (q, ts) \<Rightarrow> within_bound (length ts) (unique_triggers_bound st)))"
    using violation_defined [of q s] q by auto
qed

lemma within_Inr: "within n bound msg = Inr () \<longleftrightarrow> within_bound n bound"
  by (auto simp: within_def within_bound_def assert_smt_def split: option.splits)

lemma check_counts:
  assumes "keys_are (quantifier_ids s) m"
  shows "(\<forall>(n, q) \<in> set (filter (\<lambda>(n, q). \<not> is_ignored st q) (sorted_counts m)). P n q) \<longleftrightarrow>
    (\<forall>q \<in> checked_quantifiers st s. P (the (map_of m q)) q)"
proof -
  have "(n, q) \<in> set (sorted_counts m) \<longleftrightarrow> q \<in> quantifier_ids s \<and> n = the (map_of m q)" for n q
    using assms by (force simp: sorted_counts_def keys_are_def)
  then show ?thesis by (auto simp: checked_quantifiers_def)
qed

lemma trigger_sum:
  assumes "keys_are (quantifier_ids s) m"
  shows "sum_list (map (\<lambda>(q, ts). length ts) (filter (\<lambda>(q, ts). \<not> is_ignored st q) m)) =
    (\<Sum>q \<in> checked_quantifiers st s. length (the (map_of m q)))"
proof -
  have "map (\<lambda>(q, ts). length ts) (filter (\<lambda>(q, ts). P q) m) =
      map fst (filter (\<lambda>(n, q). P q) (map (\<lambda>(k, n). (n, k)) (map_values length m)))" for P
    by (induction m) (auto simp: map_values_def)
  moreover have "(\<Sum>q \<in> checked_quantifiers st s. the (map_of (map_values length m) q)) =
      (\<Sum>q \<in> checked_quantifiers st s. length (the (map_of m q)))"
    using keys_are_lookup [OF assms] by (intro sum.cong) (fastforce simp: map_of_map_values checked_quantifiers_def)+
  ultimately show ?thesis
    using sum_counts [of "map_values length m" "\<lambda>q. \<not> is_ignored st q"] assms
    by (simp add: keys_are_def checked_quantifiers_def)
qed

lemma check_triggers:
  assumes "keys_are (quantifier_ids s) m"
  shows "(\<forall>(q, ts) \<in> set (filter (\<lambda>(q, ts). \<not> is_ignored st q) m). P (length ts)) \<longleftrightarrow>
    (\<forall>q \<in> checked_quantifiers st s. P (length (the (map_of m q))))"
proof -
  have "(q, ts) \<in> set m \<longleftrightarrow> q \<in> quantifier_ids s \<and> ts = the (map_of m q)" for q ts
    using assms by (force simp: keys_are_def)
  then show ?thesis by (auto simp: checked_quantifiers_def)
qed

lemma rbind_assert: "rbind (assert_smt b msg) f = (if b then f () else Inl (Smt_panic msg))"
  by (simp add: assert_smt_def)

lemma check_bounds_iff:
  assumes "smt_wf s"
  shows "check_bounds f st s = Inr () \<longleftrightarrow>
    quantifier_instantiations_bound_trace st = None \<and> quantifier_instantiations_bound_trace_kind st = None \<and>
    quantifier_instantiations_bound_global_kind st = None \<or> bounds_hold st s"
    (is "_ \<longleftrightarrow> ?none \<or> _")
proof (cases "?none")
  case True
  then show ?thesis by (simp add: check_bounds_def)
next
  case False
  note wf = smt_wf_keys [OF assms]
  let ?counts = "filter (\<lambda>(n, q). \<not> is_ignored st q) (quantifier_matches_counts s)"
  let ?triggers = "filter (\<lambda>(q, ts). \<not> is_ignored st q) (unique_quantifier_triggers s)"
  have "set (map snd ?counts) \<subseteq> quantifier_ids s"
    using sorted_counts_keys [of _ _ "max_quantifier_matched_event_counters s"] keys_are_subset [OF wf(3)]
    by (auto simp: quantifier_matches_counts_def)
  from instantiation_violations_defined [OF assms this, of st] obtain vs where
    vs: "instantiation_violations st s ?counts = Inr vs" and
    vs_iff: "vs = [] \<longleftrightarrow> (\<forall>(n, q) \<in> set ?counts.
       (n < the (map_of (total_quantifiers_matched_counters s) q) \<longrightarrow>
          within_bound n (quantifier_instantiations_bound_trace_kind st)) \<and>
       within_bound n (quantifier_instantiations_bound_global_kind st))" by blast
  have "set (map fst ?triggers) \<subseteq> quantifier_ids s"
    using keys_are_subset [OF wf(4)] by auto
  from trigger_violations_defined [OF this, of st] obtain ts where
    ts: "trigger_violations st s ?triggers = Inr ts" and
    ts_iff: "ts = [] \<longleftrightarrow> (\<forall>(q, ts) \<in> set ?triggers. within_bound (length ts) (unique_triggers_bound st))" by blast
  have sum: "sum_list (map fst ?counts) =
      (\<Sum>q \<in> checked_quantifiers st s. the (map_of (max_quantifier_matched_event_counters s) q))"
    using sorted_counts_sum [of "max_quantifier_matched_event_counters s" "\<lambda>q. \<not> is_ignored st q"] wf(3)
    by (simp add: quantifier_matches_counts_def keys_are_def checked_quantifiers_def)
  have "check_bounds f st s = Inr () \<longleftrightarrow>
      vs = [] \<and> within_bound (sum_list (map fst ?counts)) (quantifier_instantiations_bound_trace st) \<and>
      ts = [] \<and> within_bound (sum_list (map (\<lambda>(q, ts). length ts) ?triggers)) (unique_triggers_bound_total st)"
    using False unfolding check_bounds_def Let_def vs ts
    by (simp only: if_False rbind_simps rbind_assert) (auto simp: rbind_eq_Inr within_Inr)
  then show ?thesis using False
    unfolding vs_iff [unfolded quantifier_matches_counts_def check_counts [OF wf(3)]]
      ts_iff [unfolded check_triggers [OF wf(4), of st "\<lambda>n. within_bound n (unique_triggers_bound st)"]] sum trigger_sum [OF wf(4)] bounds_hold_def Let_def
    by blast
qed

end
