(* ===== verification/Smt_Log_Print.thy ===== *)
theory Smt_Log_Print
  imports Smt_Log_Runs
begin

text \<open>
  Logs written in the format of Z3: every well-nested sequence of events has a log that the
  analyzer accepts, and whose lines it reads as these events.
\<close>

section \<open>Printing events\<close>

definition theory_name :: "theory_kind \<Rightarrow> string" where
  "theory_name t =
     (case t of Arith \<Rightarrow> ''arith'' | Basic \<Rightarrow> ''basic'' | Datatype \<Rightarrow> ''datatype'' | UserSort \<Rightarrow> ''user-sort'')"

definition print_id :: "32 word \<Rightarrow> string" where
  "print_id i = '' #'' @ word_digits i"

definition print_event :: "nat \<Rightarrow> log_event \<Rightarrow> string" where
  "print_event d ev =
     (case ev of
        Push \<Rightarrow> ''[push] '' @ digits d
      | Pop n \<Rightarrow> ''[pop] '' @ digits n @ '' '' @ digits d
      | Label l \<Rightarrow> ''[mk-app] #0 '' @ l
      | New_quantifier q \<Rightarrow> ''[mk-quant]'' @ print_id q @ '' q''
      | Match q ts \<Rightarrow> ''[new-match] 0x1'' @ print_id q @ '' #0 ;'' @ concat (map print_id ts)
      | Discovered t \<Rightarrow> ''[inst-discovered] theory-solving 0 '' @ theory_name t @ ''# ;''
      | Instance \<Rightarrow> ''[instance] 0x1''
      | Other \<Rightarrow> ''[eof]'') @ newline"

definition next_depth :: "nat \<Rightarrow> log_event \<Rightarrow> nat" where
  "next_depth d ev = (case ev of Push \<Rightarrow> d + 1 | Pop n \<Rightarrow> d - n | _ \<Rightarrow> d)"

fun print_log :: "nat \<Rightarrow> log_event list \<Rightarrow> string list" where
  "print_log d [] = []"
| "print_log d (ev # evs) = print_event d ev # print_log (next_depth d ev) evs"

text \<open>Which event may come next, at a depth and with the given quantifiers.\<close>

definition allowed :: "nat \<Rightarrow> quantifier_id set \<Rightarrow> log_event \<Rightarrow> bool" where
  "allowed d Q ev =
     (case ev of
        Push \<Rightarrow> d + 1 < 2 ^ 32
      | Pop n \<Rightarrow> n \<le> d
      | Label l \<Rightarrow> starts_with l ''basic_block_marker'' \<and> list_all is_valid_name l
      | Match q ts \<Rightarrow> q \<in> Q
      | _ \<Rightarrow> True)"

definition next_quantifiers :: "quantifier_id set \<Rightarrow> log_event \<Rightarrow> quantifier_id set" where
  "next_quantifiers Q ev = (case ev of New_quantifier q \<Rightarrow> insert q Q | _ \<Rightarrow> Q)"

fun well_nested :: "nat \<Rightarrow> quantifier_id set \<Rightarrow> log_event list \<Rightarrow> bool" where
  "well_nested d Q [] = True"
| "well_nested d Q (ev # evs) =
     (allowed d Q ev \<and> well_nested (next_depth d ev) (next_quantifiers Q ev) evs)"

section \<open>Reading printed words\<close>

lemma parse_number_digits0:
  assumes "n < 2 ^ 32" and "r \<noteq> []" and "\<not> is_ascii_hexdigit (hd r)"
  shows "parse_number (digits n @ r) = Inr (of_nat n, r)"
proof -
  have "skip_whitespace (CHR '' '' # digits n @ r) = skip_whitespace (digits n @ r)"
    by (simp add: skip_whitespace_def is_whitespace_def)
  then show ?thesis using parse_number_digits [OF assms] by (simp add: parse_number_def)
qed

lemma not_hexdigit:
  "\<not> is_ascii_hexdigit CHR '' ''" "\<not> is_ascii_hexdigit CHR 0x0A" "\<not> is_ascii_hexdigit CHR '';''"
  by (simp_all add: is_ascii_hexdigit_def is_digit_def in_range_def)

lemma skip_space: "skip_whitespace (CHR '' '' # s) = skip_whitespace s"
  by (simp add: skip_whitespace_def is_whitespace_def)

lemma skip_hash: "skip_whitespace (CHR ''#'' # s) = CHR ''#'' # s"
  by (simp add: skip_whitespace_def is_whitespace_def)

lemma skip_newline: "skip_whitespace newline = []"
  by (simp add: skip_whitespace_def is_whitespace_def newline_def)

lemma skip_Nil: "skip_whitespace [] = []"
  by (simp add: skip_whitespace_def)

lemma word_number: "r \<noteq> [] \<Longrightarrow> \<not> is_ascii_hexdigit (hd r) \<Longrightarrow> parse_number (word_digits i @ r) = Inr (i, r)"
  using parse_number_digits0 [of "unat i" r] unsigned_less [where 'a = nat and w = i]
  by (simp add: word_digits_def)

lemma try_parse_printed_id:
  "r \<noteq> [] \<Longrightarrow> \<not> is_ascii_hexdigit (hd r) \<Longrightarrow> try_parse_id (print_id i @ r) = Inr (Some i, r)"
  by (simp add: try_parse_id_def print_id_def skip_space skip_hash try_consume_def word_number)

lemma parse_printed_id:
  "r \<noteq> [] \<Longrightarrow> \<not> is_ascii_hexdigit (hd r) \<Longrightarrow> parse_id (print_id i @ r) = Inr (i, r)"
  by (simp add: parse_id_def try_parse_printed_id)

lemma print_id_head: "print_id i @ r = CHR '' '' # tl (print_id i @ r)"
  by (simp add: print_id_def)

lemma try_parse_printed_term:
  assumes "r \<noteq> []" and "\<not> is_ascii_hexdigit (hd r)"
  shows "try_parse_quant_term (print_id i @ r) = Inr (Some (Single i), r)"
proof -
  have "skip_whitespace (print_id i @ r) = CHR ''#'' # word_digits i @ r"
    by (simp add: print_id_def skip_space skip_hash)
  moreover have "try_parse_id (CHR ''#'' # word_digits i @ r) = Inr (Some i, r)"
    using assms by (simp add: try_parse_id_def skip_hash try_consume_def word_number)
  ultimately show ?thesis by (simp add: try_parse_quant_term_def try_consume_def)
qed

lemma try_parse_newline: "try_parse_quant_term newline = Inr (None, [])"
  by (simp add: try_parse_quant_term_def skip_newline skip_Nil try_consume_def try_parse_id_def)

lemma printed_terms_head:
  "concat (map print_id ts) @ newline \<noteq> []" "\<not> is_ascii_hexdigit (hd (concat (map print_id ts) @ newline))"
  by (cases ts; simp add: print_id_def newline_def not_hexdigit)+

lemma matched_terms_printed: "matched_terms (concat (map print_id ts) @ newline) = ts"
proof (induction ts)
  case Nil
  then show ?case by (subst matched_terms.simps) (simp add: try_parse_newline)
next
  case (Cons t ts)
  then show ?case
    using try_parse_printed_term [OF printed_terms_head, of t ts]
    by (subst matched_terms.simps) (simp add: quant_term_ids_def)
qed
section \<open>Reading printed events\<close>

lemmas scan_simps = parse_event_kind_def try_consume_def consume_while_def is_word_char_def
  is_alphabetic_def in_range_def event_of_name_def consume_def

lemma parse_printed_kind:
  "parse_event_kind (CHR ''['' # CHR ''p'' # CHR ''u'' # CHR ''s'' # CHR ''h'' # CHR '']'' # r) = Inr (EPush, r)"
  "parse_event_kind (CHR ''['' # CHR ''p'' # CHR ''o'' # CHR ''p'' # CHR '']'' # r) = Inr (EPop, r)"
  "parse_event_kind (''[mk-app]'' @ r) = Inr (EMkApp, r)"
  "parse_event_kind (''[mk-quant]'' @ r) = Inr (EMkQuant, r)"
  "parse_event_kind (''[new-match]'' @ r) = Inr (ENewMatch, r)"
  "parse_event_kind (''[inst-discovered]'' @ r) = Inr (EInstDiscovered, r)"
  "parse_event_kind (''[instance]'' @ r) = Inr (EInstance, r)"
  "parse_event_kind (''[eof]'' @ r) = Inr (EUnrecognized, r)"
  by (simp_all add: scan_simps)

lemma parse_printed_number:
  assumes "n < 2 ^ 32"
  shows "parse_number (CHR '' '' # digits n @ newline) = Inr (of_nat n, newline)"
    and "parse_number (CHR '' '' # digits n @ CHR '' '' # r) = Inr (of_nat n, CHR '' '' # r)"
  using parse_number_digits [OF assms, of newline] parse_number_digits [OF assms, of "CHR '' '' # r"]
  by (simp_all add: newline_def not_hexdigit)

lemma check_eof_newline: "check_eof newline = Inr ()"
  by (simp add: check_eof_def skip_newline)

lemma current_depth: "unat (current_active_scopes_count s) = d \<Longrightarrow> current_active_scopes_count s = of_nat d"
  by auto

lemma depth_bound: "unat (current_active_scopes_count s) = d \<Longrightarrow> d < 2 ^ 32"
  using unsigned_less [where 'a = nat and w = "current_active_scopes_count s"] by simp

text \<open>A printed event is read as that event, and its line is accepted in a state that allows it.\<close>

definition accepts :: "smt_settings \<Rightarrow> smt_state \<Rightarrow> nat \<Rightarrow> log_event \<Rightarrow> bool" where
  "accepts st s d ev =
     (line_event (print_event d ev) = ev \<and> (\<exists>s'. process_line True st s (print_event d ev) = Inr s'))"

lemma accepts_push:
  assumes "unat (current_active_scopes_count s) = d" and "d + 1 < 2 ^ 32"
  shows "accepts st s d Push"
proof -
  have "d < 2 ^ 32" using assms(2) by simp
  then show ?thesis
    using assms parse_printed_number(1) [of d] current_depth [OF assms(1)]
    by (simp add: accepts_def print_event_def line_event_def process_line_def or_else_def parse_printed_kind
        process_push_def check_eof_newline assert_eq_def push_scope_def add_u32_def)
qed

lemma accepts_pop:
  assumes "smt_wf s" and "unat (current_active_scopes_count s) = d" and "n \<le> d"
  shows "accepts st s d (Pop n)"
proof -
  have d: "d < 2 ^ 32" by (rule depth_bound [OF assms(2)])
  then have n: "unat (of_nat n :: 32 word) = n" using assms(3) by (simp add: unat_of_nat)
  have "\<exists>s'. pop_scopes True (of_nat n) s = Inr s'"
    using pop_scopes_defined [OF assms(1), of "of_nat n"] assms(2,3) n by simp
  moreover have "\<exists>s'. pop_by_one True n s = Inr s'"
    using pop_by_one_agrees [OF assms(1), of n] assms(2,3) by (cases "n = 0") auto
  ultimately show ?thesis
    using parse_printed_number(1) [of d] parse_printed_number(2) [of n "digits d @ newline"] d n assms(3)
      current_depth [OF assms(2)]
    by (simp add: accepts_def print_event_def line_event_def process_line_def or_else_def parse_printed_kind
        process_pop_def check_eof_newline assert_eq_def)
qed

lemma accepts_simple:
  "accepts st s d Instance" "accepts st s d Other" "accepts st s d (New_quantifier q)"
proof -
  show "accepts st s d Instance" "accepts st s d Other"
    using parse_printed_kind(7) [of "'' 0x1'' @ newline"] parse_printed_kind(8) [of newline]
    by (simp_all add: accepts_def print_event_def line_event_def process_line_def or_else_def)
  have "parse_name ('' q'' @ newline) = Inr (''q'', newline)"
    by (simp add: parse_name_def consume_while_def skip_whitespace_def is_whitespace_def is_valid_name_def
        is_alphabetic_def in_range_def is_digit_def newline_def)
  then show "accepts st s d (New_quantifier q)"
    using parse_printed_kind(4) [of "print_id q @ '' q'' @ newline"] parse_printed_id [of "'' q'' @ newline" q]
    by (simp add: accepts_def print_event_def line_event_def process_line_def or_else_def process_mk_quant_def
        not_hexdigit)
qed

lemma starts_with_head: "starts_with l ''basic_block_marker'' \<Longrightarrow> \<exists>r. l = CHR ''b'' # r"
  by (cases l) (auto simp: starts_with_def)

lemma parse_printed_name:
  assumes "list_all is_valid_name l" and "starts_with l ''basic_block_marker''"
  shows "parse_name (CHR '' '' # l @ newline) = Inr (l, newline)"
proof -
  obtain r where r: "l = CHR ''b'' # r" using starts_with_head [OF assms(2)] by blast
  have "skip_whitespace (CHR '' '' # l @ newline) = l @ newline"
    by (simp add: skip_space r) (simp add: skip_whitespace_def is_whitespace_def)
  moreover have "\<not> is_valid_name CHR 0x0A"
    by (simp add: is_valid_name_def is_alphabetic_def is_digit_def in_range_def)
  moreover from this have "takeWhile is_valid_name (l @ newline) = l" "dropWhile is_valid_name (l @ newline) = newline"
    using assms(1) by (simp_all add: newline_def list_all_iff takeWhile_append2 dropWhile_append2)
  ultimately show ?thesis by (simp add: parse_name_def consume_while_def newline_def)
qed

lemma print_zero: "print_id 0 = '' #0''"
  by (simp add: print_id_def word_digits_def digits.simps)

lemma accepts_label:
  assumes "starts_with l ''basic_block_marker''" and "list_all is_valid_name l"
  shows "accepts st s d (Label l)"
proof -
  have "parse_event_kind (print_event d (Label l)) = Inr (EMkApp, print_id 0 @ '' '' @ l @ newline)"
    using parse_printed_kind(3) [of "print_id 0 @ '' '' @ l @ newline"]
    by (simp add: print_event_def print_zero)
  moreover have "try_parse_id (print_id 0 @ '' '' @ l @ newline) = Inr (Some 0, '' '' @ l @ newline)"
    by (rule try_parse_printed_id) (simp_all add: not_hexdigit)
  ultimately show ?thesis
    using parse_printed_name [OF assms(2,1)] assms(1)
    by (simp add: accepts_def line_event_def process_line_def or_else_def label_event_of_def process_mk_app_def)
qed

lemma parse_theory_name: "parse_theory (CHR '' '' # theory_name t @ ''# ;'' @ newline) = Inr (t, '' ;'' @ newline)"
  by (cases t)
     (simp_all add: parse_theory_def theory_name_def skip_whitespace_def is_whitespace_def consume_while_def
      is_word_char_def is_alphabetic_def in_range_def consume_def try_consume_def)

lemma accepts_discovered:
  assumes "smt_wf s"
  shows "accepts st s d (Discovered t)"
proof -
  have kind: "parse_event_kind (print_event d (Discovered t)) =
      Inr (EInstDiscovered, '' theory-solving 0 '' @ theory_name t @ ''# ;'' @ newline)"
    using parse_printed_kind(6) [of "'' theory-solving 0 '' @ theory_name t @ ''# ;'' @ newline"]
    by (simp add: print_event_def)
  have name: "parse_name ('' theory-solving 0 '' @ r) = Inr (''theory-solving'', '' 0 '' @ r)" for r
    by (simp add: parse_name_def skip_whitespace_def is_whitespace_def consume_while_def is_valid_name_def
        is_alphabetic_def in_range_def is_digit_def)
  have hex: "parse_hex_number ('' 0 '' @ r) = Inr (0, '' '' @ r)" for r
    by (simp add: parse_hex_number_def skip_whitespace_def is_whitespace_def consume_def try_consume_def)
  note wf = smt_wf_keys [OF assms]
  obtain n evs where "map_of (total_quantifiers_inst_disovered_counters s) t = Some n"
    "map_of (quantifiers_inst_disovered_events s) t = Some evs"
    using keys_are_lookup [OF wf(8), of t] keys_are_lookup [OF wf(7), of t] by auto
  then show ?thesis
    using kind name [of "theory_name t @ ''# ;'' @ newline"] hex [of "theory_name t @ ''# ;'' @ newline"]
      parse_theory_name [of t]
    by (simp add: accepts_def line_event_def process_line_def or_else_def process_inst_discovered_def assert_eq_def
        register_inst_discovered_def get_mut_def)
qed

lemma register_matched_quantifier_defined:
  assumes "smt_wf s" and "q \<in> quantifier_ids s"
  shows "\<exists>s'. register_matched_quantifier q s = Inr s' \<and> smt_wf s' \<and> quantifier_ids s' = quantifier_ids s"
proof -
  note wf = smt_wf_keys [OF assms(1)]
  obtain n evs where "map_of (total_quantifiers_matched_counters s) q = Some n"
    "map_of (quantifiers_matched_events s) q = Some evs"
    using keys_are_lookup [OF wf(2) assms(2)] keys_are_lookup [OF wf(1) assms(2)] by auto
  then obtain s' where s': "register_matched_quantifier q s = Inr s'" "quantifier_ids s' = quantifier_ids s"
    by (simp add: register_matched_quantifier_def get_mut_def quantifier_ids_def)
  then show ?thesis using register_matched_quantifier_simulates [OF assms(1)] by (auto simp: simulates_def)
qed

lemma register_matched_trigger_term_defined:
  assumes "smt_wf s" and "q \<in> quantifier_ids s"
  shows "\<exists>s'. register_matched_trigger_term q t s = Inr s' \<and> smt_wf s' \<and> quantifier_ids s' = quantifier_ids s"
proof -
  note wf = smt_wf_keys [OF assms(1)]
  obtain us evs where us: "map_of (unique_quantifier_triggers s) q = Some us"
    and evs: "map_of (term_used_in_trigger_events s) q = Some evs"
    using keys_are_lookup [OF wf(4) assms(2)] keys_are_lookup [OF wf(5) assms(2)] by auto
  have "\<exists>s1. trace_quantifier_trigger q t s = Inr s1"
    using us assms(1)
    by (auto simp: trace_quantifier_trigger_def smt_wf_def tracing_ok_def split: option.splits)
  then obtain buf where "trace_quantifier_trigger q t s = Inr (s\<lparr>traced_quantifier_triggers := buf\<rparr>)"
    using trace_quantifier_trigger_other [OF _ assms(1)] by blast
  then obtain s' where s': "register_matched_trigger_term q t s = Inr s'" "quantifier_ids s' = quantifier_ids s"
    using us evs by (simp add: register_matched_trigger_term_def get_mut_def quantifier_ids_def)
  then show ?thesis using register_matched_trigger_term_simulates [OF assms(1)] by blast
qed

lemma register_quant_terms_defined:
  "smt_wf s \<Longrightarrow> q \<in> quantifier_ids s \<Longrightarrow>
   \<exists>s'. register_quant_terms q (concat (map print_id ts) @ newline) s = Inr (s', [])"
proof (induction ts arbitrary: s)
  case Nil
  then show ?case by (subst register_quant_terms.simps) (simp add: try_parse_newline)
next
  case (Cons t ts)
  obtain s1 where s1: "register_matched_trigger_term q t s = Inr s1" "smt_wf s1" "q \<in> quantifier_ids s1"
    using register_matched_trigger_term_defined [OF Cons.prems] Cons.prems(2) by auto
  then show ?case
    using Cons.IH [OF s1(2,3)] try_parse_printed_term [OF printed_terms_head, of t ts]
    by (subst register_quant_terms.simps) (simp add: register_quant_term_def)
qed

lemma accepts_match:
  assumes "smt_wf s" and "q \<in> quantifier_ids s"
  shows "accepts st s d (Match q ts)"
proof -
  let ?ts = "concat (map print_id ts) @ newline"
  have kind: "parse_event_kind (print_event d (Match q ts)) =
      Inr (ENewMatch, '' 0x1'' @ print_id q @ print_id 0 @ '' ;'' @ ?ts)"
    using parse_printed_kind(5) [of "'' 0x1'' @ print_id q @ print_id 0 @ '' ;'' @ ?ts"]
    by (simp add: print_event_def print_zero)
  have hex: "parse_hex_number ('' 0x1'' @ print_id q @ r) = Inr (1, print_id q @ r)" for r
    by (simp add: parse_hex_number_def skip_whitespace_def is_whitespace_def consume_def try_consume_def
        consume_while_def is_ascii_hexdigit_def is_digit_def in_range_def print_id_def hex_value_def)
  have "parse_id (print_id q @ print_id 0 @ '' ;'' @ ?ts) = Inr (q, print_id 0 @ '' ;'' @ ?ts)"
    by (rule parse_printed_id) (simp_all add: print_id_def not_hexdigit)
  moreover have "parse_id (print_id 0 @ '' ;'' @ ?ts) = Inr (0, '' ;'' @ ?ts)"
    by (rule parse_printed_id) (simp_all add: not_hexdigit)
  moreover have "parse_ids ('' ;'' @ ?ts) = Inr ([], '';'' @ ?ts)"
    by (subst parse_ids.simps)
       (simp add: try_parse_id_def skip_whitespace_def is_whitespace_def try_consume_def)
  moreover have "consume CHR '';'' ('';'' @ ?ts) = Inr ?ts"
    by (simp add: consume_def try_consume_def)
  moreover obtain s1 where s1: "register_matched_quantifier q s = Inr s1" "smt_wf s1" "q \<in> quantifier_ids s1"
    using register_matched_quantifier_defined [OF assms] assms(2) by auto
  moreover obtain s' where "register_quant_terms q ?ts s1 = Inr (s', [])"
    using register_quant_terms_defined [OF s1(2,3)] by blast
  ultimately show ?thesis
    using kind hex [of "print_id 0 @ '' ;'' @ ?ts"] matched_terms_printed [of ts]
    by (simp add: accepts_def line_event_def process_line_def or_else_def match_event_def process_new_match_def
        check_eof_def skip_Nil)
qed

section \<open>Reading printed logs\<close>

lemma accepts_allowed:
  assumes "smt_wf s" and "unat (current_active_scopes_count s) = d" and "allowed d (quantifier_ids s) ev"
  shows "accepts st s d ev"
  using assms
  by (cases ev)
     (simp_all add: allowed_def accepts_push accepts_pop accepts_label accepts_simple accepts_match accepts_discovered)

lemma spec_step_depth: "depth (spec_step ev a) = next_depth (depth a) ev"
  by (simp add: spec_step_def next_depth_def spec_scopes_def split: log_event.split)

lemma spec_step_quantifiers: "dom (match_total (spec_step ev a)) = next_quantifiers (dom (match_total a)) ev"
  by (auto simp: spec_step_def next_quantifiers_def spec_scopes_def modify_def split: log_event.split)

lemma abs_state_quantifiers:
  assumes "smt_wf s"
  shows "dom (match_total (abs_state s)) = quantifier_ids s"
  using smt_wf_keys(2) [OF assms] by (simp add: abs_state_def Let_def dom_map_of_conv_image_fst keys_are_def)

lemma process_printed_log:
  "smt_wf s \<Longrightarrow> well_nested (depth (abs_state s)) (quantifier_ids s) evs \<Longrightarrow>
   \<exists>s'. process_lines True st n s (print_log (depth (abs_state s)) evs) = Inr s' \<and>
     map line_event (print_log (depth (abs_state s)) evs) = evs"
proof (induction evs arbitrary: n s)
  case Nil
  then show ?case by simp
next
  case (Cons ev evs)
  let ?d = "depth (abs_state s)"
  have d: "unat (current_active_scopes_count s) = ?d" by (simp add: abs_state_def Let_def)
  have acc: "accepts st s ?d ev" using accepts_allowed [OF Cons.prems(1) d] Cons.prems(2) by simp
  then obtain s1 where s1: "process_line True st s (print_event ?d ev) = Inr s1"
    and ev: "line_event (print_event ?d ev) = ev" by (auto simp: accepts_def)
  have sim: "smt_wf s1" "abs_state s1 = spec_step ev (abs_state s)"
    using process_line_simulates [OF Cons.prems(1) s1] ev by (simp_all add: simulates_def)
  have "depth (abs_state s1) = next_depth ?d ev" "quantifier_ids s1 = next_quantifiers (quantifier_ids s) ev"
    using spec_step_depth [of ev "abs_state s"] spec_step_quantifiers [of ev "abs_state s"] sim
      abs_state_quantifiers [OF Cons.prems(1)] abs_state_quantifiers [OF sim(1)] by simp_all
  then show ?case using Cons.IH [OF sim(1)] Cons.prems(2) s1 ev by (simp add: on_line_def)
qed

end
