(* ===== verification/Smt_Log_Props.thy ===== *)
theory Smt_Log_Props
  imports Smt_Log_Print
begin

text \<open>The properties of the SMT log analyzer, and an example log for their witnesses.\<close>

section \<open>An example\<close>

definition example_settings :: smt_settings where
  "example_settings =
     \<lparr>write_statistics_flag = True, quantifier_instantiations_ignore_builtin = False,
      quantifier_instantiations_bound_global_kind = Some 3, quantifier_instantiations_bound_trace = None,
      quantifier_instantiations_bound_trace_kind = None, unique_triggers_bound = None,
      unique_triggers_bound_total = Some 5, check_active_scopes_count = Some 0, pop_scopes_by_one = False,
      trace_quantifier_triggers = Some 7\<rparr>"

definition example_events :: "log_event list" where
  "example_events =
     [New_quantifier 7, Push, Match 7 [5], Match 7 [5, 6], Instance, Pop 1, Match 7 [5], Discovered Arith]"

lemma example_nested: "well_nested 0 {BUILTIN_QUANTIFIER_ID} example_events"
  by (simp add: example_events_def allowed_def next_depth_def next_quantifiers_def)

lemma example_counts:
  "match_total (spec_run example_events) 7 = Some 3"
  "map_option peak (match_log (spec_run example_events) 7) = Some 2"
  by (simp_all add: spec_run_def example_events_def spec_step_def spec_init_def spec_scopes_def modify_def
      modify_all_def scoped_hit_def scoped_push_def scoped_pop_def scoped_new_def Let_def)

lemma printed_run:
  assumes "well_nested 0 {BUILTIN_QUANTIFIER_ID} evs"
  obtains s0 s where "initial_state st = Inr s0" "process_lines True st 0 s0 (print_log 0 evs) = Inr s"
    "map line_event (print_log 0 evs) = evs"
proof -
  obtain s0 where s0: "initial_state st = Inr s0" "smt_wf s0" "abs_state s0 = spec_init"
    using initial_state_refines by blast
  have "depth (abs_state s0) = 0" "quantifier_ids s0 = {BUILTIN_QUANTIFIER_ID}"
    using s0(3) abs_state_quantifiers [OF s0(2)] by (simp_all add: spec_init_def)
  then show ?thesis using process_printed_log [OF s0(2), of evs st 0] assms s0(1) that by auto
qed

section \<open>Properties\<close>

text \<open>C7: Processing a line does to the counters what the event of the line means: a push opens a
  frame on every counter, a pop drops frames, a match, a discovery or an instance is counted in the
  innermost frame and raises the peak if the sum exceeds it. Lists of events with levels and maxima
  that are updated only when scopes are closed implement this, and they stay well formed.\<close>

theorem process_line_refines:
  assumes "smt_wf s" and "process_line True st s line = Inr s'"
  shows "smt_wf s' \<and> abs_state s' = spec_step (line_event line) (abs_state s)"
  using process_line_simulates [OF assms] by (simp add: simulates_def)

theorem process_line_refines_witness:
  "\<exists>s s'. process_line True example_settings s (print_event 0 Push) = Inr s' \<and> smt_wf s' \<and>
     abs_state s' = spec_step Push spec_init"
proof -
  obtain s where s: "smt_wf s" "abs_state s = spec_init" using initial_state_refines by blast
  have "unat (current_active_scopes_count s) = 0"
    using s(2) by (simp add: abs_state_def Let_def spec_init_def)
  then obtain s' where "process_line True example_settings s (print_event 0 Push) = Inr s'"
    and "line_event (print_event 0 Push) = Push"
    using accepts_push [of s 0 example_settings] by (auto simp: accepts_def)
  then show ?thesis using process_line_refines [OF s(1)] s(2) by metis
qed



text \<open>The number of matches of a quantifier that were active at once never exceeds its total, and
  the same holds for theories and instances.\<close>

theorem peaks_below_totals:
  assumes "initial_state st = Inr s0" and "process_lines True st 0 s0 ls = Inr s" and "pop_all_scopes True s = Inr s'"
  shows "(\<forall>q m. map_of (max_quantifier_matched_event_counters s') q = Some m \<longrightarrow>
      (\<exists>t \<ge> m. map_of (total_quantifiers_matched_counters s') q = Some t)) \<and>
    (\<forall>k m. map_of (max_quantifier_inst_discovered_event_counters s') k = Some m \<longrightarrow>
      (\<exists>t \<ge> m. map_of (total_quantifiers_inst_disovered_counters s') k = Some t)) \<and>
    max_quantifier_instance_event_counters s' \<le> total_quantifiers_instance_counters s'"
proof -
  obtain s1 where "initial_state st = Inr s1" "smt_wf s1" "abs_state s1 = spec_init"
    using initial_state_refines by blast
  then have peaks: "peaks_within (abs_state s)"
    using process_lines_peaks [OF _ _ assms(2)] spec_init_peaks assms(1) by simp
  have reports: "reports s' (abs_state s)" using pop_all_reports [OF run_refines(1) [OF assms(1,2)] assms(3)] .
  have "\<exists>t \<ge> m. map_of (total_quantifiers_matched_counters s') q = Some t"
    if "map_of (max_quantifier_matched_event_counters s') q = Some m" for q m
  proof -
    have "peak_within (match_log (abs_state s) q) (match_total (abs_state s) q)"
      using peaks by (simp add: peaks_within_def)
    then show ?thesis using that reports
      by (cases "match_total (abs_state s) q") (auto simp: reports_def)
  qed
  moreover have "\<exists>t \<ge> m. map_of (total_quantifiers_inst_disovered_counters s') k = Some t"
    if "map_of (max_quantifier_inst_discovered_event_counters s') k = Some m" for k m
  proof -
    have "peak_within (theory_log (abs_state s) k) (theory_total (abs_state s) k)"
      using peaks by (simp add: peaks_within_def)
    then show ?thesis using that reports
      by (cases "theory_total (abs_state s) k") (auto simp: reports_def)
  qed
  ultimately show ?thesis using peaks reports by (simp add: reports_def peaks_within_def)
qed

theorem peaks_below_totals_witness:
  "\<exists>s0 s s'. initial_state example_settings = Inr s0 \<and>
     process_lines True example_settings 0 s0 (print_log 0 example_events) = Inr s \<and> pop_all_scopes True s = Inr s' \<and>
     map_of (max_quantifier_matched_event_counters s') 7 = Some 2 \<and>
     (\<exists>t \<ge> 2. map_of (total_quantifiers_matched_counters s') 7 = Some t)"
proof -
  obtain s0 s where run: "initial_state example_settings = Inr s0"
    "process_lines True example_settings 0 s0 (print_log 0 example_events) = Inr s"
    "map line_event (print_log 0 example_events) = example_events"
    by (rule printed_run [OF example_nested])
  obtain s' where s': "pop_all_scopes True s = Inr s'" using pop_all_defined [OF run_refines(1) [OF run(1,2)]] by blast
  have "reports s' (spec_run example_events)"
    using pop_all_reports [OF run_refines(1) [OF run(1,2)] s'] run_refines(2) [OF run(1,2)] run(3) by simp
  then have "map_of (max_quantifier_matched_event_counters s') 7 = Some 2"
    using example_counts(2) by (simp add: reports_def)
  then show ?thesis using peaks_below_totals [OF run(1,2) s'] run s' by blast
qed

text \<open>Closing scopes one at a time, as the flag \<^verbatim>\<open>pop_scopes_by_one\<close> asks for, ends like closing
  them together: both panic when there are too few scopes, and otherwise all counters agree, so that
  only the record of the largest pop can differ.\<close>

theorem pop_by_one_equivalent:
  assumes "smt_wf s" and "0 < n"
  shows "map_sum id forget_largest_pop (pop_by_one True (unat n) s) =
    map_sum id forget_largest_pop (pop_scopes True n s)"
proof (cases "unat n \<le> unat (current_active_scopes_count s)")
  case True
  have "0 < unat n" using assms(2) by (simp add: unat_gt_0 word_neq_0_conv)
  then show ?thesis using pop_by_one_agrees [OF assms(1) _ True] by auto
next
  case False
  then show ?thesis using pop_by_one_panics [OF assms(1), of "unat n"] pop_scopes_panics [of s n] by simp
qed

theorem pop_by_one_equivalent_witness:
  "\<exists>s. map_sum id forget_largest_pop (pop_by_one True (unat (1 :: level)) s) =
     map_sum id forget_largest_pop (pop_scopes True 1 s) \<and> match_total (abs_state s) 7 = Some 3"
proof -
  obtain s0 s where run: "initial_state example_settings = Inr s0"
    "process_lines True example_settings 0 s0 (print_log 0 example_events) = Inr s"
    "map line_event (print_log 0 example_events) = example_events"
    by (rule printed_run [OF example_nested])
  have "match_total (abs_state s) 7 = Some 3"
    using run_refines(2) [OF run(1,2)] run(3) example_counts(1) by simp
  moreover have "0 < (1 :: level)" by simp
  ultimately show ?thesis using pop_by_one_equivalent [OF run_refines(1) [OF run(1,2)]] by blast
qed



text \<open>C26: Every well-nested sequence of events, printed in the format of Z3 with the current number
  of scopes on each push and pop, is accepted line by line, and the counters are then those of the
  sequence: reading a printed log gives back its events.\<close>

theorem printed_log_accepted:
  assumes "well_nested 0 {BUILTIN_QUANTIFIER_ID} evs"
  shows "\<exists>s0 s. initial_state st = Inr s0 \<and> process_lines True st 0 s0 (print_log 0 evs) = Inr s \<and>
    map line_event (print_log 0 evs) = evs \<and> abs_state s = spec_run evs"
proof -
  obtain s0 s where run: "initial_state st = Inr s0" "process_lines True st 0 s0 (print_log 0 evs) = Inr s"
    "map line_event (print_log 0 evs) = evs"
    by (rule printed_run [OF assms])
  then show ?thesis using run_refines(2) [OF run(1,2)] by auto
qed

theorem printed_log_accepted_witness:
  "\<exists>s0 s. initial_state example_settings = Inr s0 \<and>
     process_lines True example_settings 0 s0 (print_log 0 example_events) = Inr s \<and>
     match_total (abs_state s) 7 = Some 3"
  using printed_log_accepted [OF example_nested, of example_settings] example_counts(1) by metis

text \<open>A build without overflow checks analyzes every log as the checked build does, provided that
  the checked build accepts the lines.\<close>

theorem analyze_unchecked:
  assumes "initial_state st = Inr s0" and "process_lines True st 0 s0 (butlast lines) = Inr s"
  shows "analyze False st f lines = analyze True st f lines"
proof -
  obtain s' where "pop_all_scopes True s = Inr s'" using pop_all_defined [OF run_refines(1) [OF assms]] by blast
  moreover from this have "pop_all_scopes False s = Inr s'" by (simp add: pop_all_scopes_def pop_scopes_unchecked)
  ultimately show ?thesis using assms process_lines_unchecked [OF assms(2)]
    by (cases "lines = []") (simp_all add: analyze_def on_line_def assert_smt_def)
qed

theorem analyze_unchecked_witness:
  "analyze False example_settings ''log'' (print_log 0 example_events @ [[]]) =
   analyze True example_settings ''log'' (print_log 0 example_events @ [[]])"
proof -
  obtain s0 s where run: "initial_state example_settings = Inr s0"
    "process_lines True example_settings 0 s0 (print_log 0 example_events) = Inr s"
    by (rule printed_run [OF example_nested])
  then show ?thesis using analyze_unchecked [of example_settings s0 "print_log 0 example_events @ [[]]" s "''log''"] by simp
qed

text \<open>Without overflow checks, a line that pops more scopes than there are is accepted: the number
  of active scopes wraps around below zero, and no event is removed.\<close>

theorem pop_scopes_wraps:
  assumes "smt_wf s" and "current_active_scopes_count s < n" and "pop_scopes False n s = Inr s'"
  shows "unat (current_active_scopes_count s') = 2 ^ 32 + unat (current_active_scopes_count s) - unat n \<and>
    quantifiers_matched_events s' = quantifiers_matched_events s \<and>
    quantifiers_instance_events s' = quantifiers_instance_events s \<and> smt_trace s' = smt_trace s"
proof -
  let ?cur = "current_active_scopes_count s" and ?c = "current_active_scopes_count s - n"
  have lt: "unat ?cur < unat n" using assms(2) by (simp add: word_less_nat_alt)
  have c: "unat ?c = 2 ^ 32 + unat ?cur - unat n"
    using lt unsigned_less [where 'a = nat and w = n] by (simp add: unat_sub_if' not_le)
  then have "?cur \<le> ?c"
    using unsigned_less [where 'a = nat and w = n] by (simp add: word_le_nat_alt)
  then have pop: "pop_while (above ?c) evs = evs" if "log_ok ?cur evs" for evs :: "'x scope_event_scheme list"
    using that by (intro pop_while_above_id) (auto simp: log_ok_def)
  note ok = smt_wf_logs [OF assms(1)]
  have "map_values (pop_while (above ?c)) (quantifiers_matched_events s) = quantifiers_matched_events s"
    using ok(1) pop unfolding map_values_def all_logs_def by (intro map_idI) (force simp: image_iff)
  then show ?thesis
    using assms(3) c pop [OF ok(4)] pop [OF ok(5)]
    by (auto simp: pop_scopes_def sub_u32_def rbind_eq_Inr Let_def)
qed

theorem pop_scopes_wraps_witness:
  "\<exists>s s'. pop_scopes False 2 s = Inr s' \<and> unat (current_active_scopes_count s') = 2 ^ 32 - 2"
proof -
  obtain s where s: "smt_wf s" "abs_state s = spec_init" using initial_state_refines by blast
  then have "unat (current_active_scopes_count s) = 0" by (simp add: abs_state_def Let_def spec_init_def)
  then have z: "current_active_scopes_count s = 0" by (rule current_depth [where d = 0, simplified])
  obtain m where "pop_scopes True 0 s = Inr m" using pop_scopes_defined [OF s(1), of 0] by auto
  then obtain s' where s': "pop_scopes False 2 s = Inr s'"
    by (auto simp: pop_scopes_def sub_u32_def rbind_eq_Inr Let_def split: if_splits)
  then show ?thesis using pop_scopes_wraps [OF s(1) _ s'] z by auto
qed

end
