(* ===== verification/Vir_Spans.thy ===== *)
theory Vir_Spans
  imports Prusti_Prelude "HOL-Library.Char_ord" "HOL-Library.List_Lexorder"
begin

text \<open>
  \<^verbatim>\<open>vir/src/spans.rs\<close>: the spans of Viper nodes and the backtranslation of verification errors.
  Spans are allocated once and never change, so a reference to a span is the span itself. Rust spans,
  errors, definition ids and the contract spans for the editor are opaque.
\<close>

section \<open>The span manager\<close>

datatype 'sp vir_span = VirSpan (span_id: nat) (span_of: 'sp) (span_parent: "'sp vir_span option")

datatype ('sp, 'err) span_handler =
  SpanHandler (handled_kind: string) (handler_of: "'sp option \<Rightarrow> 'err list option")
    (next_handler: "('sp, 'err) span_handler option")

record ('sp, 'err, 'd, 'c) span_manager =
  all_spans :: "'sp vir_span list"
  span_stack :: "'sp vir_span list"
  span_handlers :: "(nat, ('sp, 'err) span_handler) index_map"
  early_error_list :: "'err list"
  call_contract_spans :: "'c list"
  block_spans :: "('d \<times> string, 'sp) index_map"
  viper_identifiers :: "(string, 'd) index_map"

definition span_manager_default :: "('sp, 'err, 'd, 'c) span_manager" where
  "span_manager_default =
     \<lparr>all_spans = [], span_stack = [], span_handlers = [], early_error_list = [], call_contract_spans = [],
      block_spans = [], viper_identifiers = []\<rparr>"

definition last_option :: "'a list \<Rightarrow> 'a option" where
  "last_option xs = (if xs = [] then None else Some (last xs))"

definition nth_option :: "'a list \<Rightarrow> nat \<Rightarrow> 'a option" where
  "nth_option xs i = (if i < length xs then Some (xs ! i) else None)"

definition top_span :: "('sp, 'err, 'd, 'c) span_manager \<Rightarrow> 'sp vir_span option" where
  "top_span m = last_option (span_stack m)"

text \<open>A span is allocated, linked with the one on top of the stack, and pushed.\<close>

definition open_span :: "'sp \<Rightarrow> ('sp, 'err, 'd, 'c) span_manager \<Rightarrow> ('sp, 'err, 'd, 'c) span_manager" where
  "open_span sp m =
     (let s = VirSpan (length (all_spans m)) sp (top_span m)
      in m\<lparr>all_spans := all_spans m @ [s], span_stack := span_stack m @ [s]\<rparr>)"

text \<open>
  \<^verbatim>\<open>with_span\<close>; \<open>debug\<close> tells whether \<^verbatim>\<open>debug_assert_eq!\<close> is checked. A panic of the body unwinds
  through it.
\<close>

definition with_span ::
  "bool \<Rightarrow> 'sp \<Rightarrow> (('sp, 'err, 'd, 'c) span_manager \<Rightarrow> 'a exec \<times> ('sp, 'err, 'd, 'c) span_manager)
   \<Rightarrow> ('sp, 'err, 'd, 'c) span_manager \<Rightarrow> 'a exec \<times> ('sp, 'err, 'd, 'c) span_manager" where
  "with_span debug sp f m =
     (let m1 = open_span sp m; len_before = length (span_stack m1) in
      case f m1 of
        (Panicked p, m2) \<Rightarrow> (Panicked p, m2)
      | (Value r, m2) \<Rightarrow>
          if debug \<and> length (span_stack m2) \<noteq> len_before
          then (panic ''assertion `left == right` failed'', m2)
          else if span_stack m2 = [] then (panic ''called `Option::unwrap()` on a `None` value'', m2)
          else (Value r, m2\<lparr>span_stack := butlast (span_stack m2)\<rparr>))"

definition handle_error ::
  "string \<Rightarrow> ('sp option \<Rightarrow> 'err list option) \<Rightarrow> ('sp, 'err, 'd, 'c) span_manager
   \<Rightarrow> unit exec \<times> ('sp, 'err, 'd, 'c) span_manager" where
  "handle_error kind h m =
     (case top_span m of
        None \<Rightarrow> (panic ''called `Option::unwrap()` on a `None` value'', m)
      | Some s \<Rightarrow>
          (Value (), m\<lparr>span_handlers :=
             AList.update (span_id s) (SpanHandler kind h (map_of (span_handlers m) (span_id s)))
               (span_handlers m)\<rparr>))"

definition emit_early_error :: "'err \<Rightarrow> ('sp, 'err, 'd, 'c) span_manager \<Rightarrow> ('sp, 'err, 'd, 'c) span_manager" where
  "emit_early_error e m = m\<lparr>early_error_list := early_error_list m @ [e]\<rparr>"

definition early_errors :: "('sp, 'err, 'd, 'c) span_manager \<Rightarrow> 'err list" where
  "early_errors m = early_error_list m"

section \<open>Backtranslation\<close>

text \<open>The handlers of one span, the newest first.\<close>

fun run_handlers :: "string \<Rightarrow> 'sp option \<Rightarrow> ('sp, 'err) span_handler \<Rightarrow> 'err list option" where
  "run_handlers kind reason (SpanHandler k h n) =
     (case (if k = kind then h reason else None) of
        Some errors \<Rightarrow> Some errors
      | None \<Rightarrow> (case n of None \<Rightarrow> None | Some h' \<Rightarrow> run_handlers kind reason h'))"

fun search_spans ::
  "(nat, ('sp, 'err) span_handler) index_map \<Rightarrow> string \<Rightarrow> 'sp option \<Rightarrow> 'sp vir_span \<Rightarrow> 'err list option" where
  "search_spans hs kind reason (VirSpan i sp p) =
     (case (case map_of hs i of None \<Rightarrow> None | Some h \<Rightarrow> run_handlers kind reason h) of
        Some errors \<Rightarrow> Some errors
      | None \<Rightarrow> (case p of None \<Rightarrow> None | Some s \<Rightarrow> search_spans hs kind reason s))"

definition get_span_from_id :: "('sp, 'err, 'd, 'c) span_manager \<Rightarrow> nat \<Rightarrow> 'sp option" where
  "get_span_from_id m i = map_option span_of (nth_option (all_spans m) i)"

definition no_handler_message :: "string \<Rightarrow> string" where
  "no_handler_message kind =
     ''A verification error occurred, but it could not be backtranslated: no handler found for error kind: ''
     @ kind @ ''.''"

text \<open>
  \<open>internal\<close> and \<open>dummy\<close> stand for the construction of an internal error and for \<^verbatim>\<open>DUMMY_SP\<close>.
\<close>

definition backtranslate ::
  "(string \<Rightarrow> 'sp \<Rightarrow> 'err) \<Rightarrow> 'sp \<Rightarrow> ('sp, 'err, 'd, 'c) span_manager \<Rightarrow> string \<Rightarrow> nat \<Rightarrow> nat option
   \<Rightarrow> 'err list" where
  "backtranslate internal dummy m kind offending reason =
     (let reason_span = Option.bind reason (get_span_from_id m) in
      case Option.bind (nth_option (all_spans m) offending) (search_spans (span_handlers m) kind reason_span) of
        Some errors \<Rightarrow> errors
      | None \<Rightarrow>
          [internal (no_handler_message kind) (case get_span_from_id m offending of Some sp \<Rightarrow> sp | None \<Rightarrow> dummy)])"

section \<open>Names and blocks\<close>

definition insert_block_span ::
  "'d \<times> string \<Rightarrow> 'sp \<Rightarrow> ('sp, 'err, 'd, 'c) span_manager \<Rightarrow> ('sp, 'err, 'd, 'c) span_manager" where
  "insert_block_span key sp m = m\<lparr>block_spans := AList.update key sp (block_spans m)\<rparr>"

definition get_block_span :: "('sp, 'err, 'd, 'c) span_manager \<Rightarrow> 'd \<times> string \<Rightarrow> 'sp option" where
  "get_block_span m key = map_of (block_spans m) key"

definition insert_viper_identifier ::
  "string \<Rightarrow> 'd \<Rightarrow> ('sp, 'err, 'd, 'c) span_manager \<Rightarrow> ('sp, 'err, 'd, 'c) span_manager" where
  "insert_viper_identifier ident d m = m\<lparr>viper_identifiers := AList.update ident d (viper_identifiers m)\<rparr>"

definition get_viper_identifier :: "('sp, 'err, 'd, 'c) span_manager \<Rightarrow> string \<Rightarrow> 'd option" where
  "get_viper_identifier m ident = map_of (viper_identifiers m) ident"

definition get_viper_identifiers :: "('sp, 'err, 'd, 'c) span_manager \<Rightarrow> string set" where
  "get_viper_identifiers m = set (map fst (viper_identifiers m))"

text \<open>The names that the compiler gives to crates and paths are parameters.\<close>

definition get_unique_item_name :: "('d \<Rightarrow> string) \<Rightarrow> ('d \<Rightarrow> string) \<Rightarrow> 'd \<Rightarrow> string" where
  "get_unique_item_name crate_name def_path_str d = crate_name d @ ''::'' @ def_path_str d"

definition viper_to_rust_identifier ::
  "('d \<Rightarrow> string) \<Rightarrow> ('d \<Rightarrow> string) \<Rightarrow> ('sp, 'err, 'd, 'c) span_manager \<Rightarrow> string \<Rightarrow> string option" where
  "viper_to_rust_identifier crate_name def_path_str m ident =
     map_option (get_unique_item_name crate_name def_path_str) (get_viper_identifier m ident)"

definition push_call_contract_span ::
  "(string \<Rightarrow> 'sp \<Rightarrow> 'sp list \<Rightarrow> 'c) \<Rightarrow> string \<Rightarrow> 'sp \<Rightarrow> 'sp list \<Rightarrow> ('sp, 'err, 'd, 'c) span_manager
   \<Rightarrow> ('sp, 'err, 'd, 'c) span_manager" where
  "push_call_contract_span mk defpath call_span contracts_spans m =
     m\<lparr>call_contract_spans := call_contract_spans m @ [mk defpath call_span contracts_spans]\<rparr>"

text \<open>The message for the editor lists the contracts of calls by the paths of the called functions.\<close>

definition contract_span_message ::
  "('c \<Rightarrow> string) \<Rightarrow> ('c list \<Rightarrow> string) \<Rightarrow> ('sp, 'err, 'd, 'c) span_manager \<Rightarrow> string" where
  "contract_span_message defpath to_json m =
     ''encodingInfo'' @ to_json (sort_key defpath (call_contract_spans m))"

section \<open>Programs over the span manager\<close>

text \<open>
  What the code that is run within spans can do with the manager, as a term, so that statements can
  be made about all of it: open a span around a piece of code, register a handler, report an early
  error, panic, or catch the panics of a piece of code, as the task encoder does.
\<close>

datatype ('sp, 'err) span_prog =
    With_span 'sp "('sp, 'err) span_prog list"
  | Handle_error string "'sp option \<Rightarrow> 'err list option"
  | Early_error 'err
  | Body_panic
  | Catch "('sp, 'err) span_prog list"

definition catching :: "('m \<Rightarrow> unit exec \<times> 'm) \<Rightarrow> 'm \<Rightarrow> unit exec \<times> 'm" where
  "catching f m = (Value (), snd (f m))"

primrec run_span_prog ::
  "bool \<Rightarrow> ('sp, 'err) span_prog \<Rightarrow> ('sp, 'err, 'd, 'c) span_manager
   \<Rightarrow> unit exec \<times> ('sp, 'err, 'd, 'c) span_manager" where
  "run_span_prog debug (With_span sp ps) =
     with_span debug sp (foldr and_then (map (run_span_prog debug) ps) (Pair (Value ())))"
| "run_span_prog debug (Handle_error kind h) = handle_error kind h"
| "run_span_prog debug (Early_error e) = (\<lambda>m. (Value (), emit_early_error e m))"
| "run_span_prog debug Body_panic = Pair (panic ''explicit panic'')"
| "run_span_prog debug (Catch ps) = catching (foldr and_then (map (run_span_prog debug) ps) (Pair (Value ())))"

definition run_span_progs ::
  "bool \<Rightarrow> ('sp, 'err) span_prog list \<Rightarrow> ('sp, 'err, 'd, 'c) span_manager
   \<Rightarrow> unit exec \<times> ('sp, 'err, 'd, 'c) span_manager" where
  "run_span_progs debug ps = foldr and_then (map (run_span_prog debug) ps) (Pair (Value ()))"

end
