(* ===== verification/Vir_Spans_Laws.thy ===== *)
theory Vir_Spans_Laws
  imports Vir_Spans
begin

text \<open>
  Laws of the span manager. The locale \<open>span_evolution\<close> is the contract between the operations of
  the manager and the code that runs within spans: a relation that the operations keep is kept by
  every program. It is interpreted for three relations: the spans only grow, the manager stays well
  formed, and the spans that were open stay open.
\<close>

section \<open>Well-formed managers\<close>

text \<open>A stack in which every span is the parent of the next one.\<close>

definition is_chain :: "'sp vir_span list \<Rightarrow> bool" where
  "is_chain st = (\<forall>i < length st. span_parent (st ! i) = (if i = 0 then None else Some (st ! (i - 1))))"

text \<open>The id of a span is its index, and its parent has been allocated before.\<close>

definition span_placed :: "'sp vir_span list \<Rightarrow> nat \<Rightarrow> bool" where
  "span_placed all i =
     (span_id (all ! i) = i \<and>
      (case span_parent (all ! i) of None \<Rightarrow> True | Some p \<Rightarrow> span_id p < i \<and> all ! span_id p = p))"

definition spans_ok :: "('sp, 'err, 'd, 'c) span_manager \<Rightarrow> bool" where
  "spans_ok m =
     ((\<forall>i < length (all_spans m). span_placed (all_spans m) i) \<and>
      set (span_stack m) \<subseteq> set (all_spans m) \<and> is_chain (span_stack m) \<and>
      (\<forall>i \<in> set (map fst (span_handlers m)). i < length (all_spans m)))"

lemma is_chain_snoc: "is_chain (st @ [s]) \<longleftrightarrow> is_chain st \<and> span_parent s = last_option st"
proof -
  have "last_option st = (if length st = 0 then None else Some (st ! (length st - 1)))"
    by (simp add: last_option_def last_conv_nth)
  then show ?thesis
    by (auto simp: is_chain_def nth_append less_Suc_eq all_conj_distrib)
qed

lemma is_chain_butlast: "is_chain st \<Longrightarrow> is_chain (butlast st)"
  by (cases st rule: rev_cases) (simp_all add: is_chain_snoc)

lemma span_placed_append: "i < length all \<Longrightarrow> span_placed all i \<Longrightarrow> span_placed (all @ [s]) i"
  by (auto simp: span_placed_def nth_append split: option.splits)

lemma placed_member:
  assumes "\<forall>i < length all. span_placed all i" and "s \<in> set all"
  shows "span_id s < length all" and "all ! span_id s = s"
  using assms by (auto simp: span_placed_def in_set_conv_nth)

lemma open_span_ok: "spans_ok m \<Longrightarrow> spans_ok (open_span sp m)"
proof -
  assume ok: "spans_ok m"
  let ?s = "VirSpan (length (all_spans m)) sp (top_span m)"
  have "span_placed (all_spans m @ [?s]) (length (all_spans m))"
  proof (cases "span_stack m = []")
    case True
    then show ?thesis by (simp add: span_placed_def top_span_def last_option_def)
  next
    case False
    then have "last (span_stack m) \<in> set (all_spans m)" using ok by (auto simp: spans_ok_def)
    from placed_member [OF _ this] ok False show ?thesis
      by (simp add: span_placed_def top_span_def last_option_def spans_ok_def nth_append)
  qed
  then have "\<forall>i < length (all_spans m @ [?s]). span_placed (all_spans m @ [?s]) i"
    using ok by (auto simp: spans_ok_def less_Suc_eq span_placed_append)
  moreover have "is_chain (span_stack m @ [?s])"
    using ok by (simp add: is_chain_snoc spans_ok_def top_span_def)
  ultimately show ?thesis using ok by (auto simp: open_span_def spans_ok_def Let_def)
qed

lemma close_span_ok: "spans_ok m \<Longrightarrow> spans_ok (m\<lparr>span_stack := butlast (span_stack m)\<rparr>)"
  by (auto simp: spans_ok_def is_chain_butlast dest: in_set_butlastD)

lemma handle_error_ok:
  assumes "spans_ok m"
  shows "spans_ok (snd (handle_error kind h m))"
proof (cases "span_stack m = []")
  case True
  then show ?thesis using assms by (simp add: handle_error_def top_span_def last_option_def)
next
  case False
  then have "last (span_stack m) \<in> set (all_spans m)" using assms by (auto simp: spans_ok_def)
  from placed_member(1) [OF _ this] assms False show ?thesis
    by (auto simp: handle_error_def top_span_def last_option_def spans_ok_def dom_update)
qed

lemma emit_early_error_ok: "spans_ok (emit_early_error e m) = spans_ok m"
  by (simp add: emit_early_error_def spans_ok_def)

section \<open>The contract of the operations\<close>

locale span_evolution =
  fixes R :: "('sp, 'err, 'd, 'c) span_manager \<Rightarrow> ('sp, 'err, 'd, 'c) span_manager \<Rightarrow> bool"
  assumes R_refl: "R m m"
    and R_trans: "R m1 m2 \<Longrightarrow> R m2 m3 \<Longrightarrow> R m1 m3"
    and R_with_span: "(\<And>m. R m (snd (f m))) \<Longrightarrow> R m (snd (with_span debug sp (f :: _ \<Rightarrow> unit exec \<times> _) m))"
    and R_handle_error: "R m (snd (handle_error kind h m))"
    and R_early_error: "R m (emit_early_error e m)"
begin

lemma R_and_then:
  assumes "\<And>m. R m (snd (f m))" and "\<And>m. R m (snd (g m))"
  shows "R m (snd (and_then f g m))"
proof -
  obtain r m' where f: "f m = (r, m')" by fastforce
  have "R m m'" using assms(1) [of m] f by simp
  then show ?thesis using assms(2) [of m'] f R_trans [of m m'] by (cases r) (simp_all add: and_then_def)
qed

lemma R_sequence:
  "(\<And>f m. f \<in> set fs \<Longrightarrow> R m (snd (f m))) \<Longrightarrow> R m (snd (foldr and_then fs (Pair (Value ())) m))"
proof (induction fs arbitrary: m)
  case Nil
  then show ?case by (simp add: R_refl)
next
  case (Cons f fs)
  show ?case unfolding foldr.simps comp_apply by (rule R_and_then) (use Cons in auto)
qed

lemma R_run: "R m (snd (run_span_prog debug p m))"
proof (induction p arbitrary: m)
  case (With_span sp ps)
  then show ?case unfolding run_span_prog.simps by (intro R_with_span R_sequence) auto
next
  case (Handle_error kind h)
  then show ?case by (simp add: R_handle_error)
next
  case (Early_error e)
  then show ?case by (simp add: R_early_error)
next
  case Body_panic
  then show ?case by (simp add: R_refl)
next
  case (Catch ps)
  have "R m (snd (foldr and_then (map (run_span_prog debug) ps) (Pair (Value ())) m))"
    using Catch by (intro R_sequence) auto
  then show ?case by (simp add: catching_def)
qed

lemma R_runs: "R m (snd (run_span_progs debug ps m))"
  unfolding run_span_progs_def by (rule R_sequence) (auto simp: R_run)

end

lemma with_span_cases:
  obtains p m2 where "f (open_span sp m) = (Panicked p, m2)" "with_span debug sp f m = (Panicked p, m2)"
  | r m2 q where "f (open_span sp m) = (Value r, m2)" "with_span debug sp f m = (Panicked q, m2)"
  | r m2 where "f (open_span sp m) = (Value r, m2)" "span_stack m2 \<noteq> []"
      "debug \<Longrightarrow> length (span_stack m2) = length (span_stack m) + 1"
      "with_span debug sp f m = (Value r, m2\<lparr>span_stack := butlast (span_stack m2)\<rparr>)"
proof -
  obtain r m2 where f: "f (open_span sp m) = (r, m2)" by fastforce
  have "length (span_stack (open_span sp m)) = length (span_stack m) + 1" by (simp add: open_span_def Let_def)
  then have w: "with_span debug sp f m =
      (case r of Panicked p \<Rightarrow> (Panicked p, m2)
       | Value v \<Rightarrow>
          if debug \<and> length (span_stack m2) \<noteq> length (span_stack m) + 1
          then (panic ''assertion `left == right` failed'', m2)
          else if span_stack m2 = [] then (panic ''called `Option::unwrap()` on a `None` value'', m2)
          else (Value v, m2\<lparr>span_stack := butlast (span_stack m2)\<rparr>))"
    using f by (simp add: with_span_def Let_def split: exec.split)
  show ?thesis
  proof (cases r)
    case (Panicked p)
    then show ?thesis using that(1) f w by simp
  next
    case (Value v)
    then consider "debug \<and> length (span_stack m2) \<noteq> length (span_stack m) + 1 \<or> span_stack m2 = []"
      | "\<not> (debug \<and> length (span_stack m2) \<noteq> length (span_stack m) + 1)" "span_stack m2 \<noteq> []" by blast
    then show ?thesis
    proof cases
      case 1
      then show ?thesis using that(2) f w Value by (auto split: if_splits)
    next
      case 2
      then show ?thesis using that(3) f w Value by auto
    qed
  qed
qed

definition spans_grow :: "('sp, 'err, 'd, 'c) span_manager \<Rightarrow> ('sp, 'err, 'd, 'c) span_manager \<Rightarrow> bool" where
  "spans_grow m m' = prefix (all_spans m) (all_spans m')"

definition keeps_ok :: "('sp, 'err, 'd, 'c) span_manager \<Rightarrow> ('sp, 'err, 'd, 'c) span_manager \<Rightarrow> bool" where
  "keeps_ok m m' = (spans_ok m \<longrightarrow> spans_ok m')"

definition keeps_open :: "('sp, 'err, 'd, 'c) span_manager \<Rightarrow> ('sp, 'err, 'd, 'c) span_manager \<Rightarrow> bool" where
  "keeps_open m m' = prefix (span_stack m) (span_stack m')"

lemma open_span_grows: "spans_grow m (open_span sp m)" "keeps_open m (open_span sp m)"
  by (simp_all add: spans_grow_def keeps_open_def open_span_def Let_def)

lemma spans_grow_with_span:
  assumes f: "\<And>m. spans_grow m (snd (f m))"
  shows "spans_grow m (snd (with_span debug sp f m))"
proof -
  have "spans_grow m (snd (f (open_span sp m)))"
    using open_span_grows(1) [of m sp] f [of "open_span sp m"] unfolding spans_grow_def by (rule prefix_order.trans)
  then show ?thesis
    by (cases rule: with_span_cases [of f sp m debug]) (simp_all add: spans_grow_def)
qed

lemma keeps_ok_with_span:
  assumes f: "\<And>m. keeps_ok m (snd (f m))"
  shows "keeps_ok m (snd (with_span debug sp f m))"
proof -
  have "keeps_ok m (snd (f (open_span sp m)))"
    using f [of "open_span sp m"] by (simp add: keeps_ok_def open_span_ok)
  then show ?thesis
    by (cases rule: with_span_cases [of f sp m debug]) (simp_all add: keeps_ok_def close_span_ok)
qed

lemma keeps_open_with_span:
  assumes f: "\<And>m. keeps_open m (snd (f m))"
  shows "keeps_open m (snd (with_span debug sp f m))"
proof -
  let ?s = "VirSpan (length (all_spans m)) sp (top_span m)" and ?st = "span_stack (snd (f (open_span sp m)))"
  have "prefix (span_stack m @ [?s]) ?st"
    using f [of "open_span sp m"] by (simp add: keeps_open_def open_span_def Let_def)
  then obtain zs where "?st = span_stack m @ ?s # zs" by (auto simp: prefix_def)
  then have "prefix (span_stack m) ?st" and "prefix (span_stack m) (butlast ?st)"
    by (simp_all add: butlast_append)
  then show ?thesis
    by (cases rule: with_span_cases [of f sp m debug]) (simp_all add: keeps_open_def)
qed

interpretation growing: span_evolution spans_grow
  by unfold_locales
     (auto simp: spans_grow_with_span, auto simp: spans_grow_def handle_error_def emit_early_error_def split: option.splits)

interpretation keeping_ok: span_evolution keeps_ok
  by unfold_locales
     (auto simp: keeps_ok_with_span, auto simp: keeps_ok_def handle_error_ok emit_early_error_ok)

interpretation keeping_open: span_evolution keeps_open
  by unfold_locales
     (auto simp: keeps_open_with_span, auto simp: keeps_open_def handle_error_def emit_early_error_def split: option.splits)

end
