(* ===== verification/Vir_Spans_Props.thy ===== *)
theory Vir_Spans_Props
  imports Vir_Spans_Laws
begin

text \<open>The properties of the span manager and of backtranslation.\<close>

section \<open>Ancestors and handlers\<close>

text \<open>A span and its ancestors, the closest first, and the handlers of a span, the newest first.\<close>

fun ancestors :: "'sp vir_span \<Rightarrow> 'sp vir_span list" where
  "ancestors (VirSpan i sp p) = VirSpan i sp p # (case p of None \<Rightarrow> [] | Some s \<Rightarrow> ancestors s)"

fun handler_list :: "('sp, 'err) span_handler \<Rightarrow> (string \<times> ('sp option \<Rightarrow> 'err list option)) list" where
  "handler_list (SpanHandler k h n) = (k, h) # (case n of None \<Rightarrow> [] | Some h' \<Rightarrow> handler_list h')"

definition handlers_of ::
  "('sp, 'err, 'd, 'c) span_manager \<Rightarrow> 'sp vir_span \<Rightarrow> (string \<times> ('sp option \<Rightarrow> 'err list option)) list" where
  "handlers_of m s = (case map_of (span_handlers m) (span_id s) of None \<Rightarrow> [] | Some h \<Rightarrow> handler_list h)"

text \<open>The answer of the first handler of the right kind that gives one.\<close>

fun first_answer ::
  "string \<Rightarrow> 'sp option \<Rightarrow> (string \<times> ('sp option \<Rightarrow> 'err list option)) list \<Rightarrow> 'err list option" where
  "first_answer kind reason [] = None"
| "first_answer kind reason ((k, h) # hs) =
     (case (if k = kind then h reason else None) of
        Some errors \<Rightarrow> Some errors
      | None \<Rightarrow> first_answer kind reason hs)"

lemma first_answer_append:
  "first_answer kind reason (hs @ hs') =
     (case first_answer kind reason hs of Some es \<Rightarrow> Some es | None \<Rightarrow> first_answer kind reason hs')"
  by (induction hs) (auto split: option.splits if_splits)

lemma run_handlers_list: "run_handlers kind reason h = first_answer kind reason (handler_list h)"
  by (induction kind reason h rule: run_handlers.induct) (auto split: option.splits)

lemma search_spans_ancestors:
  "search_spans (span_handlers m) kind reason s =
     first_answer kind reason (concat (map (handlers_of m) (ancestors s)))"
proof (induction s)
  case (VirSpan i sp p)
  then show ?case
    by (cases p; cases "map_of (span_handlers m) i")
       (auto simp: handlers_of_def run_handlers_list first_answer_append split: option.splits)
qed

lemma handle_error_handlers:
  assumes "top_span m = Some s" and "handle_error kind h m = (r, m')"
  shows "handlers_of m' s = (kind, h) # handlers_of m s" and "all_spans m' = all_spans m"
    and "span_id s' \<noteq> span_id s \<Longrightarrow> handlers_of m' s' = handlers_of m s'"
  using assms by (auto simp: handle_error_def handlers_of_def update_conv' split: option.splits)

section \<open>Properties\<close>

text \<open>C8: Backtranslation asks the handlers of the offending span and then those of its ancestors,
  the closest ancestor first and the newest handler of a span first. The errors are those of the
  first handler for this kind of error that does not decline. If there is none, or if the position is
  unknown, the result is a single internal error, at the offending span if there is one.\<close>

theorem backtranslate_closest:
  "backtranslate internal dummy m kind i reason =
     (case nth_option (all_spans m) i of
        None \<Rightarrow> [internal (no_handler_message kind) dummy]
      | Some s \<Rightarrow>
          (case first_answer kind (Option.bind reason (get_span_from_id m)) (concat (map (handlers_of m) (ancestors s))) of
             Some errors \<Rightarrow> errors
           | None \<Rightarrow> [internal (no_handler_message kind) (span_of s)]))"
  by (cases "nth_option (all_spans m) i")
     (simp_all add: backtranslate_def Let_def search_spans_ancestors get_span_from_id_def split: option.split)

text \<open>C27: Whatever runs within spans, and however it ends, the manager stays well formed: the id of
  every span is its index in the vector of all spans, so that it can be used as the position of a
  Viper node, and a parent is always an earlier span, so that the search through ancestors ends. An id
  that has been given out denotes the same span from then on, and spans that are open stay open.\<close>

theorem span_ids_stable:
  assumes "spans_ok m" and "run_span_progs debug ps m = (r, m')"
  shows "spans_ok m' \<and> (\<forall>i < length (all_spans m). get_span_from_id m' i = get_span_from_id m i) \<and>
    prefix (span_stack m) (span_stack m')"
proof -
  have "spans_ok m'" using keeping_ok.R_runs [of m debug ps] assms by (simp add: keeps_ok_def)
  moreover have "prefix (span_stack m) (span_stack m')"
    using keeping_open.R_runs [of m debug ps] assms by (simp add: keeps_open_def)
  moreover have "prefix (all_spans m) (all_spans m')"
    using growing.R_runs [of m debug ps] assms by (simp add: spans_grow_def)
  then have "\<forall>i < length (all_spans m). get_span_from_id m' i = get_span_from_id m i"
    by (auto simp: prefix_def get_span_from_id_def nth_option_def nth_append)
  ultimately show ?thesis by blast
qed

theorem span_ids_stable_witness:
  "\<exists>r m'. run_span_progs True [With_span 1 [Body_panic]] (span_manager_default :: (nat, nat, nat, nat) span_manager) = (r, m') \<and>
     spans_ok m' \<and> length (span_stack m') = 1"
proof -
  let ?m = "span_manager_default :: (nat, nat, nat, nat) span_manager"
  have ok: "spans_ok ?m" by (simp add: spans_ok_def span_manager_default_def is_chain_def)
  have "run_span_progs True [With_span 1 [Body_panic]] ?m = (panic ''explicit panic'', open_span 1 ?m)"
    by (simp add: run_span_progs_def and_then_def with_span_def Let_def)
  moreover from span_ids_stable [OF ok this] have "spans_ok (open_span 1 ?m)" by blast
  ultimately show ?thesis by (simp add: open_span_def span_manager_default_def Let_def)
qed

text \<open>In a build with debug assertions, code that runs within a span and returns leaves the stack
  of open spans as it was.\<close>

theorem with_span_balanced:
  assumes "run_span_prog True (With_span sp ps) m = (Value (), m')"
  shows "span_stack m' = span_stack m"
proof -
  let ?f = "foldr and_then (map (run_span_prog True) ps) (Pair (Value ()))"
  have "keeps_open m1 (snd (?f m1))" for m1
    using keeping_open.R_runs [of m1 True ps] by (simp add: run_span_progs_def)
  then have keeps: "prefix (span_stack (open_span sp m)) (span_stack (snd (?f (open_span sp m))))"
    by (simp add: keeps_open_def)
  show ?thesis
  proof (cases rule: with_span_cases [of ?f sp m True])
    case (3 r m2)
    let ?s = "VirSpan (length (all_spans m)) sp (top_span m)"
    have "prefix (span_stack m @ [?s]) (span_stack m2)" using keeps 3(1) by (simp add: open_span_def Let_def)
    moreover have "length (span_stack m2) = length (span_stack m @ [?s])" using 3(3) by simp
    ultimately have "span_stack m2 = span_stack m @ [?s]" by (auto simp: prefix_def)
    then show ?thesis using assms 3(4) by auto
  qed (use assms in auto)
qed

theorem with_span_balanced_witness:
  "\<exists>m'. run_span_prog True (With_span 1 [With_span 2 [Handle_error ''k'' (\<lambda>_. None)]])
      (span_manager_default :: (nat, nat, nat, nat) span_manager) = (Value (), m') \<and>
     span_stack m' = [] \<and> length (all_spans m') = 2"
proof -
  let ?m = "span_manager_default :: (nat, nat, nat, nat) span_manager"
  obtain m' where m': "run_span_prog True (With_span 1 [With_span 2 [Handle_error ''k'' (\<lambda>_. None)]]) ?m = (Value (), m')"
    "length (all_spans m') = 2"
    by (simp add: and_then_def with_span_def open_span_def handle_error_def top_span_def last_option_def
        span_manager_default_def Let_def)
  then show ?thesis using with_span_balanced [OF m'(1)] by (simp add: span_manager_default_def)
qed


text \<open>A handler that is registered for the span on top of the stack answers the errors of its kind
  at that position, unless it declines, and the spans of other positions are not affected.\<close>

theorem handle_error_backtranslate:
  assumes "spans_ok m" and "top_span m = Some s" and "handle_error kind h m = (Value (), m')"
    and "h (Option.bind reason (get_span_from_id m)) = Some errors"
  shows "backtranslate internal dummy m' kind (span_id s) reason = errors \<and>
    (\<forall>s'. span_id s' \<noteq> span_id s \<longrightarrow> handlers_of m' s' = handlers_of m s')"
proof -
  note h = handle_error_handlers [OF assms(2,3)]
  have "s \<in> set (all_spans m)"
    using assms(1,2) by (auto simp: spans_ok_def top_span_def last_option_def split: if_splits)
  then have "nth_option (all_spans m) (span_id s) = Some s"
    using placed_member [of "all_spans m" s] assms(1) by (simp add: nth_option_def spans_ok_def)
  moreover have "get_span_from_id m' = get_span_from_id m" using h(2) by (simp add: get_span_from_id_def fun_eq_iff)
  ultimately have "search_spans (span_handlers m') kind (Option.bind reason (get_span_from_id m')) s = Some errors"
    unfolding search_spans_ancestors using assms(4) h(1) by (cases s) simp
  then show ?thesis using h \<open>nth_option _ _ = _\<close> by (simp add: backtranslate_def Let_def)
qed

theorem handle_error_backtranslate_witness:
  "\<exists>m' :: (nat, string, nat, nat) span_manager.
     handle_error ''assert.failed'' (\<lambda>_. Some [''caught'']) (open_span 7 span_manager_default) = (Value (), m') \<and>
     backtranslate (\<lambda>msg _. msg) 0 m' ''assert.failed'' 0 None = [''caught'']"
proof -
  let ?m = "open_span 7 (span_manager_default :: (nat, string, nat, nat) span_manager)"
  have ok: "spans_ok ?m"
    by (rule open_span_ok) (simp add: spans_ok_def span_manager_default_def is_chain_def)
  have top: "top_span ?m = Some (VirSpan 0 7 None)"
    by (simp add: open_span_def span_manager_default_def top_span_def last_option_def Let_def)
  obtain m' where m': "handle_error ''assert.failed'' (\<lambda>_. Some [''caught'']) ?m = (Value (), m')"
    by (simp add: handle_error_def top)
  have "backtranslate (\<lambda>msg _. msg) 0 m' ''assert.failed'' (span_id (VirSpan 0 (7 :: nat) None)) None = [''caught'']"
    using handle_error_backtranslate [OF ok top m', where reason = None and internal = "\<lambda>msg _. msg" and dummy = 0] by simp
  then show ?thesis using m' by auto
qed

end
