(* ===== verification/Prusti_Error.thy ===== *)
theory Prusti_Error
  imports Prusti_Prelude "HOL-Library.Option_ord"
begin

text \<open>
  \<^verbatim>\<open>prusti-interface/src/prusti_error.rs\<close> and \<^verbatim>\<open>environment/diagnostic.rs\<close>: the messages that are
  reported to the user. \<open>'ms\<close> is the compiler's \<^verbatim>\<open>MultiSpan\<close>; its primary span is a parameter of
  the operations that use it. Messages are sequences of UTF-8 bytes. The diagnostics given to the
  compiler are recorded in the order in which they are emitted.
\<close>

section \<open>Errors\<close>

datatype diagnostic_kind = Kind_Error | Kind_Warning | Kind_WarningOnError | Kind_Message

record 'ms prusti_error =
  pe_kind :: diagnostic_kind
  is_disabled :: bool
  pe_message :: string
  pe_span :: 'ms
  pe_help :: "string option"
  pe_notes :: "(string \<times> 'ms option) list"

definition prusti_error_new :: "string \<Rightarrow> 'ms \<Rightarrow> 'ms prusti_error" where
  "prusti_error_new message sp =
     \<lparr>pe_kind = Kind_Error, is_disabled = False, pe_message = message, pe_span = sp,
      pe_help = None, pe_notes = []\<rparr>"

text \<open>
  The order of errors is that of their primary spans; \<open>primary\<close> is \<^verbatim>\<open>MultiSpan::primary_span\<close>. An
  error without one comes first.
\<close>

definition error_key :: "('ms \<Rightarrow> ('k :: linorder) option) \<Rightarrow> 'ms prusti_error \<Rightarrow> 'k option" where
  "error_key primary e = primary (pe_span e)"

text \<open>
  \<open>debug\<close> tells whether \<^verbatim>\<open>debug_assert!\<close> is checked. Slicing off the first byte fails for an empty
  message and in the middle of a character of several bytes. The panic message leaves out the text.
\<close>

definition check_message :: "bool \<Rightarrow> string \<Rightarrow> unit exec" where
  "check_message debug message =
     (if debug \<and> length message < 3 then panic ''Message is too short''
      else case message of
        [] \<Rightarrow> panic ''called `Option::unwrap()` on a `None` value''
      | c # _ \<Rightarrow>
          if (of_char c :: nat) < 128 then Value ()
          else panic ''called `Option::unwrap()` on a `None` value'')"

definition checked :: "bool \<Rightarrow> string \<Rightarrow> 'a \<Rightarrow> 'a exec" where
  "checked debug message v =
     (case check_message debug message of Value _ \<Rightarrow> Value v | Panicked p \<Rightarrow> Panicked p)"

definition set_warning :: "'ms prusti_error \<Rightarrow> 'ms prusti_error" where
  "set_warning e = e\<lparr>pe_kind := Kind_Warning\<rparr>"

definition add_note :: "('sp \<Rightarrow> 'ms) \<Rightarrow> string \<Rightarrow> 'sp option \<Rightarrow> 'ms prusti_error \<Rightarrow> 'ms prusti_error" where
  "add_note multi message opt_span e = e\<lparr>pe_notes := pe_notes e @ [(message, map_option multi opt_span)]\<rparr>"

definition add_note_mut :: "string \<Rightarrow> 'ms option \<Rightarrow> 'ms prusti_error \<Rightarrow> 'ms prusti_error" where
  "add_note_mut message opt_span e = e\<lparr>pe_notes := pe_notes e @ [(message, opt_span)]\<rparr>"

definition set_help :: "string \<Rightarrow> 'ms prusti_error \<Rightarrow> 'ms prusti_error" where
  "set_help message e = e\<lparr>pe_help := Some message\<rparr>"

definition pe_verification :: "bool \<Rightarrow> string \<Rightarrow> 'ms \<Rightarrow> 'ms prusti_error exec" where
  "pe_verification debug message sp =
     checked debug message (prusti_error_new (''[Prusti: verification error] '' @ message) sp)"

definition disabled_verification :: "bool \<Rightarrow> string \<Rightarrow> 'ms \<Rightarrow> 'ms prusti_error exec" where
  "disabled_verification debug message sp =
     checked debug message
       ((prusti_error_new (''[Prusti: verification error] '' @ message) sp)\<lparr>is_disabled := True\<rparr>)"

definition unsupported_error :: "bool \<Rightarrow> bool \<Rightarrow> string \<Rightarrow> 'ms \<Rightarrow> 'ms prusti_error exec" where
  "unsupported_error skip_unsupported_features debug message sp =
     checked debug message
       (let e = prusti_error_new (''[Prusti: unsupported feature] '' @ message) sp
        in if skip_unsupported_features then set_warning e else e)"

definition incorrect_error :: "bool \<Rightarrow> string \<Rightarrow> 'ms \<Rightarrow> 'ms prusti_error exec" where
  "incorrect_error debug message sp =
     checked debug message (prusti_error_new (''[Prusti: invalid specification] '' @ message) sp)"

definition warning_error :: "bool \<Rightarrow> string \<Rightarrow> 'ms \<Rightarrow> 'ms prusti_error exec" where
  "warning_error debug message sp =
     checked debug message
       ((prusti_error_new (''[Prusti: warning] '' @ message) sp)\<lparr>pe_kind := Kind_Warning\<rparr>)"

definition warning_on_error :: "bool \<Rightarrow> string \<Rightarrow> 'ms \<Rightarrow> 'ms prusti_error exec" where
  "warning_on_error debug message sp =
     checked debug message
       ((prusti_error_new (''[Prusti: warning] '' @ message) sp)\<lparr>pe_kind := Kind_WarningOnError\<rparr>)"

text \<open>The value that \<^verbatim>\<open>PrustiError::internal\<close> builds for a message that passes the check.\<close>

definition internal_value :: "bool \<Rightarrow> string \<Rightarrow> 'ms \<Rightarrow> 'ms prusti_error" where
  "internal_value internal_errors_as_warnings message sp =
     (let e = add_note_mut message None
                (add_note_mut
                  ''We would appreciate a bug report: https://github.com/viperproject/prusti-dev/issues/new'' None
                  (prusti_error_new
                    ''[Prusti internal error] Prusti encountered an unexpected internal error'' sp))
      in if internal_errors_as_warnings then set_warning e else e)"

definition internal_error :: "bool \<Rightarrow> bool \<Rightarrow> string \<Rightarrow> 'ms \<Rightarrow> 'ms prusti_error exec" where
  "internal_error internal_errors_as_warnings debug message sp =
     checked debug message (internal_value internal_errors_as_warnings message sp)"

definition message_value :: "string \<Rightarrow> 'ms \<Rightarrow> 'ms prusti_error" where
  "message_value message sp = (prusti_error_new message sp)\<lparr>pe_kind := Kind_Message\<rparr>"

definition message_error :: "bool \<Rightarrow> string \<Rightarrow> 'ms \<Rightarrow> 'ms prusti_error exec" where
  "message_error debug message sp = checked debug message (message_value message sp)"

definition is_error :: "'ms prusti_error \<Rightarrow> bool" where
  "is_error e = (pe_kind e = Kind_Error)"

definition set_failing_assertion :: "'ms option \<Rightarrow> 'ms prusti_error \<Rightarrow> 'ms prusti_error" where
  "set_failing_assertion opt_span e =
     (case opt_span of
        None \<Rightarrow> e
      | Some sp \<Rightarrow> e\<lparr>pe_notes := pe_notes e @ [(''the failing assertion is here'', Some sp)]\<rparr>)"

definition push_primary_span :: "'ms option \<Rightarrow> 'ms prusti_error \<Rightarrow> 'ms prusti_error" where
  "push_primary_span opt_span e =
     (case opt_span of
        None \<Rightarrow> e
      | Some sp \<Rightarrow>
          e\<lparr>pe_notes := pe_notes e @ [(''the error originates here'', Some (pe_span e))], pe_span := sp\<rparr>)"

section \<open>Diagnostics\<close>

datatype diag_level = Level_Error | Level_Warning | Level_Note

record 'ms diag =
  diag_level :: diag_level
  diag_message :: string
  diag_span :: 'ms
  diag_help :: "string option"
  diag_notes :: "(string \<times> 'ms option) list"

record 'ms env_diagnostic =
  emitted :: "'ms diag list"
  warn_buffer :: "'ms diag list"

definition env_diagnostic_new :: "'ms env_diagnostic" where
  "env_diagnostic_new = \<lparr>emitted = [], warn_buffer = []\<rparr>"

definition configure_diagnostic ::
  "diag_level \<Rightarrow> 'ms \<Rightarrow> string \<Rightarrow> string option \<Rightarrow> (string \<times> 'ms option) list \<Rightarrow> 'ms diag" where
  "configure_diagnostic lvl sp msg help notes =
     \<lparr>diag_level = lvl, diag_message = msg, diag_span = sp, diag_help = help, diag_notes = notes\<rparr>"

definition span_err_with_help_and_notes ::
  "'ms \<Rightarrow> string \<Rightarrow> string option \<Rightarrow> (string \<times> 'ms option) list \<Rightarrow> 'ms env_diagnostic \<Rightarrow> 'ms env_diagnostic" where
  "span_err_with_help_and_notes sp msg help notes d =
     d\<lparr>emitted := emitted d @ warn_buffer d @ [configure_diagnostic Level_Error sp msg help notes],
       warn_buffer := []\<rparr>"

definition span_warn_with_help_and_notes ::
  "'ms \<Rightarrow> string \<Rightarrow> string option \<Rightarrow> (string \<times> 'ms option) list \<Rightarrow> 'ms env_diagnostic \<Rightarrow> 'ms env_diagnostic" where
  "span_warn_with_help_and_notes sp msg help notes d =
     d\<lparr>emitted := emitted d @ [configure_diagnostic Level_Warning sp msg help notes]\<rparr>"

definition span_warn_on_err_with_help_and_notes ::
  "'ms \<Rightarrow> string \<Rightarrow> string option \<Rightarrow> (string \<times> 'ms option) list \<Rightarrow> 'ms env_diagnostic \<Rightarrow> 'ms env_diagnostic" where
  "span_warn_on_err_with_help_and_notes sp msg help notes d =
     d\<lparr>warn_buffer := warn_buffer d @ [configure_diagnostic Level_Warning sp msg help notes]\<rparr>"

definition span_note :: "'ms \<Rightarrow> string \<Rightarrow> 'ms env_diagnostic \<Rightarrow> 'ms env_diagnostic" where
  "span_note sp msg d = d\<lparr>emitted := emitted d @ [configure_diagnostic Level_Note sp msg None []]\<rparr>"

definition has_errors :: "'ms env_diagnostic \<Rightarrow> bool" where
  "has_errors d = (\<exists>x \<in> set (emitted d). diag_level x = Level_Error)"

text \<open>The effect of emitting an error that is not disabled, and \<^verbatim>\<open>PrustiError::emit\<close> itself.\<close>

definition report_error :: "'ms prusti_error \<Rightarrow> 'ms env_diagnostic \<Rightarrow> 'ms env_diagnostic" where
  "report_error e d =
     (case pe_kind e of
        Kind_Error \<Rightarrow> span_err_with_help_and_notes (pe_span e) (pe_message e) (pe_help e) (pe_notes e) d
      | Kind_Warning \<Rightarrow> span_warn_with_help_and_notes (pe_span e) (pe_message e) (pe_help e) (pe_notes e) d
      | Kind_WarningOnError \<Rightarrow>
          span_warn_on_err_with_help_and_notes (pe_span e) (pe_message e) (pe_help e) (pe_notes e) d
      | Kind_Message \<Rightarrow> span_note (pe_span e) (pe_message e) d)"

definition emit :: "'ms prusti_error \<Rightarrow> 'ms env_diagnostic \<Rightarrow> unit exec \<times> 'ms env_diagnostic" where
  "emit e d =
     (if is_disabled e then (panic ''assertion failed: !self.is_disabled'', d)
      else (Value (), report_error e d))"

definition cancel :: "'ms prusti_error \<Rightarrow> unit exec" where
  "cancel e = (if is_disabled e then Value () else panic ''assertion failed: self.is_disabled'')"

end
