(* ===== verification/Prusti_Error_Props.thy ===== *)
theory Prusti_Error_Props
  imports Prusti_Error "HOL-Library.Multiset"
begin

text \<open>What becomes of the errors that are reported: none is lost, and warnings that depend on an error wait for one.\<close>

text \<open>The diagnostic that an error becomes.\<close>

definition diag_of :: "'ms prusti_error \<Rightarrow> 'ms diag" where
  "diag_of e =
     (case pe_kind e of
        Kind_Error \<Rightarrow> configure_diagnostic Level_Error (pe_span e) (pe_message e) (pe_help e) (pe_notes e)
      | Kind_Message \<Rightarrow> configure_diagnostic Level_Note (pe_span e) (pe_message e) None []
      | _ \<Rightarrow> configure_diagnostic Level_Warning (pe_span e) (pe_message e) (pe_help e) (pe_notes e))"


definition waits :: "'ms prusti_error \<Rightarrow> bool" where
  "waits e = (pe_kind e = Kind_WarningOnError)"


lemmas report_defs = report_error_def span_err_with_help_and_notes_def span_warn_with_help_and_notes_def
  span_warn_on_err_with_help_and_notes_def span_note_def diag_of_def

lemma report_error_step:
  "mset (emitted (report_error e d)) + mset (warn_buffer (report_error e d)) =
     mset (emitted d) + mset (warn_buffer d) + {#diag_of e#}"
  "warn_buffer (report_error e d) =
     (if is_error e then [] else warn_buffer d @ (if waits e then [diag_of e] else []))"
  by (cases "pe_kind e"; simp add: report_defs is_error_def waits_def)+


lemma fold_report_error:
  "mset (emitted (fold report_error es d)) + mset (warn_buffer (fold report_error es d)) =
     mset (emitted d) + mset (warn_buffer d) + mset (map diag_of es)"
  by (induction es arbitrary: d) (simp_all add: report_error_step(1))

lemma reported_in:
  "e \<in> set es \<Longrightarrow> diag_of e \<in> set (emitted (fold report_error es d)) \<union> set (warn_buffer (fold report_error es d))"
  using arg_cong [OF fold_report_error [of es d], of set_mset] by auto








end
