(* ===== verification/Viper_Cache.thy ===== *)
theory Viper_Cache
  imports Prusti_Prelude "HOL-Library.Word"
begin

text \<open>
  \<^verbatim>\<open>viper/src/verification_result.rs\<close> and \<^verbatim>\<open>viper/src/cache.rs\<close>: verification results and the cache
  that keeps them between runs. Counterexamples (\<open>'cx\<close>) and Java exceptions (\<open>'ex\<close>) are opaque.
  The file system is the map of its files together with the paths that can be written; the format of
  a stored cache, a type \<open>'f\<close>, and the functions of \<^verbatim>\<open>bincode\<close> that read and write it are
  parameters.
\<close>

section \<open>Verification results\<close>

record 'cx verification_error =
  full_id :: string
  pos_id :: "string option"
  offending_pos_id :: "string option"
  reason_pos_id :: "string option"
  error_message :: string
  counterexample :: "'cx option"

record consistency_error =
  consistency_message :: string
  consistency_pos_id :: "string option"

datatype ('cx, 'ex) result_kind =
    Success
  | Failure "'cx verification_error list"
  | ConsistencyErrors "consistency_error list"
  | JavaException 'ex

record ('cx, 'ex) verification_result =
  item_name :: string
  result_kind :: "('cx, 'ex) result_kind"
  cached :: bool
  time_ms :: nat

definition kind_is_success :: "('cx, 'ex) result_kind \<Rightarrow> bool" where
  "kind_is_success k = (case k of Success \<Rightarrow> True | _ \<Rightarrow> False)"

definition is_success :: "('cx, 'ex) verification_result \<Rightarrow> bool" where
  "is_success r = kind_is_success (result_kind r)"

definition dummy_success :: "('cx, 'ex) verification_result" where
  "dummy_success = \<lparr>item_name = '''', result_kind = Success, cached = False, time_ms = 0\<rparr>"

definition is_java_exception :: "('cx, 'ex) result_kind \<Rightarrow> bool" where
  "is_java_exception k = (case k of JavaException _ \<Rightarrow> True | _ \<Rightarrow> False)"

section \<open>The cache\<close>

type_synonym request_hash = "64 word"

type_synonym path = string

record ('cx, 'ex) persistent_cache =
  updated :: bool
  load_loc :: path
  cache_data :: "(request_hash, ('cx, 'ex) verification_result) index_map"

record ('cx, 'ex) result_cache =
  stored_data :: "(request_hash, ('cx, 'ex) verification_result) index_map"
  stored_version :: "64 word"

definition RESULT_CACHE_VERSION :: "64 word" where
  "RESULT_CACHE_VERSION = 3"

definition persistent_of :: "path \<Rightarrow> ('cx, 'ex) result_cache \<Rightarrow> ('cx, 'ex) persistent_cache exec" where
  "persistent_of loc rc =
     (if stored_version rc = RESULT_CACHE_VERSION
      then Value \<lparr>updated = False, load_loc = loc, cache_data = stored_data rc\<rparr>
      else panic ''assertion `left == right` failed'')"

definition stored_of :: "('cx, 'ex) persistent_cache \<Rightarrow> ('cx, 'ex) result_cache" where
  "stored_of c = \<lparr>stored_data = cache_data c, stored_version = RESULT_CACHE_VERSION\<rparr>"

text \<open>
  The files that can be opened with their contents, whether a path can be created, and whether the
  directory above a path exists or can be made.
\<close>

record 'f file_system =
  files :: "path \<rightharpoonup> 'f"
  can_create :: "path \<Rightarrow> bool"
  can_create_dir :: "path \<Rightarrow> bool"

definition read_cache ::
  "('f \<Rightarrow> ('cx, 'ex) result_cache option) \<Rightarrow> 'f file_system \<Rightarrow> path \<Rightarrow> ('cx, 'ex) result_cache option" where
  "read_cache deserialize fs loc =
     (if loc = [] then None
      else case files fs loc of
        None \<Rightarrow> None
      | Some f \<Rightarrow>
          (case deserialize f of
             None \<Rightarrow> None
           | Some data \<Rightarrow> if stored_version data = RESULT_CACHE_VERSION then Some data else None))"

definition load_cache ::
  "('f \<Rightarrow> ('cx, 'ex) result_cache option) \<Rightarrow> 'f file_system \<Rightarrow> path \<Rightarrow> ('cx, 'ex) persistent_cache exec" where
  "load_cache deserialize fs loc =
     persistent_of loc
       (case read_cache deserialize fs loc of
          Some data \<Rightarrow> data
        | None \<Rightarrow> \<lparr>stored_data = [], stored_version = RESULT_CACHE_VERSION\<rparr>)"

definition save_cache ::
  "(('cx, 'ex) result_cache \<Rightarrow> 'f) \<Rightarrow> ('cx, 'ex) persistent_cache \<Rightarrow> path \<Rightarrow> 'f file_system \<Rightarrow> 'f file_system" where
  "save_cache serialize c loc fs =
     (if can_create fs loc then fs\<lparr>files := (files fs)(loc \<mapsto> serialize (stored_of c))\<rparr> else fs)"

definition save ::
  "(('cx, 'ex) result_cache \<Rightarrow> 'f) \<Rightarrow> ('cx, 'ex) persistent_cache \<Rightarrow> 'f file_system \<Rightarrow> 'f file_system" where
  "save serialize c fs =
     (if updated c then
        if load_loc c = [] then fs
        else if can_create_dir fs (load_loc c) then save_cache serialize c (load_loc c) fs
        else fs
      else fs)"

definition drop_cache ::
  "(('cx, 'ex) result_cache \<Rightarrow> 'f) \<Rightarrow> ('cx, 'ex) persistent_cache \<Rightarrow> 'f file_system \<Rightarrow> 'f file_system" where
  "drop_cache serialize c fs = save serialize c fs"

definition cache_get :: "request_hash \<Rightarrow> ('cx, 'ex) persistent_cache \<Rightarrow> ('cx, 'ex) verification_result option" where
  "cache_get h c = map_of (cache_data c) h"

definition cache_put ::
  "request_hash \<Rightarrow> ('cx, 'ex) verification_result \<Rightarrow> ('cx, 'ex) persistent_cache
   \<Rightarrow> ('cx, 'ex) verification_result option \<times> ('cx, 'ex) persistent_cache" where
  "cache_put h r c = (map_of (cache_data c) h, c\<lparr>updated := True, cache_data := AList.update h r (cache_data c)\<rparr>)"

section \<open>The contract of a result store\<close>

text \<open>
  \<^verbatim>\<open>trait Cache\<close>: what its users rely on. The laws are those of a map; everything that the users of
  the cache do with it is a sequence of insertions.
\<close>

locale result_store =
  fixes get :: "'h \<Rightarrow> 'c \<Rightarrow> 'r option"
    and put :: "'h \<Rightarrow> 'r \<Rightarrow> 'c \<Rightarrow> 'r option \<times> 'c"
  assumes get_put: "get h' (snd (put h r c)) = (if h' = h then Some r else get h' c)"
    and put_previous: "fst (put h r c) = get h c"
begin

definition put_all :: "('h \<times> 'r) list \<Rightarrow> 'c \<Rightarrow> 'c" where
  "put_all entries c = fold (\<lambda>(h, r) c. snd (put h r c)) entries c"

lemma put_all_Nil [simp]: "put_all [] c = c"
  by (simp add: put_all_def)

lemma get_put_all: "get h (put_all entries c) = (case map_of (rev entries) h of Some r \<Rightarrow> Some r | None \<Rightarrow> get h c)"
proof (induction entries arbitrary: c)
  case Nil
  then show ?case by simp
next
  case (Cons e es)
  obtain h' r where e: "e = (h', r)" by fastforce
  have "put_all (e # es) c = put_all es (snd (put h' r c))" by (simp add: put_all_def e)
  then show ?case using Cons.IH [of "snd (put h' r c)"]
    by (auto simp: get_put e map_add_def split: option.splits)
qed

lemma get_put_all_other: "h \<notin> fst ` set entries \<Longrightarrow> get h (put_all entries c) = get h c"
proof -
  assume "h \<notin> fst ` set entries"
  then have "map_of (rev entries) h = None" by (simp add: map_of_eq_None_iff)
  then show ?thesis by (simp add: get_put_all)
qed

end

interpretation cache_store: result_store cache_get cache_put
  by unfold_locales (simp_all add: cache_get_def cache_put_def)

section \<open>Keeping the cache between runs\<close>

text \<open>A cache that has been saved is found again by the next run.\<close>

lemma load_saved:
  assumes "\<And>rc. deserialize (serialize rc) = Some rc"
    and "updated c" and "load_loc c \<noteq> []" and "can_create_dir fs (load_loc c)" and "can_create fs (load_loc c)"
  shows "load_cache deserialize (save serialize c fs) (load_loc c) = Value (c\<lparr>updated := False\<rparr>)"
  using assms by (simp add: load_cache_def read_cache_def save_def save_cache_def persistent_of_def stored_of_def)

lemma read_cache_version: "read_cache deserialize fs loc = Some rc \<Longrightarrow> stored_version rc = RESULT_CACHE_VERSION"
  by (auto simp: read_cache_def split: if_splits option.splits)

lemma load_cache_defined:
  obtains c where "load_cache deserialize fs loc = Value c" and "\<not> updated c" and "load_loc c = loc"
  using read_cache_version [of deserialize fs loc]
  by (cases "read_cache deserialize fs loc") (auto simp: load_cache_def persistent_of_def)

lemma save_unchanged: "\<not> updated c \<Longrightarrow> save serialize c fs = fs"
  by (simp add: save_def)

end
