(* ===== verification/Viper_Verifier.thy ===== *)
theory Viper_Verifier
  imports Viper_Cache Smt_Log_Analyzer
begin

text \<open>
  \<^verbatim>\<open>viper/src/verifier.rs\<close> and \<^verbatim>\<open>viper/src/smt_manager.rs\<close>: running the Viper verifier, extracting the
  errors from its result, and checking the traces of the SMT solver. What the Java side answers is a
  value of the record \<open>viper_jvm\<close>, on which the definitions depend.
\<close>

section \<open>Errors of the verifier\<close>

text \<open>Positions with and without an identifier, and the counterexample of a failure context.\<close>

datatype position = HasIdentifier string | OtherPosition

datatype 'cx failure_context = NoCounterexample | OtherCounterexample | MappedCounterexample 'cx

record 'cx java_error =
  java_full_id :: string
  java_pos :: position
  java_offending_pos :: position
  java_reason_pos :: position
  java_message :: string
  java_contexts :: "'cx failure_context list"

datatype 'cx viper_error = VerificationError "'cx java_error" | OtherError string string

definition extract_pos_id :: "position \<Rightarrow> string option" where
  "extract_pos_id p = (case p of HasIdentifier i \<Rightarrow> Some i | OtherPosition \<Rightarrow> None)"

definition extract_counterexample :: "'cx failure_context list \<Rightarrow> 'cx option" where
  "extract_counterexample contexts =
     (if contexts = [] then None
      else case last contexts of MappedCounterexample cx \<Rightarrow> Some cx | _ \<Rightarrow> None)"

definition extract_error :: "'cx java_error \<Rightarrow> 'cx verification_error" where
  "extract_error e =
     \<lparr>full_id = java_full_id e, pos_id = extract_pos_id (java_pos e),
      offending_pos_id = extract_pos_id (java_offending_pos e),
      reason_pos_id = extract_pos_id (java_reason_pos e), error_message = java_message e,
      counterexample = extract_counterexample (java_contexts e)\<rparr>"

text \<open>
  The parts of an error that identify it. The standard library does not say how its default hasher
  combines them, so the hasher is a parameter.
\<close>

type_synonym error_ident = "string \<times> string option \<times> string option \<times> string option"

definition key_of :: "'cx verification_error \<Rightarrow> error_ident" where
  "key_of e = (full_id e, pos_id e, offending_pos_id e, reason_pos_id e)"

definition hash_error :: "(error_ident \<Rightarrow> 64 word) \<Rightarrow> 'cx verification_error \<Rightarrow> 64 word" where
  "hash_error hasher e = hasher (key_of e)"

fun extract_error_list ::
  "(error_ident \<Rightarrow> 64 word) \<Rightarrow> 'cx viper_error list \<Rightarrow> 64 word set option
   \<Rightarrow> ('cx verification_error list \<times> 64 word set option) exec" where
  "extract_error_list hasher [] hashes = Value ([], hashes)"
| "extract_error_list hasher (OtherError cls text # es) hashes =
     panic (''internal error: entered unreachable code: The verifier returned an unknown error of type '' @
       cls @ '': '' @ text)"
| "extract_error_list hasher (VerificationError je # es) hashes =
     (let e = extract_error je; h = hash_error hasher e in
      case hashes of
        Some hs \<Rightarrow>
          if h \<in> hs then extract_error_list hasher es hashes
          else (case extract_error_list hasher es (Some (insert h hs)) of
                  Value (errors, hs') \<Rightarrow> Value (e # errors, hs')
                | Panicked p \<Rightarrow> Panicked p)
      | None \<Rightarrow>
          (case extract_error_list hasher es None of
             Value (errors, hs') \<Rightarrow> Value (e # errors, hs')
           | Panicked p \<Rightarrow> Panicked p))"

definition extract_errors ::
  "(error_ident \<Rightarrow> 64 word) \<Rightarrow> 'cx viper_error list \<Rightarrow> 64 word set option
   \<Rightarrow> (('cx, 'ex) result_kind \<times> 64 word set option) exec" where
  "extract_errors hasher es hashes =
     (case extract_error_list hasher es hashes of
        Value (errors, hs) \<Rightarrow> Value (Failure errors, hs)
      | Panicked p \<Rightarrow> Panicked p)"

section \<open>The manager of SMT traces\<close>

text \<open>
  The connection is the list of the trace files that its listener has handed out to solver
  processes. The traces on disk are given by their lines.
\<close>

record smt_manager =
  connection :: "path list option"
  log_path :: path
  preserve_trace_files :: bool
  write_smt_statistics :: bool
  manager_ignore_builtin :: bool
  manager_bound_global_kind :: "nat option"
  manager_bound_trace :: "nat option"
  manager_bound_trace_kind :: "nat option"
  manager_triggers_bound :: "nat option"
  manager_triggers_bound_total :: "nat option"

record smt_disk =
  traces :: "(path, string list) index_map"
  written_statistics :: "output_file list"

definition smt_manager_default :: smt_manager where
  "smt_manager_default =
     \<lparr>connection = None, log_path = '''', preserve_trace_files = False, write_smt_statistics = False,
      manager_ignore_builtin = False, manager_bound_global_kind = None, manager_bound_trace = None,
      manager_bound_trace_kind = None, manager_triggers_bound = None, manager_triggers_bound_total = None\<rparr>"

definition smt_manager_new ::
  "path \<Rightarrow> bool \<Rightarrow> bool \<Rightarrow> bool \<Rightarrow> nat option \<Rightarrow> nat option \<Rightarrow> nat option \<Rightarrow> nat option \<Rightarrow> nat option
   \<Rightarrow> smt_manager" where
  "smt_manager_new loc preserve statistics ignore global_kind trace trace_kind triggers triggers_total =
     \<lparr>connection = Some [], log_path = loc, preserve_trace_files = preserve, write_smt_statistics = statistics,
      manager_ignore_builtin = ignore, manager_bound_global_kind = global_kind, manager_bound_trace = trace,
      manager_bound_trace_kind = trace_kind, manager_triggers_bound = triggers,
      manager_triggers_bound_total = triggers_total\<rparr>"

text \<open>A solver process connects and is told its log and trace files.\<close>

definition accept_solver :: "smt_manager \<Rightarrow> (path \<times> path) option \<times> smt_manager" where
  "accept_solver m =
     (case connection m of
        None \<Rightarrow> (None, m)
      | Some trace_files \<Rightarrow>
          let counter = digits (length trace_files);
              log_file = log_path m @ ''/wrapper_'' @ counter @ ''.log'';
              trace_file = log_path m @ ''/trace'' @ counter @ ''.log''
          in (Some (log_file, trace_file), m\<lparr>connection := Some (trace_files @ [trace_file])\<rparr>))"

definition manager_settings :: "smt_manager \<Rightarrow> smt_settings" where
  "manager_settings m =
     \<lparr>write_statistics_flag = write_smt_statistics m,
      quantifier_instantiations_ignore_builtin = manager_ignore_builtin m,
      quantifier_instantiations_bound_global_kind = manager_bound_global_kind m,
      quantifier_instantiations_bound_trace = manager_bound_trace m,
      quantifier_instantiations_bound_trace_kind = manager_bound_trace_kind m,
      unique_triggers_bound = manager_triggers_bound m,
      unique_triggers_bound_total = manager_triggers_bound_total m,
      check_active_scopes_count = None, pop_scopes_by_one = False, trace_quantifier_triggers = None\<rparr>"

text \<open>The panic messages of the analysis of a line leave out the text of the line.\<close>

definition analysis_message :: "analysis_panic \<Rightarrow> string" where
  "analysis_message p =
     (case p of Line_error n k rest \<Rightarrow> ''Error on line '' @ digits n | Message msg \<Rightarrow> msg)"

fun check_traces :: "bool \<Rightarrow> smt_manager \<Rightarrow> path list \<Rightarrow> smt_disk \<Rightarrow> unit exec \<times> smt_disk" where
  "check_traces checks m [] d = (Value (), d)"
| "check_traces checks m (f # fs) d =
     (case map_of (traces d) f of
        None \<Rightarrow> (panic ''called `Result::unwrap()` on an `Err` value'', d)
      | Some lines \<Rightarrow>
          let (written, r) = analyze checks (manager_settings m) f lines;
              d1 = d\<lparr>written_statistics := written_statistics d @ written\<rparr>
          in (case r of
                Inl p \<Rightarrow> (panic (analysis_message p), d1)
              | Inr _ \<Rightarrow>
                  check_traces checks m fs
                    (if preserve_trace_files m then d1 else d1\<lparr>traces := AList.delete f (traces d1)\<rparr>)))"

definition stop_and_check :: "bool \<Rightarrow> smt_manager \<Rightarrow> smt_disk \<Rightarrow> unit exec \<times> smt_manager \<times> smt_disk" where
  "stop_and_check checks m d =
     (case connection m of
        None \<Rightarrow> (Value (), m, d)
      | Some trace_files \<Rightarrow>
          let (r, d') = check_traces checks m trace_files d in (r, m\<lparr>connection := None\<rparr>, d'))"

definition drop_manager :: "smt_manager \<Rightarrow> unit exec" where
  "drop_manager m = (if connection m = None then Value () else panic ''`stop_and_check` was not called'')"

section \<open>Verification\<close>

datatype 'cx verdict = ViperSuccess | ViperFailure "'cx viper_error list"

text \<open>
  The answers of the Java side: the consistency check, which may raise an exception, and the
  verification, which may raise an exception or have no result.
\<close>

record ('cx, 'ex) viper_jvm =
  consistency :: "'ex + (position \<times> string) list"
  verdict_of :: "string + 'cx verdict option"

definition consistency_error_of :: "position \<times> string \<Rightarrow> consistency_error" where
  "consistency_error_of e = \<lparr>consistency_message = snd e, consistency_pos_id = extract_pos_id (fst e)\<rparr>"

text \<open>
  \<open>polled\<close> is what joining the polling thread gives, if there is one: \<^const>\<open>None\<close> when that thread
  never ends. The second component of the result is the manager, the third the disk.
\<close>

definition finish_verify ::
  "(error_ident \<Rightarrow> 64 word) \<Rightarrow> 'cx verdict \<Rightarrow> 64 word set exec option option
   \<Rightarrow> ('cx, 'ex) result_kind exec option" where
  "finish_verify hasher v polled =
     (let final = (\<lambda>hashes.
        case v of
          ViperSuccess \<Rightarrow> Value Success
        | ViperFailure es \<Rightarrow>
            (case extract_errors hasher es hashes of
               Value (k, _) \<Rightarrow> Value k
             | Panicked p \<Rightarrow> Panicked p))
      in case polled of
        None \<Rightarrow> Some (final None)
      | Some None \<Rightarrow> None
      | Some (Some (Panicked p)) \<Rightarrow> Some (panic ''called `Result::unwrap()` on an `Err` value'')
      | Some (Some (Value hashes)) \<Rightarrow> Some (final (Some hashes)))"

definition verify ::
  "bool \<Rightarrow> (error_ident \<Rightarrow> 64 word) \<Rightarrow> ('cx, 'ex) viper_jvm \<Rightarrow> 64 word set exec option option
   \<Rightarrow> smt_manager \<times> smt_disk \<Rightarrow> (smt_manager \<times> smt_disk, ('cx, 'ex) result_kind) run" where
  "verify checks hasher jvm polled md =
     (case consistency jvm of
        Inl exception \<Rightarrow> Some (Value (JavaException exception), md)
      | Inr errors \<Rightarrow>
          if errors \<noteq> [] then Some (Value (ConsistencyErrors (map consistency_error_of errors)), md)
          else case verdict_of jvm of
            Inl exception \<Rightarrow> Some (panic exception, md)
          | Inr None \<Rightarrow> Some (panic ''Error during typechecking/consistency checking!'', md)
          | Inr (Some v) \<Rightarrow>
              (case stop_and_check checks (fst md) (snd md) of
                 (Panicked p, md') \<Rightarrow> Some (Panicked p, md')
               | (Value _, md') \<Rightarrow> map_option (\<lambda>r. (r, md')) (finish_verify hasher v polled)))"

end
