(* ===== verification/Verify_Server.thy ===== *)
theory Verify_Server
  imports Viper_Verifier
begin

text \<open>
  \<^verbatim>\<open>prusti-server/src\<close>: the messages about a verification, the thread that polls them from Viper's
  reporter, the processing of a request, and the two ways in which a client gets the messages of its
  request: from a verification in the same process, and from a server.
\<close>

section \<open>Messages\<close>

datatype ('cx, 'ex) server_message =
    Termination "('cx, 'ex) verification_result"
  | MethodTermination string "('cx, 'ex) result_kind" nat
  | QuantifierInstantiation string nat nat
  | QuantifierChosenTriggers string string nat
  | BlockReached string string int
  | BlockFailure string string int
  | PathProcessed string int string

definition is_termination :: "('cx, 'ex) server_message \<Rightarrow> bool" where
  "is_termination m = (case m of Termination _ \<Rightarrow> True | _ \<Rightarrow> False)"

record server_config =
  debug_assertions :: bool
  overflow_checks :: bool
  report_viper_messages :: bool
  report_block_messages :: bool
  enable_cache :: bool
  show_ide_info :: bool
  internal_errors_as_warnings :: bool

section \<open>Polling the reporter\<close>

text \<open>The messages of Viper's reporter, by class, with what the code reads of them.\<close>

datatype entity = MethodEntity string | OtherEntity

datatype 'cx reporter_message =
    QuantifierInstantiationsMessage string int
  | QuantifierChosenTriggersMessage string string string
  | VerificationTerminationMessage
  | EntitySuccessMessage entity int
  | EntityFailureMessage entity int "'cx viper_error list"
  | OtherMessage string

text \<open>The position id in the name of a quantifier, also of the auxiliary ones.\<close>

definition quantifier_pos :: "string \<Rightarrow> nat option" where
  "quantifier_pos q_name =
     (case strip_prefix ''prog.l'' q_name of
        None \<Rightarrow> None
      | Some no_pref \<Rightarrow>
          parse_usize
            (case strip_suffix ''-aux'' no_pref of
               Some stripped \<Rightarrow> stripped
             | None \<Rightarrow> (case strip_suffix ''_precondition'' no_pref of Some stripped \<Rightarrow> stripped | None \<Rightarrow> no_pref)))"

text \<open>
  One message: what is sent to the client and the hashes of the errors handled so far.
  \<open>procedures\<close> are the names of the methods that stand for Rust functions.
\<close>

definition poll_message ::
  "(error_ident \<Rightarrow> 64 word) \<Rightarrow> string set \<Rightarrow> 'cx reporter_message \<Rightarrow> 64 word set
   \<Rightarrow> (('cx, 'ex) server_message list \<times> 64 word set) exec" where
  "poll_message hasher procedures msg hashes =
     (case msg of
        QuantifierInstantiationsMessage q_name q_inst \<Rightarrow>
          (case quantifier_pos q_name of
             None \<Rightarrow> Value ([], hashes)
           | Some p \<Rightarrow>
               if q_inst < 0 then panic ''called `Result::unwrap()` on an `Err` value''
               else Value ([QuantifierInstantiation q_name (nat q_inst) p], hashes))
      | QuantifierChosenTriggersMessage quant pos_string triggers \<Rightarrow>
          (case after_last_dot pos_string of
             None \<Rightarrow> Value ([], hashes)
           | Some number \<Rightarrow>
               (case parse_usize number of
                  None \<Rightarrow> panic ''called `Result::unwrap()` on an `Err` value''
                | Some p \<Rightarrow> Value ([QuantifierChosenTriggers quant triggers p], hashes)))
      | EntitySuccessMessage (MethodEntity name) time \<Rightarrow>
          Value (if name \<in> procedures \<and> 0 \<le> time then [MethodTermination name Success (nat time)] else [], hashes)
      | EntityFailureMessage (MethodEntity name) time errors \<Rightarrow>
          if name \<in> procedures \<and> 0 \<le> time then
            (case extract_errors hasher errors (Some hashes) of
               Value (k, Some hashes') \<Rightarrow> Value ([MethodTermination name k (nat time)], hashes')
             | Value (k, None) \<Rightarrow> Value ([MethodTermination name k (nat time)], hashes)
             | Panicked p \<Rightarrow> Panicked p)
          else Value ([], hashes)
      | _ \<Rightarrow> Value ([], hashes))"

text \<open>
  The loop over the messages: the first component is \<^const>\<open>None\<close> if the reporter gives no
  \<^verbatim>\<open>VerificationTerminationMessage\<close>, so that the loop polls for ever; the second component is what is
  sent meanwhile.
\<close>

fun polling_function ::
  "(error_ident \<Rightarrow> 64 word) \<Rightarrow> string set \<Rightarrow> 'cx reporter_message list \<Rightarrow> 64 word set
   \<Rightarrow> 64 word set exec option \<times> ('cx, 'ex) server_message list" where
  "polling_function hasher procedures [] hashes = (None, [])"
| "polling_function hasher procedures (msg # msgs) hashes =
     (if msg = VerificationTerminationMessage then (Some (Value hashes), [])
      else case poll_message hasher procedures msg hashes of
        Panicked p \<Rightarrow> (Some (Panicked p), [])
      | Value (sent, hashes') \<Rightarrow>
          let (r, later) = polling_function hasher procedures msgs hashes' in (r, sent @ later))"

section \<open>Processing a request\<close>

text \<open>
  What a request meets when it is processed: the answers of the Java side, the messages of the
  reporter with and without a verification having been started, the manager of SMT traces at the time
  when the verifier is done, and the time taken.
\<close>

record ('cx, 'ex) viper_run =
  run_jvm :: "('cx, 'ex) viper_jvm"
  run_reports :: "'cx reporter_message list"
  run_idle_reports :: "'cx reporter_message list"
  run_manager :: smt_manager
  run_disk :: smt_disk
  run_elapsed :: nat

definition verification_starts :: "('cx, 'ex) viper_jvm \<Rightarrow> bool" where
  "verification_starts jvm = (case consistency jvm of Inl _ \<Rightarrow> False | Inr errors \<Rightarrow> errors = [])"

text \<open>The scope of the polling thread ends when that thread has ended; a panic of it that was not seen by a join is raised there.\<close>

definition verify_and_poll_msgs ::
  "bool \<Rightarrow> (error_ident \<Rightarrow> 64 word) \<Rightarrow> string set \<Rightarrow> ('cx, 'ex) viper_run
   \<Rightarrow> (smt_manager \<times> smt_disk, ('cx, 'ex) result_kind) run \<times> ('cx, 'ex) server_message list" where
  "verify_and_poll_msgs checks hasher procedures r =
     (let (polled, sent) =
            polling_function hasher procedures
              (if verification_starts (run_jvm r) then run_reports r else run_idle_reports r) {};
          verified = verify checks hasher (run_jvm r) (Some polled) (run_manager r, run_disk r)
      in (case (polled, verified) of
            (Some (Panicked _), Some (Value _, md)) \<Rightarrow> Some (panic ''a scoped thread panicked'', md)
          | (Some _, v) \<Rightarrow> v
          | (None, _) \<Rightarrow> None, sent))"

definition backend_verify ::
  "server_config \<Rightarrow> (error_ident \<Rightarrow> 64 word) \<Rightarrow> string set \<Rightarrow> ('cx, 'ex) viper_run
   \<Rightarrow> (smt_manager \<times> smt_disk, ('cx, 'ex) result_kind) run \<times> ('cx, 'ex) server_message list" where
  "backend_verify cfg hasher procedures r =
     (if report_viper_messages cfg then verify_and_poll_msgs (overflow_checks cfg) hasher procedures r
      else (verify (overflow_checks cfg) hasher (run_jvm r) None (run_manager r, run_disk r), []))"

text \<open>
  How processing a request ends: the thread goes on to the next request, it panics, the process is
  aborted because of a second panic while unwinding, or it hangs.
\<close>

datatype process_end = Process_done | Process_panicked "string option" | Process_aborted | Process_hangs

definition process ::
  "server_config \<Rightarrow> (error_ident \<Rightarrow> 64 word) \<Rightarrow> string set \<Rightarrow> ('cx, 'ex) viper_run
   \<Rightarrow> ('cx, 'ex) server_message list \<times> process_end" where
  "process cfg hasher procedures r =
     (case backend_verify cfg hasher procedures r of
        (None, sent) \<Rightarrow> (sent, Process_hangs)
      | (Some (Panicked p, m, _), sent) \<Rightarrow>
          (sent, case drop_manager m of Panicked _ \<Rightarrow> Process_aborted | Value _ \<Rightarrow> Process_panicked p)
      | (Some (Value k, m, _), sent) \<Rightarrow>
          (case drop_manager m of
             Panicked p \<Rightarrow> (sent, Process_panicked p)
           | Value _ \<Rightarrow>
               (sent @ [Termination \<lparr>item_name = ''program'', result_kind = k, cached = False, time_ms = run_elapsed r\<rparr>],
                Process_done)))"

section \<open>Streams of messages\<close>

text \<open>How the stream of a request ends for the client that reads it.\<close>

datatype stream_end = Stream_done | Stream_panicked | Stream_blocked | Stream_aborted

fun until_termination :: "('cx, 'ex) server_message list \<Rightarrow> ('cx, 'ex) server_message list" where
  "until_termination [] = []"
| "until_termination (m # ms) = (if is_termination m then [m] else m # until_termination ms)"

text \<open>
  \<^verbatim>\<open>VerificationRequestProcessing::verify\<close>: receive until the termination message. When there is none,
  receiving fails if the thread of the verification is gone, and blocks if it hangs.
\<close>

definition request_stream ::
  "('cx, 'ex) server_message list \<times> process_end \<Rightarrow> ('cx, 'ex) server_message list \<times> stream_end" where
  "request_stream sent =
     (until_termination (fst sent),
      if \<exists>m \<in> set (fst sent). is_termination m then Stream_done
      else case snd sent of
        Process_done \<Rightarrow> Stream_blocked
      | Process_panicked _ \<Rightarrow> Stream_panicked
      | Process_aborted \<Rightarrow> Stream_aborted
      | Process_hangs \<Rightarrow> Stream_blocked)"

text \<open>Storing the result of a request when its termination message passes.\<close>

definition store_local ::
  "server_config \<Rightarrow> request_hash \<Rightarrow> ('cx, 'ex) server_message \<Rightarrow> ('cx, 'ex) persistent_cache
   \<Rightarrow> ('cx, 'ex) persistent_cache" where
  "store_local cfg h msg c =
     (case msg of
        Termination result \<Rightarrow>
          if enable_cache cfg \<and> \<not> is_java_exception (result_kind result) then snd (cache_put h result c) else c
      | _ \<Rightarrow> c)"

text \<open>
  The requests verified in this process, one after the other. A request is given by its hash and the
  messages that processing it sends.
\<close>

fun verify_requests_local ::
  "server_config \<Rightarrow> (request_hash \<times> ('cx, 'ex) server_message list \<times> process_end) list
   \<Rightarrow> ('cx, 'ex) persistent_cache
   \<Rightarrow> ('cx, 'ex) server_message list \<times> stream_end \<times> ('cx, 'ex) persistent_cache" where
  "verify_requests_local cfg [] c = ([], Stream_done, c)"
| "verify_requests_local cfg ((h, sent) # reqs) c =
     (let hit = (if enable_cache cfg
                 then case cache_get h c of Some result \<Rightarrow> [Termination result] | None \<Rightarrow> [] else []);
          (msgs, e) = request_stream sent;
          c' = fold (store_local cfg h) msgs c
      in if e = Stream_done
         then let (later, e', c'') = verify_requests_local cfg reqs c' in (hit @ msgs @ later, e', c'')
         else (hit @ msgs, e, c'))"

definition store_server ::
  "server_config \<Rightarrow> request_hash \<Rightarrow> ('cx, 'ex) server_message \<Rightarrow> ('cx, 'ex) persistent_cache
   \<Rightarrow> ('cx, 'ex) persistent_cache" where
  "store_server cfg h msg c =
     (case msg of
        Termination result \<Rightarrow>
          if enable_cache cfg \<and> \<not> is_java_exception (result_kind result) \<and> \<not> cached result
          then snd (cache_put h result c) else c
      | _ \<Rightarrow> c)"

text \<open>\<^verbatim>\<open>on_upgrade\<close>: a request at the server.\<close>

definition on_upgrade ::
  "server_config \<Rightarrow> request_hash \<Rightarrow> ('cx, 'ex) server_message list \<times> process_end \<Rightarrow> ('cx, 'ex) persistent_cache
   \<Rightarrow> ('cx, 'ex) server_message list \<times> stream_end \<times> ('cx, 'ex) persistent_cache" where
  "on_upgrade cfg h sent c =
     (let (msgs, e) =
        (case (if enable_cache cfg then cache_get h c else None) of
           Some result \<Rightarrow> ([Termination (result\<lparr>cached := True\<rparr>)], Stream_done)
         | None \<Rightarrow> request_stream sent)
      in (msgs, e, fold (store_server cfg h) msgs c))"

text \<open>The requests that a client sends to a server, one after the other.\<close>

fun verify_requests_server ::
  "server_config \<Rightarrow> (request_hash \<times> ('cx, 'ex) server_message list \<times> process_end) list
   \<Rightarrow> ('cx, 'ex) persistent_cache
   \<Rightarrow> ('cx, 'ex) server_message list \<times> stream_end \<times> ('cx, 'ex) persistent_cache" where
  "verify_requests_server cfg [] c = ([], Stream_done, c)"
| "verify_requests_server cfg ((h, sent) # reqs) c =
     (let (msgs, e, c') = on_upgrade cfg h sent c
      in if e = Stream_done
         then let (later, e', c'') = verify_requests_server cfg reqs c' in (msgs @ later, e', c'')
         else (msgs, e, c'))"

end
