(* ===== verification/Verify_Stream.thy ===== *)
theory Verify_Stream
  imports Verify_Server Prusti_Error Vir_Spans
begin

text \<open>
  The client's half of \<^verbatim>\<open>prusti-server/src/lib.rs\<close>: handling the messages of a verification. Errors
  are translated back with the span manager of the encoder and reported through the compiler.
\<close>

section \<open>State\<close>

datatype overall_result = Overall_Success | Overall_Failure

text \<open>What is printed as JSON for editors.\<close>

datatype json_payload =
    Json_result string bool bool nat
  | Json_instantiations nat string
  | Json_triggers string string
  | Json_path string int
  | Json_failure string int string

text \<open>
  What the client has besides its configuration: the context of the encoder, names that the compiler
  gives to definitions, the conversion of spans, the dummy span, and the formatting of JSON, of
  consistency errors and of Java exceptions.
\<close>

record ('sp, 'ms, 'd, 'c, 'ex) client_env =
  vcx :: "('sp, 'ms prusti_error, 'd, 'c) span_manager"
  crate_name :: "'d \<Rightarrow> string"
  def_path_str :: "'d \<Rightarrow> string"
  multi_span :: "'sp \<Rightarrow> 'ms"
  dummy_sp :: 'sp
  json :: "json_payload \<Rightarrow> string"
  show_consistency :: "consistency_error \<Rightarrow> string"
  show_exception :: "'ex \<Rightarrow> string"

record 'ms stream_state =
  diagnostics :: "'ms env_diagnostic"
  prusti_errors :: "'ms prusti_error list"
  overall :: overall_result
  quantifier_instantiations :: "(nat \<times> string, (string, nat) index_map) index_map"

definition stream_start :: "'ms env_diagnostic \<Rightarrow> 'ms stream_state" where
  "stream_start d =
     \<lparr>diagnostics = d, prusti_errors = [], overall = Overall_Success, quantifier_instantiations = []\<rparr>"

definition emit_exec :: "'ms prusti_error exec \<Rightarrow> 'ms stream_state \<Rightarrow> unit exec \<times> 'ms stream_state" where
  "emit_exec e s =
     (case e of
        Panicked p \<Rightarrow> (Panicked p, s)
      | Value pe \<Rightarrow> (let (r, d) = emit pe (diagnostics s) in (r, s\<lparr>diagnostics := d\<rparr>)))"

definition set_failure :: "'ms stream_state \<Rightarrow> unit exec \<times> 'ms stream_state" where
  "set_failure s = (Value (), s\<lparr>overall := Overall_Failure\<rparr>)"

section \<open>Results\<close>

definition backtranslate_error ::
  "server_config \<Rightarrow> ('sp, 'ms, 'd, 'c, 'ex) client_env \<Rightarrow> 'cx verification_error \<Rightarrow> 'ms prusti_error list exec" where
  "backtranslate_error cfg env e =
     (case offending_pos_id e of
        None \<Rightarrow> panic ''offending pos id is missing for error''
      | Some i \<Rightarrow>
          (case parse_usize i of
             None \<Rightarrow> panic ''called `Result::unwrap()` on an `Err` value''
           | Some offending \<Rightarrow>
               Value (backtranslate
                 (\<lambda>msg sp. internal_value (internal_errors_as_warnings cfg) msg (multi_span env sp))
                 (dummy_sp env) (vcx env) (full_id e) offending (Option.bind (reason_pos_id e) parse_usize))))"

definition handle_prusti_error ::
  "server_config \<Rightarrow> 'ms prusti_error \<Rightarrow> 'ms stream_state \<Rightarrow> unit exec \<times> 'ms stream_state" where
  "handle_prusti_error cfg e s =
     (if is_disabled e then (cancel e, s)
      else if show_ide_info cfg then emit_exec (Value e) s
      else (Value (), s\<lparr>prusti_errors := prusti_errors s @ [e]\<rparr>))"

definition handle_verification_error ::
  "server_config \<Rightarrow> ('sp, 'ms, 'd, 'c, 'ex) client_env \<Rightarrow> 'cx verification_error \<Rightarrow> 'ms stream_state
   \<Rightarrow> unit exec \<times> 'ms stream_state" where
  "handle_verification_error cfg env e s =
     (case backtranslate_error cfg env e of
        Panicked p \<Rightarrow> (Panicked p, s)
      | Value es \<Rightarrow> for_each (handle_prusti_error cfg) es s)"

definition handle_result ::
  "server_config \<Rightarrow> ('sp, 'ms, 'd, 'c, 'ex) client_env \<Rightarrow> ('cx, 'ex) verification_result \<Rightarrow> 'ms stream_state
   \<Rightarrow> unit exec \<times> 'ms stream_state" where
  "handle_result cfg env result =
     (case result_kind result of
        Success \<Rightarrow> skip_step
      | ConsistencyErrors errors \<Rightarrow>
          and_then
            (for_each (\<lambda>e. emit_exec (internal_error (internal_errors_as_warnings cfg) (debug_assertions cfg)
               (''consistency error: '' @ show_consistency env e) (multi_span env (dummy_sp env)))) errors)
            set_failure
      | Failure errors \<Rightarrow> and_then (for_each (handle_verification_error cfg env) errors) set_failure
      | JavaException exception \<Rightarrow>
          and_then
            (emit_exec (internal_error (internal_errors_as_warnings cfg) (debug_assertions cfg)
               (''in: '' @ show_exception env exception) (multi_span env (dummy_sp env))))
            set_failure)"

definition handle_termination_message ::
  "server_config \<Rightarrow> ('sp, 'ms, 'd, 'c, 'ex) client_env \<Rightarrow> ('cx, 'ex) verification_result \<Rightarrow> 'ms stream_state
   \<Rightarrow> unit exec \<times> 'ms stream_state" where
  "handle_termination_message cfg env result =
     and_then
       (if show_ide_info cfg
        then emit_exec (message_error (debug_assertions cfg)
          (''ideVerificationResult'' @
             json env (Json_result (item_name result) (is_success result) (cached result) (time_ms result)))
          (multi_span env (dummy_sp env)))
        else skip_step)
       (handle_result cfg env result)"

definition handle_method_termination_message ::
  "server_config \<Rightarrow> ('sp, 'ms, 'd, 'c, 'ex) client_env \<Rightarrow> string \<Rightarrow> ('cx, 'ex) result_kind \<Rightarrow> nat \<Rightarrow> 'ms stream_state
   \<Rightarrow> unit exec \<times> 'ms stream_state" where
  "handle_method_termination_message cfg env viper_method_name kind time =
     (case viper_to_rust_identifier (crate_name env) (def_path_str env) (vcx env) viper_method_name of
        Some rust_method \<Rightarrow>
          handle_termination_message cfg env
            \<lparr>item_name = rust_method, result_kind = kind, cached = False, time_ms = time\<rparr>
      | None \<Rightarrow> skip_step)"

section \<open>Messages for editors\<close>

definition handle_quantifier_instantiation_message ::
  "server_config \<Rightarrow> ('sp, 'ms, 'd, 'c, 'ex) client_env \<Rightarrow> string \<Rightarrow> nat \<Rightarrow> nat \<Rightarrow> 'ms stream_state
   \<Rightarrow> unit exec \<times> 'ms stream_state" where
  "handle_quantifier_instantiation_message cfg env q_name insts pos s =
     (if report_viper_messages cfg then
        case get_span_from_id (vcx env) pos of
          None \<Rightarrow> (Value (), s)
        | Some sp \<Rightarrow>
            let key = (pos, ''program'');
                old = (case map_of (quantifier_instantiations s) key of Some m \<Rightarrow> m | None \<Rightarrow> []);
                old_inst = (case map_of old q_name of Some n \<Rightarrow> n | None \<Rightarrow> 0);
                new = AList.update q_name (max insts old_inst) old;
                n = sum_list (map snd new)
            in emit_exec (message_error (debug_assertions cfg)
                 (''quantifierInstantiationsMessage'' @ json env (Json_instantiations n ''program''))
                 (multi_span env sp))
                 (s\<lparr>quantifier_instantiations := AList.update key new (quantifier_instantiations s)\<rparr>)
      else (Value (), s))"

definition handle_quantifier_chosen_triggers_message ::
  "server_config \<Rightarrow> ('sp, 'ms, 'd, 'c, 'ex) client_env \<Rightarrow> string \<Rightarrow> string \<Rightarrow> nat \<Rightarrow> 'ms stream_state
   \<Rightarrow> unit exec \<times> 'ms stream_state" where
  "handle_quantifier_chosen_triggers_message cfg env viper_quant triggers pos s =
     (if report_viper_messages cfg \<and> pos \<noteq> 0 then
        case get_span_from_id (vcx env) pos of
          None \<Rightarrow> (Value (), s)
        | Some sp \<Rightarrow>
            emit_exec (message_error (debug_assertions cfg)
              (''quantifierChosenTriggersMessage'' @ json env (Json_triggers viper_quant triggers))
              (multi_span env sp)) s
      else (Value (), s))"

definition block_token :: "string option \<Rightarrow> string option \<Rightarrow> string" where
  "block_token vir_label result =
     (if result = None \<and> vir_label = None then ''pathProcessedMessage''
      else if result = None then ''blockReachedMessage'' else ''blockFailureMessage'')"

definition handle_block_processing_message ::
  "server_config \<Rightarrow> ('sp, 'ms, 'd, 'c, 'ex) client_env \<Rightarrow> string \<Rightarrow> string option \<Rightarrow> int \<Rightarrow> string option
   \<Rightarrow> 'ms stream_state \<Rightarrow> unit exec \<times> 'ms stream_state" where
  "handle_block_processing_message cfg env viper_method vir_label path_id result s =
     (if report_viper_messages cfg \<and> report_block_messages cfg then
        case get_viper_identifier (vcx env) viper_method of
          None \<Rightarrow> (Value (), s)
        | Some d \<Rightarrow>
            let rust_method = get_unique_item_name (crate_name env) (def_path_str env) d in
            (case vir_label of
               Some l \<Rightarrow>
                 if l = ''start'' then (Value (), s)
                 else (case get_block_span (vcx env) (d, l) of
                         None \<Rightarrow> (Value (), s)
                       | Some sp \<Rightarrow>
                           emit_exec (message_error (debug_assertions cfg)
                             (block_token vir_label result @
                              json env (case result of
                                          Some r \<Rightarrow> Json_failure rust_method path_id r
                                        | None \<Rightarrow> Json_path rust_method path_id))
                             (multi_span env sp)) s)
             | None \<Rightarrow>
                 emit_exec (message_error (debug_assertions cfg)
                   (''pathProcessedMessage'' @ json env (Json_path rust_method path_id))
                   (multi_span env (dummy_sp env))) s)
      else (Value (), s))"

section \<open>The stream\<close>

definition handle_message ::
  "server_config \<Rightarrow> ('sp, 'ms, 'd, 'c, 'ex) client_env \<Rightarrow> ('cx, 'ex) server_message \<Rightarrow> 'ms stream_state
   \<Rightarrow> unit exec \<times> 'ms stream_state" where
  "handle_message cfg env msg =
     (case msg of
        Termination result \<Rightarrow> handle_termination_message cfg env result
      | MethodTermination name kind time \<Rightarrow> handle_method_termination_message cfg env name kind time
      | QuantifierInstantiation q_name insts pos \<Rightarrow>
          handle_quantifier_instantiation_message cfg env q_name insts pos
      | QuantifierChosenTriggers quant triggers pos \<Rightarrow>
          handle_quantifier_chosen_triggers_message cfg env quant triggers pos
      | BlockReached viper_method vir_label path_id \<Rightarrow>
          handle_block_processing_message cfg env viper_method (Some vir_label) path_id None
      | BlockFailure viper_method vir_label path_id \<Rightarrow>
          handle_block_processing_message cfg env viper_method (Some vir_label) path_id (Some ''Failure'')
      | PathProcessed viper_method path_id _ \<Rightarrow>
          handle_block_processing_message cfg env viper_method None path_id None)"

text \<open>\<open>primary\<close> is the primary span by which the collected errors are sorted.\<close>

definition handle_stream ::
  "('ms \<Rightarrow> ('k :: linorder) option) \<Rightarrow> server_config \<Rightarrow> ('sp, 'ms, 'd, 'c, 'ex) client_env
   \<Rightarrow> ('cx, 'ex) server_message list \<Rightarrow> 'ms env_diagnostic \<Rightarrow> overall_result exec \<times> 'ms env_diagnostic" where
  "handle_stream primary cfg env msgs d =
     (case and_then (for_each (handle_message cfg env) msgs)
             (\<lambda>s. if show_ide_info cfg then (Value (), s)
                  else for_each (\<lambda>e. emit_exec (Value e)) (sort_key (error_key primary) (prusti_errors s)) s)
             (stream_start d) of
        (Value _, s) \<Rightarrow> (Value (overall s), diagnostics s)
      | (Panicked p, s) \<Rightarrow> (Panicked p, diagnostics s))"

section \<open>Verifying programs\<close>

text \<open>
  \<^verbatim>\<open>verify_programs\<close>: a request for every program, with the names of the methods that stand for Rust
  functions, is sent to a server or verified in this process, and the messages are handled as they
  come. The programs are given by their hashes and by what verifying them meets. The result is
  \<^const>\<open>None\<close> if the client waits for ever, or if its process is aborted by the verification that runs
  in it; when that happens to a server, its clients fail as their connection breaks. Server and client
  use the same configuration.
\<close>

definition verify_programs ::
  "('ms \<Rightarrow> ('k :: linorder) option) \<Rightarrow> server_config \<Rightarrow> (error_ident \<Rightarrow> 64 word) \<Rightarrow> ('sp, 'ms, 'd, 'c, 'ex) client_env
   \<Rightarrow> bool \<Rightarrow> (request_hash \<times> ('cx, 'ex) viper_run) list \<Rightarrow> ('cx, 'ex) persistent_cache \<Rightarrow> 'ms env_diagnostic
   \<Rightarrow> ((overall_result exec \<times> 'ms env_diagnostic) \<times> ('cx, 'ex) persistent_cache) option" where
  "verify_programs primary cfg hasher env remote programs c d =
     (let procedures = get_viper_identifiers (vcx env);
          requests = map (\<lambda>(h, r). (h, process cfg hasher procedures r)) programs;
          (msgs, e, c') =
            (if remote then verify_requests_server cfg requests c else verify_requests_local cfg requests c)
      in case e of
           Stream_done \<Rightarrow> Some (handle_stream primary cfg env msgs d, c')
         | _ \<Rightarrow>
             if e = Stream_aborted \<and> \<not> remote then None
             else case for_each (handle_message cfg env) msgs (stream_start d) of
                    (Panicked p, s) \<Rightarrow> Some ((Panicked p, diagnostics s), c')
                  | (Value _, s) \<Rightarrow>
                      if e = Stream_blocked then None
                      else Some ((panic ''called `Result::unwrap()` on an `Err` value'', diagnostics s), c'))"

end
