(* ===== verification/Verify_Server_Laws.thy ===== *)
theory Verify_Server_Laws
  imports Verify_Server
begin

text \<open>
  Laws of the extraction of errors, of polling and of the processing of requests. A result carries
  errors in its final message and in the messages about single methods; \<open>all_errors\<close> collects them.
\<close>

named_theorems server_simps \<open>unfolding rules of the verification server\<close>

section \<open>Errors in messages\<close>

definition kind_errors :: "('cx, 'ex) result_kind \<Rightarrow> 'cx verification_error list" where
  "kind_errors k = (case k of Failure es \<Rightarrow> es | _ \<Rightarrow> [])"

definition message_errors :: "('cx, 'ex) server_message \<Rightarrow> 'cx verification_error list" where
  "message_errors m =
     (case m of
        Termination r \<Rightarrow> kind_errors (result_kind r)
      | MethodTermination _ k _ \<Rightarrow> kind_errors k
      | _ \<Rightarrow> [])"

definition all_errors :: "('cx, 'ex) server_message list \<Rightarrow> 'cx verification_error list" where
  "all_errors msgs = concat (map message_errors msgs)"

lemma all_errors_simps [simp]:
  "all_errors [] = []"
  "all_errors (m # ms) = message_errors m @ all_errors ms"
  "all_errors (ms @ ms') = all_errors ms @ all_errors ms'"
  by (simp_all add: all_errors_def)

lemma kind_errors_simps [simp]:
  "kind_errors Success = []" "kind_errors (Failure es) = es"
  "kind_errors (ConsistencyErrors cs) = []" "kind_errors (JavaException ex) = []"
  by (simp_all add: kind_errors_def)

lemma message_errors_simps [simp]:
  "message_errors (Termination r) = kind_errors (result_kind r)"
  "message_errors (MethodTermination n k t) = kind_errors k"
  "message_errors (QuantifierInstantiation q i p) = []"
  "message_errors (QuantifierChosenTriggers q ts p) = []"
  by (simp_all add: message_errors_def)

text \<open>The verification errors in a list of errors of the verifier.\<close>

definition extracted :: "'cx viper_error list \<Rightarrow> 'cx verification_error list" where
  "extracted es = concat (map (\<lambda>e. case e of VerificationError je \<Rightarrow> [extract_error je] | OtherError _ _ \<Rightarrow> []) es)"

definition all_known :: "'cx viper_error list \<Rightarrow> bool" where
  "all_known es = list_all (\<lambda>e. case e of VerificationError _ \<Rightarrow> True | OtherError _ _ \<Rightarrow> False) es"

lemma extracted_simps [simp]:
  "extracted [] = []"
  "extracted (VerificationError je # es) = extract_error je # extracted es"
  "extracted (OtherError c t # es) = extracted es"
  by (simp_all add: extracted_def)

lemma all_known_simps [simp]:
  "all_known []" "all_known (VerificationError je # es) = all_known es" "\<not> all_known (OtherError c t # es)"
  by (simp_all add: all_known_def)

lemma extract_all: "all_known es \<Longrightarrow> extract_error_list hasher es None = Value (extracted es, None)"
  by (induction hasher es "None :: 64 word set option" rule: extract_error_list.induct) (simp_all add: Let_def)

section \<open>Errors that are new\<close>

text \<open>
  The contract between the polling thread and the final result: given the hashes \<open>hs\<close> of the errors
  handled before, the errors \<open>new\<close> are new and different from each other, they account for the new
  hashes, and every one of the \<open>given\<close> errors has been handled.
\<close>

definition fresh_errors ::
  "(error_ident \<Rightarrow> 64 word) \<Rightarrow> 64 word set \<Rightarrow> 'cx verification_error list \<Rightarrow> 'cx verification_error list
   \<Rightarrow> 64 word set \<Rightarrow> bool" where
  "fresh_errors hasher hs given new hs' =
     (distinct (map (hash_error hasher) new) \<and> hash_error hasher ` set new \<inter> hs = {} \<and>
      hs' = hs \<union> hash_error hasher ` set new \<and> set new \<subseteq> set given \<and>
      hash_error hasher ` set given \<subseteq> hs')"

lemma fresh_none: "fresh_errors hasher hs [] [] hs"
  by (simp add: fresh_errors_def)

lemma fresh_append:
  assumes "fresh_errors hasher hs given new hs1" and "fresh_errors hasher hs1 given' new' hs2"
  shows "fresh_errors hasher hs (given @ given') (new @ new') hs2"
  using assms unfolding fresh_errors_def by auto

lemma fresh_skip: "hash_error hasher e \<in> hs \<Longrightarrow> fresh_errors hasher hs [e] [] hs"
  by (simp add: fresh_errors_def)

lemma fresh_take: "hash_error hasher e \<notin> hs \<Longrightarrow> fresh_errors hasher hs [e] [e] (insert (hash_error hasher e) hs)"
  by (auto simp: fresh_errors_def)

lemma extract_fresh:
  "all_known es \<Longrightarrow> \<exists>new hs'. extract_error_list hasher es (Some hs) = Value (new, Some hs') \<and>
     fresh_errors hasher hs (extracted es) new hs'"
proof (induction es arbitrary: hs)
  case Nil
  then show ?case by (simp add: fresh_none)
next
  case (Cons e es)
  then obtain je where e: "e = VerificationError je" "all_known es" by (cases e) auto
  let ?e = "extract_error je"
  show ?case
  proof (cases "hash_error hasher ?e \<in> hs")
    case True
    obtain new hs' where *: "extract_error_list hasher es (Some hs) = Value (new, Some hs')"
      "fresh_errors hasher hs (extracted es) new hs'" using Cons.IH [OF e(2)] by blast
    with True show ?thesis using fresh_append [OF fresh_skip [OF True] *(2)] by (simp add: e(1) Let_def)
  next
    case False
    obtain new hs' where *: "extract_error_list hasher es (Some (insert (hash_error hasher ?e) hs)) = Value (new, Some hs')"
      "fresh_errors hasher (insert (hash_error hasher ?e) hs) (extracted es) new hs'" using Cons.IH [OF e(2)] by blast
    with False show ?thesis using fresh_append [OF fresh_take [OF False] *(2)] by (simp add: e(1) Let_def)
  qed
qed

lemma extract_unknown: "\<not> all_known es \<Longrightarrow> \<exists>p. extract_error_list hasher es hashes = Panicked p"
proof (induction es arbitrary: hashes)
  case (Cons e es)
  show ?case
  proof (cases e)
    case (VerificationError je)
    let ?h = "hash_error hasher (extract_error je)"
    have "\<exists>p. extract_error_list hasher es hashes = Panicked p" for hashes using Cons VerificationError by simp
    then obtain p where p: "\<And>hashes. extract_error_list hasher es hashes = Panicked (p hashes)" by metis
    then show ?thesis by (cases hashes) (auto simp: VerificationError Let_def)
  qed simp
qed simp

lemma extract_cases:
  obtains p where "\<not> all_known es" "extract_error_list hasher es (Some hs) = Panicked p"
  | new hs' where "extract_error_list hasher es (Some hs) = Value (new, Some hs')"
      "fresh_errors hasher hs (extracted es) new hs'" "all_known es"
  using extract_unknown [of es hasher "Some hs"] extract_fresh [of es hasher hs] by blast

section \<open>Polling\<close>

text \<open>The errors that the reporter gives for methods of interest before the verification ends.\<close>

definition reported_errors :: "string set \<Rightarrow> 'cx reporter_message \<Rightarrow> 'cx verification_error list" where
  "reported_errors procedures msg =
     (case msg of
        EntityFailureMessage (MethodEntity name) time es \<Rightarrow> if name \<in> procedures \<and> 0 \<le> time then extracted es else []
      | _ \<Rightarrow> [])"

definition before_end :: "'cx reporter_message list \<Rightarrow> 'cx reporter_message list" where
  "before_end msgs = takeWhile (\<lambda>m. m \<noteq> VerificationTerminationMessage) msgs"

lemma poll_message_fresh:
  assumes "poll_message hasher procedures msg hs = Value (sent, hs')"
  shows "fresh_errors hasher hs (reported_errors procedures msg) (all_errors sent) hs' \<and> \<not> list_ex is_termination sent"
proof (cases "\<exists>name time es. msg = EntityFailureMessage (MethodEntity name) time es \<and> name \<in> procedures \<and> 0 \<le> time")
  case True
  then obtain name time es where msg: "msg = EntityFailureMessage (MethodEntity name) time es" "name \<in> procedures" "0 \<le> time"
    by blast
  show ?thesis
    by (cases rule: extract_cases [of es hasher hs])
       (use assms msg in \<open>auto simp: poll_message_def reported_errors_def is_termination_def extract_errors_def\<close>)
next
  case False
  then have "reported_errors procedures msg = []" "hs' = hs" "all_errors sent = []" "\<not> list_ex is_termination sent"
    using assms
    by (auto simp: poll_message_def reported_errors_def is_termination_def
        split: reporter_message.splits entity.splits option.splits if_splits exec.splits)
  then show ?thesis by (simp add: fresh_none)
qed

lemma polling_fresh:
  "polling_function hasher procedures msgs hs = (Some (Value hs'), sent) \<Longrightarrow>
     fresh_errors hasher hs (concat (map (reported_errors procedures) (before_end msgs))) (all_errors sent) hs' \<and>
     \<not> list_ex is_termination sent"
proof (induction msgs arbitrary: hs sent)
  case Nil
  then show ?case by simp
next
  case (Cons msg msgs)
  show ?case
  proof (cases "msg = VerificationTerminationMessage")
    case True
    then show ?thesis using Cons.prems by (simp add: before_end_def fresh_none)
  next
    case False
    then obtain first hs1 later where *: "poll_message hasher procedures msg hs = Value (first, hs1)"
      "polling_function hasher procedures msgs hs1 = (Some (Value hs'), later)" "sent = first @ later"
      using Cons.prems by (auto split: exec.splits prod.splits)
    then show ?thesis using poll_message_fresh [OF *(1)] Cons.IH [OF *(2)] False fresh_append
      by (auto simp: before_end_def)
  qed
qed

lemma polling_no_termination:
  fixes msgs :: "'cx reporter_message list"
  shows "\<not> list_ex is_termination (snd (polling_function hasher procedures msgs hs) :: ('cx, 'ex) server_message list)"
proof (induction msgs arbitrary: hs)
  case (Cons msg msgs)
  show ?case
  proof (cases "poll_message hasher procedures msg hs :: (('cx, 'ex) server_message list \<times> 64 word set) exec")
    case (Value r)
    obtain sent hs1 where r: "r = (sent, hs1)" by fastforce
    then show ?thesis using poll_message_fresh [of hasher procedures msg hs sent hs1] Value Cons.IH [of hs1]
      by (simp add: case_prod_beta)
  qed simp
qed simp

text \<open>Messages that the polling thread can handle.\<close>

definition report_ok :: "string set \<Rightarrow> 'cx reporter_message \<Rightarrow> bool" where
  "report_ok procedures msg =
     (case msg of
        QuantifierInstantiationsMessage q_name q_inst \<Rightarrow> quantifier_pos q_name = None \<or> 0 \<le> q_inst
      | QuantifierChosenTriggersMessage quant pos_string triggers \<Rightarrow>
          (case after_last_dot pos_string of None \<Rightarrow> True | Some number \<Rightarrow> parse_usize number \<noteq> None)
      | EntityFailureMessage (MethodEntity name) time es \<Rightarrow> name \<notin> procedures \<or> time < 0 \<or> all_known es
      | _ \<Rightarrow> True)"

lemma poll_message_ok:
  assumes "report_ok procedures msg"
  obtains sent hs' where "poll_message hasher procedures msg hs = Value (sent, hs')"
proof (cases "\<exists>name time es. msg = EntityFailureMessage (MethodEntity name) time es \<and> name \<in> procedures \<and> 0 \<le> time")
  case True
  then obtain name time es where msg: "msg = EntityFailureMessage (MethodEntity name) time es" "name \<in> procedures" "0 \<le> time"
    by blast
  show ?thesis
    by (cases rule: extract_cases [of es hasher hs])
       (use assms msg that in \<open>auto simp: poll_message_def report_ok_def extract_errors_def\<close>)
next
  case False
  have "\<exists>sent hs'. poll_message hasher procedures msg hs = Value (sent, hs')"
    using False assms
    by (auto simp: poll_message_def report_ok_def
        split: reporter_message.splits entity.splits option.splits if_splits exec.splits)
  then show ?thesis using that by blast
qed

lemma polling_ends:
  fixes msgs :: "'cx reporter_message list"
  assumes "VerificationTerminationMessage \<in> set msgs" and "\<forall>msg \<in> set msgs. report_ok procedures msg"
  shows "\<exists>hs'. fst (polling_function hasher procedures msgs hs :: _ \<times> ('cx, 'ex) server_message list) = Some (Value hs')"
  using assms
proof (induction msgs arbitrary: hs)
  case (Cons msg msgs)
  have "report_ok procedures msg" using Cons.prems(2) by simp
  then obtain sent :: "('cx, 'ex) server_message list" and hs1
    where "poll_message hasher procedures msg hs = Value (sent, hs1)" by (rule poll_message_ok)
  then show ?case using Cons.IH [of hs1] Cons.prems by (auto simp: case_prod_beta)
qed simp

lemma polling_never_ends:
  fixes msgs :: "'cx reporter_message list"
  assumes "VerificationTerminationMessage \<notin> set msgs" and "\<forall>msg \<in> set msgs. report_ok procedures msg"
  shows "fst (polling_function hasher procedures msgs hs :: _ \<times> ('cx, 'ex) server_message list) = None"
  using assms
proof (induction msgs arbitrary: hs)
  case (Cons msg msgs)
  have "report_ok procedures msg" using Cons.prems(2) by simp
  then obtain sent :: "('cx, 'ex) server_message list" and hs1
    where "poll_message hasher procedures msg hs = Value (sent, hs1)" by (rule poll_message_ok)
  then show ?case using Cons.IH [of hs1] Cons.prems by (auto simp: case_prod_beta)
qed simp

end
