(* ===== verification/Verify_Stream_Laws.thy ===== *)
theory Verify_Stream_Laws
  imports Verify_Stream Verify_Server_Laws
begin

text \<open>
  Laws of the client: every handler only adds to what has been collected, and none panics on results
  whose errors have a position. The locale \<open>stream_handler\<close> states what the loop over the messages
  relies on; it is interpreted for the handler of the client.
\<close>

section \<open>What a message contributes\<close>

text \<open>The result in a message, if the client can attribute it.\<close>

definition seen_kind :: "('sp, 'ms, 'd, 'c, 'ex) client_env \<Rightarrow> ('cx, 'ex) server_message \<Rightarrow> ('cx, 'ex) result_kind" where
  "seen_kind env msg =
     (case msg of
        Termination r \<Rightarrow> result_kind r
      | MethodTermination name k _ \<Rightarrow>
          if viper_to_rust_identifier (crate_name env) (def_path_str env) (vcx env) name = None then Success else k
      | _ \<Rightarrow> Success)"

text \<open>Errors whose position can be read, and results that consist of such errors.\<close>

definition located :: "'cx verification_error \<Rightarrow> bool" where
  "located e = (case offending_pos_id e of None \<Rightarrow> False | Some i \<Rightarrow> parse_usize i \<noteq> None)"

definition plain :: "('cx, 'ex) result_kind \<Rightarrow> bool" where
  "plain k = (case k of Success \<Rightarrow> True | Failure es \<Rightarrow> list_all located es | _ \<Rightarrow> False)"

definition translated ::
  "server_config \<Rightarrow> ('sp, 'ms, 'd, 'c, 'ex) client_env \<Rightarrow> 'cx verification_error \<Rightarrow> 'ms prusti_error list" where
  "translated cfg env e = (case backtranslate_error cfg env e of Value es \<Rightarrow> es | Panicked _ \<Rightarrow> [])"

definition collected ::
  "server_config \<Rightarrow> ('sp, 'ms, 'd, 'c, 'ex) client_env \<Rightarrow> ('cx, 'ex) server_message \<Rightarrow> 'ms prusti_error list" where
  "collected cfg env msg =
     filter (\<lambda>e. \<not> is_disabled e) (concat (map (translated cfg env) (kind_errors (seen_kind env msg))))"

definition fails :: "('sp, 'ms, 'd, 'c, 'ex) client_env \<Rightarrow> ('cx, 'ex) server_message \<Rightarrow> bool" where
  "fails env msg = (\<not> kind_is_success (seen_kind env msg))"

text \<open>Diagnostics that differ only by notes.\<close>

definition adds_notes :: "'ms env_diagnostic \<Rightarrow> 'ms env_diagnostic \<Rightarrow> bool" where
  "adds_notes d d' =
     (\<exists>ns. list_all (\<lambda>x. diag_level x = Level_Note) ns \<and> d' = d\<lparr>emitted := emitted d @ ns\<rparr>)"

lemma adds_notes_refl: "adds_notes d d"
  unfolding adds_notes_def by (rule exI [of _ "[]"]) simp

lemma adds_notes_trans: "adds_notes d d1 \<Longrightarrow> adds_notes d1 d2 \<Longrightarrow> adds_notes d d2"
proof -
  assume "adds_notes d d1" "adds_notes d1 d2"
  then obtain ns ms where "list_all (\<lambda>x. diag_level x = Level_Note) ns" "d1 = d\<lparr>emitted := emitted d @ ns\<rparr>"
    "list_all (\<lambda>x. diag_level x = Level_Note) ms" "d2 = d1\<lparr>emitted := emitted d1 @ ms\<rparr>"
    by (auto simp: adds_notes_def)
  then show ?thesis unfolding adds_notes_def by (intro exI [of _ "ns @ ms"]) simp
qed

section \<open>The loop over the messages\<close>

text \<open>
  A step that adds notes to the diagnostics, adds \<open>out x\<close> to the collected errors, and turns the
  overall result into a failure if \<open>bad x\<close>.
\<close>

definition contributes ::
  "'ms prusti_error list \<Rightarrow> bool \<Rightarrow> 'ms stream_state \<Rightarrow> unit exec \<times> 'ms stream_state \<Rightarrow> bool" where
  "contributes out bad s r =
     (fst r = Value () \<and> adds_notes (diagnostics s) (diagnostics (snd r)) \<and>
      prusti_errors (snd r) = prusti_errors s @ out \<and>
      overall (snd r) = (if bad then Overall_Failure else overall s))"

lemma contributes_none: "contributes [] False s (Value (), s)"
  by (simp add: contributes_def adds_notes_refl)

lemma contributes_then:
  assumes "contributes out bad s (f s)" and "\<And>s'. contributes out' bad' s' (g s')"
  shows "contributes (out @ out') (bad \<or> bad') s (and_then f g s)"
proof -
  obtain s1 where s1: "f s = (Value (), s1)" using assms(1) by (cases "f s") (auto simp: contributes_def)
  then show ?thesis using assms(1) assms(2) [of s1] adds_notes_trans
    by (auto simp: contributes_def and_then_def)
qed

locale stream_handler =
  fixes handle :: "'a \<Rightarrow> 'ms stream_state \<Rightarrow> unit exec \<times> 'ms stream_state"
    and good :: "'a \<Rightarrow> bool"
    and out :: "'a \<Rightarrow> 'ms prusti_error list"
    and bad :: "'a \<Rightarrow> bool"
  assumes handle_contributes: "good x \<Longrightarrow> contributes (out x) (bad x) s (handle x s)"
begin

lemma handle_all:
  "list_all good xs \<Longrightarrow> contributes (concat (map out xs)) (list_ex bad xs) s (for_each handle xs s)"
proof (induction xs arbitrary: s)
  case Nil
  then show ?case by (simp add: contributes_none)
next
  case (Cons x xs)
  then show ?case using contributes_then [of "out x" "bad x" s "handle x" "concat (map out xs)" "list_ex bad xs" "for_each handle xs"]
    by (simp add: handle_contributes)
qed

end

section \<open>The handlers\<close>

lemma emit_message_contributes [simp]:
  assumes "(of_char c :: nat) < 128" and "2 \<le> length cs"
  shows "contributes [] False s (emit_exec (message_error debug (c # cs) sp) s)"
proof -
  have "message_error debug (c # cs) sp = Value (message_value (c # cs) sp)"
    using assms by (simp add: message_error_def checked_def check_message_def)
  moreover have "adds_notes d (span_note sp msg d)" for msg and d :: "'a env_diagnostic"
    unfolding adds_notes_def span_note_def
    by (rule exI [of _ "[configure_diagnostic Level_Note sp msg None []]"]) (simp add: configure_diagnostic_def)
  ultimately show ?thesis
    by (simp add: emit_exec_def emit_def message_value_def prusti_error_new_def report_error_def contributes_def)
qed

lemma contributes_update:
  "contributes out bad (s\<lparr>quantifier_instantiations := q\<rparr>) r = contributes out bad s r"
  by (simp add: contributes_def)

lemma emit_message_update [simp]:
  assumes "(of_char c :: nat) < 128" and "2 \<le> length cs"
  shows "contributes [] False s (emit_exec (message_error debug (c # cs) sp) (s\<lparr>quantifier_instantiations := q\<rparr>))"
  by (rule contributes_update [THEN iffD1]) (rule emit_message_contributes [OF assms])

lemma instantiation_contributes:
  "contributes [] False s (handle_quantifier_instantiation_message cfg env q_name insts pos s)"
  by (simp add: handle_quantifier_instantiation_message_def Let_def contributes_none split: option.split)

lemma triggers_contributes:
  "contributes [] False s (handle_quantifier_chosen_triggers_message cfg env quant triggers pos s)"
  by (simp add: handle_quantifier_chosen_triggers_message_def contributes_none split: option.split)

lemma block_contributes:
  "contributes [] False s (handle_block_processing_message cfg env m l p r s)"
  by (simp add: handle_block_processing_message_def block_token_def Let_def contributes_none split: option.split)

section \<open>Results\<close>

lemma backtranslate_located:
  "located e \<Longrightarrow> backtranslate_error cfg env e = Value (translated cfg env e)"
  by (auto simp: located_def translated_def backtranslate_error_def split: option.splits)

lemma prusti_error_contributes:
  "\<not> show_ide_info cfg \<Longrightarrow>
     contributes (filter (\<lambda>e. \<not> is_disabled e) [e]) False s (handle_prusti_error cfg e s)"
  by (simp add: handle_prusti_error_def cancel_def contributes_def adds_notes_refl)

lemma filter_concat_singletons: "concat (map (\<lambda>x. filter P [x]) xs) = filter P xs"
  by (induction xs) auto

lemma failure_contributes: "contributes [] True s (set_failure s)"
  by (simp add: set_failure_def contributes_def adds_notes_refl)

text \<open>The client's handlers meet the contract, from single errors up to messages.\<close>

interpretation pushing: stream_handler "handle_prusti_error cfg" "\<lambda>_. \<not> show_ide_info cfg"
  "\<lambda>e. filter (\<lambda>e. \<not> is_disabled e) [e]" "\<lambda>_. False" for cfg
  by unfold_locales (rule prusti_error_contributes)

lemma list_all_const: "P \<Longrightarrow> list_all (\<lambda>_. P) xs"
  by (simp add: list_all_iff)

lemma list_ex_False: "\<not> list_ex (\<lambda>_. False) xs"
  by (simp add: list_ex_iff)

interpretation translating: stream_handler "handle_verification_error cfg env"
  "\<lambda>e. \<not> show_ide_info cfg \<and> located e" "\<lambda>e. filter (\<lambda>e. \<not> is_disabled e) (translated cfg env e)" "\<lambda>_. False" for cfg env
proof unfold_locales
  fix e s
  assume e: "\<not> show_ide_info cfg \<and> located e"
  have "contributes (concat (map (\<lambda>e. filter (\<lambda>e. \<not> is_disabled e) [e]) (translated cfg env e)))
      (list_ex (\<lambda>_. False) (translated cfg env e)) s (for_each (handle_prusti_error cfg) (translated cfg env e) s)"
    using e by (intro pushing.handle_all list_all_const) simp
  then show "contributes (filter (\<lambda>e. \<not> is_disabled e) (translated cfg env e)) False s (handle_verification_error cfg env e s)"
    using e by (simp only: filter_concat_singletons list_ex_False handle_verification_error_def backtranslate_located exec.case)
qed

lemma result_contributes:
  assumes "\<not> show_ide_info cfg" and "plain (result_kind r)"
  shows "contributes (filter (\<lambda>e. \<not> is_disabled e) (concat (map (translated cfg env) (kind_errors (result_kind r)))))
    (\<not> kind_is_success (result_kind r)) s (handle_result cfg env r s)"
proof (cases "result_kind r")
  case Success
  then show ?thesis by (simp add: handle_result_def skip_step_def contributes_none kind_is_success_def)
next
  case (Failure es)
  let ?out = "concat (map (\<lambda>e. filter (\<lambda>e. \<not> is_disabled e) (translated cfg env e)) es)"
  have "contributes ?out (list_ex (\<lambda>_. False) es) s (for_each (handle_verification_error cfg env) es s)"
    using assms Failure by (intro translating.handle_all) (simp add: plain_def list_all_iff)
  then have "contributes (?out @ []) (False \<or> True) s
      (and_then (for_each (handle_verification_error cfg env) es) set_failure s)"
    by (intro contributes_then failure_contributes) (simp add: list_ex_False)
  then show ?thesis using Failure by (simp add: handle_result_def kind_is_success_def filter_concat comp_def)
qed (use assms(2) in \<open>simp_all add: plain_def\<close>)

lemma kind_is_success_simps [simp]:
  "kind_is_success Success" "\<not> kind_is_success (Failure es)"
  "\<not> kind_is_success (ConsistencyErrors cs)" "\<not> kind_is_success (JavaException ex)"
  by (simp_all add: kind_is_success_def)

lemma termination_contributes:
  assumes "\<not> show_ide_info cfg" and "plain k" and "result_kind r = k"
  shows "contributes (filter (\<lambda>e. \<not> is_disabled e) (concat (map (translated cfg env) (kind_errors k))))
    (\<not> kind_is_success k) s (handle_termination_message cfg env r s)"
  using result_contributes [of cfg r env s] assms
  by (simp add: handle_termination_message_def and_then_def skip_step_def)

interpretation handling: stream_handler "handle_message cfg env"
  "\<lambda>msg. \<not> show_ide_info cfg \<and> plain (seen_kind env msg)" "collected cfg env" "fails env" for cfg env
proof unfold_locales
  fix msg s
  assume "\<not> show_ide_info cfg \<and> plain (seen_kind env msg)"
  then show "contributes (collected cfg env msg) (fails env msg) s (handle_message cfg env msg s)"
    by (cases msg)
       (auto simp: handle_message_def seen_kind_def collected_def fails_def termination_contributes
          handle_method_termination_message_def instantiation_contributes triggers_contributes block_contributes
          skip_step_def contributes_none split: option.split)
qed

section \<open>The stream\<close>

lemma emit_all:
  "(\<And>e. e \<in> set es \<Longrightarrow> \<not> is_disabled e) \<Longrightarrow>
     for_each (\<lambda>e. emit_exec (Value e)) es s = (Value (), s\<lparr>diagnostics := fold report_error es (diagnostics s)\<rparr>)"
proof (induction es arbitrary: s)
  case (Cons e es)
  then show ?case by (simp add: and_then_def emit_exec_def emit_def)
qed simp

lemma handle_stream_plain:
  assumes "\<not> show_ide_info cfg" and "list_all (\<lambda>msg. plain (seen_kind env msg)) msgs"
  obtains d1 where "adds_notes d d1"
    and "handle_stream primary cfg env msgs d =
      (Value (if list_ex (fails env) msgs then Overall_Failure else Overall_Success),
       fold report_error (sort_key (error_key primary) (concat (map (collected cfg env) msgs))) d1)"
proof -
  have "contributes (concat (map (collected cfg env) msgs)) (list_ex (fails env) msgs) (stream_start d)
      (for_each (handle_message cfg env) msgs (stream_start d))"
    using assms by (intro handling.handle_all) (simp add: list_all_iff)
  then obtain s where s: "for_each (handle_message cfg env) msgs (stream_start d) = (Value (), s)"
    "adds_notes d (diagnostics s)" "prusti_errors s = concat (map (collected cfg env) msgs)"
    "overall s = (if list_ex (fails env) msgs then Overall_Failure else Overall_Success)"
    by (cases "for_each (handle_message cfg env) msgs (stream_start d)") (auto simp: contributes_def stream_start_def)
  have "\<not> is_disabled e" if "e \<in> set (sort_key (error_key primary) (prusti_errors s))" for e
    using that by (auto simp: s(3) collected_def)
  then have "for_each (\<lambda>e. emit_exec (Value e)) (sort_key (error_key primary) (prusti_errors s)) s =
      (Value (), s\<lparr>diagnostics := fold report_error (sort_key (error_key primary) (prusti_errors s)) (diagnostics s)\<rparr>)"
    by (rule emit_all)
  then show ?thesis using that [OF s(2)] assms(1) by (simp add: handle_stream_def and_then_def s)
qed

end
