(* ===== verification/Verify_Request_Laws.thy ===== *)
theory Verify_Request_Laws
  imports Verify_Server_Laws
begin

text \<open>
  Laws of the processing of one request: the checks of the SMT traces, when the verifier gives a
  result, and what is sent to the client.
\<close>

section \<open>SMT traces\<close>

definition trace_passes :: "bool \<Rightarrow> smt_manager \<Rightarrow> smt_disk \<Rightarrow> path \<Rightarrow> bool" where
  "trace_passes checks m d f =
     (case map_of (traces d) f of
        None \<Rightarrow> False
      | Some lines \<Rightarrow> snd (analyze checks (manager_settings m) f lines) = Inr ())"

lemma check_traces_iff:
  "distinct fs \<Longrightarrow> fst (check_traces checks m fs d) = Value () \<longleftrightarrow> list_all (trace_passes checks m d) fs"
proof (induction fs arbitrary: d)
  case (Cons f fs)
  show ?case
  proof (cases "map_of (traces d) f")
    case None
    then show ?thesis by (simp add: trace_passes_def)
  next
    case (Some lines)
    obtain written r where a: "analyze checks (manager_settings m) f lines = (written, r)" by fastforce
    let ?d1 = "d\<lparr>written_statistics := written_statistics d @ written\<rparr>"
    let ?d2 = "if preserve_trace_files m then ?d1 else ?d1\<lparr>traces := AList.delete f (traces ?d1)\<rparr>"
    have "map_of (traces ?d2) g = map_of (traces d) g" if "g \<in> set fs" for g
      using that Cons.prems by (auto simp: delete_conv')
    then have "list_all (trace_passes checks m ?d2) fs = list_all (trace_passes checks m d) fs"
      by (intro list.pred_cong refl) (simp add: trace_passes_def)
    moreover have "fst (check_traces checks m fs ?d2) = Value () \<longleftrightarrow> list_all (trace_passes checks m ?d2) fs"
      using Cons by simp
    moreover have "check_traces checks m (f # fs) d =
        (case r of Inl p \<Rightarrow> (panic (analysis_message p), ?d1) | Inr _ \<Rightarrow> check_traces checks m fs ?d2)"
      by (simp add: Some a Let_def)
    moreover have "trace_passes checks m d f \<longleftrightarrow> r = Inr ()" by (simp add: trace_passes_def Some a)
    ultimately show ?thesis by (cases r) simp_all
  qed
qed simp

text \<open>What \<open>stop_and_check\<close> decides, for a manager whose trace files are different.\<close>

definition traces_pass :: "bool \<Rightarrow> smt_manager \<Rightarrow> smt_disk \<Rightarrow> bool" where
  "traces_pass checks m d =
     (case connection m of None \<Rightarrow> True | Some fs \<Rightarrow> distinct fs \<and> list_all (trace_passes checks m d) fs)"

lemma stop_and_check_passes:
  assumes "traces_pass checks m d"
  obtains m' d' where "stop_and_check checks m d = (Value (), m', d')" and "connection m' = None"
proof (cases "connection m")
  case None
  then show ?thesis using that by (simp add: stop_and_check_def)
next
  case (Some fs)
  then have "fst (check_traces checks m fs d) = Value ()"
    using assms check_traces_iff [of fs checks m d] by (simp add: traces_pass_def)
  then obtain d' where "check_traces checks m fs d = (Value (), d')" by (metis prod.collapse)
  then show ?thesis using that Some by (simp add: stop_and_check_def)
qed

lemma stop_and_check_stops: "stop_and_check checks m d = (r, m', d') \<Longrightarrow> connection m' = None"
  by (cases "connection m") (auto simp: stop_and_check_def Let_def split: prod.splits)

text \<open>The trace files handed out by a manager are different.\<close>

definition trace_name :: "smt_manager \<Rightarrow> nat \<Rightarrow> path" where
  "trace_name m i = log_path m @ ''/trace'' @ digits i @ ''.log''"

lemma accept_solver_names:
  assumes "connection m = Some (map (trace_name m) [0..<n])"
  shows "connection (snd (accept_solver m)) = Some (map (trace_name (snd (accept_solver m))) [0..<Suc n])"
  using assms by (simp add: accept_solver_def trace_name_def Let_def)

lemma trace_names_distinct: "distinct (map (trace_name m) [0..<n])"
  by (auto simp: distinct_map trace_name_def inj_on_def)

section \<open>Requests\<close>

text \<open>A run in which Viper gives a result, and nothing that reads it fails.\<close>

definition verdict_ok :: "'cx verdict \<Rightarrow> bool" where
  "verdict_ok v = (case v of ViperSuccess \<Rightarrow> True | ViperFailure es \<Rightarrow> all_known es)"

definition reports_ok :: "server_config \<Rightarrow> string set \<Rightarrow> 'cx reporter_message list \<Rightarrow> bool" where
  "reports_ok cfg procedures reports =
     (report_viper_messages cfg \<longrightarrow>
        VerificationTerminationMessage \<in> set reports \<and> (\<forall>msg \<in> set reports. report_ok procedures msg))"

definition run_ok :: "server_config \<Rightarrow> string set \<Rightarrow> 'cx verdict \<Rightarrow> ('cx, 'ex) viper_run \<Rightarrow> bool" where
  "run_ok cfg procedures v r =
     (verification_starts (run_jvm r) \<and> verdict_of (run_jvm r) = Inr (Some v) \<and> verdict_ok v \<and>
      reports_ok cfg procedures (run_reports r) \<and> traces_pass (overflow_checks cfg) (run_manager r) (run_disk r))"

definition final_result :: "('cx, 'ex) result_kind \<Rightarrow> nat \<Rightarrow> ('cx, 'ex) verification_result" where
  "final_result k t = \<lparr>item_name = ''program'', result_kind = k, cached = False, time_ms = t\<rparr>"

text \<open>What the messages of the polling thread and the final result have to do with the verdict.\<close>

definition answers ::
  "server_config \<Rightarrow> (error_ident \<Rightarrow> 64 word) \<Rightarrow> string set \<Rightarrow> 'cx verdict \<Rightarrow> 'cx reporter_message list
   \<Rightarrow> ('cx, 'ex) server_message list \<Rightarrow> ('cx, 'ex) result_kind \<Rightarrow> bool" where
  "answers cfg hasher procedures v reports sent k =
     (if report_viper_messages cfg then
        \<exists>hs hs'. polling_function hasher procedures reports {} = (Some (Value hs), sent) \<and>
          (case v of
             ViperSuccess \<Rightarrow> k = Success
           | ViperFailure es \<Rightarrow> \<exists>new. k = Failure new \<and> fresh_errors hasher hs (extracted es) new hs')
      else sent = [] \<and> k = (case v of ViperSuccess \<Rightarrow> Success | ViperFailure es \<Rightarrow> Failure (extracted es)))"

lemma verify_result:
  assumes "verification_starts jvm" and "verdict_of jvm = Inr (Some v)" and "traces_pass checks (fst md) (snd md)"
  obtains m' d' where "connection m' = None"
    and "verify checks hasher jvm polled md = map_option (\<lambda>x. (x, m', d')) (finish_verify hasher v polled)"
proof -
  obtain m' d' where "stop_and_check checks (fst md) (snd md) = (Value (), m', d')" "connection m' = None"
    using stop_and_check_passes [OF assms(3)] by blast
  then show ?thesis using that assms(1,2)
    by (auto simp: verify_def verification_starts_def split: sum.splits)
qed

lemma finish_verify_polled:
  assumes "verdict_ok v"
  obtains k :: "('cx, 'ex) result_kind" and hs' where "finish_verify hasher (v :: 'cx verdict) (Some (Some (Value hs))) = Some (Value k)"
    and "case v of ViperSuccess \<Rightarrow> k = Success | ViperFailure es \<Rightarrow> \<exists>new. k = Failure new \<and> fresh_errors hasher hs (extracted es) new hs'"
proof (cases v)
  case ViperSuccess
  then show ?thesis using that by (simp add: finish_verify_def Let_def)
next
  case (ViperFailure es)
  then obtain new hs' where "extract_error_list hasher es (Some hs) = Value (new, Some hs')"
    "fresh_errors hasher hs (extracted es) new hs'"
    using assms extract_fresh [of es hasher hs] by (auto simp: verdict_ok_def)
  then show ?thesis using that [of "Failure new" hs'] ViperFailure
    by (simp add: finish_verify_def Let_def extract_errors_def)
qed

lemma backend_verify_ok:
  fixes r :: "('cx, 'ex) viper_run"
  assumes "run_ok cfg procedures v r"
  obtains m' d' k sent where "connection m' = None"
    and "backend_verify cfg hasher procedures r = (Some (Value k, m', d'), sent)"
    and "answers cfg hasher procedures v (run_reports r) sent k"
proof (cases "report_viper_messages cfg")
  case True
  have starts: "verification_starts (run_jvm r)" and v: "verdict_ok v" using assms by (simp_all add: run_ok_def)
  have "\<exists>hs. fst (polling_function hasher procedures (run_reports r) {} :: _ \<times> ('cx, 'ex) server_message list) = Some (Value hs)"
    using polling_ends assms True by (auto simp: run_ok_def reports_ok_def)
  then obtain hs and sent :: "('cx, 'ex) server_message list"
    where p: "polling_function hasher procedures (run_reports r) {} = (Some (Value hs), sent)" by (metis prod.collapse)
  obtain k :: "('cx, 'ex) result_kind" and hs' where k: "finish_verify hasher v (Some (Some (Value hs))) = Some (Value k)"
    "case v of ViperSuccess \<Rightarrow> k = Success | ViperFailure es \<Rightarrow> \<exists>new. k = Failure new \<and> fresh_errors hasher hs (extracted es) new hs'"
    by (rule finish_verify_polled [OF v])
  obtain m' d' where "connection m' = None"
    "verify (overflow_checks cfg) hasher (run_jvm r) (Some (Some (Value hs))) (run_manager r, run_disk r) = Some (Value k, m', d')"
    using verify_result [of "run_jvm r" v "overflow_checks cfg" "(run_manager r, run_disk r)" hasher "Some (Some (Value hs))"]
      assms k(1) by (auto simp: run_ok_def)
  then show ?thesis using that [of m' k d' sent] True starts p k(2)
    by (auto simp: backend_verify_def verify_and_poll_msgs_def answers_def Let_def)
next
  case False
  let ?k = "case v of ViperSuccess \<Rightarrow> Success | ViperFailure es \<Rightarrow> Failure (extracted es)"
  have "finish_verify hasher v None = Some (Value ?k)"
    using assms by (cases v) (simp_all add: finish_verify_def Let_def extract_errors_def extract_all run_ok_def verdict_ok_def)
  moreover obtain m' d' where "connection m' = None"
    "verify (overflow_checks cfg) hasher (run_jvm r) None (run_manager r, run_disk r) =
       map_option (\<lambda>x. (x, m', d')) (finish_verify hasher v None)"
    using verify_result [of "run_jvm r" v "overflow_checks cfg" "(run_manager r, run_disk r)" hasher None] assms
    by (auto simp: run_ok_def)
  ultimately show ?thesis using that [of m' ?k d' "[]"] False by (simp add: backend_verify_def answers_def)
qed

lemma process_ok:
  fixes r :: "('cx, 'ex) viper_run"
  assumes "run_ok cfg procedures v r"
  obtains k sent where "process cfg hasher procedures r = (sent @ [Termination (final_result k (run_elapsed r))], Process_done)"
    and "answers cfg hasher procedures v (run_reports r) sent k"
proof -
  obtain m' d' k sent where "connection m' = None"
    "backend_verify cfg hasher procedures r = (Some (Value k, m', d'), sent)"
    "answers cfg hasher procedures v (run_reports r) sent k" by (rule backend_verify_ok [OF assms])
  then show ?thesis using that [of sent k] by (simp add: process_def drop_manager_def final_result_def)
qed

lemma answers_no_termination: "answers cfg hasher procedures v reports sent k \<Longrightarrow> \<not> list_ex is_termination sent"
  by (auto simp: answers_def dest: polling_fresh split: if_splits)

lemma answers_success: "answers cfg hasher procedures v reports sent k \<Longrightarrow> kind_is_success k \<longleftrightarrow> v = ViperSuccess"
  by (cases v) (auto simp: answers_def kind_is_success_def split: if_splits)

lemma answers_no_exception: "answers cfg hasher procedures v reports sent k \<Longrightarrow> \<not> is_java_exception k"
  by (cases v) (auto simp: answers_def is_java_exception_def split: if_splits)

lemma until_termination_snoc: "\<not> list_ex is_termination ms \<Longrightarrow> until_termination (ms @ [Termination r]) = ms @ [Termination r]"
  by (induction ms) (auto simp: is_termination_def)

lemma request_stream_ok:
  "\<not> list_ex is_termination sent \<Longrightarrow>
     request_stream (sent @ [Termination r], e) = (sent @ [Termination r], Stream_done)"
  by (simp add: request_stream_def until_termination_snoc) (simp add: is_termination_def)

section \<open>Errors of a request\<close>

text \<open>New errors have different identities, and stand for all given ones if hashes do not collide.\<close>

lemma fresh_distinct: "fresh_errors hasher hs given new hs' \<Longrightarrow> distinct (map key_of new)"
  by (auto simp: fresh_errors_def distinct_map inj_on_def hash_error_def)

lemma fresh_keys:
  assumes "fresh_errors hasher {} given new hs'" and "inj_on hasher (key_of ` set given)" and "e \<in> set given"
  shows "key_of e \<in> key_of ` set new"
proof -
  have sub: "set new \<subseteq> set given" and "hash_error hasher e \<in> hash_error hasher ` set new"
    using assms(1,3) by (auto simp: fresh_errors_def)
  then obtain y where y: "y \<in> set new" "hasher (key_of e) = hasher (key_of y)" by (auto simp: hash_error_def)
  then have "key_of e = key_of y" using inj_onD [OF assms(2) y(2)] assms(3) sub by auto
  then show ?thesis using y(1) by simp
qed

lemma answers_fresh:
  assumes "answers cfg hasher procedures (ViperFailure es) reports sent k" and "report_viper_messages cfg"
  obtains hs' where "fresh_errors hasher {} (concat (map (reported_errors procedures) (before_end reports)) @ extracted es)
    (all_errors (sent @ [Termination (final_result k t)])) hs'"
proof -
  obtain hs hs' new where *: "polling_function hasher procedures reports {} = (Some (Value hs), sent)"
    "k = Failure new" "fresh_errors hasher hs (extracted es) new hs'" using assms by (auto simp: answers_def)
  then have "fresh_errors hasher {} (concat (map (reported_errors procedures) (before_end reports))) (all_errors sent) hs"
    using polling_fresh by blast
  from fresh_append [OF this *(3)] show ?thesis using that *(2) by (simp add: final_result_def)
qed

lemma answers_keys:
  assumes "answers cfg hasher procedures (ViperFailure es) reports sent k"
    and "inj_on hasher (key_of ` set (extracted es @ concat (map (reported_errors procedures) (before_end reports))))"
    and "e \<in> set (extracted es)"
  shows "key_of e \<in> key_of ` set (all_errors (sent @ [Termination (final_result k t)]))"
proof (cases "report_viper_messages cfg")
  case True
  let ?given = "concat (map (reported_errors procedures) (before_end reports)) @ extracted es"
  have "key_of ` set (extracted es @ concat (map (reported_errors procedures) (before_end reports))) = key_of ` set ?given"
    by auto
  then have "inj_on hasher (key_of ` set ?given)" using assms(2) by simp
  moreover obtain hs' where "fresh_errors hasher {} ?given (all_errors (sent @ [Termination (final_result k t)])) hs'"
    by (rule answers_fresh [OF assms(1) True])
  ultimately show ?thesis using fresh_keys assms(3) by fastforce
next
  case False
  then show ?thesis using assms by (simp add: answers_def final_result_def)
qed

end
