(* ===== verification/Verify_Server_Props.thy ===== *)
theory Verify_Server_Props
  imports Verify_Request_Laws
begin

text \<open>The properties of the processing of verification requests and of the result cache.\<close>

section \<open>An example\<close>

text \<open>One method with one failing assertion, reported by the reporter and in the final result.\<close>

definition example_error :: "nat java_error" where
  "example_error =
     \<lparr>java_full_id = ''assert.failed'', java_pos = HasIdentifier ''1'', java_offending_pos = HasIdentifier ''1'',
      java_reason_pos = OtherPosition, java_message = ''Assert might fail.'', java_contexts = []\<rparr>"

definition example_config :: server_config where
  "example_config =
     \<lparr>debug_assertions = True, overflow_checks = True, report_viper_messages = True, report_block_messages = False,
      enable_cache = True, show_ide_info = False, internal_errors_as_warnings = False\<rparr>"

definition example_run :: "(nat, string) viper_run" where
  "example_run =
     \<lparr>run_jvm = \<lparr>consistency = Inr [], verdict_of = Inr (Some (ViperFailure [VerificationError example_error]))\<rparr>,
      run_reports = [EntityFailureMessage (MethodEntity ''m_f'') 7 [VerificationError example_error],
        VerificationTerminationMessage],
      run_idle_reports = [], run_manager = smt_manager_default,
      run_disk = \<lparr>traces = [], written_statistics = []\<rparr>, run_elapsed = 9\<rparr>"

lemma example_run_ok: "run_ok example_config {''m_f''} (ViperFailure [VerificationError example_error]) example_run"
  by (simp add: run_ok_def example_run_def verification_starts_def verdict_ok_def reports_ok_def report_ok_def
      traces_pass_def smt_manager_default_def)

definition empty_cache :: "(nat, string) persistent_cache" where
  "empty_cache = \<lparr>updated = False, load_loc = ''cache.bin'', cache_data = []\<rparr>"

section \<open>Results and errors\<close>

text \<open>When the verifier is started and gives a result that can be read, the reporter says that
  it has ended if it is polled, and the SMT traces pass their checks, then the request is answered: the
  client receives messages of which exactly the last one is the termination message, with a success
  exactly if Viper reports one.\<close>

lemma process_answers:
  assumes "run_ok cfg procedures v r"
  shows "\<exists>sent k. process cfg hasher procedures r =
      (sent @ [Termination (final_result k (run_elapsed r))], Process_done) \<and>
    \<not> list_ex is_termination sent \<and> (kind_is_success k \<longleftrightarrow> v = ViperSuccess) \<and>
    request_stream (process cfg hasher procedures r) =
      (sent @ [Termination (final_result k (run_elapsed r))], Stream_done)"
proof -
  obtain k sent where *: "process cfg hasher procedures r = (sent @ [Termination (final_result k (run_elapsed r))], Process_done)"
    "answers cfg hasher procedures v (run_reports r) sent k" by (rule process_ok [OF assms])
  then show ?thesis
    using answers_no_termination [OF *(2)] answers_success [OF *(2)] request_stream_ok [of sent] by auto
qed

text \<open>C15: With polling, no error is reported twice and none is lost: the errors in the messages
  about single methods and in the final result have different identities, every error of the final
  result of Viper is among them, and they all come from Viper. The hashes by which errors are told
  apart must not collide on the errors of this verification.\<close>

theorem errors_reported_once:
  assumes "run_ok cfg procedures (ViperFailure es) r" and "report_viper_messages cfg"
    and "inj_on hasher (key_of ` set (extracted es @ concat (map (reported_errors procedures) (before_end (run_reports r)))))"
    and "process cfg hasher procedures r = (msgs, e)"
  shows "distinct (map key_of (all_errors msgs)) \<and>
    key_of ` set (extracted es) \<subseteq> key_of ` set (all_errors msgs) \<and>
    set (all_errors msgs) \<subseteq> set (extracted es @ concat (map (reported_errors procedures) (before_end (run_reports r))))"
proof -
  let ?given = "concat (map (reported_errors procedures) (before_end (run_reports r)))"
  obtain k sent where k: "process cfg hasher procedures r = (sent @ [Termination (final_result k (run_elapsed r))], Process_done)"
    "answers cfg hasher procedures (ViperFailure es) (run_reports r) sent k" by (rule process_ok [OF assms(1)])
  then obtain hs' where fresh: "fresh_errors hasher {} (?given @ extracted es) (all_errors msgs) hs'"
    using answers_fresh [OF k(2) assms(2), of "run_elapsed r"] assms(4) by auto
  have "set (all_errors msgs) \<subseteq> set (extracted es @ ?given)" using fresh by (auto simp: fresh_errors_def)
  moreover have "key_of ` set (extracted es) \<subseteq> key_of ` set (all_errors msgs)"
    using answers_keys [OF k(2) assms(3)] k(1) assms(4) by auto
  ultimately show ?thesis using fresh_distinct [OF fresh] by blast
qed

theorem errors_reported_once_witness:
  "\<exists>msgs e. process example_config (\<lambda>_. 0) {''m_f''} example_run = (msgs, e) \<and>
     distinct (map key_of (all_errors msgs)) \<and> key_of (extract_error example_error) \<in> key_of ` set (all_errors msgs)"
proof -
  obtain msgs e where m: "process example_config (\<lambda>_. 0) {''m_f''} example_run = (msgs, e)" by fastforce
  have "inj_on (\<lambda>_. 0 :: 64 word) (key_of ` set (extracted [VerificationError example_error] @
      concat (map (reported_errors {''m_f''}) (before_end (run_reports example_run)))))"
    by (simp add: example_run_def before_end_def reported_errors_def)
  from errors_reported_once [OF example_run_ok _ this m] show ?thesis using m by (auto simp: example_config_def)
qed




section \<open>The cache\<close>

lemma store_only_termination:
  "\<not> list_ex is_termination sent \<Longrightarrow> fold (store_server cfg h) sent c = c"
  "\<not> list_ex is_termination sent \<Longrightarrow> fold (store_local cfg h) sent c = c"
  by (induction sent arbitrary: c)
     (auto simp: store_server_def store_local_def is_termination_def split: server_message.splits)

lemma on_upgrade_miss:
  fixes r :: "('cx, 'ex) viper_run"
  assumes "run_ok cfg procedures v r" and "enable_cache cfg" and "cache_get h c = None"
  obtains k sent where "process cfg hasher procedures r = (sent @ [Termination (final_result k (run_elapsed r))], Process_done)"
    and "answers cfg hasher procedures v (run_reports r) sent k"
    and "on_upgrade cfg h (process cfg hasher procedures r) c =
      (sent @ [Termination (final_result k (run_elapsed r))], Stream_done, snd (cache_put h (final_result k (run_elapsed r)) c))"
proof -
  obtain k sent where *: "process cfg hasher procedures r = (sent @ [Termination (final_result k (run_elapsed r))], Process_done)"
    "answers cfg hasher procedures v (run_reports r) sent k" by (rule process_ok [OF assms(1)])
  have "on_upgrade cfg h (process cfg hasher procedures r) c =
      (sent @ [Termination (final_result k (run_elapsed r))], Stream_done, snd (cache_put h (final_result k (run_elapsed r)) c))"
    using answers_no_termination [OF *(2)] answers_no_exception [OF *(2)] assms(2,3)
    by (simp add: on_upgrade_def *(1) request_stream_ok store_only_termination store_server_def final_result_def)
  with * that show ?thesis by blast
qed

lemma on_upgrade_hit:
  assumes "enable_cache cfg" and "cache_get h c = Some result"
  shows "on_upgrade cfg h sent c = ([Termination (result\<lparr>cached := True\<rparr>)], Stream_done, c)"
  using assms by (simp add: on_upgrade_def store_server_def)

text \<open>C36: The server stores only the final result of a request. When all errors have been reported for
  single methods, that result has no errors; a second request for the same program is answered from
  the cache with a failure that names no error, although the first one reported them all.\<close>

theorem cached_failure_loses_errors:
  fixes r :: "('cx, 'ex) viper_run"
  assumes "run_ok cfg procedures (ViperFailure es) r" and "report_viper_messages cfg" and "enable_cache cfg"
    and "cache_get h c = None" and "set (extracted es) \<subseteq> set (concat (map (reported_errors procedures) (before_end (run_reports r))))"
    and "on_upgrade cfg h (process cfg hasher procedures r) c = (msgs, e, c')"
  shows "hash_error hasher ` set (extracted es) \<subseteq> hash_error hasher ` set (all_errors msgs) \<and>
    on_upgrade cfg h again c' =
      ([Termination ((final_result (Failure []) (run_elapsed r))\<lparr>cached := True\<rparr>)], Stream_done, c')"
proof -
  obtain k sent where *: "process cfg hasher procedures r = (sent @ [Termination (final_result k (run_elapsed r))], Process_done)"
    "answers cfg hasher procedures (ViperFailure es) (run_reports r) sent k"
    "on_upgrade cfg h (process cfg hasher procedures r) c =
      (sent @ [Termination (final_result k (run_elapsed r))], Stream_done, snd (cache_put h (final_result k (run_elapsed r)) c))"
    by (rule on_upgrade_miss [OF assms(1,3,4)])
  then obtain hs hs' new where **: "polling_function hasher procedures (run_reports r) {} = (Some (Value hs), sent)"
    "k = Failure new" "fresh_errors hasher hs (extracted es) new hs'" using assms(2) by (auto simp: answers_def)
  have fresh: "fresh_errors hasher {} (concat (map (reported_errors procedures) (before_end (run_reports r)))) (all_errors sent) hs"
    using polling_fresh [OF **(1)] by blast
  then have "hash_error hasher ` set (concat (map (reported_errors procedures) (before_end (run_reports r)))) \<subseteq> hs"
    unfolding fresh_errors_def by (elim conjE)
  then have "hash_error hasher ` set (extracted es) \<subseteq> hs" by (rule subset_trans [OF image_mono [OF assms(5)]])
  moreover have "hs = hash_error hasher ` set (all_errors sent)" using fresh by (simp add: fresh_errors_def)
  moreover have "new = []"
    using **(3) calculation(1) by (cases new) (auto simp: fresh_errors_def)
  moreover have hit: "cache_get h c' = Some (final_result k (run_elapsed r))"
    using *(3) assms(6) by (simp add: cache_store.get_put)
  ultimately show ?thesis using *(3) assms(6) on_upgrade_hit [OF assms(3) hit, of again] **(2) by auto
qed

theorem cached_failure_loses_errors_witness:
  "\<exists>msgs e c'. on_upgrade example_config 5 (process example_config (\<lambda>_. 0) {''m_f''} example_run) empty_cache = (msgs, e, c') \<and>
     all_errors msgs \<noteq> [] \<and>
     all_errors (fst (on_upgrade example_config 5 (process example_config (\<lambda>_. 0) {''m_f''} example_run) c')) = []"
proof -
  obtain msgs e c' where m: "on_upgrade example_config 5 (process example_config (\<lambda>_. 0) {''m_f''} example_run) empty_cache = (msgs, e, c')"
    by (metis surj_pair)
  have "report_viper_messages example_config" "enable_cache example_config" "cache_get 5 empty_cache = None"
    "set (extracted [VerificationError example_error]) \<subseteq>
       set (concat (map (reported_errors {''m_f''}) (before_end (run_reports example_run))))"
    by (simp_all add: example_config_def empty_cache_def cache_get_def example_run_def before_end_def reported_errors_def)
  from cached_failure_loses_errors [OF example_run_ok this m]
  show ?thesis using m by (auto simp: final_result_def)
qed

text \<open>C39: A request that is verified in the same process and has a result in the cache is verified
  nevertheless: the client first receives the stored result, not marked as cached, and then all
  messages of a new verification, whose result replaces the stored one.\<close>

theorem local_hit_verifies_again:
  assumes "run_ok cfg procedures v r" and "enable_cache cfg" and "cache_get h c = Some result"
  shows "\<exists>sent k c'. process cfg hasher procedures r = (sent @ [Termination (final_result k (run_elapsed r))], Process_done) \<and>
    verify_requests_local cfg [(h, process cfg hasher procedures r)] c =
      (Termination result # sent @ [Termination (final_result k (run_elapsed r))], Stream_done, c') \<and>
    cache_get h c' = Some (final_result k (run_elapsed r))"
proof -
  obtain k sent where *: "process cfg hasher procedures r = (sent @ [Termination (final_result k (run_elapsed r))], Process_done)"
    "answers cfg hasher procedures v (run_reports r) sent k" by (rule process_ok [OF assms(1)])
  have "store_local cfg h (Termination (final_result k (run_elapsed r))) c = snd (cache_put h (final_result k (run_elapsed r)) c)"
    using answers_no_exception [OF *(2)] assms(2) by (simp add: store_local_def final_result_def)
  then show ?thesis
    using answers_no_termination [OF *(2)] assms(2,3) cache_store.get_put [of h h "final_result k (run_elapsed r)" c]
    by (intro exI [of _ sent] exI [of _ k]) (simp add: *(1) request_stream_ok store_only_termination)
qed

theorem local_hit_verifies_again_witness:
  "\<exists>sent k c'. verify_requests_local example_config [(5, process example_config (\<lambda>_. 0) {''m_f''} example_run)]
      (snd (cache_put 5 dummy_success empty_cache)) =
     (Termination dummy_success # sent @ [Termination (final_result k 9)], Stream_done, c')"
proof -
  have "cache_get 5 (snd (cache_put 5 dummy_success empty_cache)) = Some dummy_success" by (simp add: cache_store.get_put)
  moreover have "enable_cache example_config" "run_elapsed example_run = 9" by (simp_all add: example_config_def example_run_def)
  ultimately show ?thesis using local_hit_verifies_again [OF example_run_ok, of 5 _ dummy_success "\<lambda>_. 0"] by metis
qed

text \<open>C31: The results that were inserted into a cache with a usable path are found by the next run,
  given that \<^verbatim>\<open>bincode\<close> reads what it has written; of several results for a request it is the last.\<close>

theorem cache_survives:
  assumes "\<forall>rc. deserialize (serialize rc) = Some rc" and "entries \<noteq> []" and "load_loc c \<noteq> []"
    and "can_create_dir fs (load_loc c)" and "can_create fs (load_loc c)"
    and "c' = fold (\<lambda>(h, r) c. snd (cache_put h r c)) entries c"
  shows "\<exists>c''. load_cache deserialize (drop_cache serialize c' fs) (load_loc c) = Value c'' \<and> \<not> updated c'' \<and>
    (\<forall>h. cache_get h c'' = (case map_of (rev entries) h of Some r \<Rightarrow> Some r | None \<Rightarrow> cache_get h c))"
proof -
  have "load_loc (fold (\<lambda>(h, r) c. snd (cache_put h r c)) es c0) = load_loc c0 \<and>
      (es \<noteq> [] \<longrightarrow> updated (fold (\<lambda>(h, r) c. snd (cache_put h r c)) es c0))" for es and c0 :: "('a, 'b) persistent_cache"
    by (induction es rule: rev_induct) (auto simp: cache_put_def)
  then have "load_loc c' = load_loc c" "updated c'" using assms(2,6) by auto
  then have "load_cache deserialize (drop_cache serialize c' fs) (load_loc c) = Value (c'\<lparr>updated := False\<rparr>)"
    using load_saved [of deserialize serialize c' fs] assms by (simp add: drop_cache_def)
  moreover have "cache_get h (c'\<lparr>updated := False\<rparr>) = (case map_of (rev entries) h of Some r \<Rightarrow> Some r | None \<Rightarrow> cache_get h c)" for h
    using cache_store.get_put_all [of h entries c] assms(6) by (simp add: cache_store.put_all_def cache_get_def)
  ultimately show ?thesis by auto
qed

theorem cache_survives_witness:
  "\<exists>c''. load_cache Some (drop_cache id (snd (cache_put 5 dummy_success empty_cache))
       \<lparr>files = Map.empty, can_create = (\<lambda>_. True), can_create_dir = (\<lambda>_. True)\<rparr>) ''cache.bin'' = Value c'' \<and>
     cache_get 5 c'' = Some dummy_success"
  using cache_survives [of Some id "[(5, dummy_success)]" empty_cache
      "\<lparr>files = Map.empty, can_create = (\<lambda>_. True), can_create_dir = (\<lambda>_. True)\<rparr>"
      "snd (cache_put 5 dummy_success empty_cache)"]
  by (auto simp: empty_cache_def)

end
