(* ===== verification/Verify_Stream_Props.thy ===== *)
theory Verify_Stream_Props
  imports Verify_Stream_Laws Verify_Server_Props
begin

text \<open>The property of the client's half of a verification, and an example of a client.\<close>

definition example_env :: "(nat, nat, nat, nat, string) client_env" where
  "example_env =
     \<lparr>vcx = (open_span 8 (open_span 4 span_manager_default))\<lparr>viper_identifiers := [(''m_f'', 1)]\<rparr>,
      crate_name = (\<lambda>_. ''krate''), def_path_str = (\<lambda>_. ''f''), multi_span = id, dummy_sp = 0,
      json = (\<lambda>_. ''{}''), show_consistency = consistency_message, show_exception = id\<rparr>"

definition failure_at :: "string \<Rightarrow> nat verification_error" where
  "failure_at i =
     \<lparr>full_id = ''assert.failed'', pos_id = None, offending_pos_id = Some i, reason_pos_id = None,
      error_message = ''Assert might fail.'', counterexample = None\<rparr>"

lemma located_zero: "located (failure_at ''0'')"
  using parse_usize_digits [of 0] by (simp add: located_def failure_at_def digits.simps)

text \<open>C16: Outside of an editor, when all errors have positions and there are neither consistency errors nor
  Java exceptions, handling the messages of a verification does not panic. The result is a failure
  exactly if some message about a known item is one. All errors of such messages are translated back
  and those that are not disabled are reported, ordered by their positions, after nothing but notes.\<close>

theorem handle_stream_reports:
  assumes "\<not> show_ide_info cfg" and "list_all (\<lambda>msg. plain (seen_kind env msg)) msgs"
  shows "\<exists>d1. adds_notes d d1 \<and>
    handle_stream primary cfg env msgs d =
      (Value (if list_ex (fails env) msgs then Overall_Failure else Overall_Success),
       fold report_error (sort_key (error_key primary) (concat (map (collected cfg env) msgs))) d1)"
proof -
  obtain d1 where "adds_notes d d1" and "handle_stream primary cfg env msgs d =
      (Value (if list_ex (fails env) msgs then Overall_Failure else Overall_Success),
       fold report_error (sort_key (error_key primary) (concat (map (collected cfg env) msgs))) d1)"
    by (rule handle_stream_plain [OF assms])
  then show ?thesis by blast
qed

theorem handle_stream_reports_witness:
  "\<exists>d. handle_stream (Some :: nat \<Rightarrow> nat option) example_config example_env
     [MethodTermination ''m_f'' (Failure [failure_at ''0'']) 5] env_diagnostic_new = (Value Overall_Failure, d)"
proof -
  let ?msgs = "[MethodTermination ''m_f'' (Failure [failure_at ''0'']) 5] :: (nat, string) server_message list"
  have "seen_kind example_env (hd ?msgs) = Failure [failure_at ''0'']"
    by (simp add: seen_kind_def example_env_def viper_to_rust_identifier_def get_viper_identifier_def)
  then have "list_all (\<lambda>msg. plain (seen_kind example_env msg)) ?msgs" "list_ex (fails example_env) ?msgs"
    by (simp_all add: plain_def located_zero fails_def)
  moreover have "\<not> show_ide_info example_config" by (simp add: example_config_def)
  ultimately show ?thesis
    using handle_stream_reports [of example_config example_env ?msgs env_diagnostic_new Some] by auto
qed

end
