(* ===== verification/Verify_Clients.thy ===== *)
theory Verify_Clients
  imports Verify_Request_Laws
begin

text \<open>
  Several clients of one server. All requests go to the one thread of
  \<^verbatim>\<open>VerificationRequestProcessing\<close>, and all messages come back through one channel, from which the task
  of every client takes messages one at a time until it has seen a termination message
  (\<^verbatim>\<open>process_verification.rs\<close> and \<^verbatim>\<open>on_upgrade\<close> in \<^verbatim>\<open>server.rs\<close>). The tasks share one thread. A task
  can be suspended only when it sends a message over its socket: looking into the cache, sending the
  request and receiving the first message are one step, and so are receiving a later message and
  storing it in the cache. As the verification thread handles the requests in the order in which they
  were sent and receiving waits for a message, only the order of the messages matters, and the
  messages of a request are put into the channel when the request is sent.
\<close>

section \<open>Steps\<close>

datatype phase = Idle | Active | Finished

record ('cx, 'ex) server_state =
  channel :: "('cx, 'ex) server_message list"
  phases :: "nat \<Rightarrow> phase"
  received :: "nat \<Rightarrow> ('cx, 'ex) server_message list"
  results :: "('cx, 'ex) persistent_cache"

definition server_start :: "('cx, 'ex) persistent_cache \<Rightarrow> ('cx, 'ex) server_state" where
  "server_start c = \<lparr>channel = [], phases = (\<lambda>_. Idle), received = (\<lambda>_. []), results = c\<rparr>"

datatype client_event = Answer_from_cache nat | Send_request nat | Receive nat

definition take_cached :: "nat \<Rightarrow> ('cx, 'ex) verification_result \<Rightarrow> ('cx, 'ex) server_state \<Rightarrow> ('cx, 'ex) server_state" where
  "take_cached i r s =
     s\<lparr>phases := (phases s)(i := Finished), received := (received s)(i := [Termination (r\<lparr>cached := True\<rparr>)])\<rparr>"

definition receive_message ::
  "server_config \<Rightarrow> request_hash \<Rightarrow> nat \<Rightarrow> ('cx, 'ex) server_message \<Rightarrow> ('cx, 'ex) server_message list
   \<Rightarrow> ('cx, 'ex) server_state \<Rightarrow> ('cx, 'ex) server_state" where
  "receive_message cfg h i m ms s =
     s\<lparr>phases := (phases s)(i := (if is_termination m then Finished else Active)), channel := ms,
       received := (received s)(i := received s i @ [m]), results := store_server cfg h m (results s)\<rparr>"

text \<open>
  \<open>hash_of\<close> and \<open>answer\<close> give the hash of a client's request and the messages that processing it
  sends.
\<close>

inductive client_step ::
  "server_config \<Rightarrow> (nat \<Rightarrow> request_hash) \<Rightarrow> (nat \<Rightarrow> ('cx, 'ex) server_message list)
   \<Rightarrow> client_event \<Rightarrow> ('cx, 'ex) server_state \<Rightarrow> ('cx, 'ex) server_state \<Rightarrow> bool"
  for cfg hash_of answer where
  from_cache: "phases s i = Idle \<Longrightarrow> enable_cache cfg \<Longrightarrow> cache_get (hash_of i) (results s) = Some r \<Longrightarrow>
    client_step cfg hash_of answer (Answer_from_cache i) s (take_cached i r s)"
| send: "phases s i = Idle \<Longrightarrow> \<not> enable_cache cfg \<or> cache_get (hash_of i) (results s) = None \<Longrightarrow>
    channel s @ answer i = m # ms \<Longrightarrow>
    client_step cfg hash_of answer (Send_request i) s (receive_message cfg (hash_of i) i m ms s)"
| receive: "phases s i = Active \<Longrightarrow> channel s = m # ms \<Longrightarrow>
    client_step cfg hash_of answer (Receive i) s (receive_message cfg (hash_of i) i m ms s)"

lemmas client_defs = take_cached_def receive_message_def server_start_def

inductive_cases from_cacheE: "client_step cfg hash_of answer (Answer_from_cache i) s s'"
inductive_cases sendE: "client_step cfg hash_of answer (Send_request i) s s'"
inductive_cases receiveE: "client_step cfg hash_of answer (Receive i) s s'"

inductive client_run ::
  "server_config \<Rightarrow> (nat \<Rightarrow> request_hash) \<Rightarrow> (nat \<Rightarrow> ('cx, 'ex) server_message list)
   \<Rightarrow> client_event list \<Rightarrow> ('cx, 'ex) server_state \<Rightarrow> ('cx, 'ex) server_state \<Rightarrow> bool"
  for cfg hash_of answer where
  run_none: "client_run cfg hash_of answer [] s s"
| run_more: "client_run cfg hash_of answer es s s1 \<Longrightarrow> client_step cfg hash_of answer e s1 s2 \<Longrightarrow>
    client_run cfg hash_of answer (es @ [e]) s s2"

section \<open>One client at a time\<close>

text \<open>Schedules in which a request is sent only when no other client is waiting for messages.\<close>

inductive one_at_a_time ::
  "server_config \<Rightarrow> (nat \<Rightarrow> request_hash) \<Rightarrow> (nat \<Rightarrow> ('cx, 'ex) server_message list)
   \<Rightarrow> ('cx, 'ex) server_state \<Rightarrow> ('cx, 'ex) server_state \<Rightarrow> bool"
  for cfg hash_of answer s where
  alone_none: "one_at_a_time cfg hash_of answer s s"
| alone_more: "one_at_a_time cfg hash_of answer s s1 \<Longrightarrow> client_step cfg hash_of answer e s1 s2 \<Longrightarrow>
    (\<forall>i j. e = Send_request i \<longrightarrow> phases s1 j \<noteq> Active) \<Longrightarrow> one_at_a_time cfg hash_of answer s s2"







text \<open>
  When every answer is a single termination message, as it is without \<^verbatim>\<open>report_viper_messages\<close>, nobody
  ever waits between two steps.
\<close>

lemma single_answers_alone:
  assumes "client_run cfg hash_of answer es (server_start c) s" and "\<And>i. \<exists>r. answer i = [Termination r]"
  shows "one_at_a_time cfg hash_of answer (server_start c) s \<and> (\<forall>i. phases s i \<noteq> Active) \<and> channel s = []"
  using assms(1)
proof (induction es "server_start c" s rule: client_run.induct)
  case run_none
  then show ?case by (auto simp: server_start_def intro: alone_none)
next
  case (run_more es s1 e s2)
  then have "one_at_a_time cfg hash_of answer (server_start c) s2" by (blast intro: alone_more)
  moreover from \<open>client_step cfg hash_of answer e s1 s2\<close> have "(\<forall>i. phases s2 i \<noteq> Active) \<and> channel s2 = []"
  proof cases
    case (send i m ms)
    then have "answer i = m # ms" using run_more by simp
    then have "is_termination m" "ms = []" using assms(2) [of i] by (auto simp: is_termination_def)
    then show ?thesis using run_more send by (simp add: client_defs)
  qed (use run_more in \<open>auto simp: client_defs\<close>)
  ultimately show ?case by blast
qed


definition plain_cache :: "(nat, string) persistent_cache" where
  "plain_cache = \<lparr>updated = False, load_loc = ''cache.bin'', cache_data = []\<rparr>"

definition answer_of :: "nat \<Rightarrow> (nat, string) server_message list" where
  "answer_of i = [Termination \<lparr>item_name = ''program'', result_kind = (if i = 0 then Success else Failure []), cached = False, time_ms = i\<rparr>]"

definition cached_config :: server_config where
  "cached_config =
     \<lparr>debug_assertions = False, overflow_checks = False, report_viper_messages = False, report_block_messages = False,
      enable_cache = True, show_ide_info = False, internal_errors_as_warnings = False\<rparr>"


text \<open>C37: When the server sends more than the final result, a second client can send its request while
  the first one has only received a part of its messages. It then receives the rest of the messages of
  the first request: the result of the first program is taken for its own and stored in the cache
  under its hash.\<close>

theorem clients_mixed:
  assumes "cache_get (hash_of 0) c = None" and "cache_get (hash_of 1) c = None"
    and "answer 0 = [m, Termination r]" and "\<not> is_termination m"
    and "\<not> cached r" and "\<not> is_java_exception (result_kind r)" and "enable_cache cfg"
  shows "\<exists>s. client_run cfg hash_of answer [Send_request 0, Send_request 1] (server_start c) s \<and>
    phases s 1 = Finished \<and> received s 1 = [Termination r] \<and> cache_get (hash_of 1) (results s) = Some r"
proof -
  define s1 where "s1 = receive_message cfg (hash_of 0) 0 m [Termination r] (server_start c)"
  define s2 where "s2 = receive_message cfg (hash_of 1) 1 (Termination r) (answer 1) s1"
  have c: "results s1 = c"
    using assms(4) by (cases m) (simp_all add: s1_def client_defs store_server_def is_termination_def)
  have "client_step cfg hash_of answer (Send_request 0) (server_start c) s1"
    unfolding s1_def by (rule client_step.send) (simp_all add: server_start_def assms)
  from run_more [OF run_none this] have r1: "client_run cfg hash_of answer [Send_request 0] (server_start c) s1" by simp
  have "client_step cfg hash_of answer (Send_request 1) s1 s2"
    unfolding s2_def
    by (rule client_step.send) (use c assms(2) in \<open>simp_all add: s1_def client_defs del: One_nat_def\<close>)
  from run_more [OF r1 this] have "client_run cfg hash_of answer [Send_request 0, Send_request 1] (server_start c) s2" by simp
  moreover have "cache_get (hash_of 1) (results s2) = Some r"
    using assms(5-7) by (simp add: s2_def receive_message_def store_server_def cache_store.get_put)
  moreover have "phases s2 1 = Finished" "received s2 1 = [Termination r]"
    by (simp_all add: s1_def s2_def client_defs is_termination_def)
  ultimately show ?thesis by blast
qed

definition polled_answer :: "nat \<Rightarrow> (nat, string) server_message list" where
  "polled_answer i = MethodTermination ''m'' Success 3 # answer_of i"

theorem clients_mixed_witness:
  "\<exists>s. client_run cached_config (\<lambda>i. of_nat i) polled_answer [Send_request 0, Send_request 1] (server_start plain_cache) s \<and>
     phases s 1 = Finished \<and> received s 1 \<noteq> polled_answer 1"
proof -
  let ?r = "\<lparr>item_name = ''program'', result_kind = Success, cached = False, time_ms = 0\<rparr> :: (nat, string) verification_result"
  let ?m = "MethodTermination ''m'' Success 3 :: (nat, string) server_message"
  have "cache_get (of_nat 0) plain_cache = None" "cache_get (of_nat 1) plain_cache = None"
    "polled_answer 0 = [?m, Termination ?r]" "\<not> is_termination ?m"
    "\<not> cached ?r" "\<not> is_java_exception (result_kind ?r)" "enable_cache cached_config"
    by (simp_all add: plain_cache_def cache_get_def polled_answer_def answer_of_def is_termination_def is_java_exception_def
        cached_config_def)
  from clients_mixed [of "\<lambda>i. of_nat i" plain_cache polled_answer ?m ?r cached_config, OF this]
  show ?thesis by (auto simp: polled_answer_def answer_of_def)
qed

end
