(* ===== verification/Verify_Programs_Laws.thy ===== *)
theory Verify_Programs_Laws
  imports Verify_Server_Props Verify_Stream_Laws
begin

text \<open>
  The composition of the server and the client: which messages a request leads to, and what the client
  makes of the messages of several requests, with a cache in between.
\<close>

section \<open>Messages of a request\<close>

text \<open>
  A run whose verdict is \<open>v\<close> and whose errors have positions. When Viper reports success for the
  program, its reporter has not reported a failure for one of the methods.
\<close>

definition fails_locally :: "string set \<Rightarrow> 'cx reporter_message \<Rightarrow> bool" where
  "fails_locally procedures msg =
     (case msg of
        EntityFailureMessage (MethodEntity name) time es \<Rightarrow> name \<in> procedures \<and> 0 \<le> time
      | _ \<Rightarrow> False)"

definition verdict_errors :: "'cx verdict \<Rightarrow> 'cx verification_error list" where
  "verdict_errors v = (case v of ViperSuccess \<Rightarrow> [] | ViperFailure es \<Rightarrow> extracted es)"

definition program_ok :: "server_config \<Rightarrow> string set \<Rightarrow> 'cx verdict \<Rightarrow> ('cx, 'ex) viper_run \<Rightarrow> bool" where
  "program_ok cfg procedures v r =
     (run_ok cfg procedures v r \<and> list_all located (verdict_errors v) \<and>
      list_all (\<lambda>msg. list_all located (reported_errors procedures msg)) (run_reports r) \<and>
      (v = ViperSuccess \<longrightarrow> \<not> list_ex (fails_locally procedures) (run_reports r)))"

definition plain_message :: "('sp, 'ms, 'd, 'c, 'ex) client_env \<Rightarrow> ('cx, 'ex) server_message \<Rightarrow> bool" where
  "plain_message env msg = plain (seen_kind env msg)"

lemma fresh_located:
  "fresh_errors hasher hs given new hs' \<Longrightarrow> list_all located given \<Longrightarrow> list_all located new"
  by (auto simp: fresh_errors_def list_all_iff)

lemma poll_message_plain:
  assumes "poll_message hasher procedures msg hs = Value (sent, hs')" and "list_all located (reported_errors procedures msg)"
  shows "list_all (plain_message env) sent \<and> (\<not> fails_locally procedures msg \<longrightarrow> \<not> list_ex (fails env) sent)"
proof (cases "fails_locally procedures msg")
  case True
  then obtain name time es where msg: "msg = EntityFailureMessage (MethodEntity name) time es" "name \<in> procedures" "0 \<le> time"
    by (auto simp: fails_locally_def split: reporter_message.splits entity.splits)
  show ?thesis
  proof (cases rule: extract_cases [of es hasher hs])
    case 1
    then show ?thesis using assms msg by (simp add: poll_message_def extract_errors_def)
  next
    case (2 new hs1)
    then have "sent = [MethodTermination name (Failure new) (nat time)]"
      using assms(1) msg by (auto simp: poll_message_def extract_errors_def)
    moreover have "list_all located new" using fresh_located [OF 2(2)] assms(2) msg by (simp add: reported_errors_def)
    ultimately show ?thesis using True by (simp add: plain_message_def seen_kind_def plain_def)
  qed
next
  case False
  then show ?thesis using assms(1)
    by (auto simp: poll_message_def fails_locally_def plain_message_def seen_kind_def plain_def fails_def kind_is_success_def
        split: reporter_message.splits entity.splits option.splits if_splits exec.splits)
qed

lemma polling_plain:
  fixes msgs :: "'cx reporter_message list" and env :: "('sp, 'ms, 'd, 'c, 'ex) client_env"
  assumes "list_all (\<lambda>msg. list_all located (reported_errors procedures msg)) msgs"
  shows "list_all (plain_message env) (snd (polling_function hasher procedures msgs hs)) \<and>
    (\<not> list_ex (fails_locally procedures) msgs \<longrightarrow> \<not> list_ex (fails env) (snd (polling_function hasher procedures msgs hs)))"
  using assms
proof (induction msgs arbitrary: hs)
  case (Cons msg msgs)
  show ?case
  proof (cases "poll_message hasher procedures msg hs :: (('cx, 'ex) server_message list \<times> 64 word set) exec")
    case (Value x)
    obtain sent hs1 where x: "x = (sent, hs1)" by fastforce
    have "list_all (plain_message env) sent \<and> (\<not> fails_locally procedures msg \<longrightarrow> \<not> list_ex (fails env) sent)"
      using Cons.prems by (intro poll_message_plain [OF Value [unfolded x]]) simp
    then show ?thesis using Cons.IH [of hs1] Cons.prems Value x by (auto simp: case_prod_beta)
  qed simp
qed simp

lemma program_messages:
  fixes r :: "('cx, 'ex) viper_run" and env :: "('sp, 'ms, 'd, 'c, 'ex) client_env"
  assumes "program_ok cfg procedures v r"
  obtains sent k where "process cfg hasher procedures r = (sent @ [Termination (final_result k (run_elapsed r))], Process_done)"
    and "\<not> list_ex is_termination sent" and "list_all (plain_message env) sent" and "plain k" and "\<not> is_java_exception k"
    and "kind_is_success k \<longleftrightarrow> v = ViperSuccess" and "v = ViperSuccess \<longrightarrow> \<not> list_ex (fails env) sent"
proof -
  have ok: "run_ok cfg procedures v r" using assms by (simp add: program_ok_def)
  obtain k sent where *: "process cfg hasher procedures r = (sent @ [Termination (final_result k (run_elapsed r))], Process_done)"
    "answers cfg hasher procedures v (run_reports r) sent k" by (rule process_ok [OF ok])
  have "plain k"
    using *(2) assms fresh_located
    by (cases v) (auto simp: answers_def program_ok_def plain_def verdict_errors_def split: if_splits)
  moreover have "list_all (plain_message env) sent \<and> (v = ViperSuccess \<longrightarrow> \<not> list_ex (fails env) sent)"
  proof (cases "report_viper_messages cfg")
    case True
    then obtain hs where "polling_function hasher procedures (run_reports r) {} = (Some (Value hs), sent)"
      using *(2) by (auto simp: answers_def)
    then show ?thesis using polling_plain [of procedures "run_reports r" env hasher "{}"] assms by (simp add: program_ok_def)
  next
    case False
    then show ?thesis using *(2) by (simp add: answers_def)
  qed
  ultimately show ?thesis
    using that [OF *(1)] answers_no_termination [OF *(2)] answers_no_exception [OF *(2)] answers_success [OF *(2)] by blast
qed

lemma program_ok_plain:
  fixes r :: "('cx, 'ex) viper_run" and env :: "('sp, 'ms, 'd, 'c, 'ex) client_env"
  assumes "program_ok cfg procedures v r" and "process cfg hasher procedures r = (msgs, Process_done)"
  shows "list_all (plain_message env) msgs"
proof -
  obtain sent k where "process cfg hasher procedures r = (sent @ [Termination (final_result k (run_elapsed r))], Process_done)"
    "list_all (plain_message env) sent" "plain k" by (rule program_messages [OF assms(1), of hasher env])
  then show ?thesis using assms(2) by (auto simp: plain_message_def seen_kind_def final_result_def)
qed

section \<open>Several requests\<close>

text \<open>A cache whose results agree with the verdicts for the programs.\<close>

definition cache_agrees :: "(request_hash \<Rightarrow> 'cx verdict) \<Rightarrow> ('cx, 'ex) persistent_cache \<Rightarrow> bool" where
  "cache_agrees verdict c =
     (\<forall>h result. cache_get h c = Some result \<longrightarrow>
        plain (result_kind result) \<and> (kind_is_success (result_kind result) \<longleftrightarrow> verdict h = ViperSuccess))"

definition stream_agrees ::
  "('sp, 'ms, 'd, 'c, 'ex) client_env \<Rightarrow> (request_hash \<Rightarrow> 'cx verdict) \<Rightarrow> request_hash list
   \<Rightarrow> ('cx, 'ex) server_message list \<times> stream_end \<times> ('cx, 'ex) persistent_cache \<Rightarrow> bool" where
  "stream_agrees env verdict hs res =
     (case res of (msgs, e, c) \<Rightarrow>
        e = Stream_done \<and> list_all (plain_message env) msgs \<and> cache_agrees verdict c \<and>
        (list_ex (fails env) msgs \<longleftrightarrow> list_ex (\<lambda>h. verdict h \<noteq> ViperSuccess) hs))"

lemma cache_agrees_put:
  "cache_agrees verdict c \<Longrightarrow> plain (result_kind r) \<Longrightarrow> (kind_is_success (result_kind r) \<longleftrightarrow> verdict h = ViperSuccess) \<Longrightarrow>
     cache_agrees verdict (snd (cache_put h r c))"
  by (simp add: cache_agrees_def cache_store.get_put)

lemma on_upgrade_agrees:
  fixes env :: "('sp, 'ms, 'd, 'c, 'ex) client_env"
  assumes "program_ok cfg procedures (verdict h) r" and "cache_agrees verdict c"
  shows "stream_agrees env verdict [h] (on_upgrade cfg h (process cfg hasher procedures r) c)"
proof (cases "if enable_cache cfg then cache_get h c else None")
  case None
  obtain sent k where *: "process cfg hasher procedures r = (sent @ [Termination (final_result k (run_elapsed r))], Process_done)"
    "\<not> list_ex is_termination sent" "list_all (plain_message env) sent" "plain k" "\<not> is_java_exception k"
    "kind_is_success k \<longleftrightarrow> verdict h = ViperSuccess" "verdict h = ViperSuccess \<longrightarrow> \<not> list_ex (fails env) sent"
    by (rule program_messages [OF assms(1)])
  have "cache_agrees verdict (store_server cfg h (Termination (final_result k (run_elapsed r))) c)"
    using *(4,6) assms(2) by (auto simp: store_server_def final_result_def intro: cache_agrees_put)
  then show ?thesis using * None
    by (auto simp: stream_agrees_def on_upgrade_def request_stream_ok store_only_termination plain_message_def
        seen_kind_def fails_def final_result_def)
next
  case (Some result)
  then have "cache_get h c = Some result" by (auto split: if_splits)
  then show ?thesis using Some assms(2)
    by (auto simp: stream_agrees_def on_upgrade_def cache_agrees_def store_server_def plain_message_def seen_kind_def fails_def)
qed

lemma local_agrees_step:
  fixes env :: "('sp, 'ms, 'd, 'c, 'ex) client_env"
  assumes "program_ok cfg procedures (verdict h) r" and "cache_agrees verdict c"
  shows "stream_agrees env verdict [h] (verify_requests_local cfg [(h, process cfg hasher procedures r)] c)"
proof -
  obtain sent k where *: "process cfg hasher procedures r = (sent @ [Termination (final_result k (run_elapsed r))], Process_done)"
    "\<not> list_ex is_termination sent" "list_all (plain_message env) sent" "plain k" "\<not> is_java_exception k"
    "kind_is_success k \<longleftrightarrow> verdict h = ViperSuccess" "verdict h = ViperSuccess \<longrightarrow> \<not> list_ex (fails env) sent"
    by (rule program_messages [OF assms(1)])
  let ?hit = "if enable_cache cfg then case cache_get h c of Some result \<Rightarrow> [Termination result] | None \<Rightarrow> [] else []"
  have "list_all (plain_message env) ?hit \<and> (verdict h = ViperSuccess \<longrightarrow> \<not> list_ex (fails env) ?hit)"
    using assms(2) by (auto simp: cache_agrees_def plain_message_def seen_kind_def fails_def split: option.split)
  moreover have "cache_agrees verdict (store_local cfg h (Termination (final_result k (run_elapsed r))) c)"
    using *(4,6) assms(2) by (auto simp: store_local_def final_result_def intro: cache_agrees_put)
  moreover have "verify_requests_local cfg [(h, process cfg hasher procedures r)] c =
      (?hit @ sent @ [Termination (final_result k (run_elapsed r))], Stream_done,
       store_local cfg h (Termination (final_result k (run_elapsed r))) c)"
    by (simp add: *(1) request_stream_ok [OF *(2)] store_only_termination [OF *(2)] Let_def)
  ultimately show ?thesis using *
    by (auto simp: stream_agrees_def plain_message_def seen_kind_def fails_def final_result_def)
qed

lemma stream_agrees_append:
  assumes "stream_agrees env verdict [h] (msgs, e, c)" and "stream_agrees env verdict hs (later, e', c')"
  shows "stream_agrees env verdict (h # hs) (msgs @ later, e', c')"
  using assms by (auto simp: stream_agrees_def)

lemma stream_agrees_none: "cache_agrees verdict c \<Longrightarrow> stream_agrees env verdict [] ([], Stream_done, c)"
  by (simp add: stream_agrees_def)

lemma verify_requests_local_Cons:
  assumes "verify_requests_local cfg [q] c = (msgs, Stream_done, c1)" and "verify_requests_local cfg qs c1 = (later, e, c')"
  shows "verify_requests_local cfg (q # qs) c = (msgs @ later, e, c')"
  using assms by (cases q) (auto simp: Let_def split: prod.splits if_splits)

lemma server_agrees:
  fixes env :: "('sp, 'ms, 'd, 'c, 'ex) client_env"
  assumes "\<forall>(h, r) \<in> set programs. program_ok cfg procedures (verdict h) r" and "cache_agrees verdict c"
  shows "stream_agrees env verdict (map fst programs)
    (verify_requests_server cfg (map (\<lambda>(h, r). (h, process cfg hasher procedures r)) programs) c)"
  using assms
proof (induction programs arbitrary: c)
  case (Cons p ps)
  obtain h r where p: "p = (h, r)" by fastforce
  obtain msgs e c1 where 1: "on_upgrade cfg h (process cfg hasher procedures r) c = (msgs, e, c1)" by (metis surj_pair)
  obtain later e' c' where 2: "verify_requests_server cfg (map (\<lambda>(h, r). (h, process cfg hasher procedures r)) ps) c1 = (later, e', c')"
    by (metis surj_pair)
  have s: "stream_agrees env verdict [h] (msgs, e, c1)"
    using on_upgrade_agrees [of cfg procedures verdict h r c env hasher] Cons.prems p 1 by simp
  then have fin: "cache_agrees verdict c1" "e = Stream_done" by (simp_all add: stream_agrees_def)
  then have "stream_agrees env verdict (map fst ps) (later, e', c')" using Cons.IH [of c1] Cons.prems(1) 2 by simp
  then show ?case using stream_agrees_append [OF s] 1 2 p fin(2) by simp
qed (simp add: stream_agrees_none)

lemma local_agrees:
  fixes env :: "('sp, 'ms, 'd, 'c, 'ex) client_env"
  assumes "\<forall>(h, r) \<in> set programs. program_ok cfg procedures (verdict h) r" and "cache_agrees verdict c"
  shows "stream_agrees env verdict (map fst programs)
    (verify_requests_local cfg (map (\<lambda>(h, r). (h, process cfg hasher procedures r)) programs) c)"
  using assms
proof (induction programs arbitrary: c)
  case (Cons p ps)
  obtain h r where p: "p = (h, r)" by fastforce
  obtain msgs e c1 where 1: "verify_requests_local cfg [(h, process cfg hasher procedures r)] c = (msgs, e, c1)" by (metis surj_pair)
  obtain later e' c' where 2: "verify_requests_local cfg (map (\<lambda>(h, r). (h, process cfg hasher procedures r)) ps) c1 = (later, e', c')"
    by (metis surj_pair)
  have s: "stream_agrees env verdict [h] (msgs, e, c1)"
    using local_agrees_step [of cfg procedures verdict h r c env hasher] Cons.prems p 1 by simp
  then have fin: "cache_agrees verdict c1" "e = Stream_done" by (simp_all add: stream_agrees_def)
  then have "stream_agrees env verdict (map fst ps) (later, e', c')" using Cons.IH [of c1] Cons.prems(1) 2 by simp
  moreover have "verify_requests_local cfg (map (\<lambda>(h, r). (h, process cfg hasher procedures r)) (p # ps)) c = (msgs @ later, e', c')"
    using verify_requests_local_Cons [OF 1 [unfolded fin(2)] 2] p by simp
  ultimately show ?case using stream_agrees_append [OF s] p by simp
qed (simp add: stream_agrees_none)

section \<open>Every error is seen\<close>

text \<open>The client knows the methods that the polling thread reports about.\<close>

lemma known_procedure:
  "name \<in> get_viper_identifiers (vcx env) \<Longrightarrow>
     viper_to_rust_identifier (crate_name env) (def_path_str env) (vcx env) name \<noteq> None"
  by (auto simp: get_viper_identifiers_def viper_to_rust_identifier_def get_viper_identifier_def map_of_eq_None_iff image_iff)

lemma poll_message_seen:
  "poll_message hasher (get_viper_identifiers (vcx env)) msg hs = Value (sent, hs') \<Longrightarrow>
     m \<in> set sent \<Longrightarrow> kind_errors (seen_kind env m) = message_errors m"
  by (auto simp: poll_message_def seen_kind_def dest!: known_procedure
      split: reporter_message.splits entity.splits option.splits if_splits exec.splits)

lemma polling_seen:
  fixes env :: "('sp, 'ms, 'd, 'c, 'ex) client_env" and msgs :: "'cx reporter_message list"
  assumes "m \<in> set (snd (polling_function hasher (get_viper_identifiers (vcx env)) msgs hs))"
  shows "kind_errors (seen_kind env m) = message_errors m"
  using assms
proof (induction msgs arbitrary: hs)
  case (Cons msg msgs)
  show ?case
  proof (cases "poll_message hasher (get_viper_identifiers (vcx env)) msg hs :: (('cx, 'ex) server_message list \<times> 64 word set) exec")
    case (Value x)
    obtain sent hs1 where x: "x = (sent, hs1)" by fastforce
    show ?thesis
      using Cons.IH [of hs1] Cons.prems poll_message_seen [of hasher env msg hs sent hs1 m] Value x
      by (auto simp: case_prod_beta split: if_splits)
  qed (use Cons.prems in \<open>auto split: if_splits\<close>)
qed simp

lemma answers_seen:
  fixes env :: "('sp, 'ms, 'd, 'c, 'ex) client_env"
  assumes "answers cfg hasher (get_viper_identifiers (vcx env)) v reports sent k"
  shows "map (collected cfg env) sent =
    map (\<lambda>m. filter (\<lambda>e. \<not> is_disabled e) (concat (map (translated cfg env) (message_errors m)))) sent"
proof -
  have "kind_errors (seen_kind env m) = message_errors m" if "m \<in> set sent" for m
  proof (cases "report_viper_messages cfg")
    case True
    then obtain hs where "polling_function hasher (get_viper_identifiers (vcx env)) reports {} = (Some (Value hs), sent)"
      using assms by (auto simp: answers_def)
    then show ?thesis using polling_seen [of m hasher env reports "{}"] that by simp
  next
    case False
    then show ?thesis using assms that by (simp add: answers_def)
  qed
  then show ?thesis by (simp add: collected_def)
qed

lemma concat_message_errors:
  "concat (map (\<lambda>m. filter P (concat (map f (message_errors m)))) ms) = filter P (concat (map f (all_errors ms)))"
  by (induction ms) auto

lemma collected_errors:
  fixes env :: "('sp, 'ms, 'd, 'c, 'ex) client_env"
  assumes "answers cfg hasher (get_viper_identifiers (vcx env)) v reports sent k"
  shows "concat (map (collected cfg env) (sent @ [Termination (final_result k t)])) =
    filter (\<lambda>e. \<not> is_disabled e) (concat (map (translated cfg env) (all_errors (sent @ [Termination (final_result k t)]))))"
proof -
  have "concat (map (collected cfg env) sent) = filter (\<lambda>e. \<not> is_disabled e) (concat (map (translated cfg env) (all_errors sent)))"
    unfolding answers_seen [OF assms] by (rule concat_message_errors)
  moreover have "collected cfg env (Termination (final_result k t)) =
      filter (\<lambda>e. \<not> is_disabled e) (concat (map (translated cfg env) (message_errors (Termination (final_result k t)))))"
    by (simp add: collected_def seen_kind_def)
  ultimately show ?thesis by simp
qed

text \<open>A request that is not in the cache gives its own messages, from a server and in this process.\<close>

lemma request_not_cached:
  assumes "enable_cache cfg \<longrightarrow> cache_get h c = None" and "\<not> list_ex is_termination sent"
  shows "\<exists>c'. (if remote then verify_requests_server cfg [(h, sent @ [Termination r], e)] c
      else verify_requests_local cfg [(h, sent @ [Termination r], e)] c) = (sent @ [Termination r], Stream_done, c')"
  using assms by (cases "enable_cache cfg") (simp_all add: on_upgrade_def request_stream_ok Let_def)

lemma verify_programs_done:
  assumes "(if remote then verify_requests_server cfg reqs c else verify_requests_local cfg reqs c) = (msgs, Stream_done, c')"
    and "map (\<lambda>(h, r). (h, process cfg hasher (get_viper_identifiers (vcx env)) r)) programs = reqs"
  shows "verify_programs primary cfg hasher env remote programs c d = Some (handle_stream primary cfg env msgs d, c')"
  unfolding verify_programs_def Let_def assms(2) using assms(1) by simp

text \<open>The translation of an error depends only on its identity.\<close>

lemma translated_key: "key_of e = key_of e' \<Longrightarrow> translated cfg env e = translated cfg env e'"
  by (simp add: key_of_def translated_def backtranslate_error_def split: option.split)

end
