(* ===== verification/Vir_Data.thy ===== *)
theory Vir_Data
  imports Viper_Ident Vir_Spans "HOL-Library.Word"
begin

text \<open>
  \<^verbatim>\<open>vir/src/data.rs\<close> and \<^verbatim>\<open>vir/src/gendata.rs\<close>: the intermediate representation of Viper programs. Only
  reified data (\<^verbatim>\<open>Curr = ()\<close>, \<^verbatim>\<open>Next = !\<close>) is modelled, so a lazy expression has only a name and a
  type. The debug information of a node is left out. The type of spans is a parameter, so that the
  spans of a node are its set; they are \<^verbatim>\<open>VirSpan\<close>s in the program.
\<close>

section \<open>Types\<close>

datatype domain_param = DomainParam (param_name: string) (param_index: nat)

datatype type_kind =
  Ty_Int | Ty_Bool | Ty_DomainTypeParam domain_param | Ty_Domain string "type_kind list" | Ty_Ref | Ty_Perm
| Ty_Set type_kind | Ty_Multiset type_kind | Ty_Seq type_kind | Ty_Map type_kind type_kind
| Ty_Unsupported string | Ty_Err

section \<open>Expressions\<close>

datatype un_op_kind = Op_Neg | Op_PermNeg | Op_Not

datatype bin_op_kind =
  Op_CmpEq | Op_CmpNe | Op_CmpGt | Op_CmpLt | Op_CmpGe | Op_CmpLe | Op_And | Op_Or | Op_Implies | Op_Add | Op_Sub | Op_Mul | Op_Div
| Op_PermAdd | Op_PermSub | Op_PermMul | Op_PermPermDiv | Op_Mod

datatype collection_bin_op_kind =
  Coll_Contains | Coll_Union | Coll_Intersection | Coll_Difference | Coll_Subset | Coll_Concat | Coll_Index | Coll_Take | Coll_Drop

datatype const_data = Const_Bool bool | Const_Int "128 word" | Const_Wildcard | Const_Null

fun const_ty :: "const_data \<Rightarrow> type_kind" where
  "const_ty (Const_Bool _) = Ty_Bool"
| "const_ty (Const_Int _) = Ty_Int"
| "const_ty Const_Wildcard = Ty_Perm"
| "const_ty Const_Null = Ty_Ref"

datatype cfg_block_label =
  Label_Start | Label_End | Label_BasicBlock nat | Label_BasicBlockTerminator nat
| Label_PreLoopBasicBlock nat "nat list" | Label_PreLoopBasicBlockTerminator nat "nat list"

definition pre_names :: "nat list \<Rightarrow> string" where
  "pre_names pres = concat (map (\<lambda>l. ''_pre'' @ digits l) pres)"

fun label_name :: "cfg_block_label \<Rightarrow> string" where
  "label_name Label_Start = ''start''"
| "label_name Label_End = ''end''"
| "label_name (Label_BasicBlock idx) = ''bb_'' @ digits idx"
| "label_name (Label_BasicBlockTerminator idx) = ''bb_term_'' @ digits idx"
| "label_name (Label_PreLoopBasicBlock idx pres) = ''bb_'' @ digits idx @ pre_names pres"
| "label_name (Label_PreLoopBasicBlockTerminator idx pres) = ''bb_term_'' @ digits idx @ pre_names pres"

datatype old_label = Old_None | Old_Lhs | Old_Block cfg_block_label | Old_Label string

datatype field_data = FieldData (field_name: string) (field_ty: type_kind)

datatype local_decl = LocalDecl (decl_name: string) (decl_ty: type_kind)

text \<open>\<^verbatim>\<open>AdtDestructorData\<close> has a name, the type of the receiver and the type of the result.\<close>

datatype adt_destructor_data = AdtDestructorData (destr_name: string) (destr_input: type_kind) (destr_ty: type_kind)

text \<open>
  \<^verbatim>\<open>ExprGenData\<close> is the kind of an expression with its span and its type. The structs that the kinds refer
  to are the arguments of the constructors, in the order of their fields.
\<close>

datatype 's expr = Expr (expr_kind: "'s expr_kind") (expr_span: "'s option") (expr_ty: type_kind)
and 's expr_kind =
  Kind_Local string type_kind
| Kind_Field "'s expr" field_data
| Kind_Old "'s expr" old_label
| Kind_Const const_data
| Kind_Result type_kind
| Kind_AccField "'s expr" field_data "'s expr option"
| Kind_Unfolding "'s predicate_app" "'s expr"
| Kind_UnOp un_op_kind "'s expr"
| Kind_BinOp bin_op_kind "'s expr" "'s expr"
| Kind_CollectionBinOp collection_bin_op_kind "'s expr" "'s expr"
| Kind_CollectionLiteral "'s expr list" type_kind
| Kind_CollectionUpdate "'s expr" "'s expr" "'s expr"
| Kind_CollectionLen "'s expr"
| Kind_MapDomain "'s expr"
| Kind_MapRange "'s expr"
| Kind_Ternary "'s expr" "'s expr" "'s expr"
| Kind_Exists "local_decl list" "'s trigger list" "'s expr"
| Kind_Forall "local_decl list" "'s trigger list" "'s expr"
| Kind_Let string "'s expr" "'s expr"
| Kind_FuncApp string "'s expr list" type_kind "type_kind list"
| Kind_PredicateApp "'s predicate_app"
| Kind_Wand "'s expr" "'s expr"
| Kind_InhaleExhale "'s expr" "'s expr"
| Kind_Lazy string type_kind
| Kind_AdtDestructor "'s expr" adt_destructor_data
| Kind_AdtDiscriminator "'s expr" string
| Kind_Todo string
and 's predicate_app = PredicateAppData string "'s expr list" "'s expr option"
and 's trigger = TriggerData "'s expr list"

text \<open>The type of an expression by its kind; the type errors that are only logged are left out.\<close>

fun bin_op_ty :: "bin_op_kind \<Rightarrow> type_kind" where
  "bin_op_ty Op_CmpEq = Ty_Bool" | "bin_op_ty Op_CmpNe = Ty_Bool" | "bin_op_ty Op_CmpGt = Ty_Bool" | "bin_op_ty Op_CmpLt = Ty_Bool"
| "bin_op_ty Op_CmpGe = Ty_Bool" | "bin_op_ty Op_CmpLe = Ty_Bool"
| "bin_op_ty Op_And = Ty_Bool" | "bin_op_ty Op_Or = Ty_Bool" | "bin_op_ty Op_Implies = Ty_Bool"
| "bin_op_ty Op_Add = Ty_Int" | "bin_op_ty Op_Sub = Ty_Int" | "bin_op_ty Op_Mul = Ty_Int" | "bin_op_ty Op_Div = Ty_Int" | "bin_op_ty Op_Mod = Ty_Int"
| "bin_op_ty Op_PermAdd = Ty_Perm" | "bin_op_ty Op_PermSub = Ty_Perm" | "bin_op_ty Op_PermMul = Ty_Perm" | "bin_op_ty Op_PermPermDiv = Ty_Perm"

fun collection_bin_op_ty :: "collection_bin_op_kind \<Rightarrow> type_kind \<Rightarrow> type_kind \<Rightarrow> type_kind" where
  "collection_bin_op_ty Coll_Contains lhs rhs =
     (case rhs of Ty_Multiset _ \<Rightarrow> Ty_Int | Ty_Set _ \<Rightarrow> Ty_Bool | Ty_Seq _ \<Rightarrow> Ty_Bool | Ty_Map _ _ \<Rightarrow> Ty_Bool | _ \<Rightarrow> Ty_Err)"
| "collection_bin_op_ty Coll_Subset lhs rhs = Ty_Bool"
| "collection_bin_op_ty Coll_Union lhs rhs = lhs"
| "collection_bin_op_ty Coll_Intersection lhs rhs = lhs"
| "collection_bin_op_ty Coll_Difference lhs rhs = lhs"
| "collection_bin_op_ty Coll_Concat lhs rhs = lhs"
| "collection_bin_op_ty Coll_Take lhs rhs = lhs"
| "collection_bin_op_ty Coll_Drop lhs rhs = lhs"
| "collection_bin_op_ty Coll_Index lhs rhs = (case lhs of Ty_Seq elem \<Rightarrow> elem | Ty_Map _ val \<Rightarrow> val | _ \<Rightarrow> Ty_Err)"

fun kind_ty :: "'s expr_kind \<Rightarrow> type_kind" where
  "kind_ty (Kind_Local _ t) = t"
| "kind_ty (Kind_Field _ f) = field_ty f"
| "kind_ty (Kind_Old e _) = expr_ty e"
| "kind_ty (Kind_Const c) = const_ty c"
| "kind_ty (Kind_Result t) = t"
| "kind_ty (Kind_AccField _ _ _) = Ty_Bool"
| "kind_ty (Kind_Unfolding _ e) = expr_ty e"
| "kind_ty (Kind_UnOp _ e) = expr_ty e"
| "kind_ty (Kind_BinOp k _ _) = bin_op_ty k"
| "kind_ty (Kind_CollectionBinOp k l r) = collection_bin_op_ty k (expr_ty l) (expr_ty r)"
| "kind_ty (Kind_CollectionLiteral _ t) = t"
| "kind_ty (Kind_CollectionUpdate target _ _) = expr_ty target"
| "kind_ty (Kind_CollectionLen _) = Ty_Int"
| "kind_ty (Kind_MapDomain m) = (case expr_ty m of Ty_Map key _ \<Rightarrow> Ty_Set key | _ \<Rightarrow> Ty_Err)"
| "kind_ty (Kind_MapRange m) = (case expr_ty m of Ty_Map _ val \<Rightarrow> Ty_Set val | _ \<Rightarrow> Ty_Err)"
| "kind_ty (Kind_Ternary _ t _) = expr_ty t"
| "kind_ty (Kind_Forall _ _ _) = Ty_Bool"
| "kind_ty (Kind_Exists _ _ _) = Ty_Bool"
| "kind_ty (Kind_Let _ _ e) = expr_ty e"
| "kind_ty (Kind_FuncApp _ _ t _) = t"
| "kind_ty (Kind_PredicateApp _) = Ty_Bool"
| "kind_ty (Kind_Wand _ _) = Ty_Bool"
| "kind_ty (Kind_InhaleExhale _ _) = Ty_Bool"
| "kind_ty (Kind_Lazy _ t) = t"
| "kind_ty (Kind_AdtDestructor _ d) = destr_ty d"
| "kind_ty (Kind_AdtDiscriminator _ _) = Ty_Bool"
| "kind_ty (Kind_Todo _) = Ty_Err"

text \<open>
  A new expression has the type of its kind and the innermost open span; constants are allocated
  statically and have no span. A type that differs from the type of the kind is only logged.
\<close>

definition expr_new_inner :: "'s expr_kind \<Rightarrow> 's option \<Rightarrow> type_kind \<Rightarrow> 's expr" where
  "expr_new_inner kind span ty = Expr kind span ty"

definition expr_new_with_ty :: "'sp vir_span expr_kind \<Rightarrow> type_kind \<Rightarrow> ('sp, 'err, 'd, 'c) span_manager \<Rightarrow> 'sp vir_span expr" where
  "expr_new_with_ty kind ty m = expr_new_inner kind (top_span m) ty"

definition expr_new :: "'sp vir_span expr_kind \<Rightarrow> ('sp, 'err, 'd, 'c) span_manager \<Rightarrow> 'sp vir_span expr" where
  "expr_new kind m = expr_new_with_ty kind (kind_ty kind) m"

definition const_expr :: "'s expr_kind \<Rightarrow> type_kind \<Rightarrow> 's expr" where
  "const_expr kind ty = Expr kind None ty"

definition mk_bool :: "bool \<Rightarrow> 's expr" where
  "mk_bool v = const_expr (Kind_Const (Const_Bool v)) Ty_Bool"

text \<open>The value of \<^verbatim>\<open>mk_int\<close> is an \<^verbatim>\<open>i128\<close>; \<open>- v\<close> is its \<^verbatim>\<open>unsigned_abs\<close> when it is negative.\<close>

definition mk_int :: "128 word \<Rightarrow> 's expr" where
  "mk_int v =
     (if sint v < 0 then const_expr (Kind_UnOp Op_Neg (const_expr (Kind_Const (Const_Int (- v))) Ty_Int)) Ty_Int
      else const_expr (Kind_Const (Const_Int v)) Ty_Int)"

definition mk_uint :: "128 word \<Rightarrow> 's expr" where
  "mk_uint v = const_expr (Kind_Const (Const_Int v)) Ty_Int"

definition mk_wildcard :: "'s expr" where
  "mk_wildcard = const_expr (Kind_Const Const_Wildcard) Ty_Perm"

definition mk_null :: "'s expr" where
  "mk_null = const_expr (Kind_Const Const_Null) Ty_Ref"

section \<open>Statements\<close>

datatype 's stmt = Stmt (stmt_kind: "'s stmt_kind") (stmt_span: "'s option")
and 's stmt_kind =
  Stmt_LocalDecl local_decl "'s expr option"
| Stmt_PureAssign "'s expr" "'s expr"
| Stmt_Inhale "'s expr"
| Stmt_Exhale "'s expr"
| Stmt_Refute "'s expr"
| Stmt_Unfold "'s predicate_app"
| Stmt_Fold "'s predicate_app"
| Stmt_Package "'s expr" "'s expr" "'s stmt list"
| Stmt_Apply "'s expr" "'s expr"
| Stmt_MethodCall "(string \<times> type_kind) list" string "'s expr list"
| Stmt_If "'s expr" "'s stmt list" "'s stmt list"
| Stmt_Label string
| Stmt_Comment string
| Stmt_Dummy string

definition stmt_new :: "'sp vir_span stmt_kind \<Rightarrow> ('sp, 'err, 'd, 'c) span_manager \<Rightarrow> 'sp vir_span stmt" where
  "stmt_new kind m = Stmt kind (top_span m)"

datatype 's goto_if_target = GotoIfTarget "'s expr" cfg_block_label "'s stmt list"

datatype 's goto_if = GotoIfData "'s expr" "'s goto_if_target list" cfg_block_label "'s stmt list"

datatype 's terminator =
  Term_AssumeFalse | Term_Goto cfg_block_label | Term_GotoIf "'s goto_if" | Term_Exit | Term_Dummy string

datatype 's cfg_label = CfgLabel (block_label: cfg_block_label) (invariants: "'s expr list")

datatype 's cfg_block =
  CfgBlock (cfg_label: "'s cfg_label") (block_stmts: "'s stmt list") (terminator: "'s terminator")

section \<open>Programs\<close>

datatype domain_function =
  DomainFunctionData (unique: bool) (fn_name: viper_ident) (fn_args: "type_kind list") (fn_ret: type_kind)
    (fn_interpretation: "string option")

datatype 's domain_axiom = DomainAxiomData (axiom_name: string) (axiom_expr: "'s expr")

datatype 's domain_data =
  DomainData (domain_name: string) (domain_typarams: "domain_param list") (domain_axiom_list: "'s domain_axiom list")
    (domain_function_list: "domain_function list") (domain_interpretation: "(string \<times> string) list option")

datatype 's adt_constructor_data =
  AdtConstructorData (cons_name: string) (cons_args: "local_decl list") (cons_axiom: "'s expr option")

datatype 's adt_data =
  AdtData (adt_name: string) (adt_typarams: "domain_param list") (adt_constructor_list: "'s adt_constructor_data list")

datatype 's predicate_data =
  PredicateData (pred_name: string) (pred_args: "local_decl list") (pred_expr: "'s expr option")

datatype 's decreases =
  Decreases_None | Decreases_Tuple "'s expr list" "'s expr option" | Decreases_Wildcard "'s expr option" | Decreases_Star

datatype 's function_data =
  FunctionData (fun_name: string) (fun_args: "local_decl list") (fun_ret: type_kind) (fun_pres: "'s expr list")
    (fun_posts: "'s expr list") (fun_decreases: "'s decreases") (fun_expr: "'s expr option")

datatype 's method_data =
  MethodData (meth_name: string) (meth_args: "local_decl list") (meth_rets: "local_decl list") (meth_pres: "'s expr list")
    (meth_posts: "'s expr list") (meth_body: "'s cfg_block list option")

datatype 's program_data =
  ProgramData (prog_fields: "field_data list") (prog_adts: "'s adt_data list") (prog_domains: "'s domain_data list")
    (prog_predicates: "'s predicate_data list") (prog_functions: "'s function_data list")
    (prog_methods: "'s method_data list")

end
