(* ===== verification/Viper_Ast.thy ===== *)
theory Viper_Ast
  imports Prusti_Prelude "HOL-Library.AList" "HOL-Library.Word"
begin

text \<open>
  \<^verbatim>\<open>viper/src/ast_factory\<close>: the nodes of a Viper program and the functions that create them. A node is
  a Java object; here it is a value with the arguments that its constructor is given. The info and the
  transformations of a node are left out where they are the empty ones. Only expressions, triggers and
  statements keep their position, because all other nodes are created without one.
\<close>

section \<open>Positions and numbers\<close>

datatype viper_position = NoPosition | IdentifierPosition int int string

definition no_position :: viper_position where
  "no_position = NoPosition"

definition identifier_position :: "int \<Rightarrow> int \<Rightarrow> string \<Rightarrow> viper_position" where
  "identifier_position line column pos_id = IdentifierPosition line column pos_id"

text \<open>
  Numbers reach Java in decimal form: \<open>new_big_int\<close> reads the string with the constructor of
  \<^verbatim>\<open>java.math.BigInteger\<close>, which throws an exception when the string is not a number.
\<close>

definition new_big_int :: "string \<Rightarrow> int exec" where
  "new_big_int s =
     (case s of
        c # cs \<Rightarrow>
          (case decimal (if c = CHR ''-'' \<or> c = CHR ''+'' then cs else s) of
             None \<Rightarrow> Panicked None
           | Some n \<Rightarrow> Value (if c = CHR ''-'' then - int n else int n))
      | [] \<Rightarrow> Panicked None)"

text \<open>A Scala map made by inserting the pairs one after the other.\<close>

definition new_map :: "('k \<times> 'v) list \<Rightarrow> ('k \<times> 'v) list" where
  "new_map items = fold (\<lambda>(k, v). AList.update k v) items []"

section \<open>Types\<close>

datatype viper_type =
  Ast_Int | Ast_Bool | Ast_Perm | Ast_Ref
| Ast_TypeVar string
| Ast_DomainType string "(viper_type \<times> viper_type) list" "viper_type list"
| Ast_AdtType string "(viper_type \<times> viper_type) list" "viper_type list"
| Ast_BackendType string "(string \<times> string) list"
| Ast_SetType viper_type | Ast_MultisetType viper_type | Ast_SeqType viper_type
| Ast_MapType viper_type viper_type

type_synonym type_map = "(viper_type \<times> viper_type) list"

definition int_type :: viper_type where "int_type = Ast_Int"

definition bool_type :: viper_type where "bool_type = Ast_Bool"

definition perm_type :: viper_type where "perm_type = Ast_Perm"

definition ref_type :: viper_type where "ref_type = Ast_Ref"

definition type_var :: "string \<Rightarrow> viper_type" where "type_var name = Ast_TypeVar name"

definition adt_type :: "string \<Rightarrow> type_map \<Rightarrow> viper_type list \<Rightarrow> viper_type" where
  "adt_type adt_name partial_typ_vars_map type_parameters =
     Ast_AdtType adt_name (new_map partial_typ_vars_map) type_parameters"

definition domain_type :: "string \<Rightarrow> type_map \<Rightarrow> viper_type list \<Rightarrow> viper_type" where
  "domain_type domain_name partial_typ_vars_map type_parameters =
     Ast_DomainType domain_name (new_map partial_typ_vars_map) type_parameters"

definition domain_backend_type :: "string \<Rightarrow> (string \<times> string) list \<Rightarrow> viper_type" where
  "domain_backend_type domain_name interpretations = Ast_BackendType domain_name (new_map interpretations)"

definition set_type :: "viper_type \<Rightarrow> viper_type" where "set_type element_type = Ast_SetType element_type"

definition multiset_type :: "viper_type \<Rightarrow> viper_type" where
  "multiset_type element_type = Ast_MultisetType element_type"

definition seq_type :: "viper_type \<Rightarrow> viper_type" where "seq_type element_type = Ast_SeqType element_type"

definition map_type :: "viper_type \<Rightarrow> viper_type \<Rightarrow> viper_type" where
  "map_type key_type val_type = Ast_MapType key_type val_type"

section \<open>Expressions\<close>

datatype viper_field = Ast_Field string viper_type

datatype local_var_decl = Ast_LocalVarDecl string viper_type

text \<open>The classes of expressions with one and with two subexpressions.\<close>

datatype unary_class =
  Ast_Minus | Ast_PermMinus | Ast_Not | Ast_AnySetCardinality | Ast_SeqLength | Ast_MapCardinality
| Ast_MapDomain | Ast_MapRange | Ast_Old

datatype binary_class =
  Ast_Add | Ast_Sub | Ast_Mul | Ast_Div | Ast_Mod | Ast_LtCmp | Ast_LeCmp | Ast_GtCmp | Ast_GeCmp
| Ast_EqCmp | Ast_NeCmp | Ast_Or | Ast_And | Ast_Implies | Ast_MagicWand | Ast_InhaleExhaleExp
| Ast_PermPermDiv | Ast_PermAdd | Ast_PermSub | Ast_PermMul | Ast_MapLookup | Ast_MapContains
| Ast_SeqAppend | Ast_SeqIndex | Ast_SeqTake | Ast_SeqDrop | Ast_SeqContains | Ast_AnySetUnion
| Ast_AnySetIntersection | Ast_AnySetSubset | Ast_AnySetMinus | Ast_AnySetContains | Ast_Unfolding

datatype literal_class = Ast_TrueLit | Ast_FalseLit | Ast_IntLit int | Ast_NullLit | Ast_WildcardPerm

datatype update_class = Ast_CondExp | Ast_MapUpdate | Ast_SeqUpdate

datatype explicit_class = Ast_ExplicitSeq | Ast_ExplicitSet | Ast_ExplicitMultiset

datatype empty_class = Ast_EmptySeq viper_type | Ast_EmptySet viper_type | Ast_EmptyMultiset viper_type
| Ast_EmptyMap viper_type viper_type

text \<open>The type of positions is a parameter, so that the positions of a node are its set.\<close>

datatype 'p viper_expr =
  Ast_Literal literal_class 'p
| Ast_Empty empty_class 'p
| Ast_Unary unary_class "'p viper_expr" 'p
| Ast_Binary binary_class "'p viper_expr" "'p viper_expr" 'p
| Ast_Ternary update_class "'p viper_expr" "'p viper_expr" "'p viper_expr" 'p
| Ast_Explicit explicit_class "'p viper_expr list" 'p
| Ast_LocalVar string viper_type 'p
| Ast_Result viper_type 'p
| Ast_LabelledOld "'p viper_expr" string 'p
| Ast_FieldAccess "'p viper_expr" viper_field 'p
| Ast_FieldAccessPredicate "'p viper_expr" "'p viper_expr option" 'p
| Ast_PredicateAccess "'p viper_expr list" string 'p
| Ast_PredicateAccessPredicate "'p viper_expr" "'p viper_expr option" 'p
| Ast_Let local_var_decl "'p viper_expr" "'p viper_expr" 'p
| Ast_Forall "local_var_decl list" "'p viper_trigger list" "'p viper_expr" 'p
| Ast_Exists "local_var_decl list" "'p viper_trigger list" "'p viper_expr" 'p
| Ast_FuncApp string "'p viper_expr list" 'p viper_type
| Ast_DomainFuncApp string "'p viper_expr list" type_map 'p viper_type string
| Ast_BackendFuncApp string "'p viper_expr list" 'p viper_type string
| Ast_AdtConstructorApp string "'p viper_expr list" type_map 'p viper_type string
| Ast_AdtDestructorApp string "'p viper_expr" type_map 'p viper_type string
| Ast_AdtDiscriminatorApp string "'p viper_expr" type_map 'p string
| Ast_DecreasesTuple "'p viper_expr list" "'p viper_expr option" 'p
| Ast_DecreasesWildcard "'p viper_expr option" 'p
| Ast_DecreasesStar 'p
and 'p viper_trigger = Ast_Trigger "'p viper_expr list" 'p

type_synonym ast_expr = "viper_position viper_expr"
type_synonym ast_trigger = "viper_position viper_trigger"

text \<open>The factory functions for expressions, in the order of \<^verbatim>\<open>expression.rs\<close>.\<close>

definition add_with_pos :: "ast_expr \<Rightarrow> ast_expr \<Rightarrow> viper_position \<Rightarrow> ast_expr" where
  "add_with_pos left right pos = Ast_Binary Ast_Add left right pos"

definition sub_with_pos :: "ast_expr \<Rightarrow> ast_expr \<Rightarrow> viper_position \<Rightarrow> ast_expr" where
  "sub_with_pos left right pos = Ast_Binary Ast_Sub left right pos"

definition mul_with_pos :: "ast_expr \<Rightarrow> ast_expr \<Rightarrow> viper_position \<Rightarrow> ast_expr" where
  "mul_with_pos left right pos = Ast_Binary Ast_Mul left right pos"

definition div_with_pos :: "ast_expr \<Rightarrow> ast_expr \<Rightarrow> viper_position \<Rightarrow> ast_expr" where
  "div_with_pos left right pos = Ast_Binary Ast_Div left right pos"

definition mod_with_pos :: "ast_expr \<Rightarrow> ast_expr \<Rightarrow> viper_position \<Rightarrow> ast_expr" where
  "mod_with_pos left right pos = Ast_Binary Ast_Mod left right pos"

definition lt_cmp_with_pos :: "ast_expr \<Rightarrow> ast_expr \<Rightarrow> viper_position \<Rightarrow> ast_expr" where
  "lt_cmp_with_pos left right pos = Ast_Binary Ast_LtCmp left right pos"

definition le_cmp_with_pos :: "ast_expr \<Rightarrow> ast_expr \<Rightarrow> viper_position \<Rightarrow> ast_expr" where
  "le_cmp_with_pos left right pos = Ast_Binary Ast_LeCmp left right pos"

definition gt_cmp_with_pos :: "ast_expr \<Rightarrow> ast_expr \<Rightarrow> viper_position \<Rightarrow> ast_expr" where
  "gt_cmp_with_pos left right pos = Ast_Binary Ast_GtCmp left right pos"

definition ge_cmp_with_pos :: "ast_expr \<Rightarrow> ast_expr \<Rightarrow> viper_position \<Rightarrow> ast_expr" where
  "ge_cmp_with_pos left right pos = Ast_Binary Ast_GeCmp left right pos"

definition eq_cmp_with_pos :: "ast_expr \<Rightarrow> ast_expr \<Rightarrow> viper_position \<Rightarrow> ast_expr" where
  "eq_cmp_with_pos left right pos = Ast_Binary Ast_EqCmp left right pos"

definition eq_cmp :: "ast_expr \<Rightarrow> ast_expr \<Rightarrow> ast_expr" where
  "eq_cmp left right = eq_cmp_with_pos left right no_position"

definition ne_cmp_with_pos :: "ast_expr \<Rightarrow> ast_expr \<Rightarrow> viper_position \<Rightarrow> ast_expr" where
  "ne_cmp_with_pos left right pos = Ast_Binary Ast_NeCmp left right pos"

definition int_lit_with_pos :: "64 word \<Rightarrow> viper_position \<Rightarrow> ast_expr exec" where
  "int_lit_with_pos i pos = map_exec (\<lambda>big_i. Ast_Literal (Ast_IntLit big_i) pos) (new_big_int (int_to_string (sint i)))"

definition int_lit_from_ref_with_pos :: "string \<Rightarrow> viper_position \<Rightarrow> ast_expr exec" where
  "int_lit_from_ref_with_pos i pos = map_exec (\<lambda>big_i. Ast_Literal (Ast_IntLit big_i) pos) (new_big_int i)"

definition minus_with_pos :: "ast_expr \<Rightarrow> viper_position \<Rightarrow> ast_expr" where
  "minus_with_pos e pos = Ast_Unary Ast_Minus e pos"

definition or_with_pos :: "ast_expr \<Rightarrow> ast_expr \<Rightarrow> viper_position \<Rightarrow> ast_expr" where
  "or_with_pos left right pos = Ast_Binary Ast_Or left right pos"

definition and_with_pos :: "ast_expr \<Rightarrow> ast_expr \<Rightarrow> viper_position \<Rightarrow> ast_expr" where
  "and_with_pos left right pos = Ast_Binary Ast_And left right pos"

definition implies_with_pos :: "ast_expr \<Rightarrow> ast_expr \<Rightarrow> viper_position \<Rightarrow> ast_expr" where
  "implies_with_pos left right pos = Ast_Binary Ast_Implies left right pos"

definition magic_wand_with_pos :: "ast_expr \<Rightarrow> ast_expr \<Rightarrow> viper_position \<Rightarrow> ast_expr" where
  "magic_wand_with_pos left right pos = Ast_Binary Ast_MagicWand left right pos"

definition not_with_pos :: "ast_expr \<Rightarrow> viper_position \<Rightarrow> ast_expr" where
  "not_with_pos e pos = Ast_Unary Ast_Not e pos"

definition true_lit_with_pos :: "viper_position \<Rightarrow> ast_expr" where
  "true_lit_with_pos pos = Ast_Literal Ast_TrueLit pos"

definition false_lit_with_pos :: "viper_position \<Rightarrow> ast_expr" where
  "false_lit_with_pos pos = Ast_Literal Ast_FalseLit pos"

definition null_lit_with_pos :: "viper_position \<Rightarrow> ast_expr" where
  "null_lit_with_pos pos = Ast_Literal Ast_NullLit pos"

definition field_access_predicate_with_pos :: "ast_expr \<Rightarrow> ast_expr option \<Rightarrow> viper_position \<Rightarrow> ast_expr" where
  "field_access_predicate_with_pos loc perm pos = Ast_FieldAccessPredicate loc perm pos"

definition predicate_access_predicate_with_pos :: "ast_expr \<Rightarrow> ast_expr option \<Rightarrow> viper_position \<Rightarrow> ast_expr" where
  "predicate_access_predicate_with_pos loc perm pos = Ast_PredicateAccessPredicate loc perm pos"

definition inhale_exhale_pred :: "ast_expr \<Rightarrow> ast_expr \<Rightarrow> ast_expr" where
  "inhale_exhale_pred inh exh = Ast_Binary Ast_InhaleExhaleExp inh exh no_position"

definition wildcard_perm :: "ast_expr" where
  "wildcard_perm = Ast_Literal Ast_WildcardPerm no_position"

definition perm_perm_div_with_pos :: "ast_expr \<Rightarrow> ast_expr \<Rightarrow> viper_position \<Rightarrow> ast_expr" where
  "perm_perm_div_with_pos left right pos = Ast_Binary Ast_PermPermDiv left right pos"

definition perm_minus_with_pos :: "ast_expr \<Rightarrow> viper_position \<Rightarrow> ast_expr" where
  "perm_minus_with_pos e pos = Ast_Unary Ast_PermMinus e pos"

definition perm_add_with_pos :: "ast_expr \<Rightarrow> ast_expr \<Rightarrow> viper_position \<Rightarrow> ast_expr" where
  "perm_add_with_pos left right pos = Ast_Binary Ast_PermAdd left right pos"

definition perm_sub_with_pos :: "ast_expr \<Rightarrow> ast_expr \<Rightarrow> viper_position \<Rightarrow> ast_expr" where
  "perm_sub_with_pos left right pos = Ast_Binary Ast_PermSub left right pos"

definition perm_mul_with_pos :: "ast_expr \<Rightarrow> ast_expr \<Rightarrow> viper_position \<Rightarrow> ast_expr" where
  "perm_mul_with_pos left right pos = Ast_Binary Ast_PermMul left right pos"

definition func_app :: "string \<Rightarrow> ast_expr list \<Rightarrow> viper_type \<Rightarrow> viper_position \<Rightarrow> ast_expr" where
  "func_app function_name args return_type pos = Ast_FuncApp function_name args pos return_type"

definition domain_func_app2 :: "string \<Rightarrow> ast_expr list \<Rightarrow> type_map \<Rightarrow> viper_type \<Rightarrow> string \<Rightarrow> viper_position \<Rightarrow> ast_expr" where
  "domain_func_app2 function_name args type_var_map return_type domain_name pos = Ast_DomainFuncApp function_name args (new_map type_var_map) pos return_type domain_name"

definition backend_func_app_from_name :: "string \<Rightarrow> ast_expr list \<Rightarrow> viper_type \<Rightarrow> viper_position \<Rightarrow> string \<Rightarrow> ast_expr" where
  "backend_func_app_from_name function_name args return_type pos interpretation = Ast_BackendFuncApp function_name args pos return_type interpretation"

definition adt_constructor_app :: "string \<Rightarrow> ast_expr list \<Rightarrow> type_map \<Rightarrow> viper_type \<Rightarrow> string \<Rightarrow> ast_expr" where
  "adt_constructor_app constructor_name args type_var_map return_type adt_name = Ast_AdtConstructorApp constructor_name args (new_map type_var_map) no_position return_type adt_name"

definition adt_destructor :: "string \<Rightarrow> ast_expr \<Rightarrow> type_map \<Rightarrow> viper_type \<Rightarrow> string \<Rightarrow> ast_expr" where
  "adt_destructor destructor_name rcv type_var_map return_type adt_name = Ast_AdtDestructorApp destructor_name rcv (new_map type_var_map) no_position return_type adt_name"

definition adt_discr :: "string \<Rightarrow> ast_expr \<Rightarrow> type_map \<Rightarrow> string \<Rightarrow> ast_expr" where
  "adt_discr constructor_name rcv type_var_map adt_name = Ast_AdtDiscriminatorApp constructor_name rcv (new_map type_var_map) no_position adt_name"

definition field_access_with_pos :: "ast_expr \<Rightarrow> viper_field \<Rightarrow> viper_position \<Rightarrow> ast_expr" where
  "field_access_with_pos rcv f pos = Ast_FieldAccess rcv f pos"

definition predicate_access_with_pos :: "ast_expr list \<Rightarrow> string \<Rightarrow> viper_position \<Rightarrow> ast_expr" where
  "predicate_access_with_pos args predicate_name pos = Ast_PredicateAccess args predicate_name pos"

definition cond_exp_with_pos :: "ast_expr \<Rightarrow> ast_expr \<Rightarrow> ast_expr \<Rightarrow> viper_position \<Rightarrow> ast_expr" where
  "cond_exp_with_pos cond then_expr else_expr pos = Ast_Ternary Ast_CondExp cond then_expr else_expr pos"

definition unfolding_with_pos :: "ast_expr \<Rightarrow> ast_expr \<Rightarrow> viper_position \<Rightarrow> ast_expr" where
  "unfolding_with_pos acc body pos = Ast_Binary Ast_Unfolding acc body pos"

definition old_node :: "ast_expr \<Rightarrow> ast_expr" where
  "old_node e = Ast_Unary Ast_Old e no_position"

definition labelled_old_with_pos :: "ast_expr \<Rightarrow> string \<Rightarrow> viper_position \<Rightarrow> ast_expr" where
  "labelled_old_with_pos e old_label pos = Ast_LabelledOld e old_label pos"

definition let_expr_with_pos :: "local_var_decl \<Rightarrow> ast_expr \<Rightarrow> ast_expr \<Rightarrow> viper_position \<Rightarrow> ast_expr" where
  "let_expr_with_pos variable e body pos = Ast_Let variable e body pos"

definition forall_with_pos :: "local_var_decl list \<Rightarrow> ast_trigger list \<Rightarrow> ast_expr \<Rightarrow> viper_position \<Rightarrow> ast_expr" where
  "forall_with_pos variables triggers e pos = Ast_Forall variables triggers e pos"

definition exists_with_pos :: "local_var_decl list \<Rightarrow> ast_trigger list \<Rightarrow> ast_expr \<Rightarrow> viper_position \<Rightarrow> ast_expr" where
  "exists_with_pos variables triggers e pos = Ast_Exists variables triggers e no_position"

definition trigger_with_pos :: "ast_expr list \<Rightarrow> viper_position \<Rightarrow> ast_trigger" where
  "trigger_with_pos exps pos = Ast_Trigger exps pos"

definition trigger_node :: "ast_expr list \<Rightarrow> ast_trigger" where
  "trigger_node exps = trigger_with_pos exps no_position"

definition local_var_with_pos :: "string \<Rightarrow> viper_type \<Rightarrow> viper_position \<Rightarrow> ast_expr" where
  "local_var_with_pos name var_type pos = Ast_LocalVar name var_type pos"

definition local_var :: "string \<Rightarrow> viper_type \<Rightarrow> viper_position \<Rightarrow> ast_expr" where
  "local_var name var_type position = local_var_with_pos name var_type position"

definition result_with_pos :: "viper_type \<Rightarrow> viper_position \<Rightarrow> ast_expr" where
  "result_with_pos var_type pos = Ast_Result var_type pos"

definition empty_seq_with_pos :: "viper_type \<Rightarrow> viper_position \<Rightarrow> ast_expr" where
  "empty_seq_with_pos elem_type pos = Ast_Empty (Ast_EmptySeq elem_type) pos"

definition explicit_seq_with_pos :: "ast_expr list \<Rightarrow> viper_position \<Rightarrow> ast_expr" where
  "explicit_seq_with_pos elems pos = Ast_Explicit Ast_ExplicitSeq elems pos"

definition empty_map_with_pos :: "viper_type \<Rightarrow> viper_type \<Rightarrow> viper_position \<Rightarrow> ast_expr" where
  "empty_map_with_pos key_ty val_ty pos = Ast_Empty (Ast_EmptyMap key_ty val_ty) pos"

definition update_map_with_pos :: "ast_expr \<Rightarrow> ast_expr \<Rightarrow> ast_expr \<Rightarrow> viper_position \<Rightarrow> ast_expr" where
  "update_map_with_pos m key val pos = Ast_Ternary Ast_MapUpdate m key val pos"

definition lookup_map_with_pos :: "ast_expr \<Rightarrow> ast_expr \<Rightarrow> viper_position \<Rightarrow> ast_expr" where
  "lookup_map_with_pos m key pos = Ast_Binary Ast_MapLookup m key pos"

definition map_contains_with_pos :: "ast_expr \<Rightarrow> ast_expr \<Rightarrow> viper_position \<Rightarrow> ast_expr" where
  "map_contains_with_pos m key pos = Ast_Binary Ast_MapContains key m pos"

definition map_len_with_pos :: "ast_expr \<Rightarrow> viper_position \<Rightarrow> ast_expr" where
  "map_len_with_pos m pos = Ast_Unary Ast_MapCardinality m pos"

definition map_domain_with_pos :: "ast_expr \<Rightarrow> viper_position \<Rightarrow> ast_expr" where
  "map_domain_with_pos m pos = Ast_Unary Ast_MapDomain m pos"

definition map_range_with_pos :: "ast_expr \<Rightarrow> viper_position \<Rightarrow> ast_expr" where
  "map_range_with_pos m pos = Ast_Unary Ast_MapRange m pos"

definition seq_append_with_pos :: "ast_expr \<Rightarrow> ast_expr \<Rightarrow> viper_position \<Rightarrow> ast_expr" where
  "seq_append_with_pos left right pos = Ast_Binary Ast_SeqAppend left right pos"

definition seq_index_with_pos :: "ast_expr \<Rightarrow> ast_expr \<Rightarrow> viper_position \<Rightarrow> ast_expr" where
  "seq_index_with_pos seq index pos = Ast_Binary Ast_SeqIndex seq index pos"

definition seq_take_with_pos :: "ast_expr \<Rightarrow> ast_expr \<Rightarrow> viper_position \<Rightarrow> ast_expr" where
  "seq_take_with_pos seq num pos = Ast_Binary Ast_SeqTake seq num pos"

definition seq_drop_with_pos :: "ast_expr \<Rightarrow> ast_expr \<Rightarrow> viper_position \<Rightarrow> ast_expr" where
  "seq_drop_with_pos seq num pos = Ast_Binary Ast_SeqDrop seq num pos"

definition seq_contains_with_pos :: "ast_expr \<Rightarrow> ast_expr \<Rightarrow> viper_position \<Rightarrow> ast_expr" where
  "seq_contains_with_pos elem seq pos = Ast_Binary Ast_SeqContains elem seq pos"

definition seq_update_with_pos :: "ast_expr \<Rightarrow> ast_expr \<Rightarrow> ast_expr \<Rightarrow> viper_position \<Rightarrow> ast_expr" where
  "seq_update_with_pos seq index elem pos = Ast_Ternary Ast_SeqUpdate seq index elem pos"

definition seq_length_with_pos :: "ast_expr \<Rightarrow> viper_position \<Rightarrow> ast_expr" where
  "seq_length_with_pos seq pos = Ast_Unary Ast_SeqLength seq pos"

definition empty_set_with_pos :: "viper_type \<Rightarrow> viper_position \<Rightarrow> ast_expr" where
  "empty_set_with_pos elem_type pos = Ast_Empty (Ast_EmptySet elem_type) pos"

definition explicit_set_with_pos :: "ast_expr list \<Rightarrow> viper_position \<Rightarrow> ast_expr" where
  "explicit_set_with_pos elems pos = Ast_Explicit Ast_ExplicitSet elems pos"

definition empty_multiset_with_pos :: "viper_type \<Rightarrow> viper_position \<Rightarrow> ast_expr" where
  "empty_multiset_with_pos elem_type pos = Ast_Empty (Ast_EmptyMultiset elem_type) pos"

definition explicit_multiset_with_pos :: "ast_expr list \<Rightarrow> viper_position \<Rightarrow> ast_expr" where
  "explicit_multiset_with_pos elems pos = Ast_Explicit Ast_ExplicitMultiset elems pos"

definition any_set_union_with_pos :: "ast_expr \<Rightarrow> ast_expr \<Rightarrow> viper_position \<Rightarrow> ast_expr" where
  "any_set_union_with_pos left right pos = Ast_Binary Ast_AnySetUnion left right pos"

definition any_set_intersection_with_pos :: "ast_expr \<Rightarrow> ast_expr \<Rightarrow> viper_position \<Rightarrow> ast_expr" where
  "any_set_intersection_with_pos left right pos = Ast_Binary Ast_AnySetIntersection left right pos"

definition any_set_subset_with_pos :: "ast_expr \<Rightarrow> ast_expr \<Rightarrow> viper_position \<Rightarrow> ast_expr" where
  "any_set_subset_with_pos left right pos = Ast_Binary Ast_AnySetSubset left right pos"

definition any_set_minus_with_pos :: "ast_expr \<Rightarrow> ast_expr \<Rightarrow> viper_position \<Rightarrow> ast_expr" where
  "any_set_minus_with_pos left right pos = Ast_Binary Ast_AnySetMinus left right pos"

definition any_set_contains_with_pos :: "ast_expr \<Rightarrow> ast_expr \<Rightarrow> viper_position \<Rightarrow> ast_expr" where
  "any_set_contains_with_pos elem s pos = Ast_Binary Ast_AnySetContains elem s pos"

definition any_set_cardinality_with_pos :: "ast_expr \<Rightarrow> viper_position \<Rightarrow> ast_expr" where
  "any_set_cardinality_with_pos s pos = Ast_Unary Ast_AnySetCardinality s pos"

definition decreases_tuple :: "ast_expr list \<Rightarrow> ast_expr option \<Rightarrow> ast_expr" where
  "decreases_tuple tuple_expressions condition = Ast_DecreasesTuple tuple_expressions condition no_position"

definition decreases_wildcard :: "ast_expr option \<Rightarrow> ast_expr" where
  "decreases_wildcard condition = Ast_DecreasesWildcard condition no_position"

definition decreases_star :: "ast_expr" where
  "decreases_star = Ast_DecreasesStar no_position"

section \<open>Statements\<close>

text \<open>
  The classes of statements that consist of one expression. A declaration is a label or a variable;
  the factory makes the label of a declaration without invariants. The list of strings of a
  sequence is its info, which is how comments are represented.
\<close>

datatype check_class =
  Ast_Exhale | Ast_Inhale | Ast_Assert | Ast_Refute | Ast_Fold | Ast_Unfold | Ast_Apply

datatype 'p viper_stmt =
  Ast_LocalVarAssign "'p viper_expr" "'p viper_expr" 'p
| Ast_MethodCall string "'p viper_expr list" "'p viper_expr list" 'p
| Ast_Check check_class "'p viper_expr" 'p
| Ast_Package "'p viper_expr" "'p viper_stmt" 'p
| Ast_Seqn "'p viper_stmt list" "'p viper_declaration list" "string list" 'p
| Ast_If "'p viper_expr" "'p viper_stmt" "'p viper_stmt" 'p
| Ast_Label string "'p viper_expr list" 'p
| Ast_Goto string 'p
and 'p viper_declaration = Declared_label "'p viper_stmt" | Declared_var local_var_decl

type_synonym ast_stmt = "viper_position viper_stmt"
type_synonym ast_declaration = "viper_position viper_declaration"

definition local_var_assign :: "ast_expr \<Rightarrow> ast_expr \<Rightarrow> ast_stmt" where
  "local_var_assign lhs rhs = Ast_LocalVarAssign lhs rhs no_position"

definition method_call_with_pos :: "string \<Rightarrow> ast_expr list \<Rightarrow> ast_expr list \<Rightarrow> viper_position \<Rightarrow> ast_stmt" where
  "method_call_with_pos method_name args targets pos = Ast_MethodCall method_name args targets pos"

definition exhale :: "ast_expr \<Rightarrow> viper_position \<Rightarrow> ast_stmt" where
  "exhale e pos = Ast_Check Ast_Exhale e pos"

definition inhale :: "ast_expr \<Rightarrow> viper_position \<Rightarrow> ast_stmt" where
  "inhale e pos = Ast_Check Ast_Inhale e pos"

definition assert_node :: "ast_expr \<Rightarrow> viper_position \<Rightarrow> ast_stmt" where
  "assert_node e pos = Ast_Check Ast_Assert e pos"

definition refute :: "ast_expr \<Rightarrow> viper_position \<Rightarrow> ast_stmt" where
  "refute e pos = Ast_Check Ast_Refute e pos"

definition fold_with_pos :: "ast_expr \<Rightarrow> viper_position \<Rightarrow> ast_stmt" where
  "fold_with_pos e pos = Ast_Check Ast_Fold e pos"

definition unfold_with_pos :: "ast_expr \<Rightarrow> viper_position \<Rightarrow> ast_stmt" where
  "unfold_with_pos e pos = Ast_Check Ast_Unfold e pos"

definition package :: "ast_expr \<Rightarrow> ast_stmt \<Rightarrow> viper_position \<Rightarrow> ast_stmt" where
  "package wand proof_script pos = Ast_Package wand proof_script pos"

definition apply_node :: "ast_expr \<Rightarrow> viper_position \<Rightarrow> ast_stmt" where
  "apply_node wand pos = Ast_Check Ast_Apply wand pos"

definition seqn :: "ast_stmt list \<Rightarrow> ast_declaration list \<Rightarrow> ast_stmt" where
  "seqn stmts scoped_decls = Ast_Seqn stmts scoped_decls [] no_position"

definition comment_node :: "string \<Rightarrow> ast_stmt" where
  "comment_node comment = Ast_Seqn [] [] [comment] no_position"

definition if_stmt :: "ast_expr \<Rightarrow> ast_stmt \<Rightarrow> ast_stmt \<Rightarrow> ast_stmt" where
  "if_stmt cond then_body else_body = Ast_If cond then_body else_body no_position"

definition label_node :: "string \<Rightarrow> ast_expr list \<Rightarrow> ast_stmt" where
  "label_node name invs = Ast_Label name invs no_position"

definition goto :: "string \<Rightarrow> ast_stmt" where
  "goto target = Ast_Goto target no_position"

section \<open>Programs\<close>

record 'p viper_predicate =
  vp_name :: string
  vp_formal_args :: "local_var_decl list"
  vp_body :: "'p viper_expr option"

record 'p viper_function =
  vf_name :: string
  vf_formal_args :: "local_var_decl list"
  vf_typ :: viper_type
  vf_pres :: "'p viper_expr list"
  vf_posts :: "'p viper_expr list"
  vf_body :: "'p viper_expr option"
  vf_pos :: 'p

record 'p viper_method =
  vm_name :: string
  vm_formal_args :: "local_var_decl list"
  vm_formal_returns :: "local_var_decl list"
  vm_pres :: "'p viper_expr list"
  vm_posts :: "'p viper_expr list"
  vm_body :: "'p viper_stmt option"

record viper_adt_constructor =
  vc_name :: string
  vc_formal_args :: "local_var_decl list"
  vc_typ :: viper_type
  vc_adt_name :: string

record viper_adt =
  va_name :: string
  va_constructors :: "viper_adt_constructor list"
  va_type_vars :: "viper_type list"

record viper_domain_func =
  vdf_name :: string
  vdf_formal_args :: "local_var_decl list"
  vdf_typ :: viper_type
  vdf_unique :: bool
  vdf_interpretation :: "string option"
  vdf_domain_name :: string

record 'p viper_axiom =
  vax_name :: string
  vax_exp :: "'p viper_expr"
  vax_domain_name :: string

record 'p viper_domain =
  vd_name :: string
  vd_functions :: "viper_domain_func list"
  vd_axioms :: "'p viper_axiom list"
  vd_type_vars :: "viper_type list"
  vd_interpretations :: "(string \<times> string) list option"

record 'p viper_program =
  vpr_domains :: "'p viper_domain list"
  vpr_fields :: "viper_field list"
  vpr_functions :: "'p viper_function list"
  vpr_predicates :: "'p viper_predicate list"
  vpr_methods :: "'p viper_method list"
  vpr_adts :: "viper_adt list"

definition program_node ::
  "'p viper_domain list \<Rightarrow> viper_field list \<Rightarrow> 'p viper_function list \<Rightarrow> 'p viper_predicate list
   \<Rightarrow> 'p viper_method list \<Rightarrow> viper_adt list \<Rightarrow> 'p viper_program" where
  "program_node ds fs funs preds ms as =
     \<lparr>vpr_domains = ds, vpr_fields = fs, vpr_functions = funs, vpr_predicates = preds, vpr_methods = ms,
      vpr_adts = as\<rparr>"

definition field_node :: "string \<Rightarrow> viper_type \<Rightarrow> viper_field" where
  "field_node name typ = Ast_Field name typ"

definition local_var_decl :: "string \<Rightarrow> viper_type \<Rightarrow> local_var_decl" where
  "local_var_decl name typ = Ast_LocalVarDecl name typ"

definition predicate_node :: "string \<Rightarrow> local_var_decl list \<Rightarrow> 'p viper_expr option \<Rightarrow> 'p viper_predicate" where
  "predicate_node name formal_args body = \<lparr>vp_name = name, vp_formal_args = formal_args, vp_body = body\<rparr>"

definition function_node ::
  "string \<Rightarrow> local_var_decl list \<Rightarrow> viper_type \<Rightarrow> 'p viper_expr list \<Rightarrow> 'p viper_expr list \<Rightarrow> 'p
   \<Rightarrow> 'p viper_expr option \<Rightarrow> 'p viper_function" where
  "function_node name formal_args typ pres posts pos body =
     \<lparr>vf_name = name, vf_formal_args = formal_args, vf_typ = typ, vf_pres = pres, vf_posts = posts,
      vf_body = body, vf_pos = pos\<rparr>"

definition method_node ::
  "string \<Rightarrow> local_var_decl list \<Rightarrow> local_var_decl list \<Rightarrow> 'p viper_expr list \<Rightarrow> 'p viper_expr list
   \<Rightarrow> 'p viper_stmt option \<Rightarrow> 'p viper_method" where
  "method_node name formal_args formal_returns pres posts body =
     \<lparr>vm_name = name, vm_formal_args = formal_args, vm_formal_returns = formal_returns, vm_pres = pres,
      vm_posts = posts, vm_body = body\<rparr>"

definition adt_node :: "string \<Rightarrow> viper_adt_constructor list \<Rightarrow> viper_type list \<Rightarrow> viper_adt" where
  "adt_node name constructors type_vars =
     \<lparr>va_name = name, va_constructors = constructors, va_type_vars = type_vars\<rparr>"

definition adt_constructor :: "string \<Rightarrow> local_var_decl list \<Rightarrow> string \<Rightarrow> viper_type list \<Rightarrow> viper_adt_constructor" where
  "adt_constructor name args adt_name adt_type_vars =
     (let ty_map = map (\<lambda>t. (t, t)) adt_type_vars; adt_ty = Ast_AdtType adt_name (new_map ty_map) adt_type_vars
      in \<lparr>vc_name = name, vc_formal_args = args, vc_typ = adt_ty, vc_adt_name = adt_name\<rparr>)"

definition domain_node ::
  "string \<Rightarrow> viper_domain_func list \<Rightarrow> 'p viper_axiom list \<Rightarrow> viper_type list \<Rightarrow> (string \<times> string) list option
   \<Rightarrow> 'p viper_domain" where
  "domain_node name functions axioms type_vars interpretations =
     \<lparr>vd_name = name, vd_functions = functions, vd_axioms = axioms, vd_type_vars = type_vars,
      vd_interpretations = map_option new_map interpretations\<rparr>"

definition domain_func ::
  "string \<Rightarrow> local_var_decl list \<Rightarrow> viper_type \<Rightarrow> bool \<Rightarrow> string \<Rightarrow> string option \<Rightarrow> viper_domain_func" where
  "domain_func name formal_args typ unique domain_name interpretation =
     \<lparr>vdf_name = name, vdf_formal_args = formal_args, vdf_typ = typ, vdf_unique = unique,
      vdf_interpretation = interpretation, vdf_domain_name = domain_name\<rparr>"

definition named_domain_axiom :: "string \<Rightarrow> 'p viper_expr \<Rightarrow> string \<Rightarrow> 'p viper_axiom" where
  "named_domain_axiom name e domain_name = \<lparr>vax_name = name, vax_exp = e, vax_domain_name = domain_name\<rparr>"

section \<open>Laws\<close>

lemmas expr_node_defs =
  add_with_pos_def sub_with_pos_def mul_with_pos_def div_with_pos_def mod_with_pos_def
  lt_cmp_with_pos_def le_cmp_with_pos_def gt_cmp_with_pos_def ge_cmp_with_pos_def eq_cmp_with_pos_def
  eq_cmp_def ne_cmp_with_pos_def int_lit_with_pos_def int_lit_from_ref_with_pos_def minus_with_pos_def
  or_with_pos_def and_with_pos_def implies_with_pos_def magic_wand_with_pos_def not_with_pos_def
  true_lit_with_pos_def false_lit_with_pos_def null_lit_with_pos_def
  field_access_predicate_with_pos_def predicate_access_predicate_with_pos_def inhale_exhale_pred_def
  wildcard_perm_def perm_perm_div_with_pos_def perm_minus_with_pos_def perm_add_with_pos_def
  perm_sub_with_pos_def perm_mul_with_pos_def func_app_def domain_func_app2_def
  backend_func_app_from_name_def adt_constructor_app_def adt_destructor_def adt_discr_def
  field_access_with_pos_def predicate_access_with_pos_def cond_exp_with_pos_def unfolding_with_pos_def
  old_node_def labelled_old_with_pos_def let_expr_with_pos_def forall_with_pos_def exists_with_pos_def
  trigger_with_pos_def trigger_node_def local_var_with_pos_def local_var_def result_with_pos_def
  empty_seq_with_pos_def explicit_seq_with_pos_def empty_map_with_pos_def update_map_with_pos_def
  lookup_map_with_pos_def map_contains_with_pos_def map_len_with_pos_def map_domain_with_pos_def
  map_range_with_pos_def seq_append_with_pos_def seq_index_with_pos_def seq_take_with_pos_def
  seq_drop_with_pos_def seq_contains_with_pos_def seq_update_with_pos_def seq_length_with_pos_def
  empty_set_with_pos_def explicit_set_with_pos_def empty_multiset_with_pos_def
  explicit_multiset_with_pos_def any_set_union_with_pos_def any_set_intersection_with_pos_def
  any_set_subset_with_pos_def any_set_minus_with_pos_def any_set_contains_with_pos_def
  any_set_cardinality_with_pos_def decreases_tuple_def decreases_wildcard_def decreases_star_def

lemmas stmt_node_defs =
  local_var_assign_def method_call_with_pos_def exhale_def inhale_def assert_node_def refute_def
  fold_with_pos_def unfold_with_pos_def package_def apply_node_def seqn_def comment_node_def
  if_stmt_def label_node_def goto_def

text \<open>The decimal form of a number is read back as that number.\<close>

lemma big_int_roundtrip: "new_big_int (int_to_string i) = Value i"
proof -
  have no_sign: "c \<noteq> CHR ''-'' \<and> c \<noteq> CHR ''+''" if "digits n = c # cs" for n c cs
    using digit_char [of c n] that by auto
  obtain c cs where c: "digits (nat i) = c # cs" by (cases "digits (nat i)") auto
  show ?thesis
    using c no_sign [OF c] decimal_digits [of "nat i"] decimal_digits [of "nat (- i)"]
    by (auto simp: new_big_int_def int_to_string_def)
qed

text \<open>A literal is the number, whether it goes through \<^verbatim>\<open>i64\<close> or through a string.\<close>

lemma int_lit_value:
  "int_lit_with_pos i pos = Value (Ast_Literal (Ast_IntLit (sint i)) pos)"
  "int_lit_from_ref_with_pos (int_to_string v) pos = Value (Ast_Literal (Ast_IntLit v) pos)"
  by (simp_all add: int_lit_with_pos_def int_lit_from_ref_with_pos_def big_int_roundtrip)

lemma update_new: "k \<notin> fst ` set m \<Longrightarrow> AList.update k v m = m @ [(k, v)]"
  by (induction m) auto

text \<open>With distinct keys a map has exactly the given pairs.\<close>

lemma new_map_distinct: "distinct (map fst items) \<Longrightarrow> new_map items = items"
proof -
  have "fold (\<lambda>(k, v). AList.update k v) items m = m @ items"
    if "distinct (map fst (m @ items))" for m
    using that
  proof (induction items arbitrary: m)
    case (Cons x items)
    obtain k v where x: "x = (k, v)" by fastforce
    have "AList.update k v m = m @ [(k, v)]" using Cons.prems x by (intro update_new) auto
    then show ?case using Cons x by simp
  qed simp
  then show "distinct (map fst items) \<Longrightarrow> new_map items = items" by (simp add: new_map_def)
qed

end
