(* ===== verification/Vir_To_Viper.thy ===== *)
theory Vir_To_Viper
  imports Vir_Data Viper_Ast Vir_Spans
begin

text \<open>
  \<^verbatim>\<open>prusti-viper/src/lib.rs\<close>: the translation of a VIR program into a Viper program. Each
  \<^verbatim>\<open>impl ToViper\<close> is a definition; where the translation is recursive, the definition takes the
  translated parts as arguments and \<open>expr_to_viper\<close> ties the knot. The values that are formatted into
  the messages of panics are left out.
\<close>

section \<open>The context\<close>

record 's to_viper_context =
  adts :: "string \<rightharpoonup> 's adt_data"
  adt_constructors :: "string \<rightharpoonup> 's adt_data \<times> 's adt_constructor_data"
  adt_destructors :: "string \<rightharpoonup> 's adt_data \<times> local_decl"
  domains :: "string \<rightharpoonup> 's domain_data"
  domain_functions :: "string \<rightharpoonup> 's domain_data \<times> domain_function"
  domain_axioms :: "string \<rightharpoonup> 's domain_data \<times> 's domain_axiom"

definition empty_context :: "'s to_viper_context" where
  "empty_context =
     \<lparr>adts = Map.empty, adt_constructors = Map.empty, adt_destructors = Map.empty, domains = Map.empty,
      domain_functions = Map.empty, domain_axioms = Map.empty\<rparr>"

definition insert_domain :: "'s domain_data \<Rightarrow> 's to_viper_context \<Rightarrow> 's to_viper_context" where
  "insert_domain d ctx =
     (let ctx1 = ctx\<lparr>domains := (domains ctx)(domain_name d \<mapsto> d)\<rparr>;
          ctx2 = fold (\<lambda>f c. c\<lparr>domain_functions := (domain_functions c)(to_str (fn_name f) \<mapsto> (d, f))\<rparr>)
            (domain_function_list d) ctx1
      in fold (\<lambda>a c. c\<lparr>domain_axioms := (domain_axioms c)(axiom_name a \<mapsto> (d, a))\<rparr>) (domain_axiom_list d) ctx2)"

definition insert_constructor :: "'s adt_data \<Rightarrow> 's adt_constructor_data \<Rightarrow> 's to_viper_context \<Rightarrow> 's to_viper_context" where
  "insert_constructor adt k ctx =
     fold (\<lambda>x c. c\<lparr>adt_destructors := (adt_destructors c)(decl_name x \<mapsto> (adt, x))\<rparr>) (cons_args k)
       (ctx\<lparr>adt_constructors := (adt_constructors ctx)(cons_name k \<mapsto> (adt, k))\<rparr>)"

definition insert_adt :: "'s adt_data \<Rightarrow> 's to_viper_context \<Rightarrow> 's to_viper_context" where
  "insert_adt adt ctx =
     fold (insert_constructor adt) (adt_constructor_list adt) (ctx\<lparr>adts := (adts ctx)(adt_name adt \<mapsto> adt)\<rparr>)"

definition context_of :: "'s program_data \<Rightarrow> 's to_viper_context" where
  "context_of program = fold insert_adt (prog_adts program) (fold insert_domain (prog_domains program) empty_context)"

definition span_to_pos :: "'sp vir_span option \<Rightarrow> viper_position" where
  "span_to_pos span =
     (case span of
        Some s \<Rightarrow> identifier_position 0 0 (digits (span_id s))
      | None \<Rightarrow> no_position)"

section \<open>Types\<close>

definition param_to_viper :: "domain_param \<Rightarrow> viper_type" where
  "param_to_viper p = type_var (param_name p)"

text \<open>The pairs of type parameters and translated arguments; the shorter list decides.\<close>

definition zip_params :: "domain_param list \<Rightarrow> viper_type exec list \<Rightarrow> type_map exec" where
  "zip_params ps args = all_exec (map (\<lambda>(p, a). map_exec (Pair (param_to_viper p)) a) (zip ps args))"

fun type_to_viper :: "'s to_viper_context \<Rightarrow> type_kind \<Rightarrow> viper_type exec" where
  "type_to_viper ctx Ty_Int = Value int_type"
| "type_to_viper ctx Ty_Bool = Value bool_type"
| "type_to_viper ctx (Ty_DomainTypeParam p) = Value (type_var (param_name p))"
| "type_to_viper ctx (Ty_Domain name params) =
     (let actuals = map (type_to_viper ctx) params in
      case (domains ctx name, adts ctx name) of
        (Some d, None) \<Rightarrow>
          map_exec (\<lambda>partial_typ_vars_map.
              case domain_interpretation d of
                None \<Rightarrow> domain_type name partial_typ_vars_map (map (\<lambda>v. type_var (param_name v)) (domain_typarams d))
              | Some i \<Rightarrow> domain_backend_type name i)
            (zip_params (domain_typarams d) actuals)
      | (None, Some adt) \<Rightarrow>
          map_exec (\<lambda>partial_typ_vars_map.
              adt_type name partial_typ_vars_map (map (\<lambda>v. type_var (param_name v)) (adt_typarams adt)))
            (zip_params (adt_typarams adt) actuals)
      | _ \<Rightarrow> panic ''Domain/Adt not found'')"
| "type_to_viper ctx Ty_Ref = Value ref_type"
| "type_to_viper ctx Ty_Perm = Value perm_type"
| "type_to_viper ctx (Ty_Set elem) = map_exec set_type (type_to_viper ctx elem)"
| "type_to_viper ctx (Ty_Multiset elem) = map_exec multiset_type (type_to_viper ctx elem)"
| "type_to_viper ctx (Ty_Seq elem) = map_exec seq_type (type_to_viper ctx elem)"
| "type_to_viper ctx (Ty_Map key val) = map2_exec map_type (type_to_viper ctx key) (type_to_viper ctx val)"
| "type_to_viper ctx (Ty_Unsupported _) = panic ''not implemented''"
| "type_to_viper ctx Ty_Err = panic ''not implemented''"

definition adt_type_map :: "'s to_viper_context \<Rightarrow> type_kind \<Rightarrow> type_map exec" where
  "adt_type_map ctx ty =
     (case ty of
        Ty_Domain name ty_args \<Rightarrow>
          (case adts ctx name of
             None \<Rightarrow> panic ''no adt found for adt type''
           | Some adt \<Rightarrow>
               if length (adt_typarams adt) \<noteq> length ty_args then panic ''assertion `left == right` failed''
               else zip_params (adt_typarams adt) (map (type_to_viper ctx) ty_args))
      | _ \<Rightarrow> panic ''expected adt type'')"

definition field_to_viper :: "'s to_viper_context \<Rightarrow> field_data \<Rightarrow> viper_field exec" where
  "field_to_viper ctx f = map_exec (field_node (field_name f)) (type_to_viper ctx (field_ty f))"

definition local_decl_to_viper :: "'s to_viper_context \<Rightarrow> local_decl \<Rightarrow> local_var_decl exec" where
  "local_decl_to_viper ctx d = map_exec (local_var_decl (decl_name d)) (type_to_viper ctx (decl_ty d))"

definition local_to_viper :: "'s to_viper_context \<Rightarrow> string \<Rightarrow> type_kind \<Rightarrow> viper_position \<Rightarrow> ast_expr exec" where
  "local_to_viper ctx name ty pos = map_exec (\<lambda>t. local_var name t pos) (type_to_viper ctx ty)"

section \<open>Expressions\<close>

text \<open>\<open>i64_max\<close> is \<^verbatim>\<open>i64::MAX as u128\<close>; the smaller numbers are cast to \<^verbatim>\<open>i64\<close>.\<close>

definition i64_max :: "128 word" where
  "i64_max = 0x7FFFFFFFFFFFFFFF"

fun const_to_viper :: "const_data \<Rightarrow> viper_position \<Rightarrow> ast_expr exec" where
  "const_to_viper (Const_Bool b) pos = Value (if b then true_lit_with_pos pos else false_lit_with_pos pos)"
| "const_to_viper (Const_Int v) pos =
     (if v < i64_max then int_lit_with_pos (ucast v) pos
      else int_lit_from_ref_with_pos (int_to_string (uint v)) pos)"
| "const_to_viper Const_Wildcard pos = Value wildcard_perm"
| "const_to_viper Const_Null pos = Value (null_lit_with_pos pos)"

fun un_op_to_viper :: "un_op_kind \<Rightarrow> ast_expr \<Rightarrow> viper_position \<Rightarrow> ast_expr" where
  "un_op_to_viper Op_Neg e pos = minus_with_pos e pos"
| "un_op_to_viper Op_PermNeg e pos = perm_minus_with_pos e pos"
| "un_op_to_viper Op_Not e pos = not_with_pos e pos"

fun bin_op_to_viper :: "bin_op_kind \<Rightarrow> ast_expr \<Rightarrow> ast_expr \<Rightarrow> viper_position \<Rightarrow> ast_expr" where
  "bin_op_to_viper Op_CmpEq lhs rhs pos = eq_cmp_with_pos lhs rhs pos"
| "bin_op_to_viper Op_CmpNe lhs rhs pos = ne_cmp_with_pos lhs rhs pos"
| "bin_op_to_viper Op_CmpGt lhs rhs pos = gt_cmp_with_pos lhs rhs pos"
| "bin_op_to_viper Op_CmpLt lhs rhs pos = lt_cmp_with_pos lhs rhs pos"
| "bin_op_to_viper Op_CmpGe lhs rhs pos = ge_cmp_with_pos lhs rhs pos"
| "bin_op_to_viper Op_CmpLe lhs rhs pos = le_cmp_with_pos lhs rhs pos"
| "bin_op_to_viper Op_And lhs rhs pos = and_with_pos lhs rhs pos"
| "bin_op_to_viper Op_Or lhs rhs pos = or_with_pos lhs rhs pos"
| "bin_op_to_viper Op_Add lhs rhs pos = add_with_pos lhs rhs pos"
| "bin_op_to_viper Op_Sub lhs rhs pos = sub_with_pos lhs rhs pos"
| "bin_op_to_viper Op_Mul lhs rhs pos = mul_with_pos lhs rhs pos"
| "bin_op_to_viper Op_Div lhs rhs pos = div_with_pos lhs rhs pos"
| "bin_op_to_viper Op_PermAdd lhs rhs pos = perm_add_with_pos lhs rhs pos"
| "bin_op_to_viper Op_PermSub lhs rhs pos = perm_sub_with_pos lhs rhs pos"
| "bin_op_to_viper Op_PermMul lhs rhs pos = perm_mul_with_pos lhs rhs pos"
| "bin_op_to_viper Op_PermPermDiv lhs rhs pos = perm_perm_div_with_pos lhs rhs pos"
| "bin_op_to_viper Op_Mod lhs rhs pos = mod_with_pos lhs rhs pos"
| "bin_op_to_viper Op_Implies lhs rhs pos = implies_with_pos lhs rhs pos"

text \<open>\<open>lty\<close> and \<open>rty\<close> are the types of the operands.\<close>

fun collection_bin_op_to_viper ::
  "collection_bin_op_kind \<Rightarrow> type_kind \<Rightarrow> type_kind \<Rightarrow> ast_expr \<Rightarrow> ast_expr \<Rightarrow> viper_position \<Rightarrow> ast_expr exec" where
  "collection_bin_op_to_viper Coll_Contains lty rty lhs rhs pos =
     (case rty of
        Ty_Set _ \<Rightarrow> Value (any_set_contains_with_pos lhs rhs pos)
      | Ty_Multiset _ \<Rightarrow> Value (any_set_contains_with_pos lhs rhs pos)
      | Ty_Seq _ \<Rightarrow> Value (seq_contains_with_pos lhs rhs pos)
      | Ty_Map _ _ \<Rightarrow> Value (map_contains_with_pos rhs lhs pos)
      | _ \<Rightarrow> panic ''internal error: entered unreachable code: `in` on non-collection type'')"
| "collection_bin_op_to_viper Coll_Index lty rty lhs rhs pos =
     (case lty of
        Ty_Seq _ \<Rightarrow> Value (seq_index_with_pos lhs rhs pos)
      | Ty_Map _ _ \<Rightarrow> Value (lookup_map_with_pos lhs rhs pos)
      | _ \<Rightarrow> panic ''internal error: entered unreachable code: indexing of non-`Seq`/`Map` type'')"
| "collection_bin_op_to_viper Coll_Union lty rty lhs rhs pos = Value (any_set_union_with_pos lhs rhs pos)"
| "collection_bin_op_to_viper Coll_Intersection lty rty lhs rhs pos = Value (any_set_intersection_with_pos lhs rhs pos)"
| "collection_bin_op_to_viper Coll_Difference lty rty lhs rhs pos = Value (any_set_minus_with_pos lhs rhs pos)"
| "collection_bin_op_to_viper Coll_Subset lty rty lhs rhs pos = Value (any_set_subset_with_pos lhs rhs pos)"
| "collection_bin_op_to_viper Coll_Concat lty rty lhs rhs pos = Value (seq_append_with_pos lhs rhs pos)"
| "collection_bin_op_to_viper Coll_Take lty rty lhs rhs pos = Value (seq_take_with_pos lhs rhs pos)"
| "collection_bin_op_to_viper Coll_Drop lty rty lhs rhs pos = Value (seq_drop_with_pos lhs rhs pos)"

definition collection_literal_to_viper ::
  "'s to_viper_context \<Rightarrow> ast_expr exec list \<Rightarrow> type_kind \<Rightarrow> viper_position \<Rightarrow> ast_expr exec" where
  "collection_literal_to_viper ctx values ty pos =
     (if values = [] then
        (case ty of
           Ty_Set inner \<Rightarrow> map_exec (\<lambda>t. empty_set_with_pos t pos) (type_to_viper ctx inner)
         | Ty_Multiset inner \<Rightarrow> map_exec (\<lambda>t. empty_multiset_with_pos t pos) (type_to_viper ctx inner)
         | Ty_Seq inner \<Rightarrow> map_exec (\<lambda>t. empty_seq_with_pos t pos) (type_to_viper ctx inner)
         | Ty_Map key val \<Rightarrow>
             map2_exec (\<lambda>k v. empty_map_with_pos k v pos) (type_to_viper ctx key) (type_to_viper ctx val)
         | _ \<Rightarrow> panic ''internal error: entered unreachable code: collection literal of non-collection type'')
      else
        bind_exec (all_exec values) (\<lambda>vs.
          case ty of
            Ty_Set _ \<Rightarrow> Value (explicit_set_with_pos vs pos)
          | Ty_Multiset _ \<Rightarrow> Value (explicit_multiset_with_pos vs pos)
          | Ty_Seq _ \<Rightarrow> Value (explicit_seq_with_pos vs pos)
          | _ \<Rightarrow> panic ''internal error: entered unreachable code: non-empty collection literal''))"

definition collection_update_to_viper ::
  "type_kind \<Rightarrow> ast_expr \<Rightarrow> ast_expr \<Rightarrow> ast_expr \<Rightarrow> viper_position \<Rightarrow> ast_expr exec" where
  "collection_update_to_viper ty target key val pos =
     (case ty of
        Ty_Map _ _ \<Rightarrow> Value (update_map_with_pos target key val pos)
      | Ty_Seq _ \<Rightarrow> Value (seq_update_with_pos target key val pos)
      | _ \<Rightarrow> panic ''internal error: entered unreachable code: update of non-map/seq type'')"

definition collection_len_to_viper :: "type_kind \<Rightarrow> ast_expr exec \<Rightarrow> viper_position \<Rightarrow> ast_expr exec" where
  "collection_len_to_viper ty v pos =
     (case ty of
        Ty_Set _ \<Rightarrow> map_exec (\<lambda>e. any_set_cardinality_with_pos e pos) v
      | Ty_Multiset _ \<Rightarrow> map_exec (\<lambda>e. any_set_cardinality_with_pos e pos) v
      | Ty_Seq _ \<Rightarrow> map_exec (\<lambda>e. seq_length_with_pos e pos) v
      | Ty_Map _ _ \<Rightarrow> map_exec (\<lambda>e. map_len_with_pos e pos) v
      | _ \<Rightarrow> panic ''internal error: entered unreachable code: length of non-collection type'')"

fun old_to_viper :: "ast_expr \<Rightarrow> old_label \<Rightarrow> viper_position \<Rightarrow> ast_expr" where
  "old_to_viper e Old_None pos = old_node e"
| "old_to_viper e Old_Lhs pos = labelled_old_with_pos e ''lhs'' pos"
| "old_to_viper e (Old_Block block) pos = labelled_old_with_pos e (label_name block) pos"
| "old_to_viper e (Old_Label label) pos = labelled_old_with_pos e label pos"

text \<open>The target is a function of a domain, a constructor of an ADT, or a function of the program.\<close>

definition func_app_to_viper ::
  "'s to_viper_context \<Rightarrow> string \<Rightarrow> ast_expr exec list \<Rightarrow> type_kind \<Rightarrow> type_kind list \<Rightarrow> viper_position \<Rightarrow> ast_expr exec" where
  "func_app_to_viper ctx target args result_ty typ_var_map pos =
     (case domain_functions ctx target of
        Some (d, func_data) \<Rightarrow>
          if length (domain_typarams d) \<noteq> length typ_var_map then panic ''assertion `left == right` failed''
          else
            bind_exec (zip_params (domain_typarams d) (map (type_to_viper ctx) typ_var_map)) (\<lambda>type_map.
              map2_exec (\<lambda>as ty.
                  case fn_interpretation func_data of
                    None \<Rightarrow> domain_func_app2 target as type_map ty (domain_name d) pos
                  | Some i \<Rightarrow> backend_func_app_from_name target as ty pos i)
                (all_exec args) (type_to_viper ctx result_ty))
      | None \<Rightarrow>
          (case adt_constructors ctx target of
             Some (adt, _) \<Rightarrow>
               if typ_var_map \<noteq> [] then
                 panic ''assertion `left == right` failed: adt constructors construct the type map internally''
               else
                 map3_exec (\<lambda>type_map as ty. adt_constructor_app target as type_map ty (adt_name adt))
                   (adt_type_map ctx result_ty) (all_exec args) (type_to_viper ctx result_ty)
           | None \<Rightarrow>
               if typ_var_map \<noteq> [] then
                 panic ''assertion `left == right` failed: non-domain functions cannot have type variables''
               else map2_exec (\<lambda>as ty. func_app target as ty pos) (all_exec args) (type_to_viper ctx result_ty)))"

definition adt_destructor_to_viper ::
  "'s to_viper_context \<Rightarrow> type_kind \<Rightarrow> ast_expr exec \<Rightarrow> adt_destructor_data \<Rightarrow> ast_expr exec" where
  "adt_destructor_to_viper ctx recv_ty recv d =
     map3_exec (\<lambda>type_map r ty.
         adt_destructor (destr_name d) r type_map ty
           (case adt_destructors ctx (destr_name d) of Some (adt, _) \<Rightarrow> adt_name adt | None \<Rightarrow> ''invalid_destructor''))
       (adt_type_map ctx recv_ty) recv (type_to_viper ctx (destr_ty d))"

definition adt_discriminator_to_viper ::
  "'s to_viper_context \<Rightarrow> type_kind \<Rightarrow> ast_expr exec \<Rightarrow> string \<Rightarrow> ast_expr exec" where
  "adt_discriminator_to_viper ctx recv_ty recv name =
     map3_exec (\<lambda>type_map r adt. adt_discr name r type_map (adt_name adt))
       (adt_type_map ctx recv_ty) recv
       (case adt_constructors ctx name of
          Some (adt, _) \<Rightarrow> Value adt
        | None \<Rightarrow> panic ''called `Option::unwrap()` on a `None` value'')"

fun expr_to_viper :: "'sp vir_span to_viper_context \<Rightarrow> 'sp vir_span expr \<Rightarrow> ast_expr exec"
  and kind_to_viper :: "'sp vir_span to_viper_context \<Rightarrow> viper_position \<Rightarrow> 'sp vir_span expr_kind \<Rightarrow> ast_expr exec"
  and predicate_app_to_viper ::
    "'sp vir_span to_viper_context \<Rightarrow> viper_position \<Rightarrow> 'sp vir_span predicate_app \<Rightarrow> ast_expr exec"
  and trigger_to_viper :: "'sp vir_span to_viper_context \<Rightarrow> 'sp vir_span trigger \<Rightarrow> ast_trigger exec" where
  "expr_to_viper ctx (Expr kind span ty) = kind_to_viper ctx (span_to_pos span) kind"
| "kind_to_viper ctx pos (Kind_AccField recv f perm) =
     map3_exec (\<lambda>r fd p. field_access_predicate_with_pos (field_access_with_pos r fd pos) p pos)
       (expr_to_viper ctx recv) (field_to_viper ctx f) (opt_exec (map_option (expr_to_viper ctx) perm))"
| "kind_to_viper ctx pos (Kind_BinOp k lhs rhs) =
     map2_exec (\<lambda>l r. bin_op_to_viper k l r pos) (expr_to_viper ctx lhs) (expr_to_viper ctx rhs)"
| "kind_to_viper ctx pos (Kind_CollectionBinOp k lhs rhs) =
     bind_exec (expr_to_viper ctx lhs) (\<lambda>l. bind_exec (expr_to_viper ctx rhs) (\<lambda>r.
       collection_bin_op_to_viper k (expr_ty lhs) (expr_ty rhs) l r pos))"
| "kind_to_viper ctx pos (Kind_Const c) = const_to_viper c pos"
| "kind_to_viper ctx pos (Kind_Exists qvars triggers body) =
     map3_exec (\<lambda>vs ts b. exists_with_pos vs ts b pos) (all_exec (map (local_decl_to_viper ctx) qvars))
       (all_exec (map (trigger_to_viper ctx) triggers)) (expr_to_viper ctx body)"
| "kind_to_viper ctx pos (Kind_Field recv f) =
     map2_exec (\<lambda>r fd. field_access_with_pos r fd pos) (expr_to_viper ctx recv) (field_to_viper ctx f)"
| "kind_to_viper ctx pos (Kind_Forall qvars triggers body) =
     map3_exec (\<lambda>vs ts b. forall_with_pos vs ts b pos) (all_exec (map (local_decl_to_viper ctx) qvars))
       (all_exec (map (trigger_to_viper ctx) triggers)) (expr_to_viper ctx body)"
| "kind_to_viper ctx pos (Kind_FuncApp target args result_ty typ_var_map) =
     func_app_to_viper ctx target (map (expr_to_viper ctx) args) result_ty typ_var_map pos"
| "kind_to_viper ctx pos (Kind_Let name val e) =
     map3_exec (\<lambda>t v b. let_expr_with_pos (local_var_decl name t) v b pos)
       (type_to_viper ctx (expr_ty val)) (expr_to_viper ctx val) (expr_to_viper ctx e)"
| "kind_to_viper ctx pos (Kind_Local name ty) = local_to_viper ctx name ty pos"
| "kind_to_viper ctx pos (Kind_Old e label) = map_exec (\<lambda>v. old_to_viper v label pos) (expr_to_viper ctx e)"
| "kind_to_viper ctx pos (Kind_PredicateApp pa) = predicate_app_to_viper ctx pos pa"
| "kind_to_viper ctx pos (Kind_Wand lhs rhs) =
     map2_exec (\<lambda>l r. magic_wand_with_pos l r pos) (expr_to_viper ctx lhs) (expr_to_viper ctx rhs)"
| "kind_to_viper ctx pos (Kind_Result ty) = map_exec (\<lambda>t. result_with_pos t pos) (type_to_viper ctx ty)"
| "kind_to_viper ctx pos (Kind_CollectionLiteral values ty) =
     collection_literal_to_viper ctx (map (expr_to_viper ctx) values) ty pos"
| "kind_to_viper ctx pos (Kind_CollectionUpdate target key val) =
     bind_exec (expr_to_viper ctx target) (\<lambda>t. bind_exec (expr_to_viper ctx key) (\<lambda>k. bind_exec (expr_to_viper ctx val) (\<lambda>v.
       collection_update_to_viper (expr_ty target) t k v pos)))"
| "kind_to_viper ctx pos (Kind_CollectionLen e) = collection_len_to_viper (expr_ty e) (expr_to_viper ctx e) pos"
| "kind_to_viper ctx pos (Kind_MapDomain e) = map_exec (\<lambda>v. map_domain_with_pos v pos) (expr_to_viper ctx e)"
| "kind_to_viper ctx pos (Kind_MapRange e) = map_exec (\<lambda>v. map_range_with_pos v pos) (expr_to_viper ctx e)"
| "kind_to_viper ctx pos (Kind_Ternary c t e) =
     map3_exec (\<lambda>x y z. cond_exp_with_pos x y z pos) (expr_to_viper ctx c) (expr_to_viper ctx t) (expr_to_viper ctx e)"
| "kind_to_viper ctx pos (Kind_Unfolding target e) =
     map2_exec (\<lambda>t v. unfolding_with_pos t v pos) (predicate_app_to_viper ctx no_position target) (expr_to_viper ctx e)"
| "kind_to_viper ctx pos (Kind_UnOp k e) = map_exec (\<lambda>v. un_op_to_viper k v pos) (expr_to_viper ctx e)"
| "kind_to_viper ctx pos (Kind_InhaleExhale inh exh) =
     map2_exec inhale_exhale_pred (expr_to_viper ctx inh) (expr_to_viper ctx exh)"
| "kind_to_viper ctx pos (Kind_AdtDestructor recv d) =
     adt_destructor_to_viper ctx (expr_ty recv) (expr_to_viper ctx recv) d"
| "kind_to_viper ctx pos (Kind_AdtDiscriminator recv name) =
     adt_discriminator_to_viper ctx (expr_ty recv) (expr_to_viper ctx recv) name"
| "kind_to_viper ctx pos (Kind_Lazy name ty) = panic ''not implemented''"
| "kind_to_viper ctx pos (Kind_Todo msg) = panic ''not implemented''"
| "predicate_app_to_viper ctx pos (PredicateAppData target args perm) =
     map2_exec (\<lambda>as p. predicate_access_predicate_with_pos (predicate_access_with_pos as target pos) p pos)
       (all_exec (map (expr_to_viper ctx) args)) (opt_exec (map_option (expr_to_viper ctx) perm))"
| "trigger_to_viper ctx (TriggerData exprs) = map_exec trigger_node (all_exec (map (expr_to_viper ctx) exprs))"

section \<open>Statements\<close>

definition wand_to_viper ::
  "'sp vir_span to_viper_context \<Rightarrow> 'sp vir_span expr \<Rightarrow> 'sp vir_span expr \<Rightarrow> viper_position \<Rightarrow> ast_expr exec" where
  "wand_to_viper ctx lhs rhs pos =
     map2_exec (\<lambda>l r. magic_wand_with_pos l r pos) (expr_to_viper ctx lhs) (expr_to_viper ctx rhs)"

definition method_call_to_viper ::
  "'sp vir_span to_viper_context \<Rightarrow> (string \<times> type_kind) list \<Rightarrow> string \<Rightarrow> 'sp vir_span expr list \<Rightarrow> viper_position
   \<Rightarrow> ast_stmt exec" where
  "method_call_to_viper ctx targets name args pos =
     map2_exec (\<lambda>as ts. method_call_with_pos name as ts pos) (all_exec (map (expr_to_viper ctx) args))
       (all_exec (map (\<lambda>(x, ty). local_to_viper ctx x ty no_position) targets))"

definition pure_assign_to_viper ::
  "'sp vir_span to_viper_context \<Rightarrow> 'sp vir_span expr \<Rightarrow> 'sp vir_span expr \<Rightarrow> ast_stmt exec" where
  "pure_assign_to_viper ctx lhs rhs = map2_exec local_var_assign (expr_to_viper ctx lhs) (expr_to_viper ctx rhs)"

fun stmt_to_viper :: "'sp vir_span to_viper_context \<Rightarrow> 'sp vir_span stmt \<Rightarrow> ast_stmt exec" where
  "stmt_to_viper ctx (Stmt (Stmt_Comment v) span) = Value (comment_node v)"
| "stmt_to_viper ctx (Stmt (Stmt_Exhale v) span) = map_exec (\<lambda>e. exhale e (span_to_pos span)) (expr_to_viper ctx v)"
| "stmt_to_viper ctx (Stmt (Stmt_Fold pred) span) =
     map_exec (\<lambda>e. fold_with_pos e (span_to_pos span)) (predicate_app_to_viper ctx no_position pred)"
| "stmt_to_viper ctx (Stmt (Stmt_Inhale v) span) = map_exec (\<lambda>e. inhale e (span_to_pos span)) (expr_to_viper ctx v)"
| "stmt_to_viper ctx (Stmt (Stmt_LocalDecl decl (Some e)) span) =
     map2_exec (\<lambda>t v. local_var_assign (local_var_with_pos (decl_name decl) t (span_to_pos span)) v)
       (type_to_viper ctx (decl_ty decl)) (expr_to_viper ctx e)"
| "stmt_to_viper ctx (Stmt (Stmt_LocalDecl decl None) span) = Value (comment_node (''var '' @ decl_name decl))"
| "stmt_to_viper ctx (Stmt (Stmt_MethodCall targets name args) span) =
     method_call_to_viper ctx targets name args (span_to_pos span)"
| "stmt_to_viper ctx (Stmt (Stmt_Package lhs rhs stmts) span) =
     map2_exec (\<lambda>w ss. package w (seqn ss []) (span_to_pos span)) (wand_to_viper ctx lhs rhs no_position)
       (all_exec (map (stmt_to_viper ctx) stmts))"
| "stmt_to_viper ctx (Stmt (Stmt_Apply lhs rhs) span) =
     map_exec (\<lambda>w. apply_node w (span_to_pos span)) (wand_to_viper ctx lhs rhs no_position)"
| "stmt_to_viper ctx (Stmt (Stmt_PureAssign lhs rhs) span) = pure_assign_to_viper ctx lhs rhs"
| "stmt_to_viper ctx (Stmt (Stmt_Refute v) span) = map_exec (\<lambda>e. refute e (span_to_pos span)) (expr_to_viper ctx v)"
| "stmt_to_viper ctx (Stmt (Stmt_If e thn els) span) =
     map3_exec (\<lambda>ts es c. if_stmt c (seqn ts []) (seqn es [])) (all_exec (map (stmt_to_viper ctx) thn))
       (all_exec (map (stmt_to_viper ctx) els)) (expr_to_viper ctx e)"
| "stmt_to_viper ctx (Stmt (Stmt_Unfold pred) span) =
     map_exec (\<lambda>e. unfold_with_pos e (span_to_pos span)) (predicate_app_to_viper ctx no_position pred)"
| "stmt_to_viper ctx (Stmt (Stmt_Label label) span) = Value (label_node label [])"
| "stmt_to_viper ctx (Stmt (Stmt_Dummy msg) span) = panic ''not implemented''"

definition stmts_to_viper :: "'sp vir_span to_viper_context \<Rightarrow> 'sp vir_span stmt list \<Rightarrow> ast_stmt list exec" where
  "stmts_to_viper ctx stmts = all_exec (map (stmt_to_viper ctx) stmts)"

text \<open>One step of the fold over the targets, from the last target to the first.\<close>

fun branch_to_viper ::
  "'sp vir_span to_viper_context \<Rightarrow> ast_expr \<Rightarrow> 'sp vir_span goto_if_target \<Rightarrow> ast_stmt exec \<Rightarrow> ast_stmt exec" where
  "branch_to_viper ctx value (GotoIfTarget v label statements) rest =
     map3_exec (\<lambda>els ss e. seqn [if_stmt (eq_cmp value e) (seqn (ss @ [goto (label_name label)]) []) els] [])
       rest (stmts_to_viper ctx statements) (expr_to_viper ctx v)"

text \<open>\<^verbatim>\<open>to_viper_extend\<close> appends to a vector; here it gives the statements that are appended.\<close>

fun goto_if_to_viper :: "'sp vir_span to_viper_context \<Rightarrow> 'sp vir_span goto_if \<Rightarrow> ast_stmt list exec" where
  "goto_if_to_viper ctx (GotoIfData val targets otherwise otherwise_statements) =
     (let final = map_exec (\<lambda>ss. ss @ [goto (label_name otherwise)]) (stmts_to_viper ctx otherwise_statements) in
      if targets = [] then final
      else
        bind_exec (expr_to_viper ctx val) (\<lambda>value.
          map_exec (\<lambda>s. [s]) (foldr (branch_to_viper ctx value) targets (map_exec (\<lambda>ss. seqn ss []) final))))"

fun terminator_to_viper :: "'sp vir_span to_viper_context \<Rightarrow> viper_position \<Rightarrow> 'sp vir_span terminator \<Rightarrow> ast_stmt list exec" where
  "terminator_to_viper ctx pos Term_AssumeFalse =
     Value [inhale (false_lit_with_pos pos) pos, goto (label_name Label_End)]"
| "terminator_to_viper ctx pos (Term_Goto label) = Value [goto (label_name label)]"
| "terminator_to_viper ctx pos (Term_GotoIf v) = goto_if_to_viper ctx v"
| "terminator_to_viper ctx pos Term_Exit = Value [comment_node ''return'']"
| "terminator_to_viper ctx pos (Term_Dummy v) =
     Value [seqn [comment_node v, assert_node (false_lit_with_pos pos) pos] [], goto (label_name Label_End)]"

definition cfg_label_to_viper :: "'sp vir_span to_viper_context \<Rightarrow> 'sp vir_span cfg_label \<Rightarrow> ast_stmt exec" where
  "cfg_label_to_viper ctx l =
     map_exec (label_node (label_name (block_label l))) (all_exec (map (expr_to_viper ctx) (invariants l)))"

definition cfg_block_to_viper :: "'sp vir_span to_viper_context \<Rightarrow> 'sp vir_span cfg_block \<Rightarrow> ast_stmt list exec" where
  "cfg_block_to_viper ctx b =
     map3_exec (\<lambda>l ss ts. l # ss @ ts) (cfg_label_to_viper ctx (cfg_label b)) (stmts_to_viper ctx (block_stmts b))
       (terminator_to_viper ctx no_position (terminator b))"

section \<open>Programs\<close>

definition adt_to_viper :: "'s to_viper_context \<Rightarrow> 's adt_data \<Rightarrow> viper_adt exec" where
  "adt_to_viper ctx a =
     (let type_vars = map param_to_viper (adt_typarams a) in
      map_exec (\<lambda>constructors. adt_node (adt_name a) constructors type_vars)
        (all_exec (map (\<lambda>v.
           map_exec (\<lambda>args. adt_constructor (cons_name v) args (adt_name a) type_vars)
             (all_exec (map (local_decl_to_viper ctx) (cons_args v)))) (adt_constructor_list a))))"

definition domain_axiom_to_viper ::
  "'sp vir_span to_viper_context \<Rightarrow> 'sp vir_span domain_axiom \<Rightarrow> viper_position viper_axiom exec" where
  "domain_axiom_to_viper ctx a =
     (case domain_axioms ctx (axiom_name a) of
        None \<Rightarrow> panic ''no domain for domain axiom''
      | Some (d, _) \<Rightarrow>
          map_exec (\<lambda>e. named_domain_axiom (axiom_name a) e (domain_name d)) (expr_to_viper ctx (axiom_expr a)))"

definition domain_function_to_viper :: "'s to_viper_context \<Rightarrow> domain_function \<Rightarrow> viper_domain_func exec" where
  "domain_function_to_viper ctx f =
     (case domain_functions ctx (to_str (fn_name f)) of
        None \<Rightarrow> panic ''no domain for domain function''
      | Some (d, _) \<Rightarrow>
          map2_exec (\<lambda>args ret. domain_func (to_str (fn_name f)) args ret (unique f) (domain_name d) (fn_interpretation f))
            (all_exec (map (\<lambda>(idx, v). map_exec (local_var_decl (''arg'' @ digits idx)) (type_to_viper ctx v))
               (enumerate 0 (fn_args f))))
            (type_to_viper ctx (fn_ret f)))"

definition domain_to_viper ::
  "'sp vir_span to_viper_context \<Rightarrow> 'sp vir_span domain_data \<Rightarrow> viper_position viper_domain exec" where
  "domain_to_viper ctx d =
     map2_exec (\<lambda>fs as.
         domain_node (domain_name d) fs as (map param_to_viper (domain_typarams d)) (domain_interpretation d))
       (all_exec (map (domain_function_to_viper ctx) (domain_function_list d)))
       (all_exec (map (domain_axiom_to_viper ctx) (domain_axiom_list d)))"

fun decreases_to_viper :: "'sp vir_span to_viper_context \<Rightarrow> 'sp vir_span decreases \<Rightarrow> ast_expr option exec" where
  "decreases_to_viper ctx (Decreases_Tuple e c) =
     map2_exec (\<lambda>es co. Some (decreases_tuple es co)) (all_exec (map (expr_to_viper ctx) e))
       (opt_exec (map_option (expr_to_viper ctx) c))"
| "decreases_to_viper ctx (Decreases_Wildcard c) =
     map_exec (\<lambda>co. Some (decreases_wildcard co)) (opt_exec (map_option (expr_to_viper ctx) c))"
| "decreases_to_viper ctx Decreases_Star = Value (Some decreases_star)"
| "decreases_to_viper ctx Decreases_None = Value None"

definition function_to_viper ::
  "'sp vir_span to_viper_context \<Rightarrow> 'sp vir_span function_data \<Rightarrow> viper_position viper_function exec" where
  "function_to_viper ctx f =
     bind_exec (decreases_to_viper ctx (fun_decreases f)) (\<lambda>decreases.
       bind_exec (all_exec (map (local_decl_to_viper ctx) (fun_args f))) (\<lambda>args.
         bind_exec (type_to_viper ctx (fun_ret f)) (\<lambda>ret.
           map3_exec (\<lambda>pres posts body.
               function_node (fun_name f) args ret pres (posts @ (case decreases of None \<Rightarrow> [] | Some d \<Rightarrow> [d]))
                 no_position body)
             (all_exec (map (expr_to_viper ctx) (fun_pres f))) (all_exec (map (expr_to_viper ctx) (fun_posts f)))
             (opt_exec (map_option (expr_to_viper ctx) (fun_expr f))))))"

text \<open>The label of a block and the variables that its statements declare.\<close>

definition block_declarations :: "'sp vir_span to_viper_context \<Rightarrow> 'sp vir_span cfg_block \<Rightarrow> ast_declaration list exec" where
  "block_declarations ctx b =
     map_exec (\<lambda>ds. Declared_label (label_node (label_name (block_label (cfg_label b))) []) # concat ds)
       (all_exec (map (\<lambda>s.
          case stmt_kind s of
            Stmt_LocalDecl decl _ \<Rightarrow> map_exec (\<lambda>d. [Declared_var d]) (local_decl_to_viper ctx decl)
          | _ \<Rightarrow> Value []) (block_stmts b)))"

definition body_to_viper :: "'sp vir_span to_viper_context \<Rightarrow> 'sp vir_span cfg_block list \<Rightarrow> ast_stmt exec" where
  "body_to_viper ctx blocks =
     map_exec (\<lambda>bs. seqn (concat (map snd bs)) (concat (map fst bs)))
       (all_exec (map (\<lambda>b. map2_exec Pair (block_declarations ctx b) (cfg_block_to_viper ctx b)) blocks))"

definition method_to_viper ::
  "'sp vir_span to_viper_context \<Rightarrow> 'sp vir_span method_data \<Rightarrow> viper_position viper_method exec" where
  "method_to_viper ctx m =
     bind_exec (all_exec (map (local_decl_to_viper ctx) (meth_args m))) (\<lambda>args.
       bind_exec (all_exec (map (local_decl_to_viper ctx) (meth_rets m))) (\<lambda>rets.
         map3_exec (\<lambda>pres posts body. method_node (meth_name m) args rets pres posts body)
           (all_exec (map (expr_to_viper ctx) (meth_pres m))) (all_exec (map (expr_to_viper ctx) (meth_posts m)))
           (opt_exec (map_option (body_to_viper ctx) (meth_body m)))))"

definition predicate_to_viper ::
  "'sp vir_span to_viper_context \<Rightarrow> 'sp vir_span predicate_data \<Rightarrow> viper_position viper_predicate exec" where
  "predicate_to_viper ctx p =
     map2_exec (predicate_node (pred_name p)) (all_exec (map (local_decl_to_viper ctx) (pred_args p)))
       (opt_exec (map_option (expr_to_viper ctx) (pred_expr p)))"

definition program_data_to_viper ::
  "'sp vir_span to_viper_context \<Rightarrow> 'sp vir_span program_data \<Rightarrow> viper_position viper_program exec" where
  "program_data_to_viper ctx p =
     bind_exec (all_exec (map (domain_to_viper ctx) (prog_domains p))) (\<lambda>ds.
       bind_exec (all_exec (map (field_to_viper ctx) (prog_fields p))) (\<lambda>fs.
         bind_exec (all_exec (map (function_to_viper ctx) (prog_functions p))) (\<lambda>funs.
           map3_exec (program_node ds fs funs) (all_exec (map (predicate_to_viper ctx) (prog_predicates p)))
             (all_exec (map (method_to_viper ctx) (prog_methods p))) (all_exec (map (adt_to_viper ctx) (prog_adts p))))))"

definition program_to_viper :: "'sp vir_span program_data \<Rightarrow> viper_position viper_program exec" where
  "program_to_viper program = program_data_to_viper (context_of program) program"

end
