(* ===== verification/Vir_To_Viper_Laws.thy ===== *)
theory Vir_To_Viper_Laws
  imports Vir_To_Viper
begin

text \<open>
  Laws of the translation to Viper: every position in a translated node belongs to a span of the
  node it was translated from.
\<close>

section \<open>Positions\<close>

definition span_positions :: "'sp vir_span set \<Rightarrow> viper_position set" where
  "span_positions S = insert NoPosition ((\<lambda>s. span_to_pos (Some s)) ` S)"

lemma span_positions_simps [simp]:
  "NoPosition \<in> span_positions S"
  "span_positions (S \<union> T) = span_positions S \<union> span_positions T"
  "span_to_pos None = NoPosition"
  "no_position = NoPosition"
  by (auto simp: span_positions_def span_to_pos_def no_position_def)

lemma span_positions_mono: "S \<subseteq> T \<Longrightarrow> span_positions S \<subseteq> span_positions T"
  by (auto simp: span_positions_def)

lemma span_to_pos_in: "set_option span \<subseteq> S \<Longrightarrow> span_to_pos span \<in> span_positions S"
  by (cases span) (auto simp: span_positions_def)

lemma all_exec_within:
  assumes "all_exec (map f xs) = Value ys" and "\<Union> (h ` set xs) \<subseteq> S"
    and "\<And>x y. x \<in> set xs \<Longrightarrow> f x = Value y \<Longrightarrow> h x \<subseteq> S \<Longrightarrow> g y \<subseteq> Q"
  shows "\<Union> (g ` set ys) \<subseteq> Q"
  using assms
proof (induction xs arbitrary: ys)
  case (Cons x xs)
  then obtain y ys' where ys: "f x = Value y" "all_exec (map f xs) = Value ys'" "ys = y # ys'" by auto
  have "\<Union> (g ` set ys') \<subseteq> Q" by (rule Cons.IH [OF ys(2)]) (use Cons.prems in auto)
  moreover have "g y \<subseteq> Q" by (rule Cons.prems(3) [OF _ ys(1)]) (use Cons.prems in auto)
  ultimately show ?case using ys(3) by simp
qed simp

lemma opt_exec_within:
  assumes "opt_exec (map_option f x) = Value y" and "\<Union> (h ` set_option x) \<subseteq> S"
    and "\<And>a b. a \<in> set_option x \<Longrightarrow> f a = Value b \<Longrightarrow> h a \<subseteq> S \<Longrightarrow> g b \<subseteq> Q"
  shows "\<Union> (g ` set_option y) \<subseteq> Q"
  using assms by (cases x; cases y) auto

lemma const_positions: "const_to_viper c pos = Value v \<Longrightarrow> set_viper_expr v \<subseteq> {pos, NoPosition}"
  by (cases c) (auto simp: expr_node_defs split: if_splits)

lemma bin_op_positions [simp]:
  "set_viper_expr (bin_op_to_viper k l r pos) = insert pos (set_viper_expr l \<union> set_viper_expr r)"
  by (cases k) (auto simp: expr_node_defs)

lemma un_op_positions [simp]: "set_viper_expr (un_op_to_viper k e pos) = insert pos (set_viper_expr e)"
  by (cases k) (auto simp: expr_node_defs)

lemma old_positions: "set_viper_expr (old_to_viper e l pos) \<subseteq> {pos, NoPosition} \<union> set_viper_expr e"
  by (cases l) (auto simp: expr_node_defs)

lemma collection_bin_op_positions:
  "collection_bin_op_to_viper k lt rt l r pos = Value v \<Longrightarrow> set_viper_expr v = insert pos (set_viper_expr l \<union> set_viper_expr r)"
  by (cases k) (auto simp: expr_node_defs split: type_kind.splits)

lemma collection_update_positions:
  "collection_update_to_viper t a b c pos = Value v
   \<Longrightarrow> set_viper_expr v = insert pos (set_viper_expr a \<union> set_viper_expr b \<union> set_viper_expr c)"
  by (auto simp: collection_update_to_viper_def expr_node_defs split: type_kind.splits)

lemma collection_len_positions:
  "collection_len_to_viper t e pos = Value v \<Longrightarrow> \<exists>x. e = Value x \<and> set_viper_expr v = insert pos (set_viper_expr x)"
  by (auto simp: collection_len_to_viper_def expr_node_defs split: type_kind.splits)

lemma collection_literal_positions:
  "collection_literal_to_viper ctx es t pos = Value v
   \<Longrightarrow> \<exists>xs. all_exec es = Value xs \<and> set_viper_expr v = insert pos (\<Union> (set_viper_expr ` set xs))"
  by (auto simp: collection_literal_to_viper_def expr_node_defs split: type_kind.splits if_splits)

lemma func_app_positions:
  "func_app_to_viper ctx f es t m pos = Value v
   \<Longrightarrow> \<exists>xs. all_exec es = Value xs \<and> set_viper_expr v \<subseteq> {pos, NoPosition} \<union> \<Union> (set_viper_expr ` set xs)"
  by (auto simp: func_app_to_viper_def expr_node_defs split: option.splits if_splits)

lemma adt_destructor_positions:
  "adt_destructor_to_viper ctx t e d = Value v \<Longrightarrow> \<exists>x. e = Value x \<and> set_viper_expr v = insert NoPosition (set_viper_expr x)"
  by (auto simp: adt_destructor_to_viper_def expr_node_defs)

lemma adt_discriminator_positions:
  "adt_discriminator_to_viper ctx t e n = Value v \<Longrightarrow> \<exists>x. e = Value x \<and> set_viper_expr v = insert NoPosition (set_viper_expr x)"
  by (auto simp: adt_discriminator_to_viper_def expr_node_defs)

lemma local_positions: "local_to_viper ctx x t pos = Value v \<Longrightarrow> set_viper_expr v = {pos}"
  by (auto simp: local_to_viper_def expr_node_defs)

lemma func_app_within:
  assumes "func_app_to_viper ctx f (map g args) t m pos = Value v" and "\<Union> (h ` set args) \<subseteq> S"
    and "\<And>x y. x \<in> set args \<Longrightarrow> g x = Value y \<Longrightarrow> h x \<subseteq> S \<Longrightarrow> set_viper_expr y \<subseteq> Q" and "{pos, NoPosition} \<subseteq> Q"
  shows "set_viper_expr v \<subseteq> Q"
proof -
  obtain xs where xs: "all_exec (map g args) = Value xs"
    "set_viper_expr v \<subseteq> {pos, NoPosition} \<union> \<Union> (set_viper_expr ` set xs)" using func_app_positions [OF assms(1)] by blast
  moreover have "\<Union> (set_viper_expr ` set xs) \<subseteq> Q" by (rule all_exec_within [OF xs(1) assms(2,3)])
  ultimately show ?thesis using assms(4) by blast
qed

lemma collection_literal_within:
  assumes "collection_literal_to_viper ctx (map g es) t pos = Value v" and "\<Union> (h ` set es) \<subseteq> S"
    and "\<And>x y. x \<in> set es \<Longrightarrow> g x = Value y \<Longrightarrow> h x \<subseteq> S \<Longrightarrow> set_viper_expr y \<subseteq> Q" and "pos \<in> Q"
  shows "set_viper_expr v \<subseteq> Q"
proof -
  obtain xs where xs: "all_exec (map g es) = Value xs" "set_viper_expr v = insert pos (\<Union> (set_viper_expr ` set xs))"
    using collection_literal_positions [OF assms(1)] by blast
  moreover have "\<Union> (set_viper_expr ` set xs) \<subseteq> Q" by (rule all_exec_within [OF xs(1) assms(2,3)])
  ultimately show ?thesis using assms(4) by simp
qed

text \<open>The positions of a translated expression are those of the spans in it.\<close>

lemma expr_positions_aux:
  fixes ctx :: "'sp vir_span to_viper_context" and S :: "'sp vir_span set"
  defines "Q \<equiv> span_positions S"
  shows "expr_to_viper ctx e = Value v \<Longrightarrow> set_expr e \<subseteq> S \<Longrightarrow> set_viper_expr v \<subseteq> Q"
    and "kind_to_viper ctx pos k = Value v \<Longrightarrow> set_expr_kind k \<subseteq> S \<Longrightarrow> pos \<in> Q \<Longrightarrow> set_viper_expr v \<subseteq> Q"
    and "predicate_app_to_viper ctx pos pa = Value v \<Longrightarrow> set_predicate_app pa \<subseteq> S \<Longrightarrow> pos \<in> Q \<Longrightarrow> set_viper_expr v \<subseteq> Q"
    and "trigger_to_viper ctx t = Value w \<Longrightarrow> set_trigger t \<subseteq> S \<Longrightarrow> set_viper_trigger w \<subseteq> Q"
proof (induction ctx e and ctx pos k and ctx pos pa and ctx t arbitrary: v and v and v and w
    rule: expr_to_viper_kind_to_viper_predicate_app_to_viper_trigger_to_viper.induct)
  case (1 ctx kind span ty)
  then show ?case using span_to_pos_in [of span S] by (simp add: Q_def)
next
  case (2 ctx pos recv f perm)
  then obtain r p where *: "expr_to_viper ctx recv = Value r" "opt_exec (map_option (expr_to_viper ctx) perm) = Value p"
    "set_viper_expr v = insert pos (set_viper_expr r \<union> \<Union> (set_viper_expr ` set_option p))"
    by (auto simp: expr_node_defs)
  have "\<Union> (set_viper_expr ` set_option p) \<subseteq> Q" by (rule opt_exec_within [OF *(2) _ "2.IH"(2)]) (use 2 in auto)
  then show ?case using "2.prems" "2.IH"(1) * by simp
next
  case (6 ctx pos qvars triggers body)
  then obtain ts b where *: "all_exec (map (trigger_to_viper ctx) triggers) = Value ts" "expr_to_viper ctx body = Value b"
    "set_viper_expr v = insert NoPosition (\<Union> (set_viper_trigger ` set ts) \<union> set_viper_expr b)"
    by (auto simp: expr_node_defs)
  have "\<Union> (set_viper_trigger ` set ts) \<subseteq> Q" by (rule all_exec_within [OF *(1) _ "6.IH"(1)]) (use 6 in auto)
  then show ?case using "6.prems" "6.IH"(2) * by (simp add: Q_def)
next
  case (8 ctx pos qvars triggers body)
  then obtain ts b where *: "all_exec (map (trigger_to_viper ctx) triggers) = Value ts" "expr_to_viper ctx body = Value b"
    "set_viper_expr v = insert pos (\<Union> (set_viper_trigger ` set ts) \<union> set_viper_expr b)"
    by (auto simp: expr_node_defs)
  have "\<Union> (set_viper_trigger ` set ts) \<subseteq> Q" by (rule all_exec_within [OF *(1) _ "8.IH"(1)]) (use 8 in auto)
  then show ?case using "8.prems" "8.IH"(2) * by (simp add: Q_def)
next
  case (9 ctx pos target args result_ty typ_var_map)
  show ?case by (rule func_app_within [OF _ _ "9.IH"]) (use 9 in \<open>simp_all add: Q_def\<close>)
next
  case (16 ctx pos "values" ty)
  show ?case by (rule collection_literal_within [OF _ _ "16.IH"]) (use 16 in \<open>simp_all add: Q_def\<close>)
next
  case (29 ctx pos target args perm)
  then obtain xs p where *: "all_exec (map (expr_to_viper ctx) args) = Value xs"
    "opt_exec (map_option (expr_to_viper ctx) perm) = Value p" by auto
  have "\<Union> (set_viper_expr ` set xs) \<subseteq> Q" by (rule all_exec_within [OF *(1) _ "29.IH"(1)]) (use 29 in auto)
  moreover have "\<Union> (set_viper_expr ` set_option p) \<subseteq> Q" by (rule opt_exec_within [OF *(2) _ "29.IH"(2)]) (use 29 in auto)
  ultimately show ?case using "29.prems" * by (simp add: expr_node_defs)
next
  case (30 ctx exprs)
  then obtain xs where xs: "all_exec (map (expr_to_viper ctx) exprs) = Value xs" "w = trigger_node xs" by auto
  have "\<Union> (set_viper_expr ` set xs) \<subseteq> Q" by (rule all_exec_within [OF xs(1) _ "30.IH"(1)]) (use 30 in auto)
  then show ?case using xs(2) by (simp add: Q_def expr_node_defs)
qed (auto simp: Q_def expr_node_defs dest!: const_positions collection_bin_op_positions
    collection_update_positions collection_len_positions adt_destructor_positions adt_discriminator_positions
    local_positions old_positions [THEN subsetD])

lemmas expr_positions = expr_positions_aux(1) and predicate_app_positions = expr_positions_aux(3)

lemma exprs_positions:
  "all_exec (map (expr_to_viper ctx) es) = Value vs \<Longrightarrow> \<Union> (set_expr ` set es) \<subseteq> S
   \<Longrightarrow> \<Union> (set_viper_expr ` set vs) \<subseteq> span_positions S"
  by (rule all_exec_within [OF _ _ expr_positions])

lemma opt_expr_positions:
  "opt_exec (map_option (expr_to_viper ctx) e) = Value v \<Longrightarrow> \<Union> (set_expr ` set_option e) \<subseteq> S
   \<Longrightarrow> \<Union> (set_viper_expr ` set_option v) \<subseteq> span_positions S"
  by (rule opt_exec_within [OF _ _ expr_positions])

lemma locals_positions:
  "all_exec (map (\<lambda>(x, t). local_to_viper ctx x t NoPosition) ts) = Value vs \<Longrightarrow> \<Union> (set_viper_expr ` set vs) \<subseteq> {NoPosition}"
  by (rule all_exec_within [where h = "\<lambda>_. {}" and S = "{}"]) (auto dest: local_positions)

lemma wand_positions:
  "wand_to_viper ctx l r NoPosition = Value v \<Longrightarrow> set_expr l \<subseteq> S \<Longrightarrow> set_expr r \<subseteq> S \<Longrightarrow> set_viper_expr v \<subseteq> span_positions S"
  by (auto simp: wand_to_viper_def expr_node_defs dest!: expr_positions [of ctx _ _ S, THEN subsetD])

text \<open>Statements.\<close>

lemma stmt_positions: "stmt_to_viper ctx s = Value v \<Longrightarrow> set_stmt s \<subseteq> S \<Longrightarrow> set_viper_stmt v \<subseteq> span_positions S"
proof (induction ctx s arbitrary: v rule: stmt_to_viper.induct)
  case (7 ctx targets name args span)
  then obtain as ts where *: "all_exec (map (expr_to_viper ctx) args) = Value as"
    "all_exec (map (\<lambda>(x, ty). local_to_viper ctx x ty NoPosition) targets) = Value ts"
    "v = method_call_with_pos name as ts (span_to_pos span)" by (auto simp: method_call_to_viper_def)
  then show ?case using exprs_positions [OF *(1), of S] locals_positions [OF *(2)] span_to_pos_in [of span S] 7
    by (auto simp: stmt_node_defs)
next
  case (8 ctx lhs rhs stmts span)
  then obtain w ss where *: "wand_to_viper ctx lhs rhs NoPosition = Value w" "all_exec (map (stmt_to_viper ctx) stmts) = Value ss"
    "v = package w (seqn ss []) (span_to_pos span)" by auto
  have "\<Union> (set_viper_stmt ` set ss) \<subseteq> span_positions S" by (rule all_exec_within [OF *(2) _ "8.IH"]) (use 8 in auto)
  then show ?case using wand_positions [OF *(1), of S] span_to_pos_in [of span S] "8.prems" *(3) by (simp add: stmt_node_defs)
next
  case (12 ctx e thn els span)
  then obtain c ts es where *: "expr_to_viper ctx e = Value c" "all_exec (map (stmt_to_viper ctx) thn) = Value ts"
    "all_exec (map (stmt_to_viper ctx) els) = Value es" "v = if_stmt c (seqn ts []) (seqn es [])" by auto
  have "\<Union> (set_viper_stmt ` set ts) \<subseteq> span_positions S" by (rule all_exec_within [OF *(2) _ "12.IH"(1)]) (use 12 in auto)
  moreover have "\<Union> (set_viper_stmt ` set es) \<subseteq> span_positions S" by (rule all_exec_within [OF *(3) _ "12.IH"(2)]) (use 12 in auto)
  ultimately show ?case using expr_positions [OF *(1), of S] "12.prems" *(4) by (simp add: stmt_node_defs)
qed (auto intro!: span_to_pos_in simp: stmt_node_defs expr_node_defs pure_assign_to_viper_def
    dest!: expr_positions [of _ _ _ S, THEN subsetD] predicate_app_positions [of _ _ _ _ S, THEN subsetD]
    wand_positions [of _ _ _ _ S, THEN subsetD])

lemma stmts_positions:
  "stmts_to_viper ctx ss = Value vs \<Longrightarrow> \<Union> (set_stmt ` set ss) \<subseteq> S \<Longrightarrow> \<Union> (set_viper_stmt ` set vs) \<subseteq> span_positions S"
  unfolding stmts_to_viper_def by (rule all_exec_within [OF _ _ stmt_positions])

lemma goto_positions [simp]: "set_viper_stmt (goto l) = {NoPosition}"
  by (simp add: stmt_node_defs)

lemma branch_positions:
  assumes "foldr (branch_to_viper ctx c) targets rest = Value w"
    and "\<And>r. rest = Value r \<Longrightarrow> set_viper_stmt r \<subseteq> span_positions S" and "set_viper_expr c \<subseteq> span_positions S"
    and "\<Union> (set_goto_if_target ` set targets) \<subseteq> S"
  shows "set_viper_stmt w \<subseteq> span_positions S"
  using assms(1,4)
proof (induction targets arbitrary: w)
  case Nil
  then show ?case using assms(2) by simp
next
  case (Cons t targets)
  obtain v l stmts where t: "t = GotoIfTarget v l stmts" by (cases t)
  then obtain els ss e where *: "stmts_to_viper ctx stmts = Value ss" "expr_to_viper ctx v = Value e"
    "set_viper_stmt els \<subseteq> span_positions S"
    "w = seqn [if_stmt (eq_cmp c e) (seqn (ss @ [goto (label_name l)]) []) els] []"
    using Cons by auto
  then show ?case using stmts_positions [OF *(1), of S] expr_positions [OF *(2), of S] assms(3) Cons.prems(2) t
    by (simp add: stmt_node_defs expr_node_defs)
qed

lemma goto_if_positions:
  assumes "goto_if_to_viper ctx g = Value ws" and "set_goto_if g \<subseteq> S"
  shows "\<Union> (set_viper_stmt ` set ws) \<subseteq> span_positions S"
proof (cases g)
  case (GotoIfData val targets otherwise stmts)
  let ?final = "map_exec (\<lambda>ss. ss @ [goto (label_name otherwise)]) (stmts_to_viper ctx stmts)"
  have final: "\<Union> (set_viper_stmt ` set r) \<subseteq> span_positions S" if r: "?final = Value r" for r
  proof -
    obtain ss where ss: "stmts_to_viper ctx stmts = Value ss" "r = ss @ [goto (label_name otherwise)]" using r by auto
    then show ?thesis using stmts_positions [OF ss(1), of S] assms(2) GotoIfData by simp
  qed
  show ?thesis
  proof (cases "targets = []")
    case True
    then show ?thesis using assms(1) final GotoIfData by simp
  next
    case False
    then obtain c w where c: "expr_to_viper ctx val = Value c" "ws = [w]"
      "foldr (branch_to_viper ctx c) targets (map_exec (\<lambda>ss. seqn ss []) ?final) = Value w"
      using assms(1) GotoIfData by (auto simp: Let_def)
    have rest: "set_viper_stmt r \<subseteq> span_positions S" if r: "map_exec (\<lambda>ss. seqn ss []) ?final = Value r" for r
    proof -
      obtain r' where "?final = Value r'" "r = seqn r' []" using r unfolding exec_eq_Value(2) by blast
      then show ?thesis using final [of r'] by (simp add: stmt_node_defs)
    qed
    have "set_viper_stmt w \<subseteq> span_positions S"
      by (rule branch_positions [OF c(3) rest]) (use expr_positions [OF c(1), of S] assms(2) GotoIfData in simp_all)
    then show ?thesis using c(2) by simp
  qed
qed

lemma terminator_positions:
  "terminator_to_viper ctx NoPosition t = Value ws \<Longrightarrow> set_terminator t \<subseteq> S
   \<Longrightarrow> \<Union> (set_viper_stmt ` set ws) \<subseteq> span_positions S"
  by (cases t) (auto simp: stmt_node_defs expr_node_defs dest!: goto_if_positions [of _ _ _ S])

lemma block_positions:
  assumes "cfg_block_to_viper ctx b = Value ws" and "set_cfg_block b \<subseteq> S"
  shows "\<Union> (set_viper_stmt ` set ws) \<subseteq> span_positions S"
proof -
  obtain l stmts t where b: "b = CfgBlock l stmts t" by (cases b)
  then obtain w ss ts where *: "cfg_label_to_viper ctx l = Value w" "stmts_to_viper ctx stmts = Value ss"
    "terminator_to_viper ctx NoPosition t = Value ts" "ws = w # ss @ ts"
    using assms(1) by (auto simp: cfg_block_to_viper_def)
  obtain vs where vs: "all_exec (map (expr_to_viper ctx) (invariants l)) = Value vs"
    "w = label_node (label_name (block_label l)) vs" using *(1) by (auto simp: cfg_label_to_viper_def)
  have "\<Union> (set_viper_expr ` set vs) \<subseteq> span_positions S"
    by (rule exprs_positions [OF vs(1)]) (use assms(2) b in \<open>auto simp: cfg_label.set_sel\<close>)
  moreover have "\<Union> (set_viper_stmt ` set ss) \<subseteq> span_positions S" "\<Union> (set_viper_stmt ` set ts) \<subseteq> span_positions S"
    using stmts_positions [OF *(2), of S] terminator_positions [OF *(3), of S] assms(2) b by auto
  ultimately show ?thesis using *(4) vs(2) by (simp add: stmt_node_defs)
qed

lemma declaration_positions:
  assumes "block_declarations ctx b = Value ds"
  shows "\<Union> (set_viper_declaration ` set ds) \<subseteq> {NoPosition}"
proof -
  let ?decl = "\<lambda>s. case stmt_kind s of
    Stmt_LocalDecl decl _ \<Rightarrow> map_exec (\<lambda>d. [Declared_var d]) (local_decl_to_viper ctx decl) | _ \<Rightarrow> Value []"
  obtain vs where vs: "all_exec (map ?decl (block_stmts b)) = Value vs"
    "ds = Declared_label (label_node (label_name (block_label (cfg_label b))) []) # concat vs"
    using assms by (auto simp: block_declarations_def)
  have "\<Union> ((\<lambda>v. \<Union> (set_viper_declaration ` set v)) ` set vs) \<subseteq> {}"
    by (rule all_exec_within [OF vs(1), where h = "\<lambda>_. {}" and S = "{}"]) (auto split: stmt_kind.splits)
  then show ?thesis using vs(2) by (auto simp: stmt_node_defs)
qed

lemma body_positions:
  assumes "body_to_viper ctx blocks = Value w" and "\<Union> (set_cfg_block ` set blocks) \<subseteq> S"
  shows "set_viper_stmt w \<subseteq> span_positions S"
proof -
  let ?f = "\<lambda>b. map2_exec Pair (block_declarations ctx b) (cfg_block_to_viper ctx b)"
  let ?g = "\<lambda>(ds, ss). \<Union> (set_viper_declaration ` set ds) \<union> \<Union> (set_viper_stmt ` set ss)"
  obtain bs where bs: "all_exec (map ?f blocks) = Value bs" "w = seqn (concat (map snd bs)) (concat (map fst bs))"
    using assms(1) by (auto simp: body_to_viper_def)
  have "\<Union> (?g ` set bs) \<subseteq> span_positions S"
    by (rule all_exec_within [OF bs(1) assms(2)])
       (auto dest!: declaration_positions [THEN subsetD] block_positions [of _ _ _ S, THEN subsetD])
  then show ?thesis using bs(2) by (fastforce simp: stmt_node_defs)
qed

text \<open>Programs.\<close>

definition function_positions :: "'p viper_function \<Rightarrow> 'p set" where
  "function_positions f =
     insert (vf_pos f) (\<Union> (set_viper_expr ` (set (vf_pres f) \<union> set (vf_posts f) \<union> set_option (vf_body f))))"

definition method_positions :: "'p viper_method \<Rightarrow> 'p set" where
  "method_positions m =
     \<Union> (set_viper_expr ` (set (vm_pres m) \<union> set (vm_posts m))) \<union> \<Union> (set_viper_stmt ` set_option (vm_body m))"

definition predicate_positions :: "'p viper_predicate \<Rightarrow> 'p set" where
  "predicate_positions p = \<Union> (set_viper_expr ` set_option (vp_body p))"

definition domain_positions :: "'p viper_domain \<Rightarrow> 'p set" where
  "domain_positions d = \<Union> ((\<lambda>a. set_viper_expr (vax_exp a)) ` set (vd_axioms d))"

definition program_positions :: "'p viper_program \<Rightarrow> 'p set" where
  "program_positions p =
     \<Union> (domain_positions ` set (vpr_domains p)) \<union> \<Union> (function_positions ` set (vpr_functions p)) \<union>
     \<Union> (predicate_positions ` set (vpr_predicates p)) \<union> \<Union> (method_positions ` set (vpr_methods p))"

lemma decreases_positions:
  assumes "decreases_to_viper ctx d = Value v" and "set_decreases d \<subseteq> S"
  shows "\<Union> (set_viper_expr ` set_option v) \<subseteq> span_positions S"
proof (cases d)
  case (Decreases_Tuple es c)
  then obtain vs co where *: "all_exec (map (expr_to_viper ctx) es) = Value vs"
    "opt_exec (map_option (expr_to_viper ctx) c) = Value co" "v = Some (decreases_tuple vs co)" using assms(1) by auto
  then show ?thesis using exprs_positions [OF *(1), of S] opt_expr_positions [OF *(2), of S] assms(2) Decreases_Tuple
    by (simp add: expr_node_defs)
next
  case (Decreases_Wildcard c)
  then obtain co where *: "opt_exec (map_option (expr_to_viper ctx) c) = Value co" "v = Some (decreases_wildcard co)"
    using assms(1) by auto
  then show ?thesis using opt_expr_positions [OF *(1), of S] assms(2) Decreases_Wildcard by (simp add: expr_node_defs)
qed (use assms(1) in \<open>auto simp: expr_node_defs\<close>)

lemma function_positions:
  assumes "function_to_viper ctx f = Value w" and "set_function_data f \<subseteq> S"
  shows "function_positions w \<subseteq> span_positions S"
proof -
  obtain d pres posts body where *: "decreases_to_viper ctx (fun_decreases f) = Value d"
    "all_exec (map (expr_to_viper ctx) (fun_pres f)) = Value pres" "all_exec (map (expr_to_viper ctx) (fun_posts f)) = Value posts"
    "opt_exec (map_option (expr_to_viper ctx) (fun_expr f)) = Value body" "vf_pos w = NoPosition" "vf_pres w = pres"
    "set (vf_posts w) = set posts \<union> set_option d" "vf_body w = body"
    using assms(1) by (auto simp: function_to_viper_def function_node_def split: option.splits)
  show ?thesis
    using decreases_positions [OF *(1), of S] exprs_positions [OF *(2), of S] exprs_positions [OF *(3), of S]
      opt_expr_positions [OF *(4), of S] assms(2) *(5-8)
    by (cases f) (simp add: function_positions_def image_Un)
qed

lemma method_positions:
  assumes "method_to_viper ctx m = Value w" and "set_method_data m \<subseteq> S"
  shows "method_positions w \<subseteq> span_positions S"
proof -
  obtain pres posts body where *: "all_exec (map (expr_to_viper ctx) (meth_pres m)) = Value pres"
    "all_exec (map (expr_to_viper ctx) (meth_posts m)) = Value posts"
    "opt_exec (map_option (body_to_viper ctx) (meth_body m)) = Value body" "vm_pres w = pres" "vm_posts w = posts" "vm_body w = body"
    using assms(1) by (auto simp: method_to_viper_def method_node_def)
  have "\<Union> (set_viper_stmt ` set_option body) \<subseteq> span_positions S"
    by (rule opt_exec_within [where h = "\<lambda>bs. \<Union> (set_cfg_block ` set bs)" and S = S, OF *(3) _ body_positions]) (use assms(2) in \<open>cases m; auto\<close>)
  then show ?thesis
    using exprs_positions [OF *(1), of S] exprs_positions [OF *(2), of S] assms(2) *(4-6)
    by (cases m) (simp add: method_positions_def image_Un)
qed

lemma predicate_positions:
  assumes "predicate_to_viper ctx p = Value w" and "set_predicate_data p \<subseteq> S"
  shows "predicate_positions w \<subseteq> span_positions S"
proof -
  obtain body where *: "opt_exec (map_option (expr_to_viper ctx) (pred_expr p)) = Value body" "vp_body w = body"
    using assms(1) by (auto simp: predicate_to_viper_def predicate_node_def)
  then show ?thesis using opt_expr_positions [OF *(1), of S] assms(2) by (cases p) (simp add: predicate_positions_def)
qed

lemma axiom_positions:
  "domain_axiom_to_viper ctx a = Value w \<Longrightarrow> set_domain_axiom a \<subseteq> S \<Longrightarrow> set_viper_expr (vax_exp w) \<subseteq> span_positions S"
  by (cases a) (auto simp: domain_axiom_to_viper_def named_domain_axiom_def split: option.splits
      dest!: expr_positions [of _ _ _ S, THEN subsetD])

lemma domain_positions:
  assumes "domain_to_viper ctx d = Value w" and "set_domain_data d \<subseteq> S"
  shows "domain_positions w \<subseteq> span_positions S"
proof -
  obtain as where *: "all_exec (map (domain_axiom_to_viper ctx) (domain_axiom_list d)) = Value as" "vd_axioms w = as"
    using assms(1) by (auto simp: domain_to_viper_def domain_node_def)
  show ?thesis unfolding domain_positions_def *(2)
    by (rule all_exec_within [where h = set_domain_axiom and S = S, OF *(1) _ axiom_positions]) (use assms(2) in \<open>cases d; auto\<close>)
qed

lemma program_positions:
  assumes "program_data_to_viper ctx p = Value w" and "set_program_data p \<subseteq> S"
  shows "program_positions w \<subseteq> span_positions S"
proof -
  obtain ds funs preds ms where *: "all_exec (map (domain_to_viper ctx) (prog_domains p)) = Value ds"
    "all_exec (map (function_to_viper ctx) (prog_functions p)) = Value funs"
    "all_exec (map (predicate_to_viper ctx) (prog_predicates p)) = Value preds"
    "all_exec (map (method_to_viper ctx) (prog_methods p)) = Value ms"
    "vpr_domains w = ds" "vpr_functions w = funs" "vpr_predicates w = preds" "vpr_methods w = ms"
    using assms(1) by (auto simp: program_data_to_viper_def program_node_def)
  have "\<Union> (domain_positions ` set ds) \<subseteq> span_positions S"
    by (rule all_exec_within [where h = set_domain_data and S = S, OF *(1) _ domain_positions]) (use assms(2) in \<open>cases p; auto\<close>)
  moreover have "\<Union> (function_positions ` set funs) \<subseteq> span_positions S"
    by (rule all_exec_within [where h = set_function_data and S = S, OF *(2) _ function_positions]) (use assms(2) in \<open>cases p; auto\<close>)
  moreover have "\<Union> (predicate_positions ` set preds) \<subseteq> span_positions S"
    by (rule all_exec_within [where h = set_predicate_data and S = S, OF *(3) _ predicate_positions]) (use assms(2) in \<open>cases p; auto\<close>)
  moreover have "\<Union> (method_positions ` set ms) \<subseteq> span_positions S"
    by (rule all_exec_within [where h = set_method_data and S = S, OF *(4) _ method_positions]) (use assms(2) in \<open>cases p; auto\<close>)
  ultimately show ?thesis using *(5-8) by (simp add: program_positions_def)
qed

end
