(* ===== verification/Vir_To_Viper_Panics.thy ===== *)
theory Vir_To_Viper_Panics
  imports Vir_To_Viper_Laws
begin

text \<open>
  How the context of the translation resolves names, and which programs are translated without a panic.
\<close>

section \<open>The context\<close>

text \<open>The entries that a list of domains makes, in the order in which they are inserted.\<close>

definition function_entries :: "'s domain_data list \<Rightarrow> (string \<times> 's domain_data \<times> domain_function) list" where
  "function_entries ds = concat (map (\<lambda>d. map (\<lambda>f. (to_str (fn_name f), d, f)) (domain_function_list d)) ds)"

definition axiom_entries :: "'s domain_data list \<Rightarrow> (string \<times> 's domain_data \<times> 's domain_axiom) list" where
  "axiom_entries ds = concat (map (\<lambda>d. map (\<lambda>a. (axiom_name a, d, a)) (domain_axiom_list d)) ds)"

lemma fold_updates:
  assumes "\<And>x c. get (f x c) = (get c)(k x \<mapsto> v x)"
  shows "get (fold f xs c) = get c ++ map_of (rev (map (\<lambda>x. (k x, v x)) xs))"
  by (induction xs arbitrary: c) (simp_all add: assms)

lemma fold_keeps: "(\<And>x c. get (f x c) = get c) \<Longrightarrow> get (fold f xs c) = get c"
  by (induction xs arbitrary: c) simp_all

lemma insert_domain_simps [simp]:
  "domains (insert_domain d c) = (domains c)(domain_name d \<mapsto> d)"
  "domain_functions (insert_domain d c) = domain_functions c ++ map_of (rev (function_entries [d]))"
  "domain_axioms (insert_domain d c) = domain_axioms c ++ map_of (rev (axiom_entries [d]))"
  "adts (insert_domain d c) = adts c"
  "adt_constructors (insert_domain d c) = adt_constructors c"
  by (simp_all add: insert_domain_def Let_def fold_keeps function_entries_def axiom_entries_def
      fold_updates [where get = domain_functions and k = "\<lambda>f. to_str (fn_name f)" and v = "Pair d"]
      fold_updates [where get = domain_axioms and k = axiom_name and v = "Pair d"])

lemma insert_adt_keeps [simp]:
  "domain_functions (insert_adt a c) = domain_functions c"
  "domain_axioms (insert_adt a c) = domain_axioms c"
  by (simp_all add: insert_adt_def insert_constructor_def fold_keeps)

lemma domain_tables:
  "domain_functions (fold insert_domain ds c) = domain_functions c ++ map_of (rev (function_entries ds))"
  "domain_axioms (fold insert_domain ds c) = domain_axioms c ++ map_of (rev (axiom_entries ds))"
  by (induction ds arbitrary: c)
     (simp_all add: function_entries_def axiom_entries_def)

lemma context_tables:
  "domain_functions (context_of p) = map_of (rev (function_entries (prog_domains p)))"
  "domain_axioms (context_of p) = map_of (rev (axiom_entries (prog_domains p)))"
  by (simp_all add: context_of_def fold_keeps domain_tables empty_context_def)

text \<open>A name is known if it is declared, and denotes the last declaration of that name.\<close>

lemma map_of_rev_distinct: "distinct (map fst xs) \<Longrightarrow> (k, v) \<in> set xs \<Longrightarrow> map_of (rev xs) k = Some v"
  by (intro map_of_is_SomeI) (simp_all add: rev_map [symmetric])

lemma declared_function:
  assumes "d \<in> set (prog_domains p)" and "f \<in> set (domain_function_list d)"
  shows "domain_functions (context_of p) (to_str (fn_name f)) \<noteq> None"
    and "distinct (map fst (function_entries (prog_domains p)))
      \<Longrightarrow> domain_functions (context_of p) (to_str (fn_name f)) = Some (d, f)"
proof -
  have mem: "(to_str (fn_name f), d, f) \<in> set (function_entries (prog_domains p))"
    using assms by (auto simp: function_entries_def)
  then have "to_str (fn_name f) \<in> fst ` set (rev (function_entries (prog_domains p)))" by force
  then show "domain_functions (context_of p) (to_str (fn_name f)) \<noteq> None"
    by (simp only: context_tables map_of_eq_None_iff not_not)
  show "distinct (map fst (function_entries (prog_domains p)))
      \<Longrightarrow> domain_functions (context_of p) (to_str (fn_name f)) = Some (d, f)"
    using map_of_rev_distinct [OF _ mem] by (simp add: context_tables)
qed

lemma declared_axiom:
  assumes "d \<in> set (prog_domains p)" and "a \<in> set (domain_axiom_list d)"
  shows "domain_axioms (context_of p) (axiom_name a) \<noteq> None"
    and "distinct (map fst (axiom_entries (prog_domains p))) \<Longrightarrow> domain_axioms (context_of p) (axiom_name a) = Some (d, a)"
proof -
  have mem: "(axiom_name a, d, a) \<in> set (axiom_entries (prog_domains p))" using assms by (auto simp: axiom_entries_def)
  then have "axiom_name a \<in> fst ` set (rev (axiom_entries (prog_domains p)))" by force
  then show "domain_axioms (context_of p) (axiom_name a) \<noteq> None"
    by (simp only: context_tables map_of_eq_None_iff not_not)
  show "distinct (map fst (axiom_entries (prog_domains p))) \<Longrightarrow> domain_axioms (context_of p) (axiom_name a) = Some (d, a)"
    using map_of_rev_distinct [OF _ mem] by (simp add: context_tables)
qed

section \<open>Panics\<close>

text \<open>Which types are translated; superfluous arguments of a domain are not looked at.\<close>

fun type_ok :: "'s to_viper_context \<Rightarrow> type_kind \<Rightarrow> bool" where
  "type_ok ctx (Ty_Domain name params) =
     (let oks = map (type_ok ctx) params in
      case (domains ctx name, adts ctx name) of
        (Some d, None) \<Rightarrow> list_all id (take (length (domain_typarams d)) oks)
      | (None, Some adt) \<Rightarrow> list_all id (take (length (adt_typarams adt)) oks)
      | _ \<Rightarrow> False)"
| "type_ok ctx (Ty_Set elem) = type_ok ctx elem"
| "type_ok ctx (Ty_Multiset elem) = type_ok ctx elem"
| "type_ok ctx (Ty_Seq elem) = type_ok ctx elem"
| "type_ok ctx (Ty_Map key val) = (type_ok ctx key \<and> type_ok ctx val)"
| "type_ok ctx (Ty_Unsupported _) = False"
| "type_ok ctx Ty_Err = False"
| "type_ok ctx _ = True"

lemma zip_params_returns: "returns (zip_params ps as) = list_all returns (take (length ps) as)"
  unfolding zip_params_def
proof (induction ps arbitrary: as)
  case (Cons p ps)
  then show ?case by (cases as) simp_all
qed simp

lemma type_returns [simp]: "returns (type_to_viper ctx t) = type_ok ctx t"
proof (induction ctx t rule: type_to_viper.induct)
  case (4 ctx name params)
  then have "map (\<lambda>t. returns (type_to_viper ctx t)) params = map (type_ok ctx) params" by simp
  then show ?case
    by (auto simp: zip_params_returns Let_def list_all_length take_map split: option.splits)
qed simp_all

definition adt_type_ok :: "'s to_viper_context \<Rightarrow> type_kind \<Rightarrow> bool" where
  "adt_type_ok ctx ty =
     (case ty of
        Ty_Domain name ty_args \<Rightarrow>
          (case adts ctx name of
             None \<Rightarrow> False
           | Some adt \<Rightarrow> length (adt_typarams adt) = length ty_args \<and> list_all (type_ok ctx) ty_args)
      | _ \<Rightarrow> False)"

lemma adt_type_map_returns [simp]: "returns (adt_type_map ctx ty) = adt_type_ok ctx ty"
  by (auto simp: adt_type_map_def adt_type_ok_def zip_params_returns list_all_length split: type_kind.splits option.splits)

text \<open>Which operations on collections and which applications are translated.\<close>

fun collection_bin_op_ok :: "collection_bin_op_kind \<Rightarrow> type_kind \<Rightarrow> type_kind \<Rightarrow> bool" where
  "collection_bin_op_ok Coll_Contains lty rty =
     (case rty of Ty_Set _ \<Rightarrow> True | Ty_Multiset _ \<Rightarrow> True | Ty_Seq _ \<Rightarrow> True | Ty_Map _ _ \<Rightarrow> True | _ \<Rightarrow> False)"
| "collection_bin_op_ok Coll_Index lty rty = (case lty of Ty_Seq _ \<Rightarrow> True | Ty_Map _ _ \<Rightarrow> True | _ \<Rightarrow> False)"
| "collection_bin_op_ok _ lty rty = True"

definition collection_literal_ok :: "'s to_viper_context \<Rightarrow> bool \<Rightarrow> type_kind \<Rightarrow> bool" where
  "collection_literal_ok ctx no_values ty =
     (case ty of
        Ty_Set t \<Rightarrow> no_values \<longrightarrow> type_ok ctx t
      | Ty_Multiset t \<Rightarrow> no_values \<longrightarrow> type_ok ctx t
      | Ty_Seq t \<Rightarrow> no_values \<longrightarrow> type_ok ctx t
      | Ty_Map k v \<Rightarrow> no_values \<and> type_ok ctx k \<and> type_ok ctx v
      | _ \<Rightarrow> False)"

definition has_update :: "type_kind \<Rightarrow> bool" where
  "has_update ty = (case ty of Ty_Map _ _ \<Rightarrow> True | Ty_Seq _ \<Rightarrow> True | _ \<Rightarrow> False)"

definition has_length :: "type_kind \<Rightarrow> bool" where
  "has_length ty = (case ty of Ty_Set _ \<Rightarrow> True | Ty_Multiset _ \<Rightarrow> True | Ty_Seq _ \<Rightarrow> True | Ty_Map _ _ \<Rightarrow> True | _ \<Rightarrow> False)"

definition func_app_ok :: "'s to_viper_context \<Rightarrow> string \<Rightarrow> type_kind \<Rightarrow> type_kind list \<Rightarrow> bool" where
  "func_app_ok ctx target result_ty typ_var_map =
     (type_ok ctx result_ty \<and>
      (case domain_functions ctx target of
         Some (d, _) \<Rightarrow> length (domain_typarams d) = length typ_var_map \<and> list_all (type_ok ctx) typ_var_map
       | None \<Rightarrow> typ_var_map = [] \<and> (adt_constructors ctx target \<noteq> None \<longrightarrow> adt_type_ok ctx result_ty)))"

lemma collection_bin_op_returns [simp]:
  "returns (collection_bin_op_to_viper k lt rt l r pos) = collection_bin_op_ok k lt rt"
  by (cases k) (auto split: type_kind.splits)

lemma returns_bind: "(\<And>x. e = Value x \<Longrightarrow> returns (f x) = P) \<Longrightarrow> returns (bind_exec e f) = (returns e \<and> P)"
  by (cases e) simp_all

lemma collection_literal_returns [simp]:
  "returns (collection_literal_to_viper ctx es ty pos) = (list_all returns es \<and> collection_literal_ok ctx (es = []) ty)"
proof (cases "es = []")
  case False
  then have "returns (collection_literal_to_viper ctx es ty pos) = (returns (all_exec es) \<and> collection_literal_ok ctx False ty)"
    unfolding collection_literal_to_viper_def
    by (simp del: returns_exec_simps, intro returns_bind) (auto simp: collection_literal_ok_def split: type_kind.splits)
  then show ?thesis using False by simp
qed (auto simp: collection_literal_to_viper_def collection_literal_ok_def split: type_kind.splits)

lemma collection_update_returns [simp]: "returns (collection_update_to_viper ty t k v pos) = has_update ty"
  by (auto simp: collection_update_to_viper_def has_update_def split: type_kind.splits)

lemma collection_len_returns [simp]: "returns (collection_len_to_viper ty e pos) = (returns e \<and> has_length ty)"
  by (auto simp: collection_len_to_viper_def has_length_def split: type_kind.splits)

lemma const_returns [simp]: "returns (const_to_viper c pos)"
  by (cases c) (simp_all add: int_lit_value)

lemma decl_returns [simp]:
  "returns (local_decl_to_viper ctx d) = type_ok ctx (decl_ty d)"
  "returns (field_to_viper ctx f) = type_ok ctx (field_ty f)"
  "returns (local_to_viper ctx x t pos) = type_ok ctx t"
  by (simp_all add: local_decl_to_viper_def field_to_viper_def local_to_viper_def)

lemma func_app_returns [simp]:
  "returns (func_app_to_viper ctx f es t m pos) = (list_all returns es \<and> func_app_ok ctx f t m)"
proof (cases "domain_functions ctx f")
  case None
  then show ?thesis by (auto simp: func_app_to_viper_def func_app_ok_def split: option.splits)
next
  case (Some x)
  obtain d g where x: "x = (d, g)" by fastforce
  show ?thesis
  proof (cases "length (domain_typarams d) = length m")
    case True
    have "returns (func_app_to_viper ctx f es t m pos) =
        (returns (zip_params (domain_typarams d) (map (type_to_viper ctx) m)) \<and> list_all returns es \<and> type_ok ctx t)"
      unfolding func_app_to_viper_def using Some x True by (simp, intro returns_bind) simp
    then show ?thesis using Some x True by (auto simp: zip_params_returns func_app_ok_def list_all_length)
  qed (simp add: func_app_to_viper_def func_app_ok_def Some x)
qed

lemma adt_returns [simp]:
  "returns (adt_destructor_to_viper ctx t e d) = (adt_type_ok ctx t \<and> returns e \<and> type_ok ctx (destr_ty d))"
  "returns (adt_discriminator_to_viper ctx t e n) = (adt_type_ok ctx t \<and> returns e \<and> adt_constructors ctx n \<noteq> None)"
  by (auto simp: adt_destructor_to_viper_def adt_discriminator_to_viper_def split: option.splits)

text \<open>Expressions that are translated.\<close>

fun expr_ok :: "'s to_viper_context \<Rightarrow> 's expr \<Rightarrow> bool"
  and kind_ok :: "'s to_viper_context \<Rightarrow> 's expr_kind \<Rightarrow> bool"
  and predicate_app_ok :: "'s to_viper_context \<Rightarrow> 's predicate_app \<Rightarrow> bool"
  and trigger_ok :: "'s to_viper_context \<Rightarrow> 's trigger \<Rightarrow> bool" where
  "expr_ok ctx (Expr kind span ty) = kind_ok ctx kind"
| "kind_ok ctx (Kind_AccField recv f perm) =
     (expr_ok ctx recv \<and> type_ok ctx (field_ty f) \<and> pred_option (expr_ok ctx) perm)"
| "kind_ok ctx (Kind_BinOp k l r) = (expr_ok ctx l \<and> expr_ok ctx r)"
| "kind_ok ctx (Kind_CollectionBinOp k l r) =
     (expr_ok ctx l \<and> expr_ok ctx r \<and> collection_bin_op_ok k (expr_ty l) (expr_ty r))"
| "kind_ok ctx (Kind_Const c) = True"
| "kind_ok ctx (Kind_Exists qvars triggers body) =
     (list_all (\<lambda>d. type_ok ctx (decl_ty d)) qvars \<and> list_all (trigger_ok ctx) triggers \<and> expr_ok ctx body)"
| "kind_ok ctx (Kind_Field recv f) = (expr_ok ctx recv \<and> type_ok ctx (field_ty f))"
| "kind_ok ctx (Kind_Forall qvars triggers body) =
     (list_all (\<lambda>d. type_ok ctx (decl_ty d)) qvars \<and> list_all (trigger_ok ctx) triggers \<and> expr_ok ctx body)"
| "kind_ok ctx (Kind_FuncApp target args result_ty typ_var_map) =
     (list_all (expr_ok ctx) args \<and> func_app_ok ctx target result_ty typ_var_map)"
| "kind_ok ctx (Kind_Let name val e) = (type_ok ctx (expr_ty val) \<and> expr_ok ctx val \<and> expr_ok ctx e)"
| "kind_ok ctx (Kind_Local name ty) = type_ok ctx ty"
| "kind_ok ctx (Kind_Old e label) = expr_ok ctx e"
| "kind_ok ctx (Kind_PredicateApp pa) = predicate_app_ok ctx pa"
| "kind_ok ctx (Kind_Wand l r) = (expr_ok ctx l \<and> expr_ok ctx r)"
| "kind_ok ctx (Kind_Result ty) = type_ok ctx ty"
| "kind_ok ctx (Kind_CollectionLiteral vs ty) = (list_all (expr_ok ctx) vs \<and> collection_literal_ok ctx (vs = []) ty)"
| "kind_ok ctx (Kind_CollectionUpdate target key val) =
     (expr_ok ctx target \<and> expr_ok ctx key \<and> expr_ok ctx val \<and> has_update (expr_ty target))"
| "kind_ok ctx (Kind_CollectionLen e) = (expr_ok ctx e \<and> has_length (expr_ty e))"
| "kind_ok ctx (Kind_MapDomain e) = expr_ok ctx e"
| "kind_ok ctx (Kind_MapRange e) = expr_ok ctx e"
| "kind_ok ctx (Kind_Ternary c t e) = (expr_ok ctx c \<and> expr_ok ctx t \<and> expr_ok ctx e)"
| "kind_ok ctx (Kind_Unfolding target e) = (predicate_app_ok ctx target \<and> expr_ok ctx e)"
| "kind_ok ctx (Kind_UnOp k e) = expr_ok ctx e"
| "kind_ok ctx (Kind_InhaleExhale inh exh) = (expr_ok ctx inh \<and> expr_ok ctx exh)"
| "kind_ok ctx (Kind_AdtDestructor recv d) = (adt_type_ok ctx (expr_ty recv) \<and> expr_ok ctx recv \<and> type_ok ctx (destr_ty d))"
| "kind_ok ctx (Kind_AdtDiscriminator recv name) =
     (adt_type_ok ctx (expr_ty recv) \<and> expr_ok ctx recv \<and> adt_constructors ctx name \<noteq> None)"
| "kind_ok ctx (Kind_Lazy name ty) = False"
| "kind_ok ctx (Kind_Todo msg) = False"
| "predicate_app_ok ctx (PredicateAppData target args perm) =
     (list_all (expr_ok ctx) args \<and> pred_option (expr_ok ctx) perm)"
| "trigger_ok ctx (TriggerData exprs) = list_all (expr_ok ctx) exprs"

lemma list_all_returns: "(\<And>x. x \<in> set xs \<Longrightarrow> returns (f x) = P x) \<Longrightarrow> list_all returns (map f xs) = list_all P xs"
  by (simp add: list_all_iff)

lemma bind2_returns: "(\<And>x y. returns (f x y) = P) \<Longrightarrow>
    returns (bind_exec a (\<lambda>x. bind_exec b (f x))) = (returns a \<and> returns b \<and> P)"
  by (cases a; cases b) simp_all

lemma bind3_returns: "(\<And>x y z. returns (f x y z) = P) \<Longrightarrow>
    returns (bind_exec a (\<lambda>x. bind_exec b (\<lambda>y. bind_exec c (f x y)))) = (returns a \<and> returns b \<and> returns c \<and> P)"
  by (cases a; cases b; cases c) simp_all

lemma pred_option_eq: "(\<And>a. x = Some a \<Longrightarrow> P a = Q a) \<Longrightarrow> pred_option P x = pred_option Q x"
  by (cases x) simp_all

lemma expr_returns_aux:
  fixes ctx :: "'sp vir_span to_viper_context"
  shows "returns (expr_to_viper ctx e) = expr_ok ctx e"
    and "returns (kind_to_viper ctx pos k) = kind_ok ctx k"
    and "returns (predicate_app_to_viper ctx pos pa) = predicate_app_ok ctx pa"
    and "returns (trigger_to_viper ctx t) = trigger_ok ctx t"
proof (induction ctx e and ctx pos k and ctx pos pa and ctx t
    rule: expr_to_viper_kind_to_viper_predicate_app_to_viper_trigger_to_viper.induct)
  case (2 ctx pos recv f perm)
  have "pred_option (\<lambda>x. returns (expr_to_viper ctx x)) perm = pred_option (expr_ok ctx) perm"
    using 2 by (intro pred_option_eq) simp
  with 2 show ?case by (simp add: option.pred_map comp_def)
next
  case (29 ctx pos target args perm)
  have "pred_option (\<lambda>x. returns (expr_to_viper ctx x)) perm = pred_option (expr_ok ctx) perm"
    using 29 by (intro pred_option_eq) simp
  with 29 show ?case by (simp add: option.pred_map comp_def list_all_returns)
qed (simp_all add: list_all_returns bind2_returns bind3_returns cong: list.pred_cong)

lemmas expr_returns [simp] = expr_returns_aux(1,3)

text \<open>Statements, blocks and declarations that are translated.\<close>

fun stmt_ok :: "'s to_viper_context \<Rightarrow> 's stmt \<Rightarrow> bool" where
  "stmt_ok ctx (Stmt (Stmt_LocalDecl decl e) span) =
     (e = None \<or> type_ok ctx (decl_ty decl) \<and> pred_option (expr_ok ctx) e)"
| "stmt_ok ctx (Stmt (Stmt_PureAssign lhs rhs) span) = (expr_ok ctx lhs \<and> expr_ok ctx rhs)"
| "stmt_ok ctx (Stmt (Stmt_Inhale v) span) = expr_ok ctx v"
| "stmt_ok ctx (Stmt (Stmt_Exhale v) span) = expr_ok ctx v"
| "stmt_ok ctx (Stmt (Stmt_Refute v) span) = expr_ok ctx v"
| "stmt_ok ctx (Stmt (Stmt_Unfold pred) span) = predicate_app_ok ctx pred"
| "stmt_ok ctx (Stmt (Stmt_Fold pred) span) = predicate_app_ok ctx pred"
| "stmt_ok ctx (Stmt (Stmt_Package lhs rhs stmts) span) =
     (expr_ok ctx lhs \<and> expr_ok ctx rhs \<and> list_all (stmt_ok ctx) stmts)"
| "stmt_ok ctx (Stmt (Stmt_Apply lhs rhs) span) = (expr_ok ctx lhs \<and> expr_ok ctx rhs)"
| "stmt_ok ctx (Stmt (Stmt_MethodCall targets name args) span) =
     (list_all (expr_ok ctx) args \<and> list_all (\<lambda>(x, t). type_ok ctx t) targets)"
| "stmt_ok ctx (Stmt (Stmt_If e thn els) span) =
     (expr_ok ctx e \<and> list_all (stmt_ok ctx) thn \<and> list_all (stmt_ok ctx) els)"
| "stmt_ok ctx (Stmt (Stmt_Label label) span) = True"
| "stmt_ok ctx (Stmt (Stmt_Comment v) span) = True"
| "stmt_ok ctx (Stmt (Stmt_Dummy msg) span) = False"

lemma stmt_returns [simp]: "returns (stmt_to_viper ctx s) = stmt_ok ctx s"
  by (induction ctx s rule: stmt_to_viper.induct)
     (auto simp: list_all_returns wand_to_viper_def pure_assign_to_viper_def method_call_to_viper_def list_all_iff)

lemma stmts_returns [simp]: "returns (stmts_to_viper ctx ss) = list_all (stmt_ok ctx) ss"
  by (simp add: stmts_to_viper_def list_all_returns)

fun target_ok :: "'s to_viper_context \<Rightarrow> 's goto_if_target \<Rightarrow> bool" where
  "target_ok ctx (GotoIfTarget v label statements) = (list_all (stmt_ok ctx) statements \<and> expr_ok ctx v)"

fun terminator_ok :: "'s to_viper_context \<Rightarrow> 's terminator \<Rightarrow> bool" where
  "terminator_ok ctx (Term_GotoIf (GotoIfData val targets otherwise statements)) =
     (list_all (stmt_ok ctx) statements \<and> (targets = [] \<or> expr_ok ctx val \<and> list_all (target_ok ctx) targets))"
| "terminator_ok ctx _ = True"

lemma branch_returns:
  "returns (foldr (branch_to_viper ctx c) targets rest) = (returns rest \<and> list_all (target_ok ctx) targets)"
proof (induction targets)
  case (Cons t targets)
  then show ?case by (cases t) auto
qed simp

lemma terminator_returns [simp]: "returns (terminator_to_viper ctx pos t) = terminator_ok ctx t"
proof (cases t)
  case (Term_GotoIf g)
  obtain val targets otherwise stmts where g: "g = GotoIfData val targets otherwise stmts" by (cases g)
  show ?thesis
  proof (cases "targets = []")
    case False
    let ?rest = "map_exec (\<lambda>ss. seqn ss []) (map_exec (\<lambda>ss. ss @ [goto (label_name otherwise)]) (stmts_to_viper ctx stmts))"
    have "returns (bind_exec (expr_to_viper ctx val) (\<lambda>c. map_exec (\<lambda>s. [s]) (foldr (branch_to_viper ctx c) targets ?rest))) =
        (expr_ok ctx val \<and> list_all (stmt_ok ctx) stmts \<and> list_all (target_ok ctx) targets)"
      by (subst returns_bind) (simp_all add: branch_returns)
    then show ?thesis using False Term_GotoIf g by (auto simp: Let_def)
  qed (simp add: Term_GotoIf g)
qed simp_all

definition block_ok :: "'s to_viper_context \<Rightarrow> 's cfg_block \<Rightarrow> bool" where
  "block_ok ctx b =
     (list_all (expr_ok ctx) (invariants (cfg_label b)) \<and> list_all (stmt_ok ctx) (block_stmts b) \<and>
      list_all (\<lambda>s. case stmt_kind s of Stmt_LocalDecl d _ \<Rightarrow> type_ok ctx (decl_ty d) | _ \<Rightarrow> True) (block_stmts b) \<and>
      terminator_ok ctx (terminator b))"

definition decls_ok :: "'s to_viper_context \<Rightarrow> local_decl list \<Rightarrow> bool" where
  "decls_ok ctx ds = list_all (\<lambda>d. type_ok ctx (decl_ty d)) ds"

definition domain_ok :: "'s to_viper_context \<Rightarrow> 's domain_data \<Rightarrow> bool" where
  "domain_ok ctx d =
     (list_all (\<lambda>f. list_all (type_ok ctx) (fn_args f) \<and> type_ok ctx (fn_ret f)) (domain_function_list d) \<and>
      list_all (\<lambda>a. expr_ok ctx (axiom_expr a)) (domain_axiom_list d))"

fun decreases_ok :: "'s to_viper_context \<Rightarrow> 's decreases \<Rightarrow> bool" where
  "decreases_ok ctx (Decreases_Tuple es c) = (list_all (expr_ok ctx) es \<and> pred_option (expr_ok ctx) c)"
| "decreases_ok ctx (Decreases_Wildcard c) = pred_option (expr_ok ctx) c"
| "decreases_ok ctx _ = True"

definition function_ok :: "'s to_viper_context \<Rightarrow> 's function_data \<Rightarrow> bool" where
  "function_ok ctx f =
     (decreases_ok ctx (fun_decreases f) \<and> decls_ok ctx (fun_args f) \<and> type_ok ctx (fun_ret f) \<and>
      list_all (expr_ok ctx) (fun_pres f) \<and> list_all (expr_ok ctx) (fun_posts f) \<and> pred_option (expr_ok ctx) (fun_expr f))"

definition method_ok :: "'s to_viper_context \<Rightarrow> 's method_data \<Rightarrow> bool" where
  "method_ok ctx m =
     (decls_ok ctx (meth_args m) \<and> decls_ok ctx (meth_rets m) \<and> list_all (expr_ok ctx) (meth_pres m) \<and>
      list_all (expr_ok ctx) (meth_posts m) \<and> pred_option (list_all (block_ok ctx)) (meth_body m))"

definition predicate_ok :: "'s to_viper_context \<Rightarrow> 's predicate_data \<Rightarrow> bool" where
  "predicate_ok ctx p = (decls_ok ctx (pred_args p) \<and> pred_option (expr_ok ctx) (pred_expr p))"

definition vir_program_ok :: "'s program_data \<Rightarrow> bool" where
  "vir_program_ok p =
     (let ctx = context_of p in
      list_all (domain_ok ctx) (prog_domains p) \<and> list_all (\<lambda>f. type_ok ctx (field_ty f)) (prog_fields p) \<and>
      list_all (function_ok ctx) (prog_functions p) \<and> list_all (predicate_ok ctx) (prog_predicates p) \<and>
      list_all (method_ok ctx) (prog_methods p) \<and>
      list_all (\<lambda>a. list_all (\<lambda>k. decls_ok ctx (cons_args k)) (adt_constructor_list a)) (prog_adts p))"

lemma pred_option_returns: "(\<And>x. returns (f x) = P x) \<Longrightarrow> pred_option returns (map_option f y) = pred_option P y"
  by (cases y) simp_all

lemma decls_returns [simp]: "list_all returns (map (local_decl_to_viper ctx) ds) = decls_ok ctx ds"
  by (simp add: decls_ok_def list_all_iff)

lemma block_returns:
  "returns (map2_exec Pair (block_declarations ctx b) (cfg_block_to_viper ctx b)) = block_ok ctx b"
  by (auto simp: block_declarations_def cfg_block_to_viper_def cfg_label_to_viper_def block_ok_def list_all_iff
      split: stmt_kind.splits)

lemma body_returns: "returns (body_to_viper ctx bs) = list_all (block_ok ctx) bs"
  by (simp add: body_to_viper_def list_all_returns [OF block_returns])

lemma function_returns: "returns (function_to_viper ctx f) = function_ok ctx f"
proof -
  have "returns (decreases_to_viper ctx d) = decreases_ok ctx d" for d
    by (cases d) (simp_all add: list_all_returns pred_option_returns)
  then show ?thesis
    unfolding function_to_viper_def function_ok_def
    by (subst bind3_returns) (simp_all add: list_all_returns pred_option_returns)
qed

lemma method_returns: "returns (method_to_viper ctx m) = method_ok ctx m"
  unfolding method_to_viper_def method_ok_def
  by (subst bind2_returns) (simp_all add: list_all_returns pred_option_returns [OF body_returns] pred_option_returns)

lemma predicate_returns: "returns (predicate_to_viper ctx p) = predicate_ok ctx p"
  by (simp add: predicate_to_viper_def predicate_ok_def pred_option_returns)

lemma adt_to_viper_returns:
  "returns (adt_to_viper ctx a) = list_all (\<lambda>k. decls_ok ctx (cons_args k)) (adt_constructor_list a)"
  by (simp add: adt_to_viper_def Let_def list_all_iff decls_ok_def)

text \<open>All domain functions and axioms of the program are known, so looking up their domain succeeds.\<close>

lemma domain_returns:
  assumes "d \<in> set (prog_domains p)"
  shows "returns (domain_to_viper (context_of p) d) = domain_ok (context_of p) d"
proof -
  have "returns (domain_function_to_viper (context_of p) f) =
      (list_all (type_ok (context_of p)) (fn_args f) \<and> type_ok (context_of p) (fn_ret f))"
    if "f \<in> set (domain_function_list d)" for f
    using declared_function(1) [OF assms that]
    by (auto simp: domain_function_to_viper_def list_all_length nth_enumerate_eq split: option.splits)
  moreover have "returns (domain_axiom_to_viper (context_of p) a) = expr_ok (context_of p) (axiom_expr a)"
    if "a \<in> set (domain_axiom_list d)" for a
    using declared_axiom(1) [OF assms that] by (auto simp: domain_axiom_to_viper_def split: option.splits)
  ultimately show ?thesis by (simp add: domain_to_viper_def domain_ok_def list_all_iff)
qed

lemma program_returns: "returns (program_to_viper p) = vir_program_ok p"
  unfolding program_to_viper_def program_data_to_viper_def vir_program_ok_def Let_def
  by (subst bind3_returns)
     (simp_all add: list_all_returns [OF domain_returns] list_all_returns function_returns method_returns predicate_returns
       adt_to_viper_returns)

end
