(* ===== verification/Vir_To_Viper_Props.thy ===== *)
theory Vir_To_Viper_Props
  imports Vir_To_Viper_Panics
begin

text \<open>The properties of the translation to Viper.\<close>

section \<open>Labels\<close>

text \<open>The label without an empty list of loops, which has the same name.\<close>

fun canonical_label :: "cfg_block_label \<Rightarrow> cfg_block_label" where
  "canonical_label (Label_PreLoopBasicBlock i []) = Label_BasicBlock i"
| "canonical_label (Label_PreLoopBasicBlockTerminator i []) = Label_BasicBlockTerminator i"
| "canonical_label l = l"

lemma pre_names_simps: "pre_names (p # ps) = ''_pre'' @ digits p @ pre_names ps" "pre_names [] = ''''"
  by (simp_all add: pre_names_def)

lemma digits_takeWhile: "takeWhile (\<lambda>c. c \<in> set ''0123456789'') (digits n @ pre_names ps) = digits n"
proof -
  have "\<forall>c \<in> set (digits n). c \<in> set ''0123456789''" using digit_char by blast
  then have "takeWhile (\<lambda>c. c \<in> set ''0123456789'') (digits n @ pre_names ps) =
      digits n @ takeWhile (\<lambda>c. c \<in> set ''0123456789'') (pre_names ps)" by (intro takeWhile_append2) blast
  moreover have "takeWhile (\<lambda>c. c \<in> set ''0123456789'') (pre_names ps) = []" by (cases ps) (simp_all add: pre_names_simps)
  ultimately show ?thesis by simp
qed

lemma numbered_inj: "digits m @ pre_names ps = digits n @ pre_names qs \<longleftrightarrow> m = n \<and> ps = qs"
proof
  have first: "m = n \<and> pre_names ps = pre_names qs" if "digits m @ pre_names ps = digits n @ pre_names qs" for m n ps qs
  proof -
    have "digits m = digits n" using that digits_takeWhile [of m ps] digits_takeWhile [of n qs] by simp
    then show ?thesis using that by simp
  qed
  have rest: "ps = qs" if "pre_names ps = pre_names qs" for ps qs
    using that
  proof (induction ps arbitrary: qs)
    case Nil
    then show ?case by (cases qs) (simp_all add: pre_names_simps)
  next
    case (Cons p ps)
    then obtain q qs' where q: "qs = q # qs'" by (cases qs) (simp_all add: pre_names_simps)
    then have "p = q \<and> pre_names ps = pre_names qs'" using first [of p ps q qs'] Cons.prems by (simp add: pre_names_simps)
    then show ?case using Cons.IH q by simp
  qed
  assume "digits m @ pre_names ps = digits n @ pre_names qs"
  then show "m = n \<and> ps = qs" using first rest by blast
qed simp

lemma numbered_inj' [simp]:
  "digits m = digits n @ pre_names qs \<longleftrightarrow> m = n \<and> qs = []" "digits n @ pre_names qs = digits m \<longleftrightarrow> m = n \<and> qs = []"
proof -
  have "digits m = digits m @ pre_names []" by (simp add: pre_names_simps)
  then show "digits m = digits n @ pre_names qs \<longleftrightarrow> m = n \<and> qs = []" "digits n @ pre_names qs = digits m \<longleftrightarrow> m = n \<and> qs = []"
    using numbered_inj [of m "[]" n qs] numbered_inj [of n qs m "[]"] by metis+
qed

lemma digits_not_term [simp]:
  "digits n \<noteq> CHR ''t'' # ys" "CHR ''t'' # ys \<noteq> digits n" "digits n @ xs \<noteq> CHR ''t'' # ys" "CHR ''t'' # ys \<noteq> digits n @ xs"
proof -
  obtain c cs where c: "digits n = c # cs" by (cases "digits n") auto
  then have "c \<in> set ''0123456789''" using digit_char [of c n] by simp
  then have "c \<noteq> CHR ''t''" by auto
  then show "digits n \<noteq> CHR ''t'' # ys" "CHR ''t'' # ys \<noteq> digits n" "digits n @ xs \<noteq> CHR ''t'' # ys"
    "CHR ''t'' # ys \<noteq> digits n @ xs" by (simp_all add: c)
qed

lemma canonical_pre_loop [simp]:
  "canonical_label (Label_PreLoopBasicBlock i ps) = (if ps = [] then Label_BasicBlock i else Label_PreLoopBasicBlock i ps)"
  "canonical_label (Label_PreLoopBasicBlockTerminator i ps) =
     (if ps = [] then Label_BasicBlockTerminator i else Label_PreLoopBasicBlockTerminator i ps)"
  by (cases ps; simp)+

lemma label_name_eq: "label_name l = label_name l' \<longleftrightarrow> canonical_label l = canonical_label l'"
  by (cases l; cases l') (auto simp: numbered_inj)

text \<open>Different block labels have different names, except that a label for a copy of a block before no
  loop has the name of the block itself.\<close>

theorem label_name_inj:
  "inj_on label_name (range canonical_label) \<and> label_name (canonical_label l) = label_name l"
proof -
  have "canonical_label (canonical_label l) = canonical_label l" for l by (cases l) auto
  then show ?thesis by (auto simp: inj_on_def label_name_eq)
qed

section \<open>Literals\<close>

lemma int_literal_value: "const_to_viper (Const_Int v) pos = Value (Ast_Literal (Ast_IntLit (uint v)) pos)"
proof (cases "v < i64_max")
  case True
  then have "uint v < 2 ^ 63 - 1" by (simp add: word_less_def i64_max_def)
  then have "take_bit 64 (uint v) = uint v" "signed_take_bit 63 (uint v) = uint v"
    by (auto intro!: take_bit_int_eq_self signed_take_bit_int_eq_self intro: order_trans [OF _ uint_ge_0])
  then have "sint (ucast v :: 64 word) = uint v" by (simp add: sint_uint unsigned_ucast_eq)
  then show ?thesis using True by (simp add: int_lit_value)
qed (simp add: int_lit_value)

text \<open>The number that a literal or a negated literal stands for.\<close>

fun literal_value :: "'p viper_expr \<Rightarrow> int option" where
  "literal_value (Ast_Literal (Ast_IntLit i) p) = Some i"
| "literal_value (Ast_Unary Ast_Minus e p) = map_option uminus (literal_value e)"
| "literal_value _ = None"

lemma sint_split:
  "sint (v :: 128 word) = uint v - (if bit (uint v) 127 then 2 ^ 128 else 0)"
proof -
  have "take_bit 128 (uint v) = uint v" using uint_bounded [of v] by (simp add: take_bit_int_eq_self)
  then show ?thesis by (simp add: sint_uint signed_take_bit_eq_take_bit_minus)
qed

lemma uint_nonnegative:
  "\<not> sint (v :: 128 word) < 0 \<Longrightarrow> uint v = sint v"
  using uint_bounded [of v] by (simp add: sint_split split: if_splits)

lemma uint_minus_negative:
  assumes "sint (v :: 128 word) < 0"
  shows "uint (- v) = - sint v"
proof -
  have "uint v \<noteq> 0" using assms by (auto simp: uint_0_iff)
  then have "uint (- v) = 2 ^ 128 - uint v"
    using uint_bounded [of v] by (simp add: uint_word_ariths zmod_zminus1_eq_if)
  moreover have "sint v = uint v - 2 ^ 128"
    using assms uint_ge_0 [of v] by (simp add: sint_split split: if_splits)
  ultimately show ?thesis by simp
qed

text \<open>C25: Integer constants keep their value. An unsigned constant of 128 bits becomes a Viper literal
  with the same value, whether it is small enough to be passed as a signed 64-bit integer or is passed as
  a string. A signed constant of 128 bits, the smallest one included, becomes a literal or a negated
  literal with its value.\<close>

theorem int_literals_exact:
  "const_to_viper (Const_Int v) pos = Value (Ast_Literal (Ast_IntLit (uint v)) pos) \<and>
   (\<exists>e. expr_to_viper ctx (mk_int v) = Value e \<and> literal_value e = Some (sint v))"
  using uint_nonnegative [of v] uint_minus_negative [of v]
  by (auto simp: mk_int_def const_expr_def int_literal_value expr_node_defs simp del: const_to_viper.simps)

section \<open>Branches\<close>

text \<open>The statements that are executed when the conditions have the values given by \<open>holds\<close>.\<close>

fun executed :: "('p viper_expr \<Rightarrow> bool) \<Rightarrow> 'p viper_stmt \<Rightarrow> 'p viper_stmt list" where
  "executed holds (Ast_If c t e p) = (if holds c then executed holds t else executed holds e)"
| "executed holds (Ast_Seqn ss ds info p) = concat (map (executed holds) ss)"
| "executed holds s = [s]"

text \<open>The label and the statements of the first target whose value is equal to the tested value.\<close>

fun matching ::
  "'sp vir_span to_viper_context \<Rightarrow> (ast_expr \<Rightarrow> bool) \<Rightarrow> ast_expr \<Rightarrow> 'sp vir_span goto_if_target list
   \<Rightarrow> cfg_block_label \<times> 'sp vir_span stmt list \<Rightarrow> cfg_block_label \<times> 'sp vir_span stmt list" where
  "matching ctx holds c [] other = other"
| "matching ctx holds c (GotoIfTarget v l ss # ts) other =
     (case expr_to_viper ctx v of
        Value e \<Rightarrow> if holds (eq_cmp c e) then (l, ss) else matching ctx holds c ts other
      | Panicked _ \<Rightarrow> matching ctx holds c ts other)"

definition branch_body :: "'sp vir_span to_viper_context \<Rightarrow> cfg_block_label \<times> 'sp vir_span stmt list \<Rightarrow> ast_stmt list exec" where
  "branch_body ctx b = map_exec (\<lambda>ss. ss @ [goto (label_name (fst b))]) (stmts_to_viper ctx (snd b))"

lemma branches_executed:
  assumes "foldr (branch_to_viper ctx c) targets (map_exec (\<lambda>ss. seqn ss []) (branch_body ctx other)) = Value w"
  shows "\<exists>ss. branch_body ctx (matching ctx holds c targets other) = Value ss \<and> executed holds w = concat (map (executed holds) ss)"
  using assms
proof (induction targets arbitrary: w)
  case Nil
  then show ?case by (auto simp: stmt_node_defs)
next
  case (Cons t targets)
  obtain v l stmts where t: "t = GotoIfTarget v l stmts" by (cases t)
  obtain els ss e where *: "foldr (branch_to_viper ctx c) targets (map_exec (\<lambda>ss. seqn ss []) (branch_body ctx other)) = Value els"
    "stmts_to_viper ctx stmts = Value ss" "expr_to_viper ctx v = Value e"
    "w = seqn [if_stmt (eq_cmp c e) (seqn (ss @ [goto (label_name l)]) []) els] []"
    using Cons.prems t by auto
  show ?case using Cons.IH [OF *(1)] * t by (auto simp: branch_body_def stmt_node_defs)
qed

text \<open>C21: A conditional jump tests its targets in their order. Whatever the conditions are, the code
  that is executed is that of the first target whose value is equal to the tested value, or that of the
  default if there is none: its statements, and then the jump to its label.\<close>

theorem goto_if_first_match:
  assumes "goto_if_to_viper ctx (GotoIfData val targets otherwise stmts) = Value ws" and "targets \<noteq> []"
  shows "\<exists>c ss. expr_to_viper ctx val = Value c \<and>
    branch_body ctx (matching ctx holds c targets (otherwise, stmts)) = Value ss \<and>
    concat (map (executed holds) ws) = concat (map (executed holds) ss)"
proof -
  obtain c w where c: "expr_to_viper ctx val = Value c" "ws = [w]"
    "foldr (branch_to_viper ctx c) targets (map_exec (\<lambda>ss. seqn ss []) (branch_body ctx (otherwise, stmts))) = Value w"
    using assms by (auto simp: branch_body_def)
  then show ?thesis using branches_executed [OF c(3), of holds] by auto
qed

text \<open>An example: a jump on a number, to the first block for 7 and to the end otherwise.\<close>

abbreviation example_number :: "128 word \<Rightarrow> nat vir_span expr" where
  "example_number n \<equiv> Expr (Kind_Const (Const_Int n)) None Ty_Int"

theorem goto_if_first_match_witness:
  "\<exists>ws. goto_if_to_viper empty_context
       (GotoIfData (example_number 3) [GotoIfTarget (example_number 7) (Label_BasicBlock 0) []] Label_End []) = Value ws \<and>
     concat (map (executed (\<lambda>_. True)) ws) = [goto ''bb_0'']"
proof -
  let ?g = "goto_if_to_viper empty_context
    (GotoIfData (example_number 3) [GotoIfTarget (example_number 7) (Label_BasicBlock 0) []] Label_End [])"
  have "returns ?g" by (simp add: stmts_to_viper_def i64_max_def int_lit_value)
  then obtain ws where ws: "?g = Value ws" by (auto simp: returns_iff)
  show ?thesis using goto_if_first_match [OF ws, of "\<lambda>_. True"] ws
    by (auto simp: int_literal_value branch_body_def stmts_to_viper_def stmt_node_defs digits.simps)
qed

section \<open>Jumps\<close>

text \<open>The labels that a statement jumps to, and those that are declared.\<close>

fun jumps :: "'p viper_stmt \<Rightarrow> string set" where
  "jumps (Ast_Goto l p) = {l}"
| "jumps (Ast_If c t e p) = jumps t \<union> jumps e"
| "jumps (Ast_Seqn ss ds info p) = \<Union> (jumps ` set ss)"
| "jumps (Ast_Package w s p) = jumps s"
| "jumps _ = {}"

fun declared_label :: "'p viper_declaration \<Rightarrow> string list" where
  "declared_label (Declared_label (Ast_Label name invs p)) = [name]"
| "declared_label _ = []"

fun terminator_targets :: "'s terminator \<Rightarrow> cfg_block_label set" where
  "terminator_targets Term_AssumeFalse = {Label_End}"
| "terminator_targets (Term_Goto l) = {l}"
| "terminator_targets (Term_GotoIf (GotoIfData val targets otherwise stmts)) =
     insert otherwise ((\<lambda>t. case t of GotoIfTarget v l ss \<Rightarrow> l) ` set targets)"
| "terminator_targets Term_Exit = {}"
| "terminator_targets (Term_Dummy v) = {Label_End}"

lemma stmt_no_jumps: "stmt_to_viper ctx s = Value v \<Longrightarrow> jumps v = {}"
proof (induction ctx s arbitrary: v rule: stmt_to_viper.induct)
  case (8 ctx lhs rhs stmts span)
  then obtain w ss where *: "all_exec (map (stmt_to_viper ctx) stmts) = Value ss" "v = package w (seqn ss []) (span_to_pos span)"
    by auto
  have "\<Union> (jumps ` set ss) \<subseteq> {}"
    by (rule all_exec_within [OF *(1), where h = "\<lambda>_. {}" and S = "{}"]) (use 8 in auto)
  then show ?case using *(2) by (simp add: stmt_node_defs)
next
  case (12 ctx e thn els span)
  then obtain c ts es where *: "all_exec (map (stmt_to_viper ctx) thn) = Value ts"
    "all_exec (map (stmt_to_viper ctx) els) = Value es" "v = if_stmt c (seqn ts []) (seqn es [])" by auto
  have "\<Union> (jumps ` set ts) \<subseteq> {}"
    by (rule all_exec_within [OF *(1), where h = "\<lambda>_. {}" and S = "{}"]) (use 12 in auto)
  moreover have "\<Union> (jumps ` set es) \<subseteq> {}"
    by (rule all_exec_within [OF *(2), where h = "\<lambda>_. {}" and S = "{}"]) (use 12 in auto)
  ultimately show ?case using *(3) by (simp add: stmt_node_defs)
qed (auto simp: stmt_node_defs pure_assign_to_viper_def method_call_to_viper_def)

lemma stmts_no_jumps: "stmts_to_viper ctx ss = Value vs \<Longrightarrow> \<Union> (jumps ` set vs) = {}"
  using all_exec_within [of "stmt_to_viper ctx" ss vs "\<lambda>_. {}" "{}" jumps "{}"] stmt_no_jumps
  by (force simp: stmts_to_viper_def)

lemma branches_jumps:
  assumes "foldr (branch_to_viper ctx c) targets rest = Value w"
  shows "\<exists>r. rest = Value r \<and> jumps w = jumps r \<union> label_name ` ((\<lambda>t. case t of GotoIfTarget v l ss \<Rightarrow> l) ` set targets)"
  using assms
proof (induction targets arbitrary: w)
  case (Cons t targets)
  obtain v l stmts where t: "t = GotoIfTarget v l stmts" by (cases t)
  then obtain els ss e where *: "foldr (branch_to_viper ctx c) targets rest = Value els" "stmts_to_viper ctx stmts = Value ss"
    "w = seqn [if_stmt (eq_cmp c e) (seqn (ss @ [goto (label_name l)]) []) els] []" using Cons.prems by auto
  then show ?case using Cons.IH [OF *(1)] stmts_no_jumps [OF *(2)] t by (auto simp: stmt_node_defs)
qed auto

lemma terminator_jumps:
  assumes "terminator_to_viper ctx pos t = Value ws"
  shows "\<Union> (jumps ` set ws) = label_name ` terminator_targets t"
proof (cases t)
  case (Term_GotoIf g)
  obtain val targets otherwise stmts where g: "g = GotoIfData val targets otherwise stmts" by (cases g)
  obtain ss where ss: "stmts_to_viper ctx stmts = Value ss" "targets = [] \<Longrightarrow> ws = ss @ [goto (label_name otherwise)]"
    "targets \<noteq> [] \<Longrightarrow> \<exists>c w. ws = [w] \<and>
       foldr (branch_to_viper ctx c) targets (Value (seqn (ss @ [goto (label_name otherwise)]) [])) = Value w"
  proof (cases "targets = []")
    case False
    then obtain c w where w: "ws = [w]" "foldr (branch_to_viper ctx c) targets
        (map_exec (\<lambda>ss. seqn ss []) (map_exec (\<lambda>ss. ss @ [goto (label_name otherwise)]) (stmts_to_viper ctx stmts))) = Value w"
      using assms Term_GotoIf g by (auto simp: Let_def)
    obtain ss where "stmts_to_viper ctx stmts = Value ss" using branches_jumps [OF w(2)] by auto
    then show thesis using w False by (intro that) auto
  qed (use assms Term_GotoIf g that in auto)
  show ?thesis
  proof (cases "targets = []")
    case False
    then obtain c w where w: "ws = [w]"
      "foldr (branch_to_viper ctx c) targets (Value (seqn (ss @ [goto (label_name otherwise)]) [])) = Value w" using ss(3) by blast
    show ?thesis using branches_jumps [OF w(2)] stmts_no_jumps [OF ss(1)] w(1) Term_GotoIf g by (auto simp: stmt_node_defs)
  qed (use ss(2) stmts_no_jumps [OF ss(1)] Term_GotoIf g in \<open>auto simp: stmt_node_defs\<close>)
qed (use assms in \<open>auto simp: stmt_node_defs\<close>)

definition label_of :: "'s cfg_block \<Rightarrow> cfg_block_label" where
  "label_of b = block_label (cfg_label b)"

lemma declarations_label:
  assumes "block_declarations ctx b = Value ds"
  shows "concat (map declared_label ds) = [label_name (label_of b)]"
proof -
  let ?decl = "\<lambda>s. case stmt_kind s of
    Stmt_LocalDecl decl _ \<Rightarrow> map_exec (\<lambda>d. [Declared_var d]) (local_decl_to_viper ctx decl) | _ \<Rightarrow> Value []"
  obtain vs where vs: "all_exec (map ?decl (block_stmts b)) = Value vs"
    "ds = Declared_label (label_node (label_name (label_of b)) []) # concat vs"
    using assms by (auto simp: block_declarations_def label_of_def)
  have "\<Union> ((\<lambda>v. \<Union> ((\<lambda>d. set (declared_label d)) ` set v)) ` set vs) \<subseteq> {}"
    by (rule all_exec_within [OF vs(1), where h = "\<lambda>_. {}" and S = "{}"]) (auto split: stmt_kind.splits)
  then have "concat (map declared_label (concat vs)) = []" by auto
  then show ?thesis using vs(2) by (simp add: stmt_node_defs)
qed

lemma block_jumps:
  assumes "cfg_block_to_viper ctx b = Value ws"
  shows "\<Union> (jumps ` set ws) = label_name ` terminator_targets (terminator b)" and "\<exists>invs. Ast_Label (label_name (label_of b)) invs NoPosition \<in> set ws"
proof -
  obtain w ss ts where *: "cfg_label_to_viper ctx (cfg_label b) = Value w" "stmts_to_viper ctx (block_stmts b) = Value ss"
    "terminator_to_viper ctx NoPosition (terminator b) = Value ts" "ws = w # ss @ ts"
    using assms by (auto simp: cfg_block_to_viper_def)
  obtain invs where "w = Ast_Label (label_name (label_of b)) invs NoPosition"
    using *(1) by (auto simp: cfg_label_to_viper_def stmt_node_defs label_of_def)
  then show "\<Union> (jumps ` set ws) = label_name ` terminator_targets (terminator b)"
    and "\<exists>invs. Ast_Label (label_name (label_of b)) invs NoPosition \<in> set ws"
    using *(4) stmts_no_jumps [OF *(2)] terminator_jumps [OF *(3)] by auto
qed

lemma blocks_jumps:
  assumes "list_all2 (\<lambda>b r. map2_exec Pair (block_declarations ctx b) (cfg_block_to_viper ctx b) = Value r) blocks rs"
  shows "concat (map declared_label (concat (map fst rs))) = map (\<lambda>b. label_name (label_of b)) blocks"
    and "\<Union> (jumps ` set (concat (map snd rs))) = label_name ` \<Union> ((\<lambda>b. terminator_targets (terminator b)) ` set blocks)"
    and "b \<in> set blocks \<Longrightarrow> \<exists>invs. Ast_Label (label_name (label_of b)) invs NoPosition \<in> set (concat (map snd rs))"
  using assms
proof (induction rule: list_all2_induct)
  case (Cons b blocks r rs)
  then obtain ds ws where r: "r = (ds, ws)" "block_declarations ctx b = Value ds" "cfg_block_to_viper ctx b = Value ws" by auto
  note facts = declarations_label [OF r(2)] block_jumps [OF r(3)]
  case 1
  then show ?case using Cons.IH(1) facts(1) r(1) by simp
  case 2
  then show ?case using Cons.IH(2) facts(2) r(1) by (simp add: image_Un)
  case 3
  then show ?case using Cons.IH(3) facts(3) r(1) by auto
qed simp_all

text \<open>C17: In the body of a method whose terminators only jump to blocks of the body, every jump goes to a
  label that the body declares and that stands before a block. If the labels of the blocks are
  different, no label is declared twice.\<close>

theorem body_jumps_declared:
  assumes "body_to_viper ctx blocks = Value w"
    and "\<forall>b \<in> set blocks. terminator_targets (terminator b) \<subseteq> label_of ` set blocks"
    and "distinct (map (\<lambda>b. canonical_label (label_of b)) blocks)"
  shows "\<exists>ss ds. w = Ast_Seqn ss ds [] NoPosition \<and> jumps w \<subseteq> set (concat (map declared_label ds)) \<and>
    distinct (concat (map declared_label ds)) \<and>
    (\<forall>l \<in> set (concat (map declared_label ds)). \<exists>invs. Ast_Label l invs NoPosition \<in> set ss)"
proof -
  obtain rs where rs: "list_all2 (\<lambda>b r. map2_exec Pair (block_declarations ctx b) (cfg_block_to_viper ctx b) = Value r) blocks rs"
    "w = Ast_Seqn (concat (map snd rs)) (concat (map fst rs)) [] NoPosition"
    using assms(1) by (auto simp: body_to_viper_def all_exec_map stmt_node_defs)
  note facts = blocks_jumps [OF rs(1)]
  have "jumps w \<subseteq> set (map (\<lambda>b. label_name (label_of b)) blocks)" using assms(2) rs(2) facts(2) by auto
  moreover have "distinct (map (\<lambda>b. label_name (label_of b)) blocks)"
    using assms(3) by (auto simp: distinct_map inj_on_def label_name_eq)
  moreover have "\<forall>l \<in> set (map (\<lambda>b. label_name (label_of b)) blocks). \<exists>invs. Ast_Label l invs NoPosition \<in> set (concat (map snd rs))"
    using facts(3) by auto
  ultimately show ?thesis using rs(2) unfolding facts(1) [symmetric] by blast
qed

theorem body_jumps_declared_witness:
  "\<exists>ss ds. body_to_viper (empty_context :: nat vir_span to_viper_context)
      [CfgBlock (CfgLabel Label_Start []) [] (Term_Goto Label_End), CfgBlock (CfgLabel Label_End []) [] Term_Exit] =
        Value (Ast_Seqn ss ds [] NoPosition) \<and> concat (map declared_label ds) = [''start'', ''end'']"
proof -
  let ?blocks = "[CfgBlock (CfgLabel Label_Start []) [] (Term_Goto Label_End), CfgBlock (CfgLabel Label_End []) [] Term_Exit]
    :: nat vir_span cfg_block list"
  obtain w where w: "body_to_viper empty_context ?blocks = Value w"
    using body_returns [of empty_context ?blocks] by (auto simp: returns_iff block_ok_def)
  have "\<exists>ss ds. w = Ast_Seqn ss ds [] NoPosition \<and> jumps w \<subseteq> set (concat (map declared_label ds))"
    using body_jumps_declared [OF w] by (auto simp: label_of_def)
  moreover have "\<exists>ss ds. w = Ast_Seqn ss ds [] NoPosition \<and> concat (map declared_label ds) = [''start'', ''end'']"
    using w by (auto simp: body_to_viper_def block_declarations_def stmt_node_defs)
  ultimately show ?thesis using w by auto
qed

section \<open>Positions of expressions\<close>

fun node_position :: "'p viper_expr \<Rightarrow> 'p" where
  "node_position (Ast_Literal c p) = p"
| "node_position (Ast_Empty c p) = p"
| "node_position (Ast_Unary c x p) = p"
| "node_position (Ast_Binary c x y p) = p"
| "node_position (Ast_Ternary c x y z p) = p"
| "node_position (Ast_Explicit c xs p) = p"
| "node_position (Ast_LocalVar n t p) = p"
| "node_position (Ast_Result t p) = p"
| "node_position (Ast_LabelledOld x l p) = p"
| "node_position (Ast_FieldAccess x f p) = p"
| "node_position (Ast_FieldAccessPredicate x y p) = p"
| "node_position (Ast_PredicateAccess xs n p) = p"
| "node_position (Ast_PredicateAccessPredicate x y p) = p"
| "node_position (Ast_Let d x y p) = p"
| "node_position (Ast_Forall ds ts x p) = p"
| "node_position (Ast_Exists ds ts x p) = p"
| "node_position (Ast_FuncApp n xs p t) = p"
| "node_position (Ast_DomainFuncApp n xs m p t d) = p"
| "node_position (Ast_BackendFuncApp n xs p t i) = p"
| "node_position (Ast_AdtConstructorApp n xs m p t a) = p"
| "node_position (Ast_AdtDestructorApp n x m p t a) = p"
| "node_position (Ast_AdtDiscriminatorApp n x m p a) = p"
| "node_position (Ast_DecreasesTuple xs c p) = p"
| "node_position (Ast_DecreasesWildcard c p) = p"
| "node_position (Ast_DecreasesStar p) = p"

text \<open>The expressions whose node is created without a position.\<close>

fun drops_position :: "'s to_viper_context \<Rightarrow> 's expr_kind \<Rightarrow> bool" where
  "drops_position ctx (Kind_Exists _ _ _) = True"
| "drops_position ctx (Kind_Old _ l) = (l = Old_None)"
| "drops_position ctx (Kind_Const c) = (c = Const_Wildcard)"
| "drops_position ctx (Kind_InhaleExhale _ _) = True"
| "drops_position ctx (Kind_AdtDestructor _ _) = True"
| "drops_position ctx (Kind_AdtDiscriminator _ _) = True"
| "drops_position ctx (Kind_FuncApp target _ _ _) =
     (domain_functions ctx target = None \<and> adt_constructors ctx target \<noteq> None)"
| "drops_position ctx _ = False"

lemma collection_bin_op_position: "collection_bin_op_to_viper k lt rt l r pos = Value v \<Longrightarrow> node_position v = pos"
  by (cases k) (auto simp: expr_node_defs split: type_kind.splits)

lemma collection_update_position: "collection_update_to_viper t a b c pos = Value v \<Longrightarrow> node_position v = pos"
  by (auto simp: collection_update_to_viper_def expr_node_defs split: type_kind.splits)

text \<open>C33: The node for an expression has the position of the span of the expression, except for
  existential quantifiers, \<^verbatim>\<open>old\<close> without a label, wildcards, inhale-exhale assertions and all nodes for
  ADTs, which have no position at all.\<close>

theorem expr_node_position:
  assumes "expr_to_viper ctx (Expr kind span ty) = Value v"
  shows "node_position v = (if drops_position ctx kind then NoPosition else span_to_pos span)"
proof (cases kind)
  case (Kind_PredicateApp pa)
  then show ?thesis using assms by (cases pa) (auto simp: expr_node_defs)
next
  case (Kind_Const c)
  then show ?thesis using assms by (cases c) (auto simp: expr_node_defs split: if_splits)
next
  case (Kind_Old e l)
  then show ?thesis using assms by (cases l) (auto simp: expr_node_defs)
next
  case (Kind_UnOp k e)
  then show ?thesis using assms by (cases k) (auto simp: expr_node_defs)
next
  case (Kind_BinOp k l r)
  then show ?thesis using assms by (cases k) (auto simp: expr_node_defs)
next
  case (Kind_CollectionBinOp k l r)
  then show ?thesis using assms by (auto dest: collection_bin_op_position)
next
  case (Kind_CollectionUpdate t k e)
  then show ?thesis using assms by (auto dest: collection_update_position)
qed (use assms in \<open>auto simp: expr_node_defs collection_literal_to_viper_def
    collection_len_to_viper_def func_app_to_viper_def adt_destructor_to_viper_def adt_discriminator_to_viper_def
    local_to_viper_def split: type_kind.splits if_splits option.splits\<close>)

theorem expr_node_position_witness:
  "\<exists>v. expr_to_viper empty_context (Expr (Kind_Exists [] [] (example_number 1)) (Some (VirSpan 5 0 None)) Ty_Bool) = Value v \<and>
     node_position v = NoPosition"
proof -
  let ?kind = "Kind_Exists [] [] (example_number 1)"
  have "expr_ok empty_context (Expr ?kind (Some (VirSpan 5 0 None)) Ty_Bool)" by simp
  then obtain v where v: "expr_to_viper empty_context (Expr ?kind (Some (VirSpan 5 0 None)) Ty_Bool) = Value v"
    by (metis expr_returns(1) returns_iff)
  have "node_position v = NoPosition" using expr_node_position [OF v] by simp
  with v show ?thesis by blast
qed

section \<open>Programs\<close>

text \<open>C14: The translation of a program panics exactly when one of the following is the case: a type is
  unsupported, or names neither a domain nor an ADT, or both; an operation on collections is applied
  to another type; the number of type arguments does not fit; an ADT expression is not of an ADT type; an
  expression or a statement is lazy, unfinished or a dummy. In particular the domain of every domain
  function and axiom is found.\<close>

theorem program_to_viper_panics: "(\<exists>v. program_to_viper p = Value v) \<longleftrightarrow> vir_program_ok p"
  using program_returns [of p] by (simp add: returns_iff)

text \<open>If no two domain functions and no two domain axioms have the same name, then every function and
  every axiom of the Viper program is in the domain that its node names.\<close>

theorem declarations_in_their_domain:
  assumes "program_to_viper p = Value v" and "distinct (map fst (function_entries (prog_domains p)))"
    and "distinct (map fst (axiom_entries (prog_domains p)))" and "d \<in> set (vpr_domains v)"
  shows "(\<forall>f \<in> set (vd_functions d). vdf_domain_name f = vd_name d) \<and> (\<forall>a \<in> set (vd_axioms d). vax_domain_name a = vd_name d)"
proof -
  have ds: "all_exec (map (domain_to_viper (context_of p)) (prog_domains p)) = Value (vpr_domains v)"
    using assms(1) by (auto simp: program_to_viper_def program_data_to_viper_def program_node_def)
  obtain x where x: "x \<in> set (prog_domains p)" "domain_to_viper (context_of p) x = Value d"
    using all_exec_member [OF ds assms(4)] by blast
  obtain fs as where fs: "all_exec (map (domain_function_to_viper (context_of p)) (domain_function_list x)) = Value fs"
    "all_exec (map (domain_axiom_to_viper (context_of p)) (domain_axiom_list x)) = Value as"
    "vd_functions d = fs" "vd_axioms d = as" "vd_name d = domain_name x"
    using x(2) by (auto simp: domain_to_viper_def domain_node_def)
  have "vdf_domain_name f = domain_name x" if f: "f \<in> set fs" for f
  proof -
    obtain g where g: "g \<in> set (domain_function_list x)" "domain_function_to_viper (context_of p) g = Value f"
      using all_exec_member [OF fs(1) f] by blast
    then show ?thesis using declared_function(2) [OF x(1) g(1) assms(2)] by (auto simp: domain_function_to_viper_def domain_func_def)
  qed
  moreover have "vax_domain_name a = domain_name x" if a: "a \<in> set as" for a
  proof -
    obtain g where g: "g \<in> set (domain_axiom_list x)" "domain_axiom_to_viper (context_of p) g = Value a"
      using all_exec_member [OF fs(2) a] by blast
    then show ?thesis using declared_axiom(2) [OF x(1) g(1) assms(3)] by (auto simp: domain_axiom_to_viper_def named_domain_axiom_def)
  qed
  ultimately show ?thesis using fs(3-5) by simp
qed

text \<open>An example: a domain with a function and an axiom.\<close>

definition example_domain :: "nat vir_span domain_data" where
  "example_domain =
     DomainData ''D'' [] [DomainAxiomData ''ax'' (Expr (Kind_Const (Const_Bool True)) None Ty_Bool)]
       [DomainFunctionData False (ViperIdent ''f'') [Ty_Int] Ty_Bool None] None"

theorem declarations_in_their_domain_witness:
  "\<exists>v d. program_to_viper (ProgramData [] [] [example_domain] [] [] []) = Value v \<and> d \<in> set (vpr_domains v) \<and>
     map vdf_domain_name (vd_functions d) = [''D''] \<and> map vax_domain_name (vd_axioms d) = [''D'']"
proof -
  let ?p = "ProgramData [] [] [example_domain] [] [] []"
  have "vir_program_ok ?p" by (simp add: vir_program_ok_def domain_ok_def example_domain_def)
  then obtain v where v: "program_to_viper ?p = Value v" using program_returns [of ?p] by (auto simp: returns_iff)
  then obtain d fs as where d: "vpr_domains v = [d]" "vd_name d = ''D''" "vd_functions d = [fs]" "vd_axioms d = [as]"
    by (auto simp: program_to_viper_def program_data_to_viper_def program_node_def domain_to_viper_def domain_node_def
        example_domain_def)
  have "distinct (map fst (function_entries (prog_domains ?p)))" "distinct (map fst (axiom_entries (prog_domains ?p)))"
    by (simp_all add: function_entries_def axiom_entries_def example_domain_def)
  then show ?thesis using declarations_in_their_domain [OF v, of d] v d by auto
qed

end
