(* ===== verification/Spec_Typed.thy ===== *)
theory Spec_Typed
  imports Prusti_Error
begin

text \<open>
  \<^verbatim>\<open>prusti-interface/src/specs/typed.rs\<close> and the attribute readers of \<^verbatim>\<open>utils.rs\<close>: the contracts of
  procedures and types, with the refinement of the contract of a trait method by that of its
  implementation. A definition id is the number of its crate with an index; the current crate is
  number 0. Hash maps are association lists, whose order stands for the order of iteration.
\<close>

section \<open>Definitions and attributes\<close>

datatype def_id = DefId (krate: nat) (def_index: nat)

type_synonym local_def_id = nat

definition to_def_id :: "local_def_id \<Rightarrow> def_id" where
  "to_def_id l = DefId 0 l"

definition is_local :: "def_id \<Rightarrow> bool" where
  "is_local d = (krate d = 0)"

definition as_local :: "def_id \<Rightarrow> local_def_id option" where
  "as_local d = (if is_local d then Some (def_index d) else None)"

text \<open>An attribute with its path, and the literal of an attribute of the form \<^verbatim>\<open>path = literal\<close>.\<close>

datatype 'sp attribute = Unparsed (attr_path: "string list") (attr_value: "string option") (attr_span: 'sp) | Parsed

definition get_prusti_attrs :: "'sp attribute list \<Rightarrow> 'sp attribute list" where
  "get_prusti_attrs attrs =
     filter (\<lambda>a. case a of Unparsed path _ _ \<Rightarrow> length path = 2 \<and> path ! 0 = ''prusti'' | Parsed \<Rightarrow> False) attrs"

definition get_prusti_attr :: "'sp attribute list \<Rightarrow> string \<Rightarrow> 'sp attribute option" where
  "get_prusti_attr attrs name = find (\<lambda>a. attr_path a ! 1 = name) (get_prusti_attrs attrs)"

definition has_prusti_attr :: "'sp attribute list \<Rightarrow> string \<Rightarrow> bool" where
  "has_prusti_attr attrs name = (get_prusti_attr attrs name \<noteq> None)"

definition prusti_attr_span :: "'sp attribute list \<Rightarrow> string \<Rightarrow> 'sp option" where
  "prusti_attr_span attrs name = map_option attr_span (get_prusti_attr attrs name)"

definition prusti_annotation_spans :: "'sp attribute list \<Rightarrow> 'sp list" where
  "prusti_annotation_spans attrs =
     map attr_span (filter (\<lambda>a. attr_path a ! 1 \<noteq> ''specs_version'') (get_prusti_attrs attrs))"

definition has_extern_spec_attr :: "'sp attribute list \<Rightarrow> bool" where
  "has_extern_spec_attr attrs = has_prusti_attr attrs ''extern_spec''"

definition has_to_model_fn_attr :: "'sp attribute list \<Rightarrow> bool" where
  "has_to_model_fn_attr attrs = has_prusti_attr attrs ''type_models_to_model_fn''"

definition has_trait_bounds_type_cond_spec :: "'sp attribute list \<Rightarrow> bool" where
  "has_trait_bounds_type_cond_spec attrs = has_prusti_attr attrs ''type_cond_spec_trait_bounds_in_where_clause''"

definition has_abstract_predicate_attr :: "'sp attribute list \<Rightarrow> bool" where
  "has_abstract_predicate_attr attrs = has_prusti_attr attrs ''abstract_predicate''"

text \<open>The literal of an attribute with its escaped quotes replaced by quotes.\<close>

fun unescape_quotes :: "string \<Rightarrow> string" where
  "unescape_quotes (a # b # s) =
     (if a = CHR 0x5C \<and> b = CHR 0x22 then b # unescape_quotes s else a # unescape_quotes (b # s))"
| "unescape_quotes s = s"

definition read_prusti_attrs :: "string \<Rightarrow> 'sp attribute list \<Rightarrow> string list" where
  "read_prusti_attrs name attrs =
     map unescape_quotes (List.map_filter attr_value (filter (\<lambda>a. attr_path a ! 1 = name) (get_prusti_attrs attrs)))"

definition read_prusti_attr :: "string \<Rightarrow> 'sp attribute list \<Rightarrow> string option" where
  "read_prusti_attr name attrs = (case read_prusti_attrs name attrs of [] \<Rightarrow> None | v # _ \<Rightarrow> Some v)"

text \<open>The queries to the compiler, and the configuration.\<close>

record ('sp, 'ms) spec_env =
  get_local_attributes :: "local_def_id \<Rightarrow> 'sp attribute list"
  get_item_name :: "def_id \<Rightarrow> string"
  krate_name :: "nat \<Rightarrow> string"
  get_def_span :: "def_id \<Rightarrow> 'sp"
  from_spans :: "'sp list \<Rightarrow> 'ms"
  opt_in_verification :: bool
  enable_type_invariants :: bool
  skip_unsupported_features :: bool

text \<open>The errors of \<^verbatim>\<open>PrustiError::incorrect\<close> and \<^verbatim>\<open>PrustiError::unsupported\<close> for messages that pass their check.\<close>

definition incorrect_value :: "string \<Rightarrow> 'ms \<Rightarrow> 'ms prusti_error" where
  "incorrect_value message sp = prusti_error_new (''[Prusti: invalid specification] '' @ message) sp"

definition unsupported_value :: "bool \<Rightarrow> string \<Rightarrow> 'ms \<Rightarrow> 'ms prusti_error" where
  "unsupported_value skip message sp =
     (let e = prusti_error_new (''[Prusti: unsupported feature] '' @ message) sp in if skip then set_warning e else e)"

section \<open>Items\<close>

datatype 'a specification_item = Item_Empty | Inherent 'a | Inherited 'a | Refined 'a 'a

definition item_is_empty :: "'a specification_item \<Rightarrow> bool" where
  "item_is_empty i = (i = Item_Empty)"

fun item_get :: "'a specification_item \<Rightarrow> ('a option \<times> 'a) option" where
  "item_get Item_Empty = None"
| "item_get (Inherited val) = Some (None, val)"
| "item_get (Inherent val) = Some (None, val)"
| "item_get (Refined from to) = Some (Some from, to)"

definition extract_with_strategy :: "('a option \<times> 'a \<Rightarrow> 'r) \<Rightarrow> 'a specification_item \<Rightarrow> 'r option" where
  "extract_with_strategy strategy i = map_option strategy (item_get i)"

definition extract_with_selective_replacement :: "'a specification_item \<Rightarrow> 'a option" where
  "extract_with_selective_replacement = extract_with_strategy (\<lambda>(_, refined). refined)"

fun expect_empty_or_inherent :: "'a specification_item \<Rightarrow> 'a option exec" where
  "expect_empty_or_inherent Item_Empty = Value None"
| "expect_empty_or_inherent (Inherent item) = Value (Some item)"
| "expect_empty_or_inherent _ = panic ''internal error: entered unreachable code''"

fun expect_inherent :: "'a specification_item \<Rightarrow> 'a exec" where
  "expect_inherent (Inherent item) = Value item"
| "expect_inherent _ = panic ''internal error: entered unreachable code''"

fun expect_inherited :: "'a specification_item \<Rightarrow> 'a exec" where
  "expect_inherited (Inherited item) = Value item"
| "expect_inherited _ = panic ''internal error: entered unreachable code''"

fun expect_refined :: "'a specification_item \<Rightarrow> ('a \<times> 'a) exec" where
  "expect_refined (Refined a b) = Value (a, b)"
| "expect_refined _ = panic ''internal error: entered unreachable code''"

fun item_set :: "'a \<Rightarrow> 'a specification_item \<Rightarrow> 'a specification_item" where
  "item_set v Item_Empty = Inherent v"
| "item_set v (Inherent _) = Inherent v"
| "item_set v (Refined from _) = Refined from v"
| "item_set v (Inherited inherited) = Refined inherited v"

definition extract_inherit :: "bool specification_item \<Rightarrow> bool option" where
  "extract_inherit = extract_with_strategy (\<lambda>(refined_from, refined). (case refined_from of Some b \<Rightarrow> b | None \<Rightarrow> False) \<or> refined)"

fun item_push :: "'a \<Rightarrow> 'a list specification_item \<Rightarrow> 'a list specification_item" where
  "item_push v Item_Empty = Inherent [v]"
| "item_push v (Inherent vs) = Inherent (vs @ [v])"
| "item_push v (Refined from vs) = Refined from (vs @ [v])"
| "item_push v (Inherited inherited) = Refined inherited [v]"

definition item_new :: "'a list \<Rightarrow> 'a list specification_item" where
  "item_new vs = (if vs = [] then Item_Empty else Inherent vs)"

definition item_iter :: "'a list specification_item \<Rightarrow> 'a list" where
  "item_iter i = (case extract_with_selective_replacement i of Some vs \<Rightarrow> vs | None \<Rightarrow> [])"

fun refine_item :: "'a specification_item \<Rightarrow> 'a specification_item \<Rightarrow> 'a specification_item exec" where
  "refine_item i other =
     bind_exec
       (case other of
          Item_Empty \<Rightarrow> panic ''internal error: entered unreachable code: Trait spec should never be empty''
        | Inherent val \<Rightarrow> Value val
        | Inherited val \<Rightarrow> Value val
        | Refined _ _ \<Rightarrow> panic ''Can not refine with a refined item'')
       (\<lambda>other_val.
         case i of
           Item_Empty \<Rightarrow> Value (Inherited other_val)
         | Inherent val \<Rightarrow> Value (Refined other_val val)
         | Inherited val \<Rightarrow> Value (Refined other_val val)
         | Refined from val \<Rightarrow>
             if from = other_val then Value (Refined from val) else panic ''Can not refine this refined item'')"

section \<open>Specifications\<close>

datatype proc_kind = Impure | Pure | Predicate "def_id option"

datatype proc_kind_error = InvalidSpecKindRefinement proc_kind proc_kind

fun kind_validate :: "proc_kind specification_item \<Rightarrow> proc_kind_error + unit" where
  "kind_validate (Refined base refined) =
     (case (base, refined) of
        (Impure, Impure) \<Rightarrow> Inr ()
      | (Impure, Pure) \<Rightarrow> Inr ()
      | (Pure, Pure) \<Rightarrow> Inr ()
      | (Predicate _, Predicate _) \<Rightarrow> Inr ()
      | _ \<Rightarrow> Inl (InvalidSpecKindRefinement base refined))"
| "kind_validate _ = Inr ()"

definition is_pure :: "proc_kind specification_item \<Rightarrow> proc_kind_error + bool" where
  "is_pure i =
     rbind (kind_validate i) (\<lambda>_. Inr
       (case extract_with_selective_replacement i of Some Pure \<Rightarrow> True | Some (Predicate _) \<Rightarrow> True | _ \<Rightarrow> False))"

definition is_impure :: "proc_kind specification_item \<Rightarrow> proc_kind_error + bool" where
  "is_impure i =
     rbind (kind_validate i) (\<lambda>_. Inr
       (case extract_with_selective_replacement i of Some refined \<Rightarrow> refined = Impure | None \<Rightarrow> True))"

definition get_predicate_body :: "proc_kind specification_item \<Rightarrow> proc_kind_error + def_id option" where
  "get_predicate_body i =
     rbind (kind_validate i) (\<lambda>_. Inr
       (case extract_with_selective_replacement i of Some (Predicate pred_id) \<Rightarrow> pred_id | _ \<Rightarrow> None))"

datatype extern_spec_kind = Extern_InherentImpl | Extern_TraitImpl | Extern_Trait | Extern_Method

record pledge =
  pledge_lhs :: "def_id option"
  pledge_rhs :: def_id

record proc_spec =
  source :: def_id
  extern_spec :: "extern_spec_kind option"
  proc_kind :: "proc_kind specification_item"
  pres :: "def_id list specification_item"
  posts :: "def_id list specification_item"
  pledges :: "pledge list specification_item"
  trusted :: "bool specification_item"
  terminates :: "local_def_id option specification_item"
  purity :: "def_id option specification_item"

definition proc_spec_empty :: "def_id \<Rightarrow> proc_spec" where
  "proc_spec_empty src =
     \<lparr>source = src, extern_spec = None, proc_kind = Inherent Impure, pres = Item_Empty, posts = Item_Empty,
      pledges = Item_Empty, trusted = Inherent False, terminates = Inherent None, purity = Inherent None\<rparr>"

definition empty_inheriting :: "def_id \<Rightarrow> proc_spec" where
  "empty_inheriting src =
     \<lparr>source = src, extern_spec = None, proc_kind = Item_Empty, pres = Item_Empty, posts = Item_Empty,
      pledges = Item_Empty, trusted = Item_Empty, terminates = Item_Empty, purity = Item_Empty\<rparr>"

definition replace_empty :: "'a list specification_item \<Rightarrow> 'a list specification_item" where
  "replace_empty i = (case i of Item_Empty \<Rightarrow> Inherent [] | other \<Rightarrow> other)"

text \<open>The parts are refined in the order in which the source lists them.\<close>

definition refine_spec :: "proc_spec \<Rightarrow> proc_spec \<Rightarrow> proc_spec exec" where
  "refine_spec s other =
     bind_exec (refine_item (pres s) (replace_empty (pres other))) (\<lambda>pre.
     bind_exec (refine_item (posts s) (replace_empty (posts other))) (\<lambda>post.
     bind_exec (refine_item (pledges s) (replace_empty (pledges other))) (\<lambda>pledge.
     bind_exec (refine_item (proc_kind s) (proc_kind other)) (\<lambda>kind.
     bind_exec (refine_item (trusted s) (trusted other)) (\<lambda>trust.
     bind_exec (refine_item (terminates s) (terminates other)) (\<lambda>term.
     map_exec (\<lambda>pure.
       \<lparr>source = source s,
        extern_spec = (case extern_spec s of Some k \<Rightarrow> Some k | None \<Rightarrow> extern_spec other),
        proc_kind = kind, pres = pre, posts = post, pledges = pledge, trusted = trust, terminates = term, purity = pure\<rparr>)
       (refine_item (purity s) (purity other))))))))"

section \<open>Specification graphs\<close>

datatype spec_constraint_kind = ResolveGenericParamTraitBounds

record 't spec_graph =
  base_spec :: 't
  specs_with_constraints :: "(spec_constraint_kind, 't) index_map"

definition graph_new :: "'t \<Rightarrow> 't spec_graph" where
  "graph_new spec = \<lparr>base_spec = spec, specs_with_constraints = []\<rparr>"

text \<open>An update of the base spec and of all constrained specs, and one of a constrained spec, which is created as
  a copy of the base spec if it does not exist.\<close>

definition update_all :: "('t \<Rightarrow> 't) \<Rightarrow> 't spec_graph \<Rightarrow> 't spec_graph" where
  "update_all f g =
     g\<lparr>base_spec := f (base_spec g), specs_with_constraints := map (\<lambda>(c, s). (c, f s)) (specs_with_constraints g)\<rparr>"

definition update_constrained :: "spec_constraint_kind \<Rightarrow> ('t \<Rightarrow> 't) \<Rightarrow> 't spec_graph \<Rightarrow> 't spec_graph" where
  "update_constrained c f g =
     g\<lparr>specs_with_constraints :=
        AList.update c (f (case map_of (specs_with_constraints g) c of Some s \<Rightarrow> s | None \<Rightarrow> base_spec g))
          (specs_with_constraints g)\<rparr>"

definition get_constraint :: "('sp, 'ms) spec_env \<Rightarrow> local_def_id \<Rightarrow> spec_constraint_kind option" where
  "get_constraint env spec =
     (if has_trait_bounds_type_cond_spec (get_local_attributes env spec) then Some ResolveGenericParamTraitBounds else None)"

definition add_precondition :: "('sp, 'ms) spec_env \<Rightarrow> local_def_id \<Rightarrow> proc_spec spec_graph \<Rightarrow> proc_spec spec_graph" where
  "add_precondition env pre g =
     (case get_constraint env pre of
        None \<Rightarrow> g\<lparr>base_spec := pres_update (item_push (to_def_id pre)) (base_spec g)\<rparr>
      | Some constraint \<Rightarrow> update_constrained constraint (pres_update (item_push (to_def_id pre))) g)"

definition add_postcondition :: "('sp, 'ms) spec_env \<Rightarrow> local_def_id \<Rightarrow> proc_spec spec_graph \<Rightarrow> proc_spec spec_graph" where
  "add_postcondition env post g =
     (case get_constraint env post of
        None \<Rightarrow> update_all (posts_update (item_push (to_def_id post))) g
      | Some obligation \<Rightarrow> update_constrained obligation (posts_update (item_push (to_def_id post))) g)"

definition add_purity :: "('sp, 'ms) spec_env \<Rightarrow> local_def_id \<Rightarrow> proc_spec spec_graph \<Rightarrow> proc_spec spec_graph exec" where
  "add_purity env pure g =
     (case get_constraint env pure of
        None \<Rightarrow>
          panic ''internal error: entered unreachable code: separate purity defs are only used for type-conditional spec refinements''
      | Some constraint \<Rightarrow>
          Value (update_constrained constraint
            (\<lambda>s. (purity_update (item_set (Some (to_def_id pure))) s)\<lparr>proc_kind := Inherent Pure\<rparr>) g))"

definition add_pledge :: "pledge \<Rightarrow> proc_spec spec_graph \<Rightarrow> proc_spec spec_graph" where
  "add_pledge p = update_all (pledges_update (item_push p))"

definition set_trusted :: "bool \<Rightarrow> proc_spec spec_graph \<Rightarrow> proc_spec spec_graph" where
  "set_trusted b = update_all (trusted_update (item_set b))"

definition set_terminates :: "local_def_id \<Rightarrow> proc_spec spec_graph \<Rightarrow> proc_spec spec_graph" where
  "set_terminates t = update_all (terminates_update (item_set (Some t)))"

definition set_kind :: "proc_kind \<Rightarrow> proc_spec spec_graph \<Rightarrow> proc_spec spec_graph" where
  "set_kind k = update_all (proc_kind_update (item_set k))"

definition set_extern_spec :: "extern_spec_kind \<Rightarrow> proc_spec spec_graph \<Rightarrow> proc_spec spec_graph" where
  "set_extern_spec k = update_all (extern_spec_update (\<lambda>_. Some k))"

section \<open>The specifications of a crate\<close>

datatype loop_spec = Invariant local_def_id | Variant local_def_id

record type_spec =
  type_source :: def_id
  type_invariant :: "def_id list specification_item"
  type_trusted :: "bool specification_item"
  type_model :: "(string \<times> local_def_id) option"
  counterexample_print :: "(string option \<times> local_def_id) list"

definition type_spec_empty :: "def_id \<Rightarrow> type_spec" where
  "type_spec_empty src =
     \<lparr>type_source = src, type_invariant = Item_Empty, type_trusted = Inherent False, type_model = None,
      counterexample_print = []\<rparr>"

text \<open>A \<^verbatim>\<open>prusti_assert!\<close>, \<^verbatim>\<open>prusti_assume!\<close> or \<^verbatim>\<open>prusti_refute!\<close> is the id of its spec function.\<close>

record def_spec_map =
  proc_specs :: "(def_id, proc_spec spec_graph) index_map"
  loop_specs :: "(def_id, loop_spec) index_map"
  type_specs :: "(def_id, type_spec) index_map"
  prusti_assertions :: "(def_id, local_def_id) index_map"
  prusti_assumptions :: "(def_id, local_def_id) index_map"
  prusti_refutations :: "(def_id, local_def_id) index_map"

definition def_spec_map_new :: def_spec_map where
  "def_spec_map_new =
     \<lparr>proc_specs = [], loop_specs = [], type_specs = [], prusti_assertions = [], prusti_assumptions = [],
      prusti_refutations = []\<rparr>"

definition map_get_loop_spec :: "def_spec_map \<Rightarrow> def_id \<Rightarrow> loop_spec option" where
  "map_get_loop_spec m d = map_of (loop_specs m) d"

definition map_get_proc_spec :: "def_spec_map \<Rightarrow> def_id \<Rightarrow> proc_spec spec_graph option" where
  "map_get_proc_spec m d = map_of (proc_specs m) d"

definition map_get_type_spec :: "def_spec_map \<Rightarrow> def_id \<Rightarrow> type_spec option" where
  "map_get_type_spec m d = map_of (type_specs m) d"

definition map_get_assertion :: "def_spec_map \<Rightarrow> def_id \<Rightarrow> local_def_id option" where
  "map_get_assertion m d = map_of (prusti_assertions m) d"

definition map_get_assumption :: "def_spec_map \<Rightarrow> def_id \<Rightarrow> local_def_id option" where
  "map_get_assumption m d = map_of (prusti_assumptions m) d"

definition map_get_refutation :: "def_spec_map \<Rightarrow> def_id \<Rightarrow> local_def_id option" where
  "map_get_refutation m d = map_of (prusti_refutations m) d"

text \<open>What is exported for one specification of a procedure: spec functions, pure functions and predicates.\<close>

definition all_specs :: "'t spec_graph \<Rightarrow> 't list" where
  "all_specs g = base_spec g # map snd (specs_with_constraints g)"

definition export_spec :: "def_id \<Rightarrow> proc_spec \<Rightarrow> (def_id list \<times> def_id list \<times> def_id list) exec" where
  "export_spec d s =
     (let terms = (case extract_with_selective_replacement (terminates s) of Some (Some t) \<Rightarrow> [to_def_id t] | _ \<Rightarrow> []);
          specs = item_iter (pres s) @ item_iter (posts s) @ terms @
            List.map_filter pledge_lhs (item_iter (pledges s)) @ map pledge_rhs (item_iter (pledges s)) in
      case extract_inherit (trusted s) of
        None \<Rightarrow> panic ''Expected trusted''
      | Some t \<Rightarrow>
          let is_trusted = t \<and> (d = source s \<or> \<not> is_local d) in
          case is_pure (proc_kind s) of
            Inl _ \<Rightarrow> panic ''Expected pure''
          | Inr pure \<Rightarrow>
              Value (specs, if pure \<and> \<not> is_trusted then [d] else [],
                case extract_with_selective_replacement (proc_kind s) of Some (Predicate (Some p)) \<Rightarrow> [p] | _ \<Rightarrow> []))"

definition defid_for_export :: "def_spec_map \<Rightarrow> (def_id list \<times> def_id list \<times> def_id list) exec" where
  "defid_for_export m =
     map_exec
       (\<lambda>xs. (concat (map fst xs) @ concat (map (\<lambda>(_, t). item_iter (type_invariant t)) (type_specs m)),
              concat (map (fst \<circ> snd) xs), concat (map (snd \<circ> snd) xs)))
       (all_exec (concat (map (\<lambda>(d, g). map (export_spec d) (all_specs g)) (proc_specs m))))"

text \<open>Imported specifications replace those that are there; for each that is replaced an error is reported.\<close>

definition duplicate_error :: "('sp, 'ms) spec_env \<Rightarrow> def_id \<Rightarrow> def_id \<Rightarrow> def_id \<Rightarrow> 'ms env_diagnostic \<Rightarrow> 'ms env_diagnostic" where
  "duplicate_error env item_id spec_id_a spec_id_b =
     report_error (incorrect_value
       (''duplicate specification for `'' @ get_item_name env item_id @ ''` from crate `'' @
        krate_name env (krate spec_id_a) @ ''` and `'' @ krate_name env (krate spec_id_b) @ ''`'')
       (from_spans env [get_def_span env spec_id_a, get_def_span env spec_id_b]))"

definition import_proc ::
  "('sp, 'ms) spec_env \<Rightarrow> def_id \<times> proc_spec spec_graph \<Rightarrow> def_spec_map \<times> 'ms env_diagnostic \<Rightarrow> def_spec_map \<times> 'ms env_diagnostic" where
  "import_proc env = (\<lambda>(k, v) (m, d).
     (m\<lparr>proc_specs := AList.update k v (proc_specs m)\<rparr>,
      case map_of (proc_specs m) k of
        Some other \<Rightarrow> duplicate_error env k (source (base_spec other)) (source (base_spec v)) d
      | None \<Rightarrow> d))"

definition import_type ::
  "('sp, 'ms) spec_env \<Rightarrow> def_id \<times> type_spec \<Rightarrow> def_spec_map \<times> 'ms env_diagnostic \<Rightarrow> def_spec_map \<times> 'ms env_diagnostic" where
  "import_type env = (\<lambda>(k, v) (m, d).
     (m\<lparr>type_specs := AList.update k v (type_specs m)\<rparr>,
      case map_of (type_specs m) k of
        Some other \<Rightarrow> duplicate_error env k (type_source other) (type_source v) d
      | None \<Rightarrow> d))"

definition import_external ::
  "('sp, 'ms) spec_env \<Rightarrow> (def_id, proc_spec spec_graph) index_map \<Rightarrow> (def_id, type_spec) index_map
   \<Rightarrow> def_spec_map \<times> 'ms env_diagnostic \<Rightarrow> def_spec_map \<times> 'ms env_diagnostic" where
  "import_external env procs types = fold (import_type env) types \<circ> fold (import_proc env) procs"

declare item_is_empty_def [spec_simps] extract_with_selective_replacement_def [spec_simps] extract_with_strategy_def [spec_simps]

end
