(* ===== verification/Spec_Collect.thy ===== *)
theory Spec_Collect
  imports Spec_Typed
begin

text \<open>
  \<^verbatim>\<open>prusti-interface/src/specs/mod.rs\<close> and \<^verbatim>\<open>external.rs\<close>: collecting the specifications of a crate from the
  attributes that the procedural macros leave on functions, and building the contracts from them. The
  visitor gets the functions, trait items and closures in the order of the walk; what it asks the
  compiler about them is part of the item. Specification ids (\<open>'u\<close>) are parsed by the package \<^verbatim>\<open>uuid\<close>, and generic
  arguments (\<open>'ga\<close>) are opaque.
\<close>

section \<open>References to specifications\<close>

datatype 'u spec_id_ref =
  Ref_Precondition 'u | Ref_Postcondition 'u | Ref_Purity 'u | Ref_Pledge "'u option" 'u | Ref_Predicate 'u | Ref_Terminates 'u

record 'u proc_spec_refs =
  spec_id_refs :: "'u spec_id_ref list"
  refs_pure :: bool
  refs_abstract_predicate :: bool
  refs_trusted :: bool

definition kind_of_refs :: "'u proc_spec_refs \<Rightarrow> proc_kind" where
  "kind_of_refs refs =
     (if refs_abstract_predicate refs then Predicate None else if refs_pure refs then Pure else Impure)"

record type_spec_refs =
  type_invariants :: "local_def_id list"
  type_refs_trusted :: bool
  type_refs_model :: "(string \<times> local_def_id) option"
  countexample_print :: "(string option \<times> local_def_id) list"

definition type_spec_refs_default :: type_spec_refs where
  "type_spec_refs_default =
     \<lparr>type_invariants = [], type_refs_trusted = False, type_refs_model = None, countexample_print = []\<rparr>"

definition parse_spec_id :: "(string \<Rightarrow> 'u option) \<Rightarrow> string \<Rightarrow> 'u exec" where
  "parse_spec_id parse_uuid spec_id =
     (case parse_uuid spec_id of Some u \<Rightarrow> Value u | None \<Rightarrow> panic ''cannot parse the spec_id'')"

definition read_spec_ids :: "(string \<Rightarrow> 'u option) \<Rightarrow> string \<Rightarrow> 'sp attribute list \<Rightarrow> 'u list exec" where
  "read_spec_ids parse_uuid name attrs = all_exec (map (parse_spec_id parse_uuid) (read_prusti_attrs name attrs))"

text \<open>The pair of the two sides of an \<^verbatim>\<open>assert_on_expiry\<close> pledge.\<close>

definition assert_pledges :: "(string \<Rightarrow> 'u option) \<Rightarrow> 'sp attribute list \<Rightarrow> 'u spec_id_ref list exec" where
  "assert_pledges parse_uuid attrs =
     (case (read_prusti_attr ''assert_pledge_spec_id_ref_lhs'' attrs, read_prusti_attr ''assert_pledge_spec_id_ref_rhs'' attrs) of
        (Some lhs_id, Some rhs_id) \<Rightarrow>
          map2_exec (\<lambda>l r. [Ref_Pledge (Some l) r]) (parse_spec_id parse_uuid lhs_id) (parse_spec_id parse_uuid rhs_id)
      | (None, None) \<Rightarrow> Value []
      | _ \<Rightarrow> panic ''internal error: entered unreachable code'')"

definition get_spec_id_refs :: "(string \<Rightarrow> 'u option) \<Rightarrow> 'sp attribute list \<Rightarrow> 'u spec_id_ref list exec" where
  "get_spec_id_refs parse_uuid attrs =
     map_exec concat (all_exec
       [map_exec (map Ref_Precondition) (read_spec_ids parse_uuid ''pre_spec_id_ref'' attrs),
        map_exec (map Ref_Postcondition) (read_spec_ids parse_uuid ''post_spec_id_ref'' attrs),
        map_exec (map Ref_Purity) (read_spec_ids parse_uuid ''pure_spec_id_ref'' attrs),
        map_exec (map Ref_Terminates) (read_spec_ids parse_uuid ''terminates_spec_id_ref'' attrs),
        map_exec (map (Ref_Pledge None)) (read_spec_ids parse_uuid ''pledge_spec_id_ref'' attrs),
        assert_pledges parse_uuid attrs,
        map_exec (map Ref_Predicate) (map_exec (\<lambda>u. case u of Some x \<Rightarrow> [x] | None \<Rightarrow> [])
          (opt_exec (map_option (parse_spec_id parse_uuid) (read_prusti_attr ''pred_spec_id_ref'' attrs))))])"

definition get_procedure_spec_ids ::
  "(string \<Rightarrow> 'u option) \<Rightarrow> bool \<Rightarrow> 'sp attribute list \<Rightarrow> 'u proc_spec_refs option exec" where
  "get_procedure_spec_ids parse_uuid opt_in attrs =
     map_exec
       (\<lambda>refs.
         let is_predicate = (refs \<noteq> [] \<and> (case last refs of Ref_Predicate _ \<Rightarrow> True | _ \<Rightarrow> False));
             pure = has_prusti_attr attrs ''pure'';
             trust = has_prusti_attr attrs ''trusted'' \<or>
               \<not> is_predicate \<and> opt_in \<and> \<not> has_prusti_attr attrs ''verified'';
             abstract = has_abstract_predicate_attr attrs in
         if abstract \<or> pure \<or> trust \<or> refs \<noteq> []
         then Some \<lparr>spec_id_refs = refs, refs_pure = pure, refs_abstract_predicate = abstract, refs_trusted = trust\<rparr>
         else None)
       (get_spec_id_refs parse_uuid attrs)"

section \<open>External specifications\<close>

datatype extern_decl =
  is_Decl_Inherent: Decl_Inherent def_id | is_Decl_TraitImpl: Decl_TraitImpl def_id def_id | is_Decl_Trait: Decl_Trait def_id |
  is_Decl_Method: Decl_Method def_id

fun get_target_def_id :: "extern_decl \<Rightarrow> def_id" where
  "get_target_def_id (Decl_Inherent did) = did"
| "get_target_def_id (Decl_TraitImpl _ did) = did"
| "get_target_def_id (Decl_Trait did) = did"
| "get_target_def_id (Decl_Method did) = did"

fun extern_kind_of :: "extern_decl \<Rightarrow> extern_spec_kind" where
  "extern_kind_of (Decl_Inherent _) = Extern_InherentImpl"
| "extern_kind_of (Decl_TraitImpl _ _) = Extern_TraitImpl"
| "extern_kind_of (Decl_Trait _) = Extern_Trait"
| "extern_kind_of (Decl_Method _) = Extern_Method"

definition extern_kind_try_from :: "string \<Rightarrow> extern_spec_kind option" where
  "extern_kind_try_from s =
     (if s = ''inherent_impl'' then Some Extern_InherentImpl
      else if s = ''trait_impl'' then Some Extern_TraitImpl
      else if s = ''trait'' then Some Extern_Trait
      else if s = ''method'' then Some Extern_Method
      else None)"

datatype 'sp resolver_error =
  InvalidExternSpecForTraitImpl def_id 'sp | InvalidGenerics int def_id 'sp | ResolvedToDefault def_id 'sp

record 'sp extern_resolver =
  extern_fn_map :: "(extern_decl, def_id) index_map"
  spec_duplicates :: "(def_id, (def_id \<times> 'sp) list) index_map"
  resolver_errors :: "'sp resolver_error list"

definition extern_resolver_new :: "'sp extern_resolver" where
  "extern_resolver_new = \<lparr>extern_fn_map = [], spec_duplicates = [], resolver_errors = []\<rparr>"

text \<open>What the compiler knows about methods and calls.\<close>

record 'ga call_env =
  impl_of_assoc :: "def_id \<Rightarrow> def_id option"
  impl_of_trait :: "def_id \<Rightarrow> def_id option"
  get_trait_of_assoc :: "def_id \<Rightarrow> def_id option"
  find_impl_of_trait_method_call :: "def_id \<Rightarrow> def_id \<Rightarrow> 'ga \<Rightarrow> def_id option"
  resolve_method_call :: "def_id \<Rightarrow> def_id \<Rightarrow> 'ga \<Rightarrow> def_id"
  count_generics :: "def_id \<Rightarrow> nat"

definition is_trait_method_impl :: "'ga call_env \<Rightarrow> def_id \<Rightarrow> bool" where
  "is_trait_method_impl cenv d = (Option.bind (impl_of_assoc cenv d) (impl_of_trait cenv) \<noteq> None)"

definition from_method_call :: "'ga call_env \<Rightarrow> def_id \<Rightarrow> def_id \<Rightarrow> 'ga \<Rightarrow> extern_decl" where
  "from_method_call cenv caller d substs =
     (let is_impl_method = is_trait_method_impl cenv d;
          is_trait_method = (get_trait_of_assoc cenv d \<noteq> None);
          maybe_impl = find_impl_of_trait_method_call cenv caller d substs in
      case (is_trait_method, maybe_impl) of
        (True, None) \<Rightarrow> Decl_Trait d
      | (True, Some i) \<Rightarrow> Decl_TraitImpl d i
      | (False, _) \<Rightarrow> if is_impl_method then Decl_Inherent d else Decl_Method d)"

definition register_duplicate_spec :: "def_id \<Rightarrow> def_id \<Rightarrow> 'sp \<Rightarrow> 'sp extern_resolver \<Rightarrow> 'sp extern_resolver" where
  "register_duplicate_spec decl_id dup_id sp r =
     r\<lparr>spec_duplicates :=
        AList.update decl_id ((case map_of (spec_duplicates r) decl_id of Some xs \<Rightarrow> xs | None \<Rightarrow> []) @ [(dup_id, sp)])
          (spec_duplicates r)\<rparr>"

definition check_validity :: "extern_spec_kind \<Rightarrow> extern_decl \<Rightarrow> 'sp \<Rightarrow> 'sp extern_resolver \<Rightarrow> 'sp extern_resolver" where
  "check_validity kind decl sp r =
     (case (kind, decl) of
        (Extern_InherentImpl, Decl_TraitImpl d _) \<Rightarrow>
          r\<lparr>resolver_errors := resolver_errors r @ [InvalidExternSpecForTraitImpl d sp]\<rparr>
      | _ \<Rightarrow> r)"

text \<open>The check that the call could be made with the type arguments of the external specification.\<close>

definition check_resolution ::
  "'ga call_env \<Rightarrow> def_id \<Rightarrow> def_id \<Rightarrow> 'ga \<Rightarrow> 'sp \<Rightarrow> extern_spec_kind \<Rightarrow> 'sp extern_resolver \<Rightarrow> 'sp extern_resolver" where
  "check_resolution cenv current target substs sp kind r =
     (let resolved = resolve_method_call cenv current target substs in
      if kind = Extern_TraitImpl \<and> resolved = target
      then r\<lparr>resolver_errors := resolver_errors r @ [ResolvedToDefault target sp]\<rparr>
      else
        let resolved_gens = count_generics cenv resolved; current_gens = count_generics cenv current in
        if resolved_gens \<noteq> current_gens
        then r\<lparr>resolver_errors := resolver_errors r @ [InvalidGenerics (int resolved_gens - int current_gens) resolved sp]\<rparr>
        else r)"

text \<open>\<open>spec_found\<close> is the call that the visitor finds in the body of the function.\<close>

definition add_extern_fn ::
  "'ga call_env \<Rightarrow> (def_id \<times> 'ga \<times> 'sp) option \<Rightarrow> local_def_id \<Rightarrow> extern_spec_kind \<Rightarrow> 'sp extern_resolver
   \<Rightarrow> 'sp extern_resolver exec" where
  "add_extern_fn cenv spec_found local_id kind r =
     (case spec_found of
        None \<Rightarrow> Value r
      | Some (target, substs, sp) \<Rightarrow>
          let current = to_def_id local_id; decl = from_method_call cenv current target substs in
          if kind = Extern_Trait \<and> \<not> is_Decl_Trait decl
          then panic ''internal error: entered unreachable code: External specification declared on a trait did not resolve to a trait method''
          else if kind = Extern_TraitImpl \<and> \<not> is_Decl_TraitImpl decl
          then panic ''internal error: entered unreachable code: External specification declared on a trait implementation did not resolve to a concrete type''
          else
            let r1 = check_resolution cenv current target substs sp kind r in
            Value
              (if map_of (extern_fn_map r1) decl \<noteq> None then register_duplicate_spec target current sp r1
               else
                 let r2 = check_validity kind decl sp r1 in
                 r2\<lparr>extern_fn_map := AList.update decl current (extern_fn_map r2)\<rparr>))"

text \<open>Reporting the errors: duplicates first, then the errors in the order in which they were found.\<close>

definition duplicate_message :: "('sp, 'ms) spec_env \<Rightarrow> def_id \<times> (def_id \<times> 'sp) list \<Rightarrow> 'ms prusti_error" where
  "duplicate_message env = (\<lambda>(d, specs).
     incorrect_value (''duplicate specification for '' @ get_item_name env d) (from_spans env (map snd specs)))"

definition resolver_note :: "('sp, 'ms) spec_env \<Rightarrow> 'sp resolver_error \<Rightarrow> string \<times> 'sp" where
  "resolver_note env e =
     (case e of
        InvalidExternSpecForTraitImpl d sp \<Rightarrow>
          (''Defined an external spec for trait method '' @ quoted (get_item_name env d) @ ''. Use '' @
           quoted ''#[extern_spec] impl TheTrait for TheStruct { ... }'' @ '' syntax instead.'', sp)
      | InvalidGenerics diff d sp \<Rightarrow>
          (''Invalid type parameters for method '' @ quoted (get_item_name env d) @
           ''. The number of type parameters must match the target method; change by '' @ int_to_string diff @
           '' to get rid of this error.'', sp)
      | ResolvedToDefault d sp \<Rightarrow>
          (''Specified method ('' @ quoted (get_item_name env d) @ '') resolved to the trait'' @ CHR 0x27 #
           ''s implementation. Add specification to the trait instead.'', sp))"

definition resolver_message :: "('sp, 'ms) spec_env \<Rightarrow> 'sp resolver_error \<Rightarrow> 'ms prusti_error" where
  "resolver_message env e =
     (let (note, sp) = resolver_note env e in
      add_note_mut note None (incorrect_value ''Invalid external specification'' (from_spans env [sp])))"

definition check_errors :: "('sp, 'ms) spec_env \<Rightarrow> 'sp extern_resolver \<Rightarrow> 'ms env_diagnostic \<Rightarrow> 'ms env_diagnostic" where
  "check_errors env r =
     fold report_error (map (duplicate_message env) (spec_duplicates r) @ map (resolver_message env) (resolver_errors r))"

section \<open>The visitor\<close>

record ('u, 'sp) spec_collector =
  extern_resolver :: "'sp extern_resolver"
  spec_functions :: "('u, local_def_id) index_map"
  procedure_specs :: "(local_def_id, 'u proc_spec_refs) index_map"
  loop_spec_fns :: "local_def_id list"
  loop_variant_fns :: "local_def_id list"
  type_spec_map :: "(local_def_id, type_spec_refs) index_map"
  assertion_fns :: "local_def_id list"
  assumption_fns :: "local_def_id list"
  refutation_fns :: "local_def_id list"

definition spec_collector_new :: "('u, 'sp) spec_collector" where
  "spec_collector_new =
     \<lparr>extern_resolver = extern_resolver_new, spec_functions = [], procedure_specs = [], loop_spec_fns = [],
      loop_variant_fns = [], type_spec_map = [], assertion_fns = [], assumption_fns = [], refutation_fns = []\<rparr>"

text \<open>
  A visited function with its attributes. \<open>self_type\<close> is the type of the \<^verbatim>\<open>impl\<close> block around it, or the panic of
  looking it up, \<open>model_type\<close> the local type that it returns, and \<open>spec_call\<close> the first call in its body.
\<close>

record ('ga, 'sp) fn_node =
  fn_id :: local_def_id
  fn_attrs :: "'sp attribute list"
  self_type :: "def_id exec"
  model_type :: "local_def_id option"
  spec_call :: "(def_id \<times> 'ga \<times> 'sp) option"

datatype ('ga, 'sp) hir_item =
  Visit_fn "('ga, 'sp) fn_node" | Visit_trait_item local_def_id "'sp attribute list"
| Visit_let "'sp attribute list" "local_def_id option"

definition check_trait_impl_refinement ::
  "('sp, 'ms) spec_env \<Rightarrow> 'ga call_env \<Rightarrow> local_def_id \<Rightarrow> 'ms env_diagnostic \<Rightarrow> 'ms env_diagnostic" where
  "check_trait_impl_refinement env cenv method d =
     (case impl_of_assoc cenv (to_def_id method) of
        None \<Rightarrow> d
      | Some impl_id \<Rightarrow>
          if impl_of_trait cenv impl_id = None then d
          else case as_local impl_id of
            None \<Rightarrow> d
          | Some impl_local \<Rightarrow>
              let spans = prusti_annotation_spans (get_local_attributes env method) in
              if has_prusti_attr (get_local_attributes env impl_local) ''refine_trait_spec'' \<or> spans = [] then d
              else report_error
                (add_note_mut ''add `#[refine_trait_spec]` to this `impl` block''
                  (Some (from_spans env [get_def_span env impl_id]))
                  (incorrect_value
                    ''Prusti annotations on a trait implementation require the `#[refine_trait_spec]` attribute on the `impl` block''
                    (from_spans env spans))) d)"

text \<open>An update of what has been collected for the type of the \<^verbatim>\<open>impl\<close> block.\<close>

definition update_type ::
  "(type_spec_refs \<Rightarrow> type_spec_refs) \<Rightarrow> local_def_id \<Rightarrow> ('u, 'sp) spec_collector \<Rightarrow> ('u, 'sp) spec_collector" where
  "update_type f t c =
     c\<lparr>type_spec_map :=
        AList.update t (f (case map_of (type_spec_map c) t of Some r \<Rightarrow> r | None \<Rightarrow> type_spec_refs_default)) (type_spec_map c)\<rparr>"

definition update_self_type ::
  "('ga, 'sp) fn_node \<Rightarrow> (type_spec_refs \<Rightarrow> type_spec_refs) \<Rightarrow> ('u, 'sp) spec_collector \<Rightarrow> ('u, 'sp) spec_collector exec" where
  "update_self_type node f c =
     bind_exec (self_type node) (\<lambda>t.
       case as_local t of
         Some l \<Rightarrow> Value (update_type f l c)
       | None \<Rightarrow> panic ''called `Option::unwrap()` on a `None` value'')"

definition when_attr :: "('ga, 'sp) fn_node \<Rightarrow> string \<Rightarrow> ('c \<Rightarrow> 'c exec) \<Rightarrow> 'c \<Rightarrow> 'c exec" where
  "when_attr node name f c = (if has_prusti_attr (fn_attrs node) name then f c else Value c)"

text \<open>A function with a specification id is part of a specification.\<close>

definition visit_spec_fn ::
  "(string \<Rightarrow> 'u option) \<Rightarrow> string \<Rightarrow> ('ga, 'sp) fn_node \<Rightarrow> ('u, 'sp) spec_collector \<Rightarrow> ('u, 'sp) spec_collector exec" where
  "visit_spec_fn parse_uuid raw_spec_id node c =
     bind_exec (parse_spec_id parse_uuid raw_spec_id) (\<lambda>u.
     bind_exec (Value (c\<lparr>spec_functions := AList.update u (fn_id node) (spec_functions c)\<rparr>)) (\<lambda>c.
     bind_exec (when_attr node ''loop_body_invariant_spec''
       (\<lambda>c. Value (c\<lparr>loop_spec_fns := loop_spec_fns c @ [fn_id node]\<rparr>)) c) (\<lambda>c.
     bind_exec (when_attr node ''loop_body_variant_spec''
       (\<lambda>c. Value (c\<lparr>loop_variant_fns := loop_variant_fns c @ [fn_id node]\<rparr>)) c) (\<lambda>c.
     bind_exec (when_attr node ''type_invariant_spec''
       (update_self_type node (\<lambda>r. r\<lparr>type_invariants := type_invariants r @ [fn_id node]\<rparr>)) c) (\<lambda>c.
     bind_exec (when_attr node ''trusted_type'' (update_self_type node (\<lambda>r. r\<lparr>type_refs_trusted := True\<rparr>)) c) (\<lambda>c.
     bind_exec (when_attr node ''counterexample_print''
       (update_self_type node (\<lambda>r. r\<lparr>countexample_print :=
          countexample_print r @ [(read_prusti_attr ''counterexample_print'' (fn_attrs node), fn_id node)]\<rparr>)) c) (\<lambda>c.
     bind_exec (when_attr node ''prusti_assertion''
       (\<lambda>c. Value (c\<lparr>assertion_fns := assertion_fns c @ [fn_id node]\<rparr>)) c) (\<lambda>c.
     bind_exec (when_attr node ''prusti_assumption''
       (\<lambda>c. Value (c\<lparr>assumption_fns := assumption_fns c @ [fn_id node]\<rparr>)) c) (\<lambda>c.
     when_attr node ''prusti_refutation''
       (\<lambda>c. Value (c\<lparr>refutation_fns := refutation_fns c @ [fn_id node]\<rparr>)) c)))))))))"

text \<open>Any other function may have an external specification, a contract, and a model of a type.\<close>

definition visit_extern_spec ::
  "'ga call_env \<Rightarrow> ('ga, 'sp) fn_node \<Rightarrow> ('u, 'sp) spec_collector \<Rightarrow> ('u, 'sp) spec_collector exec" where
  "visit_extern_spec cenv node c =
     (if has_extern_spec_attr (fn_attrs node) then
        case extern_kind_try_from (case read_prusti_attr ''extern_spec'' (fn_attrs node) of Some s \<Rightarrow> s | None \<Rightarrow> []) of
          None \<Rightarrow> panic ''called `Result::unwrap()` on an `Err` value''
        | Some kind \<Rightarrow>
            map_exec (\<lambda>r. c\<lparr>extern_resolver := r\<rparr>)
              (add_extern_fn cenv (spec_call node) (fn_id node) kind (extern_resolver c))
      else Value c)"

definition visit_model ::
  "('ga, 'sp) fn_node \<Rightarrow> ('u, 'sp) spec_collector \<Rightarrow> ('u, 'sp) spec_collector exec" where
  "visit_model node c =
     (if has_to_model_fn_attr (fn_attrs node) then
        case (model_type node, read_prusti_attr ''type_models_to_model_fn'' (fn_attrs node)) of
          (Some model_ty_id, Some attr) \<Rightarrow>
            map_exec (\<lambda>t. case as_local t of
                Some l \<Rightarrow> update_type (\<lambda>r. r\<lparr>type_refs_model := Some (attr, model_ty_id)\<rparr>) l c
              | None \<Rightarrow> c) (self_type node)
        | _ \<Rightarrow> Value c
      else Value c)"

definition insert_refs ::
  "local_def_id \<Rightarrow> 'u proc_spec_refs option \<Rightarrow> ('u, 'sp) spec_collector \<Rightarrow> ('u, 'sp) spec_collector" where
  "insert_refs l refs c =
     (case refs of Some r \<Rightarrow> c\<lparr>procedure_specs := AList.update l r (procedure_specs c)\<rparr> | None \<Rightarrow> c)"

definition visit_fn ::
  "('sp, 'ms) spec_env \<Rightarrow> 'ga call_env \<Rightarrow> (string \<Rightarrow> 'u option) \<Rightarrow> ('ga, 'sp) fn_node
   \<Rightarrow> ('u, 'sp) spec_collector \<times> 'ms env_diagnostic \<Rightarrow> (('u, 'sp) spec_collector \<times> 'ms env_diagnostic) exec" where
  "visit_fn env cenv parse_uuid node = (\<lambda>(c, d).
     case read_prusti_attr ''spec_id'' (fn_attrs node) of
       Some raw_spec_id \<Rightarrow> map_exec (\<lambda>c. (c, d)) (visit_spec_fn parse_uuid raw_spec_id node c)
     | None \<Rightarrow>
         bind_exec (visit_extern_spec cenv node c) (\<lambda>c.
         bind_exec (get_procedure_spec_ids parse_uuid (opt_in_verification env) (fn_attrs node)) (\<lambda>refs.
         map_exec (\<lambda>c. (c, if refs = None then d else check_trait_impl_refinement env cenv (fn_id node) d))
           (visit_model node (insert_refs (fn_id node) refs c)))))"

definition visit_item ::
  "('sp, 'ms) spec_env \<Rightarrow> 'ga call_env \<Rightarrow> (string \<Rightarrow> 'u option) \<Rightarrow> ('ga, 'sp) hir_item
   \<Rightarrow> ('u, 'sp) spec_collector \<times> 'ms env_diagnostic \<Rightarrow> (('u, 'sp) spec_collector \<times> 'ms env_diagnostic) exec" where
  "visit_item env cenv parse_uuid item = (\<lambda>(c, d).
     case item of
       Visit_fn node \<Rightarrow> visit_fn env cenv parse_uuid node (c, d)
     | Visit_trait_item l attrs \<Rightarrow>
         map_exec (\<lambda>refs. (insert_refs l refs c, d)) (get_procedure_spec_ids parse_uuid (opt_in_verification env) attrs)
     | Visit_let attrs init \<Rightarrow>
         if has_prusti_attr attrs ''closure'' then
           case init of
             None \<Rightarrow> panic ''closure on Local without assignment''
           | Some l \<Rightarrow>
               map_exec (\<lambda>refs. (insert_refs l refs c, d)) (get_procedure_spec_ids parse_uuid (opt_in_verification env) attrs)
         else Value (c, d))"

definition collect_specs ::
  "('sp, 'ms) spec_env \<Rightarrow> 'ga call_env \<Rightarrow> (string \<Rightarrow> 'u option) \<Rightarrow> ('ga, 'sp) hir_item list
   \<Rightarrow> ('u, 'sp) spec_collector \<times> 'ms env_diagnostic \<Rightarrow> (('u, 'sp) spec_collector \<times> 'ms env_diagnostic) exec" where
  "collect_specs env cenv parse_uuid = fold_exec (visit_item env cenv parse_uuid)"

section \<open>Building the contracts\<close>

definition spec_function :: "('u, local_def_id) index_map \<Rightarrow> 'u \<Rightarrow> local_def_id exec" where
  "spec_function fns u =
     (case map_of fns u of Some l \<Rightarrow> Value l | None \<Rightarrow> panic ''called `Option::unwrap()` on a `None` value'')"

text \<open>One reference, with the graph and the kind that overrides the kind of the graph in the end.\<close>

fun apply_ref ::
  "('sp, 'ms) spec_env \<Rightarrow> ('u, local_def_id) index_map \<Rightarrow> 'u spec_id_ref \<Rightarrow> proc_spec spec_graph \<times> proc_kind option
   \<Rightarrow> (proc_spec spec_graph \<times> proc_kind option) exec" where
  "apply_ref env fns (Ref_Precondition u) (g, k) = map_exec (\<lambda>l. (add_precondition env l g, k)) (spec_function fns u)"
| "apply_ref env fns (Ref_Postcondition u) (g, k) = map_exec (\<lambda>l. (add_postcondition env l g, k)) (spec_function fns u)"
| "apply_ref env fns (Ref_Purity u) (g, k) =
     bind_exec (spec_function fns u) (\<lambda>l. map_exec (\<lambda>g'. (g', k)) (add_purity env l g))"
| "apply_ref env fns (Ref_Pledge lhs rhs) (g, k) =
     map2_exec (\<lambda>l r. (add_pledge \<lparr>pledge_lhs = map_option to_def_id l, pledge_rhs = to_def_id r\<rparr> g, k))
       (opt_exec (map_option (spec_function fns) lhs)) (spec_function fns rhs)"
| "apply_ref env fns (Ref_Predicate u) (g, k) = map_exec (\<lambda>l. (g, Some (Predicate (Some (to_def_id l))))) (spec_function fns u)"
| "apply_ref env fns (Ref_Terminates u) (g, k) = map_exec (\<lambda>l. (set_terminates l g, k)) (spec_function fns u)"

definition graph_of_refs ::
  "('sp, 'ms) spec_env \<Rightarrow> ('u, local_def_id) index_map \<Rightarrow> local_def_id \<Rightarrow> 'u proc_spec_refs \<Rightarrow> proc_spec spec_graph exec" where
  "graph_of_refs env fns l refs =
     map_exec
       (\<lambda>(g, k). let g' = set_trusted (refs_trusted refs) g in case k of Some kind \<Rightarrow> set_kind kind g' | None \<Rightarrow> g')
       (fold_exec (apply_ref env fns) (spec_id_refs refs)
         (set_kind (kind_of_refs refs) (graph_new (proc_spec_empty (to_def_id l))), None))"

definition determine_procedure_spec ::
  "('sp, 'ms) spec_env \<Rightarrow> ('u, local_def_id) index_map \<Rightarrow> local_def_id \<times> 'u proc_spec_refs
   \<Rightarrow> def_spec_map \<times> 'ms env_diagnostic \<Rightarrow> (def_spec_map \<times> 'ms env_diagnostic) exec" where
  "determine_procedure_spec env fns = (\<lambda>(l, refs) (m, d).
     bind_exec (graph_of_refs env fns l refs) (\<lambda>g.
     bind_exec (if specs_with_constraints g = [] then Value False else map_exec Not (expect_inherent (trusted (base_spec g)))) (\<lambda>bad.
       Value
         (if bad then
            (m, report_error (unsupported_value (skip_unsupported_features env)
                  ''Type-conditional spec refinements can only be applied to trusted functions''
                  (from_spans env [get_def_span env (to_def_id l)])) d)
          else (m\<lparr>proc_specs := AList.update (to_def_id l) g (proc_specs m)\<rparr>, d)))))"

definition determine_procedure_specs ::
  "('sp, 'ms) spec_env \<Rightarrow> ('u, 'sp) spec_collector \<Rightarrow> def_spec_map \<times> 'ms env_diagnostic
   \<Rightarrow> (def_spec_map \<times> 'ms env_diagnostic) exec" where
  "determine_procedure_specs env c = fold_exec (determine_procedure_spec env (spec_functions c)) (procedure_specs c)"

text \<open>The contract of the function that stands for an external specification is moved to the function it is for.\<close>

definition determine_extern_spec ::
  "('sp, 'ms) spec_env \<Rightarrow> extern_decl \<times> def_id \<Rightarrow> def_spec_map \<times> 'ms env_diagnostic
   \<Rightarrow> (def_spec_map \<times> 'ms env_diagnostic) exec" where
  "determine_extern_spec env = (\<lambda>(decl, spec_id) (m, d).
     let target = get_target_def_id decl;
         d' = (if map_of (proc_specs m) target = None then d
               else report_error (incorrect_value
                 (''external specification provided for '' @ get_item_name env target @ '', which already has a specification'')
                 (from_spans env [get_def_span env spec_id])) d) in
     case map_of (proc_specs m) spec_id of
       None \<Rightarrow> panic ''called `Option::unwrap()` on a `None` value''
     | Some g \<Rightarrow>
         Value (m\<lparr>proc_specs := AList.update target (set_extern_spec (extern_kind_of decl) g) (AList.delete spec_id (proc_specs m))\<rparr>, d'))"

definition determine_extern_specs ::
  "('sp, 'ms) spec_env \<Rightarrow> ('u, 'sp) spec_collector \<Rightarrow> def_spec_map \<times> 'ms env_diagnostic
   \<Rightarrow> (def_spec_map \<times> 'ms env_diagnostic) exec" where
  "determine_extern_specs env c = (\<lambda>(m, d).
     fold_exec (determine_extern_spec env) (extern_fn_map (extern_resolver c)) (m, check_errors env (extern_resolver c) d))"

definition determine_loop_specs :: "('u, 'sp) spec_collector \<Rightarrow> def_spec_map \<Rightarrow> def_spec_map" where
  "determine_loop_specs c m =
     m\<lparr>loop_specs :=
        fold (\<lambda>l. AList.update (to_def_id l) (Variant l)) (loop_variant_fns c)
          (fold (\<lambda>l. AList.update (to_def_id l) (Invariant l)) (loop_spec_fns c) (loop_specs m))\<rparr>"

definition determine_type_spec ::
  "('sp, 'ms) spec_env \<Rightarrow> local_def_id \<times> type_spec_refs \<Rightarrow> def_spec_map \<times> 'ms env_diagnostic \<Rightarrow> def_spec_map \<times> 'ms env_diagnostic" where
  "determine_type_spec env = (\<lambda>(l, refs) (m, d).
     (m\<lparr>type_specs := AList.update (to_def_id l)
          \<lparr>type_source = to_def_id l, type_invariant = Inherent (map to_def_id (type_invariants refs)),
           type_trusted = Inherent (type_refs_trusted refs), type_model = type_refs_model refs,
           counterexample_print = countexample_print refs\<rparr> (type_specs m)\<rparr>,
      if type_invariants refs \<noteq> [] \<and> \<not> enable_type_invariants env
      then report_error (unsupported_value (skip_unsupported_features env)
             ''Type invariants need to be enabled with the feature flag `enable_type_invariants`''
             (from_spans env [get_def_span env (to_def_id l)])) d
      else d))"

definition determine_type_specs ::
  "('sp, 'ms) spec_env \<Rightarrow> ('u, 'sp) spec_collector \<Rightarrow> def_spec_map \<times> 'ms env_diagnostic \<Rightarrow> def_spec_map \<times> 'ms env_diagnostic" where
  "determine_type_specs env c = fold (determine_type_spec env) (type_spec_map c)"

definition determine_prusti_assertions :: "('u, 'sp) spec_collector \<Rightarrow> def_spec_map \<Rightarrow> def_spec_map" where
  "determine_prusti_assertions c m =
     m\<lparr>prusti_assertions := fold (\<lambda>l. AList.update (to_def_id l) l) (assertion_fns c) (prusti_assertions m)\<rparr>"

definition determine_prusti_assumptions :: "('u, 'sp) spec_collector \<Rightarrow> def_spec_map \<Rightarrow> def_spec_map" where
  "determine_prusti_assumptions c m =
     m\<lparr>prusti_assumptions := fold (\<lambda>l. AList.update (to_def_id l) l) (assumption_fns c) (prusti_assumptions m)\<rparr>"

definition determine_prusti_refutations :: "('u, 'sp) spec_collector \<Rightarrow> def_spec_map \<Rightarrow> def_spec_map" where
  "determine_prusti_refutations c m =
     m\<lparr>prusti_refutations := fold (\<lambda>l. AList.update (to_def_id l) l) (refutation_fns c) (prusti_refutations m)\<rparr>"

text \<open>
  The bodies that are loaded for export: of spec functions, of pure functions, and of predicates. The
  closures inside these bodies are left out.
\<close>

definition expect_local :: "def_id \<Rightarrow> local_def_id exec" where
  "expect_local d = (case as_local d of Some l \<Rightarrow> Value l | None \<Rightarrow> panic (''DefId::expect_local: isn'' @ CHR 0x27 # ''t local''))"

definition ensure_local_mirs_fetched ::
  "(def_id \<Rightarrow> bool) \<Rightarrow> def_spec_map \<Rightarrow> (local_def_id list \<times> local_def_id list \<times> local_def_id list) exec" where
  "ensure_local_mirs_fetched has_body m =
     bind_exec (defid_for_export m) (\<lambda>(specs, pure_fns, predicates).
       map3_exec (\<lambda>s p q. (s, p, q)) (all_exec (map expect_local specs))
         (all_exec (map expect_local (filter has_body pure_fns))) (all_exec (map expect_local predicates)))"

definition build_def_specs ::
  "('sp, 'ms) spec_env \<Rightarrow> (def_id \<Rightarrow> bool) \<Rightarrow> ('u, 'sp) spec_collector \<Rightarrow> 'ms env_diagnostic
   \<Rightarrow> (def_spec_map \<times> 'ms env_diagnostic) exec" where
  "build_def_specs env has_body c d =
     bind_exec (determine_procedure_specs env c (def_spec_map_new, d)) (\<lambda>md.
     bind_exec (determine_extern_specs env c md) (\<lambda>(m, d).
     let (m, d) = determine_type_specs env c (determine_loop_specs c m, d);
         m = determine_prusti_refutations c (determine_prusti_assumptions c (determine_prusti_assertions c m)) in
     map_exec (\<lambda>_. (m, d)) (ensure_local_mirs_fetched has_body m)))"

end
