(* ===== verification/Spec_Query.thy ===== *)
theory Spec_Query
  imports Spec_Collect
begin

text \<open>
  \<^verbatim>\<open>prusti-interface/src/specs/specifications.rs\<close> and \<^verbatim>\<open>prusti-encoder/src/encoders/spec.rs\<close>: looking up the
  contract of a function, refined by that of the trait method it implements. Generic arguments (\<open>'a\<close>) are
  opaque; the queries to the compiler are a record.
\<close>

section \<open>Queries\<close>

datatype 'a spec_query =
  FunctionDefEncoding def_id "'a list"
| FunctionCallEncoding (called_def_id: def_id) (caller_def_id: def_id) (call_substs: "'a list")
| GetProcKind def_id "'a list"
| FetchSpan def_id

fun referred_def_id :: "'a spec_query \<Rightarrow> def_id" where
  "referred_def_id (FunctionDefEncoding d _) = d"
| "referred_def_id (FunctionCallEncoding d _ _) = d"
| "referred_def_id (GetProcKind d _) = d"
| "referred_def_id (FetchSpan d) = d"

fun adapt_to :: "'a spec_query \<Rightarrow> def_id \<Rightarrow> 'a list \<Rightarrow> 'a spec_query" where
  "adapt_to (FunctionDefEncoding _ _) new_def_id new_substs = FunctionDefEncoding new_def_id new_substs"
| "adapt_to (FunctionCallEncoding _ caller _) new_def_id new_substs = FunctionCallEncoding new_def_id caller new_substs"
| "adapt_to (GetProcKind _ _) new_def_id new_substs = GetProcKind new_def_id new_substs"
| "adapt_to (FetchSpan _) new_def_id new_substs = FetchSpan new_def_id"

text \<open>
  Associated items are found by their name. \<open>trait_ref\<close> gives the trait of an \<^verbatim>\<open>impl\<close> block and its
  arguments, and \<open>instantiate\<close> substitutes the arguments of a call in them.
\<close>

record 'a tcx =
  impl_of :: "def_id \<Rightarrow> def_id option"
  trait_ref :: "def_id \<Rightarrow> (def_id \<times> 'a list) option"
  item_name :: "def_id \<Rightarrow> string"
  associated_items :: "def_id \<Rightarrow> def_id list"
  identity_for_item :: "def_id \<Rightarrow> 'a list"
  instantiate :: "'a list \<Rightarrow> 'a list \<Rightarrow> 'a list"

definition get_assoc_item :: "'a tcx \<Rightarrow> def_id \<Rightarrow> def_id \<Rightarrow> def_id option" where
  "get_assoc_item tcx trait_id item_id = find (\<lambda>i. item_name tcx i = item_name tcx item_id) (associated_items tcx trait_id)"

definition find_trait_method_substs :: "'a tcx \<Rightarrow> def_id \<Rightarrow> 'a list \<Rightarrow> (def_id \<times> 'a list) option exec" where
  "find_trait_method_substs tcx method substs =
     (case impl_of tcx method of
        None \<Rightarrow> Value None
      | Some impl_id \<Rightarrow>
          (case trait_ref tcx impl_id of
             None \<Rightarrow> Value None
           | Some (trait_id, trait_args) \<Rightarrow>
               (case get_assoc_item tcx trait_id method of
                  None \<Rightarrow> panic ''called `Option::unwrap()` on a `None` value''
                | Some trait_method \<Rightarrow>
                    if length (identity_for_item tcx method) \<noteq> length substs then panic ''assertion `left == right` failed''
                    else
                      let trait_method_substs = instantiate tcx trait_args substs @
                            drop (length (identity_for_item tcx impl_id)) substs in
                      if length trait_method_substs \<noteq> length (identity_for_item tcx trait_method)
                      then panic ''assertion `left == right` failed''
                      else Value (Some (trait_method, trait_method_substs)))))"

text \<open>The query for the trait method, if refinement is needed.\<close>

fun refinement_context :: "'a tcx \<Rightarrow> 'a spec_query \<Rightarrow> 'a spec_query option exec" where
  "refinement_context tcx (FunctionCallEncoding d caller substs) =
     map_exec (map_option (\<lambda>(t, ts). adapt_to (FunctionCallEncoding d caller substs) t ts)) (find_trait_method_substs tcx d substs)"
| "refinement_context tcx (FunctionDefEncoding d substs) =
     map_exec (map_option (\<lambda>(t, ts). adapt_to (FunctionDefEncoding d substs) t ts)) (find_trait_method_substs tcx d substs)"
| "refinement_context tcx (GetProcKind d substs) =
     map_exec (map_option (\<lambda>(t, ts). adapt_to (GetProcKind d substs) t ts)) (find_trait_method_substs tcx d substs)"
| "refinement_context tcx (FetchSpan d) = Value None"

section \<open>Specifications\<close>

record 'a specifications =
  user_typed_specs :: def_spec_map
  refined_specs :: "('a spec_query, proc_spec) index_map"

definition specifications_new :: "def_spec_map \<Rightarrow> 'a specifications" where
  "specifications_new m = \<lparr>user_typed_specs = m, refined_specs = []\<rparr>"

definition get_proc_spec :: "'a specifications \<Rightarrow> 'a spec_query \<Rightarrow> proc_spec option" where
  "get_proc_spec s q =
     (case map_of (refined_specs s) q of
        Some r \<Rightarrow> Some r
      | None \<Rightarrow> map_option base_spec (map_get_proc_spec (user_typed_specs s) (referred_def_id q)))"

definition is_refined :: "'a specifications \<Rightarrow> 'a spec_query \<Rightarrow> bool" where
  "is_refined s q = (map_of (refined_specs s) q \<noteq> None)"

definition perform_proc_spec_refinement ::
  "'a spec_query \<Rightarrow> 'a spec_query \<Rightarrow> 'a specifications \<Rightarrow> (proc_spec option \<times> 'a specifications) exec" where
  "perform_proc_spec_refinement impl_query trait_query s =
     (let trait_spec = (case get_proc_spec s trait_query of Some t \<Rightarrow> t | None \<Rightarrow> proc_spec_empty (referred_def_id trait_query));
          impl_spec = (case get_proc_spec s impl_query of Some t \<Rightarrow> t | None \<Rightarrow> empty_inheriting (referred_def_id impl_query)) in
      map_exec (\<lambda>refined.
        let s' = s\<lparr>refined_specs := AList.update impl_query refined (refined_specs s)\<rparr> in (get_proc_spec s' impl_query, s'))
        (refine_spec impl_spec trait_spec))"

definition get_and_refine_proc_spec ::
  "'a tcx \<Rightarrow> 'a spec_query \<Rightarrow> 'a specifications \<Rightarrow> (proc_spec option \<times> 'a specifications) exec" where
  "get_and_refine_proc_spec tcx q s =
     (if is_refined s q then Value (get_proc_spec s q, s)
      else
        bind_exec (refinement_context tcx q) (\<lambda>ctx.
          case ctx of
            Some trait_query \<Rightarrow>
              bind_exec (perform_proc_spec_refinement q trait_query s) (\<lambda>(refined, s').
                if refined = None then panic ''Could not perform refinement'' else Value (refined, s'))
          | None \<Rightarrow> Value (get_proc_spec s q, s)))"

section \<open>The spec encoder\<close>

definition with_proc_spec ::
  "'a tcx \<Rightarrow> 'a spec_query \<Rightarrow> (proc_spec \<Rightarrow> 'r) \<Rightarrow> 'a specifications \<Rightarrow> ('r option \<times> 'a specifications) exec" where
  "with_proc_spec tcx q f s = map_exec (\<lambda>(p, s'). (map_option f p, s')) (get_and_refine_proc_spec tcx q s)"

definition unwrap_or :: "'a \<Rightarrow> 'a option \<Rightarrow> 'a" where
  "unwrap_or d x = (case x of Some v \<Rightarrow> v | None \<Rightarrow> d)"

definition is_function_trusted :: "'a tcx \<Rightarrow> def_id \<Rightarrow> 'a specifications \<Rightarrow> (bool \<times> 'a specifications) exec" where
  "is_function_trusted tcx d s =
     map_exec (\<lambda>(r, s'). (unwrap_or False r, s'))
       (with_proc_spec tcx (GetProcKind d (identity_for_item tcx d)) (\<lambda>p. unwrap_or False (extract_inherit (trusted p))) s)"

definition kind_is_pure :: "proc_kind specification_item \<Rightarrow> bool" where
  "kind_is_pure k = (case is_pure k of Inr b \<Rightarrow> b | Inl _ \<Rightarrow> False)"

definition is_function_pure :: "'a tcx \<Rightarrow> def_id \<Rightarrow> 'a list \<Rightarrow> 'a specifications \<Rightarrow> (bool \<times> 'a specifications) exec" where
  "is_function_pure tcx d args s =
     map_exec (\<lambda>(r, s'). (unwrap_or False r, s')) (with_proc_spec tcx (GetProcKind d args) (\<lambda>p. kind_is_pure (proc_kind p)) s)"

text \<open>
  The error about a kind that does not refine the kind of the trait method; \<open>pure_span\<close> is the span of the
  annotation in the trait, if it can be found.
\<close>

definition report_kind_refinement_error ::
  "string \<Rightarrow> 'ms \<Rightarrow> 'ms option \<Rightarrow> proc_kind specification_item \<Rightarrow> 'ms prusti_error option" where
  "report_kind_refinement_error name sp pure_span k =
     (case is_pure k of
        Inr _ \<Rightarrow> None
      | Inl (InvalidSpecKindRefinement Pure Impure) \<Rightarrow>
          Some (let e = set_help ''add `#[pure]` to the implementation''
                  (incorrect_value (CHR 0x60 # name @
                     ''` implements a `#[pure]` trait method and so must itself be `#[pure]`'') sp) in
            case pure_span of
              Some psp \<Rightarrow> add_note_mut ''the trait method is declared `#[pure]` here'' (Some psp) e
            | None \<Rightarrow> e)
      | Inl _ \<Rightarrow>
          Some (incorrect_value
            (''the specification of `'' @ name @ ''` is incompatible with the trait declaration'') sp))"

definition is_type_trusted :: "def_id option \<Rightarrow> 'a specifications \<Rightarrow> bool" where
  "is_type_trusted adt s =
     (case adt of
        Some did \<Rightarrow>
          unwrap_or False (map_option (\<lambda>t. unwrap_or False (extract_inherit (type_trusted t)))
            (map_get_type_spec (user_typed_specs s) did))
      | None \<Rightarrow> False)"

fun get_spec_items :: "'b list specification_item \<Rightarrow> 'b list" where
  "get_spec_items (Inherent items) = items"
| "get_spec_items (Inherited items) = items"
| "get_spec_items Item_Empty = []"
| "get_spec_items (Refined _ to) = to"

record spec_enc_output =
  out_extern_spec :: "extern_spec_kind option"
  out_pres :: "def_id list"
  out_posts :: "def_id list"
  out_pledges :: "pledge list"

definition spec_enc :: "'a tcx \<Rightarrow> def_id \<Rightarrow> 'a specifications \<Rightarrow> (spec_enc_output \<times> 'a specifications) exec" where
  "spec_enc tcx d s =
     map_exec
       (\<lambda>(r, s'). (unwrap_or \<lparr>out_extern_spec = None, out_pres = [], out_posts = [], out_pledges = []\<rparr> r, s'))
       (with_proc_spec tcx (GetProcKind d (identity_for_item tcx d))
         (\<lambda>p. \<lparr>out_extern_spec = extern_spec p, out_pres = get_spec_items (pres p), out_posts = get_spec_items (posts p),
                out_pledges = get_spec_items (pledges p)\<rparr>) s)"

end
