(* ===== verification/Spec_Graph_Laws.thy ===== *)
theory Spec_Graph_Laws
  imports Spec_Collect
begin

text \<open>
  Laws of specification graphs. The locale \<open>spec_relation\<close> is the contract between the updates of single
  specifications and the operations on graphs: a relation between the base spec and a constrained spec that
  the updates keep holds in every graph that is built. It is interpreted for what the graphs
  promise: postconditions are copied, and trust, pledges and termination are shared.
\<close>

section \<open>Relations between the base spec and constrained specs\<close>

definition related :: "('t \<Rightarrow> 't \<Rightarrow> bool) \<Rightarrow> 't spec_graph \<Rightarrow> bool" where
  "related R g = list_all (R (base_spec g)) (all_specs g)"

text \<open>A kind whose predicate is in the current crate.\<close>

fun kind_local :: "proc_kind \<Rightarrow> bool" where
  "kind_local (Predicate (Some p)) = is_local p"
| "kind_local _ = True"

lemma kind_local_simps [simp]: "is_local (to_def_id l)" "kind_local (kind_of_refs refs)"
  by (simp_all add: is_local_def to_def_id_def kind_of_refs_def)

locale spec_relation =
  fixes R :: "proc_spec \<Rightarrow> proc_spec \<Rightarrow> bool"
  assumes R_new: "R (proc_spec_empty d) (proc_spec_empty d)"
    and R_copy: "R b c \<Longrightarrow> R b b"
    and R_pre_base: "R b c \<Longrightarrow> R (pres_update (item_push (to_def_id p)) b) c"
    and R_pre: "R b c \<Longrightarrow> R b (pres_update (item_push (to_def_id p)) c)"
    and R_post_all: "R b c \<Longrightarrow> R (posts_update (item_push (to_def_id p)) b) (posts_update (item_push (to_def_id p)) c)"
    and R_post: "R b c \<Longrightarrow> R b (posts_update (item_push (to_def_id p)) c)"
    and R_purity: "R b c \<Longrightarrow> R b ((purity_update (item_set (Some (to_def_id p))) c)\<lparr>proc_kind := Inherent Pure\<rparr>)"
    and R_pledge: "R b c \<Longrightarrow> q = \<lparr>pledge_lhs = map_option to_def_id x, pledge_rhs = to_def_id y\<rparr> \<Longrightarrow>
       R (pledges_update (item_push q) b) (pledges_update (item_push q) c)"
    and R_trusted: "R b c \<Longrightarrow> R (trusted_update (item_set t) b) (trusted_update (item_set t) c)"
    and R_terminates: "R b c \<Longrightarrow> R (terminates_update (item_set w) b) (terminates_update (item_set w) c)"
    and R_kind: "R b c \<Longrightarrow> kind_local k \<Longrightarrow> R (proc_kind_update (item_set k) b) (proc_kind_update (item_set k) c)"
    and R_extern: "R b c \<Longrightarrow> R (extern_spec_update (\<lambda>_. e) b) (extern_spec_update (\<lambda>_. e) c)"
begin

lemma related_all:
  assumes "related R g" and "\<And>b c. R b c \<Longrightarrow> R (f b) (f c)"
  shows "related R (update_all f g)"
  using assms by (auto simp: related_def update_all_def all_specs_def list_all_iff)

lemma related_constrained:
  assumes "related R g" and "\<And>c. R (base_spec g) c \<Longrightarrow> R (base_spec g) (f c)"
  shows "related R (update_constrained k f g)"
proof -
  let ?old = "case map_of (specs_with_constraints g) k of Some s \<Rightarrow> s | None \<Rightarrow> base_spec g"
  have "R (base_spec g) ?old"
    using assms(1) by (force simp: related_def all_specs_def list_all_iff split: option.split dest!: map_of_SomeD)
  then have "R (base_spec g) (f ?old)" by (rule assms(2))
  then show ?thesis using assms(1) set_update_subset [of k "f ?old" "specs_with_constraints g"]
    by (fastforce simp: related_def all_specs_def update_constrained_def list_all_iff)
qed

lemma related_pre: "related R g \<Longrightarrow> related R (add_precondition env l g)"
proof (cases "get_constraint env l")
  case None
  assume "related R g"
  moreover from this have "R (pres_update (item_push (to_def_id p)) (base_spec g)) (pres_update (item_push (to_def_id p)) (base_spec g))" for p
    by (auto simp: related_def all_specs_def intro: R_pre_base R_copy R_pre)
  ultimately show ?thesis
    using None by (auto simp: add_precondition_def related_def all_specs_def list_all_iff intro: R_pre_base)
next
  case (Some c)
  assume "related R g"
  then show ?thesis using Some by (auto simp: add_precondition_def intro: related_constrained R_pre)
qed

lemma related_post: "related R g \<Longrightarrow> related R (add_postcondition env l g)"
  by (auto simp: add_postcondition_def split: option.split intro: related_all related_constrained R_post R_post_all)

lemma related_purity: "related R g \<Longrightarrow> add_purity env l g = Value g' \<Longrightarrow> related R g'"
  by (auto simp: add_purity_def split: option.splits intro!: related_constrained R_purity)

lemma related_set:
  assumes "related R g"
  shows "related R (add_pledge \<lparr>pledge_lhs = map_option to_def_id x, pledge_rhs = to_def_id y\<rparr> g)"
    "related R (set_trusted t g)" "related R (set_terminates w g)"
    "kind_local k \<Longrightarrow> related R (set_kind k g)" "related R (set_extern_spec e g)"
  using assms by (simp_all add: add_pledge_def set_trusted_def set_terminates_def set_kind_def set_extern_spec_def
    related_all R_pledge R_trusted R_terminates R_kind R_extern)

lemma related_ref:
  "related R (fst gk) \<Longrightarrow> pred_option kind_local (snd gk) \<Longrightarrow> apply_ref env fns r gk = Value gk'
   \<Longrightarrow> related R (fst gk') \<and> pred_option kind_local (snd gk')"
  by (cases gk; cases r) (auto intro: related_pre related_post related_purity related_set)

lemma related_graph:
  assumes "graph_of_refs env fns l refs = Value g"
  shows "related R g"
proof -
  let ?start = "set_kind (kind_of_refs refs) (graph_new (proc_spec_empty (to_def_id l)))"
  obtain g1 k where g: "fold_exec (apply_ref env fns) (spec_id_refs refs) (?start, None) = Value (g1, k)"
    "g = (case k of Some kind \<Rightarrow> set_kind kind (set_trusted (refs_trusted refs) g1) | None \<Rightarrow> set_trusted (refs_trusted refs) g1)"
    using assms by (auto simp: graph_of_refs_def Let_def split: prod.splits)
  have "related R (graph_new (proc_spec_empty (to_def_id l)))"
    by (simp add: related_def all_specs_def graph_new_def R_new)
  then have "related R (fst (g1, k)) \<and> pred_option kind_local (snd (g1, k))"
    by (intro fold_exec_invariant [OF g(1), where P = "\<lambda>gk. related R (fst gk) \<and> pred_option kind_local (snd gk)"])
       (auto intro: related_set dest: related_ref)
  then show ?thesis using g(2) by (auto intro: related_set split: option.split)
qed

end

section \<open>What graphs promise\<close>

text \<open>An item that is not inherited or refined, and a specification as the collector builds it.\<close>

fun own :: "'a specification_item \<Rightarrow> bool" where
  "own Item_Empty = True"
| "own (Inherent _) = True"
| "own _ = False"

fun inherent :: "'a specification_item \<Rightarrow> bool" where
  "inherent (Inherent _) = True"
| "inherent _ = False"

definition complete :: "proc_spec \<Rightarrow> bool" where
  "complete s =
     (own (pres s) \<and> own (posts s) \<and> own (pledges s) \<and>
      inherent (proc_kind s) \<and> inherent (trusted s) \<and> inherent (terminates s) \<and> inherent (purity s))"

lemma item_iter_simps [simp]:
  "item_iter Item_Empty = []" "item_iter (Inherent xs) = xs" "item_iter (Inherited xs) = xs" "item_iter (Refined ys xs) = xs"
  by (simp_all add: item_iter_def spec_simps)

lemma own_push [simp]: "own i \<Longrightarrow> own (item_push v i)" "own i \<Longrightarrow> item_iter (item_push v i) = item_iter i @ [v]"
  by (cases i; simp)+

lemma inherent_set [simp]: "inherent i \<Longrightarrow> item_set v i = Inherent v"
  by (cases i) simp_all

text \<open>A specification whose spec functions are in the current crate.\<close>

definition spec_local :: "proc_spec \<Rightarrow> bool" where
  "spec_local s =
     (own (pres s) \<and> own (posts s) \<and> own (pledges s) \<and> inherent (proc_kind s) \<and>
      list_all is_local (item_iter (pres s)) \<and> list_all is_local (item_iter (posts s)) \<and>
      list_all (\<lambda>q. pred_option is_local (pledge_lhs q) \<and> is_local (pledge_rhs q)) (item_iter (pledges s)) \<and>
      pred_option kind_local (extract_with_selective_replacement (proc_kind s)))"

definition posts_copied :: "proc_spec \<Rightarrow> proc_spec \<Rightarrow> bool" where
  "posts_copied b c = (own (posts b) \<and> own (posts c) \<and> subseq (item_iter (posts b)) (item_iter (posts c)))"

definition parts_shared :: "proc_spec \<Rightarrow> proc_spec \<Rightarrow> bool" where
  "parts_shared b c =
     (trusted b = trusted c \<and> pledges b = pledges c \<and> terminates b = terminates c \<and> extern_spec b = extern_spec c \<and>
      source b = source c)"

text \<open>The kinds are the same unless the constrained spec has been made pure.\<close>

definition kind_shared :: "proc_spec \<Rightarrow> proc_spec \<Rightarrow> bool" where
  "kind_shared b c =
     (inherent (proc_kind b) \<and> (proc_kind c = proc_kind b \<or> proc_kind c = Inherent Pure))"

interpretation copied: spec_relation posts_copied
  by unfold_locales (auto simp: posts_copied_def proc_spec_empty_def)

interpretation shared: spec_relation parts_shared
  by unfold_locales (auto simp: parts_shared_def)

interpretation kinds: spec_relation kind_shared
  by unfold_locales (auto simp: kind_shared_def proc_spec_empty_def)

interpretation localities: spec_relation "\<lambda>b c. spec_local b \<and> spec_local c"
  by unfold_locales (auto simp: spec_local_def proc_spec_empty_def spec_simps
    option.pred_map option.pred_True comp_def)

interpretation collecting: spec_relation "\<lambda>b c. complete b \<and> complete c"
  by unfold_locales (auto simp: complete_def proc_spec_empty_def)

end
