(* ===== verification/Spec_Graph_Content.thy ===== *)
theory Spec_Graph_Content
  imports Spec_Graph_Laws
begin

text \<open>
  What the contract of a function holds, in terms of the references that its attributes give: the
  conditions of the base spec and of the constrained spec, its pledges and its kind.
\<close>

section \<open>The contracts that are built\<close>

text \<open>The spec functions that a list of references names, by the kind of the reference.\<close>

fun pre_ref :: "'u spec_id_ref \<Rightarrow> 'u option" where
  "pre_ref (Ref_Precondition u) = Some u"
| "pre_ref _ = None"

fun post_ref :: "'u spec_id_ref \<Rightarrow> 'u option" where
  "post_ref (Ref_Postcondition u) = Some u"
| "post_ref _ = None"

fun purity_ref :: "'u spec_id_ref \<Rightarrow> 'u option" where
  "purity_ref (Ref_Purity u) = Some u"
| "purity_ref _ = None"

fun pledge_ref :: "('u, local_def_id) index_map \<Rightarrow> 'u spec_id_ref \<Rightarrow> pledge option" where
  "pledge_ref fns (Ref_Pledge lhs rhs) =
     map_option (\<lambda>r. \<lparr>pledge_lhs = map_option to_def_id (Option.bind lhs (map_of fns)), pledge_rhs = to_def_id r\<rparr>) (map_of fns rhs)"
| "pledge_ref fns _ = None"

definition named_fns :: "('u spec_id_ref \<Rightarrow> 'u option) \<Rightarrow> ('u, local_def_id) index_map \<Rightarrow> 'u spec_id_ref list \<Rightarrow> local_def_id list" where
  "named_fns sel fns refs = List.map_filter (\<lambda>r. Option.bind (sel r) (map_of fns)) refs"

definition conditional :: "('sp, 'ms) spec_env \<Rightarrow> local_def_id \<Rightarrow> bool" where
  "conditional env l = (get_constraint env l \<noteq> None)"

definition conditional_ref :: "('sp, 'ms) spec_env \<Rightarrow> ('u, local_def_id) index_map \<Rightarrow> 'u spec_id_ref \<Rightarrow> bool" where
  "conditional_ref env fns r =
     list_ex (conditional env) (named_fns pre_ref fns [r] @ named_fns post_ref fns [r] @ named_fns purity_ref fns [r])"

text \<open>
  What a graph holds after the references have been applied: in the base spec the unconditional conditions, in a
  constrained spec all postconditions, but of the unconditional preconditions those before the first conditional reference.
\<close>

definition base_holds :: "('sp, 'ms) spec_env \<Rightarrow> ('u, local_def_id) index_map \<Rightarrow> 'u spec_id_ref list \<Rightarrow> proc_spec \<Rightarrow> bool" where
  "base_holds env fns refs b =
     (item_iter (pres b) = map to_def_id (filter (\<lambda>l. \<not> conditional env l) (named_fns pre_ref fns refs)) \<and>
      item_iter (posts b) = map to_def_id (filter (\<lambda>l. \<not> conditional env l) (named_fns post_ref fns refs)) \<and>
      item_iter (pledges b) = List.map_filter (pledge_ref fns) refs)"

definition constrained_holds :: "('sp, 'ms) spec_env \<Rightarrow> ('u, local_def_id) index_map \<Rightarrow> 'u spec_id_ref list \<Rightarrow> proc_spec \<Rightarrow> bool" where
  "constrained_holds env fns refs s =
     (item_iter (posts s) = map to_def_id (named_fns post_ref fns refs) \<and>
      item_iter (pres s) = map to_def_id
        (named_fns pre_ref fns (takeWhile (\<lambda>r. \<not> conditional_ref env fns r) refs) @
         filter (conditional env) (named_fns pre_ref fns refs)))"

definition graph_holds :: "('sp, 'ms) spec_env \<Rightarrow> ('u, local_def_id) index_map \<Rightarrow> 'u spec_id_ref list \<Rightarrow> proc_spec spec_graph \<Rightarrow> bool" where
  "graph_holds env fns refs g =
     (base_holds env fns refs (base_spec g) \<and>
      map fst (specs_with_constraints g) = (if list_ex (conditional_ref env fns) refs then [ResolveGenericParamTraitBounds] else []) \<and>
      list_all (constrained_holds env fns refs) (map snd (specs_with_constraints g)))"

lemma named_fns_append [simp]: "named_fns sel fns (xs @ ys) = named_fns sel fns xs @ named_fns sel fns ys"
  by (simp add: named_fns_def map_filter_def)

lemma named_fns_single: "named_fns sel fns [r] = (case Option.bind (sel r) (map_of fns) of Some l \<Rightarrow> [l] | None \<Rightarrow> [])"
  by (simp add: named_fns_def map_filter_def split: option.split)

lemma named_fns_Nil [simp]: "named_fns sel fns [] = []"
  by (simp add: named_fns_def map_filter_def)

lemma get_constraint_cases: "get_constraint env l = (if conditional env l then Some ResolveGenericParamTraitBounds else None)"
  by (simp add: conditional_def get_constraint_def)

text \<open>A constrained spec that is created now has the contents of the base spec so far.\<close>

lemma constrained_created:
  assumes "base_holds env fns refs b" and "\<not> list_ex (conditional_ref env fns) refs"
  shows "constrained_holds env fns refs b"
proof -
  have "\<not> conditional env l" if "l \<in> set (named_fns pre_ref fns refs) \<union> set (named_fns post_ref fns refs)" for l
    using that assms(2) by (fastforce simp: named_fns_def map_filter_def conditional_ref_def list_ex_iff)
  then have "filter (conditional env) (named_fns pre_ref fns refs) = []"
    "filter (\<lambda>l. \<not> conditional env l) (named_fns pre_ref fns refs) = named_fns pre_ref fns refs"
    "filter (\<lambda>l. \<not> conditional env l) (named_fns post_ref fns refs) = named_fns post_ref fns refs"
    by (auto simp: filter_empty_conv filter_id_conv)
  note all = this
  have "takeWhile (\<lambda>r. \<not> conditional_ref env fns r) refs = refs"
    using assms(2) by (auto simp: takeWhile_eq_all_conv list_ex_iff)
  then show ?thesis unfolding constrained_holds_def using assms(1) all by (simp only: base_holds_def) simp
qed

text \<open>The constrained spec that a conditional reference updates.\<close>

definition constrained_of :: "'t spec_graph \<Rightarrow> 't" where
  "constrained_of g = (case specs_with_constraints g of [] \<Rightarrow> base_spec g | (_, s) # _ \<Rightarrow> s)"

lemma update_constrained_only:
  assumes "map fst (specs_with_constraints g) \<in> {[], [ResolveGenericParamTraitBounds]}"
  shows "specs_with_constraints (update_constrained ResolveGenericParamTraitBounds f g) =
      [(ResolveGenericParamTraitBounds, f (constrained_of g))]"
    and "base_spec (update_constrained ResolveGenericParamTraitBounds f g) = base_spec g"
proof -
  have "specs_with_constraints g = [] \<or> (\<exists>s. specs_with_constraints g = [(ResolveGenericParamTraitBounds, s)])"
    using assms by (auto simp: map_eq_Cons_conv)
  then show "specs_with_constraints (update_constrained ResolveGenericParamTraitBounds f g) =
      [(ResolveGenericParamTraitBounds, f (constrained_of g))]"
    by (auto simp: update_constrained_def constrained_of_def)
qed (simp add: update_constrained_def)

lemma constrained_of_holds:
  assumes "graph_holds env fns refs g"
  shows "constrained_holds env fns refs (constrained_of g)"
proof (cases "specs_with_constraints g")
  case Nil
  then show ?thesis using assms constrained_created [of env fns refs "base_spec g"]
    by (auto simp: graph_holds_def constrained_of_def split: if_splits)
next
  case (Cons cs rest)
  then show ?thesis using assms by (cases cs) (auto simp: graph_holds_def constrained_of_def)
qed


text \<open>The effect of one more reference, for each kind of reference.\<close>

lemma graph_holds_conditional:
  assumes "graph_holds env fns refs g" and "conditional_ref env fns r"
    and "base_holds env fns (refs @ [r]) (base_spec g)"
    and "constrained_holds env fns (refs @ [r]) (f (constrained_of g))"
  shows "graph_holds env fns (refs @ [r]) (update_constrained ResolveGenericParamTraitBounds f g)"
proof -
  have "map fst (specs_with_constraints g) \<in> {[], [ResolveGenericParamTraitBounds]}"
    using assms(1) by (simp add: graph_holds_def)
  from update_constrained_only [OF this, of f] show ?thesis using assms by (simp add: graph_holds_def)
qed

lemma graph_holds_unconditional:
  assumes "graph_holds env fns refs g" and "\<not> conditional_ref env fns r"
    and "base_holds env fns refs (base_spec g) \<Longrightarrow> base_holds env fns (refs @ [r]) (base_spec g')"
    and "map fst (specs_with_constraints g') = map fst (specs_with_constraints g)"
    and "list_all2 (\<lambda>s s'. complete s \<longrightarrow> constrained_holds env fns refs s \<longrightarrow> list_ex (conditional_ref env fns) refs
       \<longrightarrow> constrained_holds env fns (refs @ [r]) s')
      (map snd (specs_with_constraints g)) (map snd (specs_with_constraints g'))"
    and "list_all complete (map snd (specs_with_constraints g))"
  shows "graph_holds env fns (refs @ [r]) g'"
proof -
  have "list_all (constrained_holds env fns (refs @ [r])) (map snd (specs_with_constraints g'))"
  proof (cases "list_ex (conditional_ref env fns) refs")
    case True
    then show ?thesis using assms(1,5,6)
      by (auto simp: graph_holds_def list_all2_conv_all_nth list_all_length)
  next
    case False
    then have "specs_with_constraints g' = []" using assms(1,4) by (simp add: graph_holds_def)
    then show ?thesis by simp
  qed
  then show ?thesis using assms(1-4) by (simp add: graph_holds_def)
qed


definition all_collected :: "proc_spec spec_graph \<Rightarrow> bool" where
  "all_collected g = list_all complete (all_specs g)"

lemma collected_push [simp]:
  "complete s \<Longrightarrow> item_iter (item_push v (pres s)) = item_iter (pres s) @ [v]"
  "complete s \<Longrightarrow> item_iter (item_push v (posts s)) = item_iter (posts s) @ [v]"
  "complete s \<Longrightarrow> item_iter (item_push q (pledges s)) = item_iter (pledges s) @ [q]"
  by (simp_all add: complete_def)

lemma all_collected_of [simp]:
  "all_collected g \<Longrightarrow> complete (base_spec g)" "all_collected g \<Longrightarrow> complete (constrained_of g)"
  "all_collected g \<Longrightarrow> list_all complete (map snd (specs_with_constraints g))"
  by (auto simp: all_collected_def all_specs_def constrained_of_def split: list.splits)

lemma spec_function_Value [simp]: "spec_function fns u = Value l \<longleftrightarrow> map_of fns u = Some l"
  by (simp add: spec_function_def split: option.split)

lemma conditional_ref_simps [simp]:
  "map_of fns u = Some l \<Longrightarrow> conditional_ref env fns (Ref_Precondition u) = conditional env l"
  "map_of fns u = Some l \<Longrightarrow> conditional_ref env fns (Ref_Postcondition u) = conditional env l"
  "map_of fns u = Some l \<Longrightarrow> conditional_ref env fns (Ref_Purity u) = conditional env l"
  "conditional_ref env fns (Ref_Pledge lhs rhs) = False"
  "conditional_ref env fns (Ref_Predicate u) = False"
  "conditional_ref env fns (Ref_Terminates u) = False"
  by (simp_all add: conditional_ref_def named_fns_single)

lemma update_all_specs:
  "map fst (specs_with_constraints (update_all f g)) = map fst (specs_with_constraints g)"
  "map snd (specs_with_constraints (update_all f g)) = map f (map snd (specs_with_constraints g))"
  "base_spec (update_all f g) = f (base_spec g)"
  by (auto simp: update_all_def)

lemmas holds_simps = base_holds_def constrained_holds_def named_fns_single takeWhile_snoc_stop map_filter_append map_filter_simps

lemma graph_holds_pre:
  assumes "graph_holds env fns refs g" and "all_collected g" and "map_of fns u = Some l"
  shows "graph_holds env fns (refs @ [Ref_Precondition u]) (add_precondition env l g)"
proof (cases "conditional env l")
  case True
  have "graph_holds env fns (refs @ [Ref_Precondition u])
      (update_constrained ResolveGenericParamTraitBounds (pres_update (item_push (to_def_id l))) g)"
    by (rule graph_holds_conditional [OF assms(1)])
       (use assms constrained_of_holds [OF assms(1)] True in \<open>auto simp: holds_simps graph_holds_def\<close>)
  then show ?thesis using True by (simp add: add_precondition_def get_constraint_cases)
next
  case False
  have "graph_holds env fns (refs @ [Ref_Precondition u]) (g\<lparr>base_spec := pres_update (item_push (to_def_id l)) (base_spec g)\<rparr>)"
    by (rule graph_holds_unconditional [OF assms(1)])
       (use assms False in \<open>auto simp: holds_simps list_all2_conv_all_nth list_ex_iff\<close>)
  then show ?thesis using False by (simp add: add_precondition_def get_constraint_cases)
qed

lemma graph_holds_post:
  assumes "graph_holds env fns refs g" and "all_collected g" and "map_of fns u = Some l"
  shows "graph_holds env fns (refs @ [Ref_Postcondition u]) (add_postcondition env l g)"
proof (cases "conditional env l")
  case True
  have "graph_holds env fns (refs @ [Ref_Postcondition u])
      (update_constrained ResolveGenericParamTraitBounds (posts_update (item_push (to_def_id l))) g)"
    by (rule graph_holds_conditional [OF assms(1)])
       (use assms constrained_of_holds [OF assms(1)] True in \<open>auto simp: holds_simps graph_holds_def\<close>)
  then show ?thesis using True by (simp add: add_postcondition_def get_constraint_cases)
next
  case False
  have "graph_holds env fns (refs @ [Ref_Postcondition u]) (update_all (posts_update (item_push (to_def_id l))) g)"
    by (rule graph_holds_unconditional [OF assms(1)])
       (use assms False in \<open>auto simp: update_all_specs holds_simps list_all2_conv_all_nth list_ex_iff\<close>)
  then show ?thesis using False by (simp add: add_postcondition_def get_constraint_cases)
qed

lemma graph_holds_purity:
  assumes "graph_holds env fns refs g" and "all_collected g" and "map_of fns u = Some l" and "add_purity env l g = Value g'"
  shows "graph_holds env fns (refs @ [Ref_Purity u]) g'"
proof -
  have c: "conditional env l" using assms(4) by (simp add: add_purity_def get_constraint_cases split: if_splits)
  have "graph_holds env fns (refs @ [Ref_Purity u]) (update_constrained ResolveGenericParamTraitBounds
      (\<lambda>s. (purity_update (item_set (Some (to_def_id l))) s)\<lparr>proc_kind := Inherent Pure\<rparr>) g)"
    by (rule graph_holds_conditional [OF assms(1)])
       (use assms constrained_of_holds [OF assms(1)] c in \<open>auto simp: holds_simps graph_holds_def\<close>)
  then show ?thesis using assms(4) c by (simp add: add_purity_def get_constraint_cases)
qed

text \<open>References that update all specs alike.\<close>

lemma graph_holds_all:
  assumes "graph_holds env fns refs g" and "all_collected g" and "\<not> conditional_ref env fns r"
    and "named_fns pre_ref fns [r] = []" "named_fns post_ref fns [r] = []"
    and "\<And>s. pres (f s) = pres s" "\<And>s. posts (f s) = posts s"
    and "item_iter (pledges (f (base_spec g))) = item_iter (pledges (base_spec g)) @ List.map_filter (pledge_ref fns) [r]"
  shows "graph_holds env fns (refs @ [r]) (update_all f g)"
  by (rule graph_holds_unconditional [OF assms(1)])
     (use assms in \<open>auto simp: update_all_specs base_holds_def constrained_holds_def takeWhile_snoc_stop map_filter_append
       list_all2_conv_all_nth list_ex_iff\<close>)

lemma graph_holds_ref:
  assumes "graph_holds env fns refs g" and "all_collected g" and "apply_ref env fns r (g, k) = Value (g', k')"
  shows "graph_holds env fns (refs @ [r]) g'"
proof (cases r)
  case (Ref_Pledge lhs rhs)
  have "opt_exec (map_option (spec_function fns) lhs) = Value x \<Longrightarrow> x = Option.bind lhs (map_of fns)" for x
    by (cases lhs) auto
  then show ?thesis using assms Ref_Pledge
    by (auto simp: add_pledge_def named_fns_single map_filter_simps intro!: graph_holds_all)
next
  case (Ref_Predicate u)
  have "update_all id g = g" by (simp add: update_all_def)
  then show ?thesis using assms Ref_Predicate graph_holds_all [of env fns refs g r id]
    by (auto simp: named_fns_single map_filter_simps)
next
  case (Ref_Terminates u)
  then show ?thesis using assms
    by (auto simp: set_terminates_def named_fns_single map_filter_simps intro!: graph_holds_all)
qed (use assms in \<open>auto intro: graph_holds_pre graph_holds_post graph_holds_purity\<close>)

fun predicate_ref :: "'u spec_id_ref \<Rightarrow> 'u option" where
  "predicate_ref (Ref_Predicate u) = Some u"
| "predicate_ref _ = None"

text \<open>The kind of the contract: that of the last predicate, or else of the annotations.\<close>

definition predicate_kind :: "('u, local_def_id) index_map \<Rightarrow> 'u spec_id_ref list \<Rightarrow> proc_kind option" where
  "predicate_kind fns refs =
     (case rev (named_fns predicate_ref fns refs) of [] \<Rightarrow> None | p # _ \<Rightarrow> Some (Predicate (Some (to_def_id p))))"

definition final_kind :: "('u, local_def_id) index_map \<Rightarrow> 'u proc_spec_refs \<Rightarrow> proc_kind" where
  "final_kind fns refs =
     (case predicate_kind fns (spec_id_refs refs) of Some k \<Rightarrow> k | None \<Rightarrow> kind_of_refs refs)"

lemma collecting_iff: "related (\<lambda>b c. complete b \<and> complete c) g \<longleftrightarrow> all_collected g"
  by (auto simp: related_def all_collected_def all_specs_def list_all_iff)

lemma apply_ref_base:
  assumes "apply_ref env fns r (g, k) = Value (g', k')"
  shows "proc_kind (base_spec g') = proc_kind (base_spec g) \<and> source (base_spec g') = source (base_spec g) \<and>
    extern_spec (base_spec g') = extern_spec (base_spec g) \<and> trusted (base_spec g') = trusted (base_spec g)"
proof -
  have "base_spec (update_constrained c f g) = base_spec g" for c f by (simp add: update_constrained_def)
  then show ?thesis using assms
    by (cases r) (auto simp: add_precondition_def add_postcondition_def add_purity_def add_pledge_def set_terminates_def
        update_all_specs get_constraint_cases split: if_splits)
qed

lemma apply_ref_kind:
  assumes "apply_ref env fns r (g, k) = Value (g', k')"
  shows "k' = (case predicate_kind fns [r] of Some q \<Rightarrow> Some q | None \<Rightarrow> k)"
  using assms by (cases r) (auto simp: predicate_kind_def named_fns_single)

lemma predicate_kind_local: "pred_option kind_local (predicate_kind fns refs)"
  by (simp add: predicate_kind_def split: list.split)

lemma predicate_kind_snoc:
  "predicate_kind fns (refs @ [r]) = (case predicate_kind fns [r] of Some q \<Rightarrow> Some q | None \<Rightarrow> predicate_kind fns refs)"
  by (auto simp: predicate_kind_def named_fns_single split: option.split)

lemma fold_refs_hold:
  assumes "fold_exec (apply_ref env fns) refs (set_kind kind (graph_new (proc_spec_empty d)), None) = Value (g, k)"
  shows "graph_holds env fns refs g \<and> all_collected g \<and> proc_kind (base_spec g) = Inherent kind \<and>
    source (base_spec g) = d \<and> extern_spec (base_spec g) = None \<and> k = predicate_kind fns refs"
  using assms
proof (induction refs arbitrary: g k rule: rev_induct)
  case Nil
  then show ?case
    by (auto simp: graph_holds_def base_holds_def set_kind_def update_all_def graph_new_def proc_spec_empty_def all_collected_def
        all_specs_def complete_def predicate_kind_def map_filter_simps)
next
  case (snoc r refs)
  obtain g1 k1 where *: "fold_exec (apply_ref env fns) refs (set_kind kind (graph_new (proc_spec_empty d)), None) = Value (g1, k1)"
    "apply_ref env fns r (g1, k1) = Value (g, k)"
    using snoc.prems by (auto simp: fold_exec_append)
  note IH = snoc.IH [OF *(1)]
  have k1: "k1 = predicate_kind fns refs" using IH by blast
  then have "all_collected g"
    using collecting.related_ref [of "(g1, k1)" env fns r "(g, k)"] IH *(2) predicate_kind_local [of fns refs]
    by (simp add: collecting_iff)
  moreover note k1
  then have "k = predicate_kind fns (refs @ [r])" using apply_ref_kind [OF *(2)] by (simp only: predicate_kind_snoc)
  ultimately show ?case using IH graph_holds_ref [of env fns refs g1 r k1 g k] apply_ref_base [OF *(2)] *(2) by simp
qed

lemma graph_holds_cong:
  assumes "\<And>s. pres (f s) = pres s" "\<And>s. posts (f s) = posts s" "\<And>s. pledges (f s) = pledges s"
  shows "graph_holds env fns refs (update_all f g) = graph_holds env fns refs g"
  using assms by (simp add: graph_holds_def update_all_specs base_holds_def constrained_holds_def list_all_iff del: map_map)

text \<open>The contract that is built from the references of a function.\<close>

lemma graph_of_refs_holds:
  assumes "graph_of_refs env fns l refs = Value g"
  shows "graph_holds env fns (spec_id_refs refs) g" and "all_collected g"
    and "proc_kind (base_spec g) = Inherent (final_kind fns refs)" and "trusted (base_spec g) = Inherent (refs_trusted refs)"
    and "source (base_spec g) = to_def_id l" and "extern_spec (base_spec g) = None"
proof -
  let ?start = "set_kind (kind_of_refs refs) (graph_new (proc_spec_empty (to_def_id l)))"
  obtain g1 k where g: "fold_exec (apply_ref env fns) (spec_id_refs refs) (?start, None) = Value (g1, k)"
    "g = (case k of Some kind \<Rightarrow> set_kind kind (set_trusted (refs_trusted refs) g1) | None \<Rightarrow> set_trusted (refs_trusted refs) g1)"
    using assms by (auto simp: graph_of_refs_def Let_def split: prod.splits)
  note h = fold_refs_hold [OF g(1)]
  show "graph_holds env fns (spec_id_refs refs) g"
    using h by (simp add: g(2) set_kind_def set_trusted_def graph_holds_cong split: option.split)
  show "all_collected g" using collecting.related_graph [OF assms] by (simp add: collecting_iff)
  have "complete (base_spec g1)" using h by simp
  then have c: "inherent (proc_kind (base_spec g1))" "inherent (trusted (base_spec g1))" by (simp_all add: complete_def)
  have base: "base_spec g = (case k of
      Some kind \<Rightarrow> proc_kind_update (item_set kind) (trusted_update (item_set (refs_trusted refs)) (base_spec g1))
    | None \<Rightarrow> trusted_update (item_set (refs_trusted refs)) (base_spec g1))"
    by (simp add: g(2) set_kind_def set_trusted_def update_all_specs split: option.split)
  have k: "k = predicate_kind fns (spec_id_refs refs)" using h by blast
  show "trusted (base_spec g) = Inherent (refs_trusted refs)"
    using c by (cases k) (simp_all add: base)
  have "proc_kind (base_spec g1) = Inherent (kind_of_refs refs)" "source (base_spec g1) = to_def_id l"
    "extern_spec (base_spec g1) = None" using h by blast+
  note parts = this
  show "source (base_spec g) = to_def_id l"
    using parts(2) unfolding base by (simp split: option.split)
  show "extern_spec (base_spec g) = None"
    using parts(3) unfolding base by (simp split: option.split)
  show "proc_kind (base_spec g) = Inherent (final_kind fns refs)"
    using parts(1) unfolding base final_kind_def k by (simp split: option.split)
qed

end
