(* ===== verification/Spec_Build_Laws.thy ===== *)
theory Spec_Build_Laws
  imports Spec_Graph_Content
begin

text \<open>
  Laws of building the contracts of a crate: when it panics, and which contract a function has in the end.
\<close>

section \<open>Contracts of functions\<close>

text \<open>References whose spec functions have been visited.\<close>

fun ref_resolved :: "('sp, 'ms) spec_env \<Rightarrow> ('u, local_def_id) index_map \<Rightarrow> 'u spec_id_ref \<Rightarrow> bool" where
  "ref_resolved env fns (Ref_Purity u) = (case map_of fns u of Some l \<Rightarrow> conditional env l | None \<Rightarrow> False)"
| "ref_resolved env fns (Ref_Pledge lhs rhs) = (pred_option (\<lambda>u. map_of fns u \<noteq> None) lhs \<and> map_of fns rhs \<noteq> None)"
| "ref_resolved env fns (Ref_Precondition u) = (map_of fns u \<noteq> None)"
| "ref_resolved env fns (Ref_Postcondition u) = (map_of fns u \<noteq> None)"
| "ref_resolved env fns (Ref_Predicate u) = (map_of fns u \<noteq> None)"
| "ref_resolved env fns (Ref_Terminates u) = (map_of fns u \<noteq> None)"

lemma returns_spec_function: "returns (spec_function fns u) \<longleftrightarrow> map_of fns u \<noteq> None"
  by (simp add: spec_function_def split: option.split)

lemma apply_ref_returns: "returns (apply_ref env fns r (g, k)) \<longleftrightarrow> ref_resolved env fns r"
proof (cases r)
  case (Ref_Purity u)
  then show ?thesis
    by (auto simp: spec_function_def add_purity_def get_constraint_cases split: option.split)
next
  case (Ref_Pledge lhs rhs)
  then show ?thesis by (simp add: returns_spec_function option.pred_map comp_def)
qed (simp_all add: returns_spec_function)

lemma fold_refs_returns:
  "returns (fold_exec (apply_ref env fns) refs gk) \<longleftrightarrow> list_all (ref_resolved env fns) refs"
proof (induction refs arbitrary: gk)
  case (Cons r refs)
  obtain g k where gk: "gk = (g, k)" by (cases gk)
  show ?case
  proof (cases "apply_ref env fns r (g, k)")
    case (Value gk')
    then show ?thesis using Cons.IH [of gk'] apply_ref_returns [of env fns r g k] by (simp add: gk)
  next
    case (Panicked p)
    then show ?thesis using apply_ref_returns [of env fns r g k] by (simp add: gk)
  qed
qed simp

lemma graph_of_refs_returns:
  "(\<exists>g. graph_of_refs env fns l refs = Value g) \<longleftrightarrow> list_all (ref_resolved env fns) (spec_id_refs refs)"
  using fold_refs_returns [of env fns "spec_id_refs refs"] by (simp add: returns_iff graph_of_refs_def)

text \<open>A contract is dropped when it has conditional parts and the function is not trusted.\<close>

definition kept :: "'u proc_spec_refs \<Rightarrow> proc_spec spec_graph \<Rightarrow> bool" where
  "kept refs g = (specs_with_constraints g = [] \<or> refs_trusted refs)"

lemma determine_procedure_spec_Value:
  assumes "determine_procedure_spec env fns (l, refs) (m, d) = Value (m', d')"
  obtains g where "graph_of_refs env fns l refs = Value g"
    "m' = (if kept refs g then m\<lparr>proc_specs := AList.update (to_def_id l) g (proc_specs m)\<rparr> else m)"
proof -
  obtain g where g: "graph_of_refs env fns l refs = Value g"
    using assms by (auto simp: determine_procedure_spec_def)
  then show ?thesis using that [of g] assms graph_of_refs_holds(4) [OF g]
    by (auto simp: determine_procedure_spec_def kept_def split: if_splits)
qed

lemma determine_procedure_spec_returns:
  assumes "list_all (ref_resolved env fns) (spec_id_refs refs)"
  shows "returns (determine_procedure_spec env fns (l, refs) (m, d))"
proof -
  obtain g where g: "graph_of_refs env fns l refs = Value g" using assms graph_of_refs_returns by blast
  then show ?thesis using graph_of_refs_holds(4) [OF g] by (simp add: determine_procedure_spec_def)
qed

lemma to_def_id_inj [simp]: "to_def_id l = to_def_id l' \<longleftrightarrow> l = l'"
  by (simp add: to_def_id_def)

lemma determine_procedures:
  assumes "fold_exec (determine_procedure_spec env fns) ps (m, d) = Value (m', d')" and "distinct (map fst ps)"
  shows "(\<forall>x. x \<notin> to_def_id ` fst ` set ps \<longrightarrow> map_of (proc_specs m') x = map_of (proc_specs m) x) \<and>
    (\<forall>(l, refs) \<in> set ps. \<exists>g. graph_of_refs env fns l refs = Value g \<and>
      map_of (proc_specs m') (to_def_id l) = (if kept refs g then Some g else map_of (proc_specs m) (to_def_id l)))"
  using assms
proof (induction ps arbitrary: m d)
  case (Cons p ps)
  obtain l refs where p: "p = (l, refs)" by (cases p)
  obtain m1 d1 where step: "determine_procedure_spec env fns (l, refs) (m, d) = Value (m1, d1)"
    "fold_exec (determine_procedure_spec env fns) ps (m1, d1) = Value (m', d')"
    using Cons.prems(1) by (auto simp: p)
  obtain g where g: "graph_of_refs env fns l refs = Value g"
    "m1 = (if kept refs g then m\<lparr>proc_specs := AList.update (to_def_id l) g (proc_specs m)\<rparr> else m)"
    by (rule determine_procedure_spec_Value [OF step(1)])
  have d: "l \<notin> fst ` set ps" "distinct (map fst ps)" using Cons.prems(2) by (auto simp: p)
  note IH = Cons.IH [OF step(2) d(2)]
  have other: "map_of (proc_specs m1) x = map_of (proc_specs m) x" if "x \<noteq> to_def_id l" for x
    using that by (simp add: g(2))
  have "to_def_id l \<notin> to_def_id ` fst ` set ps" using d(1) by force
  then have here: "map_of (proc_specs m') (to_def_id l) = (if kept refs g then Some g else map_of (proc_specs m) (to_def_id l))"
    using IH by (simp add: g(2))
  have "\<exists>g. graph_of_refs env fns l' refs' = Value g \<and>
      map_of (proc_specs m') (to_def_id l') = (if kept refs' g then Some g else map_of (proc_specs m) (to_def_id l'))"
    if elem: "(l', refs') \<in> set (p # ps)" for l' refs'
  proof (cases "(l', refs') = p")
    case True
    then show ?thesis using here g(1) by (auto simp: p)
  next
    case False
    then have ps: "(l', refs') \<in> set ps" using elem by simp
    then have "l' \<noteq> l" using d(1) by force
    then show ?thesis using IH ps other [of "to_def_id l'"] by fastforce
  qed
  moreover have "map_of (proc_specs m') x = map_of (proc_specs m) x" if "x \<notin> to_def_id ` fst ` set (p # ps)" for x
    using that IH other [of x] by (simp add: p)
  ultimately show ?case by blast
qed simp

section \<open>External specifications\<close>

text \<open>
  External specifications that do not get in each other's way: their functions and the functions they are for are
  all different.
\<close>

definition targets :: "(extern_decl, def_id) index_map \<Rightarrow> def_id list" where
  "targets decls = map (get_target_def_id \<circ> fst) decls"

definition separate :: "(extern_decl, def_id) index_map \<Rightarrow> bool" where
  "separate decls = (distinct (map snd decls @ targets decls))"

lemma targets_simps [simp]: "targets [] = []" "targets ((decl, sid) # decls) = get_target_def_id decl # targets decls"
  by (simp_all add: targets_def)

lemma determine_extern_spec_Value:
  "determine_extern_spec env (decl, sid) (m, d) = Value (m', d') \<Longrightarrow>
   \<exists>g. map_of (proc_specs m) sid = Some g \<and>
     m' = m\<lparr>proc_specs := AList.update (get_target_def_id decl) (set_extern_spec (extern_kind_of decl) g)
       (AList.delete sid (proc_specs m))\<rparr>"
  by (auto simp: determine_extern_spec_def Let_def split: option.splits)

lemma determine_externs:
  assumes "fold_exec (determine_extern_spec env) decls (m, d) = Value (m', d')" and "separate decls"
  shows "(\<forall>x. x \<notin> set (targets decls) \<union> snd ` set decls \<longrightarrow> map_of (proc_specs m') x = map_of (proc_specs m) x) \<and>
    (\<forall>(decl, sid) \<in> set decls. map_of (proc_specs m') sid = None \<and>
      map_of (proc_specs m') (get_target_def_id decl) =
        map_option (set_extern_spec (extern_kind_of decl)) (map_of (proc_specs m) sid))"
  using assms
proof (induction decls arbitrary: m d)
  case (Cons x decls)
  obtain decl sid where x: "x = (decl, sid)" by (cases x)
  let ?t = "get_target_def_id decl"
  obtain m1 d1 where step: "determine_extern_spec env (decl, sid) (m, d) = Value (m1, d1)"
    "fold_exec (determine_extern_spec env) decls (m1, d1) = Value (m', d')"
    using Cons.prems(1) by (auto simp: x)
  obtain g where g: "map_of (proc_specs m) sid = Some g"
    "map_of (proc_specs m1) = (map_of (proc_specs m))(sid := None, ?t \<mapsto> set_extern_spec (extern_kind_of decl) g)"
    using determine_extern_spec_Value [OF step(1)] by (auto simp: delete_conv')
  have sep: "separate decls" "sid \<noteq> ?t" "sid \<notin> set (targets decls) \<union> snd ` set decls" "?t \<notin> set (targets decls) \<union> snd ` set decls"
    using Cons.prems(2) by (auto simp: separate_def x)
  note IH = Cons.IH [OF step(2) sep(1)]
  have here: "map_of (proc_specs m') sid = None" "map_of (proc_specs m') ?t = Some (set_extern_spec (extern_kind_of decl) g)"
    using IH sep g(2) by auto
  have "map_of (proc_specs m1) sid' = map_of (proc_specs m) sid'" if "(decl', sid') \<in> set decls" for decl' sid'
  proof -
    have "sid' \<in> snd ` set decls" using that by force
    then have "sid' \<noteq> sid" "sid' \<noteq> ?t" using sep by blast+
    then show ?thesis by (simp add: g(2))
  qed
  then have "\<forall>(decl', sid') \<in> set decls. map_of (proc_specs m') sid' = None \<and> map_of (proc_specs m') (get_target_def_id decl') =
        map_option (set_extern_spec (extern_kind_of decl')) (map_of (proc_specs m) sid')"
    using IH by fastforce
  moreover have "map_of (proc_specs m') y = map_of (proc_specs m) y"
    if "y \<notin> set (targets (x # decls)) \<union> snd ` set (x # decls)" for y
    using that IH g(2) by (auto simp: x)
  ultimately show ?case using here g(1) by (simp add: x)
qed simp

text \<open>The other parts of the build do not change the contracts of functions.\<close>

lemma types_keep_procs: "proc_specs (fst (fold (determine_type_spec env) ts md)) = proc_specs (fst md)"
proof (induction ts arbitrary: md)
  case (Cons t ts)
  have "proc_specs (fst (determine_type_spec env t md)) = proc_specs (fst md)"
    by (simp add: determine_type_spec_def split: prod.split)
  then show ?case using Cons by simp
qed simp

lemma build_proc_specs:
  assumes "build_def_specs env has_body c d = Value (m, d')"
  obtains m1 d1 m2 d2 where "determine_procedure_specs env c (def_spec_map_new, d) = Value (m1, d1)"
    "determine_extern_specs env c (m1, d1) = Value (m2, d2)" "proc_specs m = proc_specs m2"
proof -
  obtain m1 d1 m2 d2 where 1: "determine_procedure_specs env c (def_spec_map_new, d) = Value (m1, d1)"
    "determine_extern_specs env c (m1, d1) = Value (m2, d2)"
    using assms by (auto simp: build_def_specs_def)
  from types_keep_procs [of env "type_spec_map c" "(determine_loop_specs c m2, d2)"] have "proc_specs m = proc_specs m2"
    using assms 1 by (auto simp: build_def_specs_def determine_type_specs_def determine_loop_specs_def
      determine_prusti_assertions_def determine_prusti_assumptions_def determine_prusti_refutations_def Let_def split: prod.splits)
  then show ?thesis using that 1 by blast
qed

section \<open>Relations that hold in all contracts\<close>

lemma delete_subset: "set (AList.delete k m) \<subseteq> set m"
  by (simp add: AList.delete_eq)

context spec_relation
begin

lemma procedures_related:
  assumes "fold_exec (determine_procedure_spec env fns) ps (m, d) = Value (m', d')" and "\<forall>(x, g) \<in> set (proc_specs m). related R g"
  shows "\<forall>(x, g) \<in> set (proc_specs m'). related R g"
proof -
  have step: "\<forall>(x, g) \<in> set (proc_specs (fst md')). related R g"
    if old: "\<forall>(x, g) \<in> set (proc_specs (fst md)). related R g" and val: "determine_procedure_spec env fns p md = Value md'" for p md md'
  proof -
    obtain l refs m1 d1 m2 d2 where *: "p = (l, refs)" "md = (m1, d1)" "md' = (m2, d2)" by (cases p; cases md; cases md')
    then obtain g where "graph_of_refs env fns l refs = Value g"
      "m2 = (if kept refs g then m1\<lparr>proc_specs := AList.update (to_def_id l) g (proc_specs m1)\<rparr> else m1)"
      using val by (auto elim: determine_procedure_spec_Value)
    then show ?thesis using old related_graph set_update_subset [of "to_def_id l" g "proc_specs m1"]
      by (fastforce simp: * split: if_splits)
  qed
  have "\<forall>(x, g) \<in> set (proc_specs (fst (m', d'))). related R g"
    by (rule fold_exec_invariant [OF assms(1), where P = "\<lambda>md. \<forall>(x, g) \<in> set (proc_specs (fst md)). related R g"])
       (simp add: assms(2), erule step)
  then show ?thesis by simp
qed

lemma externs_related:
  assumes "fold_exec (determine_extern_spec env) decls (m, d) = Value (m', d')" and "\<forall>(x, g) \<in> set (proc_specs m). related R g"
  shows "\<forall>(x, g) \<in> set (proc_specs m'). related R g"
proof -
  have step: "\<forall>(x, g) \<in> set (proc_specs (fst md')). related R g"
    if old: "\<forall>(x, g) \<in> set (proc_specs (fst md)). related R g" and val: "determine_extern_spec env p md = Value md'" for p md md'
  proof -
    obtain decl sid m1 d1 m2 d2 where *: "p = (decl, sid)" "md = (m1, d1)" "md' = (m2, d2)" by (cases p; cases md; cases md')
    obtain g where g: "map_of (proc_specs m1) sid = Some g"
      "m2 = m1\<lparr>proc_specs := AList.update (get_target_def_id decl) (set_extern_spec (extern_kind_of decl) g)
        (AList.delete sid (proc_specs m1))\<rparr>"
      using determine_extern_spec_Value [of env decl sid m1 d1 m2 d2] val by (auto simp: *)
    have "related R (set_extern_spec (extern_kind_of decl) g)"
      using old map_of_SomeD [OF g(1)] by (auto simp: * intro: related_set)
    then show ?thesis
      using old delete_subset [of sid "proc_specs m1"] g(2)
        set_update_subset [of "get_target_def_id decl" "set_extern_spec (extern_kind_of decl) g" "AList.delete sid (proc_specs m1)"]
      by (fastforce simp: *)
  qed
  have "\<forall>(x, g) \<in> set (proc_specs (fst (m', d'))). related R g"
    by (rule fold_exec_invariant [OF assms(1), where P = "\<lambda>md. \<forall>(x, g) \<in> set (proc_specs (fst md)). related R g"])
       (simp add: assms(2), erule step)
  then show ?thesis by simp
qed

lemma build_related:
  assumes "build_def_specs env has_body c d = Value (m, d')" and "map_of (proc_specs m) x = Some g"
  shows "related R g"
proof -
  obtain m1 d1 m2 d2 where *: "determine_procedure_specs env c (def_spec_map_new, d) = Value (m1, d1)"
    "determine_extern_specs env c (m1, d1) = Value (m2, d2)" "proc_specs m = proc_specs m2"
    by (rule build_proc_specs [OF assms(1)])
  have "\<forall>(x, g) \<in> set (proc_specs m1). related R g"
    using procedures_related [of env "spec_functions c" "procedure_specs c" def_spec_map_new d m1 d1] *(1)
    by (simp add: determine_procedure_specs_def def_spec_map_new_def)
  then have "\<forall>(x, g) \<in> set (proc_specs m2). related R g"
    using externs_related *(2) by (simp add: determine_extern_specs_def)
  then show ?thesis using map_of_SomeD [OF assms(2)] *(3) by auto
qed

end

section \<open>The build does not panic\<close>

text \<open>A specification that can be exported under the id \<open>x\<close>.\<close>

definition exportable :: "def_id \<Rightarrow> proc_spec \<Rightarrow> bool" where
  "exportable x s = (complete s \<and> spec_local s \<and> (is_local x \<or> trusted s = Inherent True))"

lemma inherent_cases: "inherent i \<Longrightarrow> \<exists>v. i = Inherent v"
  by (cases i) simp_all

lemma extract_simps [simp]:
  "extract_with_selective_replacement (Inherent v) = Some v"
  "extract_inherit (Inherent b) = Some b"
  by (simp_all add: extract_inherit_def spec_simps)

lemma export_spec_returns:
  assumes "exportable x s"
  shows "\<exists>sp pf pr. export_spec x s = Value (sp, pf, pr) \<and> list_all is_local (sp @ pf @ pr)"
proof -
  obtain k t w where inh: "proc_kind s = Inherent k" "trusted s = Inherent t" "terminates s = Inherent w"
    using assms inherent_cases by (metis exportable_def complete_def)
  have "list_all is_local (List.map_filter pledge_lhs (item_iter (pledges s)) @ map pledge_rhs (item_iter (pledges s)))"
    using assms by (auto simp: exportable_def spec_local_def list_all_iff map_filter_def option.pred_set)
  moreover have "list_all is_local (item_iter (pres s) @ item_iter (posts s))" "kind_local k"
    using assms by (auto simp: exportable_def spec_local_def inh)
  moreover have "is_local x \<or> t" using assms by (auto simp: exportable_def inh)
  ultimately show ?thesis
    by (cases k) (auto simp: export_spec_def inh is_pure_def Let_def split: option.split)
qed

lemma exports_return:
  assumes "\<forall>(x, g) \<in> set (proc_specs m). list_all (exportable x) (all_specs g)"
    and "\<forall>(x, t) \<in> set (type_specs m). list_all is_local (item_iter (type_invariant t))"
  shows "\<exists>sp pf pr. defid_for_export m = Value (sp, pf, pr) \<and> list_all is_local (sp @ pf @ pr)"
proof -
  let ?es = "concat (map (\<lambda>(x, g). map (export_spec x) (all_specs g)) (proc_specs m))"
  have es: "\<exists>sp pf pr. e = Value (sp, pf, pr) \<and> list_all is_local (sp @ pf @ pr)" if "e \<in> set ?es" for e
    using that assms(1) export_spec_returns by (fastforce simp: list_all_iff)
  then have "list_all returns ?es" by (fastforce simp: list_all_iff)
  then obtain xs where xs: "all_exec ?es = Value xs" by (metis returns_exec_simps(4) returns_iff)
  then have "?es = map Value xs" by (simp add: all_exec_Value)
  then have "list_all is_local (fst v @ fst (snd v) @ snd (snd v))" if "v \<in> set xs" for v
    using es [of "Value v"] that by fastforce
  then show ?thesis using xs assms(2) by (fastforce simp: defid_for_export_def list_all_iff)
qed

lemma expect_local_returns: "is_local x \<Longrightarrow> returns (expect_local x)"
  by (simp add: expect_local_def as_local_def)

lemma mirs_return:
  assumes "\<forall>(x, g) \<in> set (proc_specs m). list_all (exportable x) (all_specs g)"
    and "\<forall>(x, t) \<in> set (type_specs m). list_all is_local (item_iter (type_invariant t))"
  shows "returns (ensure_local_mirs_fetched has_body m)"
proof -
  obtain sp pf pr where "defid_for_export m = Value (sp, pf, pr)" "list_all is_local (sp @ pf @ pr)"
    using exports_return [OF assms] by blast
  then show ?thesis
    using expect_local_returns by (auto simp: ensure_local_mirs_fetched_def list_all_iff)
qed

lemma all_specs_update_all: "all_specs (update_all f g) = map f (all_specs g)"
  by (simp add: all_specs_def update_all_specs del: map_map)

lemma exportable_extern:
  "list_all (exportable x) (all_specs (set_extern_spec k g)) = list_all (exportable x) (all_specs g)"
proof -
  have "exportable x (extern_spec_update (\<lambda>_. Some k) s) = exportable x s" for s
    by (simp add: exportable_def complete_def spec_local_def)
  then show ?thesis by (simp add: set_extern_spec_def all_specs_update_all list_all_iff)
qed

lemma determine_extern_spec_found:
  "map_of (proc_specs m) sid = Some g \<Longrightarrow> \<exists>d'. determine_extern_spec env (decl, sid) (m, d) =
     Value (m\<lparr>proc_specs := AList.update (get_target_def_id decl) (set_extern_spec (extern_kind_of decl) g)
       (AList.delete sid (proc_specs m))\<rparr>, d')"
  by (simp add: determine_extern_spec_def Let_def)

lemma externs_return:
  assumes "separate decls" and "\<forall>(x, g) \<in> set (proc_specs m). list_all (exportable x) (all_specs g)"
    and "\<forall>(decl, sid) \<in> set decls. \<exists>g. map_of (proc_specs m) sid = Some g \<and> (\<forall>x. list_all (exportable x) (all_specs g))"
  shows "\<exists>m' d'. fold_exec (determine_extern_spec env) decls (m, d) = Value (m', d') \<and> type_specs m' = type_specs m \<and>
    (\<forall>(x, g) \<in> set (proc_specs m'). list_all (exportable x) (all_specs g))"
  using assms
proof (induction decls arbitrary: m d)
  case (Cons p decls)
  obtain decl sid where p: "p = (decl, sid)" by (cases p)
  let ?t = "get_target_def_id decl"
  obtain g where g: "map_of (proc_specs m) sid = Some g" "\<forall>x. list_all (exportable x) (all_specs g)"
    using Cons.prems(3) by (auto simp: p)
  define m1 where "m1 = m\<lparr>proc_specs := AList.update ?t (set_extern_spec (extern_kind_of decl) g) (AList.delete sid (proc_specs m))\<rparr>"
  obtain d1 where step: "determine_extern_spec env (decl, sid) (m, d) = Value (m1, d1)"
    unfolding m1_def using determine_extern_spec_found [OF g(1), of env decl d] by blast
  have sep: "separate decls" "sid \<notin> snd ` set decls" "?t \<notin> snd ` set decls"
    using Cons.prems(1) by (auto simp: separate_def p)
  have "set (proc_specs m1) \<subseteq> insert (?t, set_extern_spec (extern_kind_of decl) g) (set (proc_specs m))"
    using subset_trans [OF set_update_subset insert_mono [OF delete_subset]] by (simp add: m1_def)
  then have "\<forall>(x, g) \<in> set (proc_specs m1). list_all (exportable x) (all_specs g)"
    using Cons.prems(2) g(2) exportable_extern by blast
  moreover have "\<exists>g. map_of (proc_specs m1) sid' = Some g \<and> (\<forall>x. list_all (exportable x) (all_specs g))"
    if elem: "(decl', sid') \<in> set decls" for decl' sid'
  proof -
    have "sid' \<in> snd ` set decls" using elem by force
    then have "sid' \<noteq> sid" "sid' \<noteq> ?t" using sep by blast+
    then have "map_of (proc_specs m1) sid' = map_of (proc_specs m) sid'" by (simp add: m1_def delete_conv')
    then show ?thesis using Cons.prems(3) elem by fastforce
  qed
  ultimately have "\<exists>m' d'. fold_exec (determine_extern_spec env) decls (m1, d1) = Value (m', d') \<and> type_specs m' = type_specs m1 \<and>
    (\<forall>(x, g) \<in> set (proc_specs m'). list_all (exportable x) (all_specs g))"
    using Cons.IH [of m1 d1] sep(1) by blast
  then show ?case using step by (simp add: p m1_def)
qed simp

text \<open>
  What the visitor leaves behind when the macros have done their part: all spec functions that are referred to have been
  visited, and the functions that stand for external specifications are trusted.
\<close>

definition collector_ok :: "('sp, 'ms) spec_env \<Rightarrow> ('u, 'sp) spec_collector \<Rightarrow> bool" where
  "collector_ok env c =
     (distinct (map fst (procedure_specs c)) \<and>
      list_all (\<lambda>(l, refs). list_all (ref_resolved env (spec_functions c)) (spec_id_refs refs)) (procedure_specs c) \<and>
      separate (extern_fn_map (extern_resolver c)) \<and>
      list_all (\<lambda>(decl, sid).
        case Option.bind (as_local sid) (map_of (procedure_specs c)) of Some refs \<Rightarrow> refs_trusted refs | None \<Rightarrow> False)
        (extern_fn_map (extern_resolver c)))"

lemma as_local_Some: "as_local x = Some l \<longleftrightarrow> x = to_def_id l"
  by (cases x) (auto simp: as_local_def is_local_def to_def_id_def)

lemma graph_exportable:
  assumes "graph_of_refs env fns l refs = Value g" and "is_local x \<or> refs_trusted refs"
  shows "list_all (exportable x) (all_specs g)"
proof -
  have "list_all (\<lambda>s. trusted s = Inherent (refs_trusted refs)) (all_specs g)"
    using shared.related_graph [OF assms(1)] graph_of_refs_holds(4) [OF assms(1)]
    by (auto simp: related_def list_all_iff parts_shared_def)
  then show ?thesis
    using collecting.related_graph [OF assms(1)] localities.related_graph [OF assms(1)] assms(2)
    by (auto simp: related_def list_all_iff exportable_def)
qed

lemma type_specs_local:
  assumes "\<forall>(x, t) \<in> set (type_specs m). list_all is_local (item_iter (type_invariant t))"
  shows "\<forall>(x, t) \<in> set (type_specs (fst (fold (determine_type_spec env) ts (m, d)))).
    list_all is_local (item_iter (type_invariant t))"
  using assms
proof (induction ts arbitrary: m d)
  case (Cons p ts)
  obtain l refs where p: "p = (l, refs)" by (cases p)
  obtain m1 d1 where m1: "determine_type_spec env (l, refs) (m, d) = (m1, d1)" by fastforce
  have "\<forall>(x, t) \<in> set (type_specs m1). list_all is_local (item_iter (type_invariant t))"
  proof -
    obtain t where t: "type_specs m1 = AList.update (to_def_id l) t (type_specs m)" "type_invariant t = Inherent (map to_def_id (type_invariants refs))"
      using m1 by (auto simp: determine_type_spec_def)
    moreover have "list_all is_local (item_iter (type_invariant t))" by (simp add: t(2) list_all_iff)
    ultimately show ?thesis using Cons.prems set_update_subset [of "to_def_id l" t "type_specs m"] by auto
  qed
  then show ?case using Cons.IH [of m1 d1] m1 by (simp add: p)
qed simp

lemma procedures_exportable:
  assumes "fold_exec (determine_procedure_spec env fns) ps (m, d) = Value (m', d')"
    and "\<forall>(x, g) \<in> set (proc_specs m). list_all (exportable x) (all_specs g)"
  shows "\<forall>(x, g) \<in> set (proc_specs m'). list_all (exportable x) (all_specs g)"
proof -
  let ?P = "\<lambda>md. \<forall>(x, g) \<in> set (proc_specs (fst md)). list_all (exportable x) (all_specs g)"
  have step: "?P md'" if old: "?P md" and val: "determine_procedure_spec env fns p md = Value md'" for p md md'
  proof -
    obtain l refs m1 d1 m2 d2 where *: "p = (l, refs)" "md = (m1, d1)" "md' = (m2, d2)" by (cases p; cases md; cases md')
    then obtain g where g: "graph_of_refs env fns l refs = Value g"
      "m2 = (if kept refs g then m1\<lparr>proc_specs := AList.update (to_def_id l) g (proc_specs m1)\<rparr> else m1)"
      using val by (auto elim: determine_procedure_spec_Value)
    have "list_all (exportable (to_def_id l)) (all_specs g)" by (rule graph_exportable [OF g(1)]) simp
    moreover have "set (proc_specs m2) \<subseteq> insert (to_def_id l, g) (set (proc_specs m1))"
      using set_update_subset [of "to_def_id l" g "proc_specs m1"] by (auto simp: g(2))
    ultimately show ?thesis using old by (simp add: *) blast
  qed
  have "?P (m', d')"
    by (rule fold_exec_invariant [OF assms(1), where P = ?P]) (simp add: assms(2), erule step)
  then show ?thesis by simp
qed

lemma procedures_keep_types:
  assumes "fold_exec (determine_procedure_spec env fns) ps (m, d) = Value (m', d')"
  shows "type_specs m' = type_specs m"
proof -
  have "type_specs (fst (m', d')) = type_specs m"
  proof (rule fold_exec_invariant [OF assms, where P = "\<lambda>md. type_specs (fst md) = type_specs m"])
    fix p md md'
    assume "type_specs (fst md) = type_specs m" "determine_procedure_spec env fns p md = Value md'"
    then show "type_specs (fst md') = type_specs m"
      by (cases p; cases md; cases md') (auto elim: determine_procedure_spec_Value)
  qed simp
  then show ?thesis by simp
qed

lemma rest_of_build_returns:
  assumes "\<forall>(x, g) \<in> set (proc_specs m2). list_all (exportable x) (all_specs g)" and "type_specs m2 = []"
    and "determine_procedure_specs env c (def_spec_map_new, d) = Value md"
    and "determine_extern_specs env c md = Value (m2, d2)"
  shows "\<exists>m d'. build_def_specs env has_body c d = Value (m, d')"
proof -
  obtain m3 d3 where m3: "determine_type_specs env c (determine_loop_specs c m2, d2) = (m3, d3)" by fastforce
  define m4 where "m4 = determine_prusti_refutations c (determine_prusti_assumptions c (determine_prusti_assertions c m3))"
  have m4: "proc_specs m4 = proc_specs m3" "type_specs m4 = type_specs m3"
    by (simp_all add: m4_def determine_prusti_refutations_def determine_prusti_assumptions_def determine_prusti_assertions_def)
  have "proc_specs m3 = proc_specs m2"
    using types_keep_procs [of env "type_spec_map c" "(determine_loop_specs c m2, d2)"] m3
    by (simp add: determine_type_specs_def determine_loop_specs_def)
  moreover have "\<forall>(x, t) \<in> set (type_specs m3). list_all is_local (item_iter (type_invariant t))"
    using type_specs_local [of "determine_loop_specs c m2" env "type_spec_map c" d2] m3 assms(2)
    by (simp add: determine_type_specs_def determine_loop_specs_def)
  ultimately have "returns (ensure_local_mirs_fetched has_body m4)"
    using assms(1) by (intro mirs_return) (simp_all add: m4)
  then show ?thesis using assms(3,4) m3 by (auto simp: build_def_specs_def Let_def m4_def returns_iff)
qed

lemma build_def_specs_ok:
  assumes "collector_ok env c"
  shows "\<exists>m d'. build_def_specs env has_body c d = Value (m, d')"
proof -
  let ?ps = "procedure_specs c" and ?fns = "spec_functions c" and ?decls = "extern_fn_map (extern_resolver c)"
  have dist: "distinct (map fst ?ps)" and sep: "separate ?decls" using assms by (simp_all add: collector_ok_def)
  have "returns (determine_procedure_spec env ?fns p md)" if "p \<in> set ?ps" for p md
    using that assms determine_procedure_spec_returns [of env ?fns]
    by (cases p; cases md) (auto simp: collector_ok_def list_all_iff)
  then have "\<exists>md'. fold_exec (determine_procedure_spec env ?fns) ?ps (def_spec_map_new, d) = Value md' \<and> True"
    by (intro fold_exec_returns [where P = "\<lambda>_. True"]) (auto simp: returns_iff)
  then obtain m1 d1 where procs: "fold_exec (determine_procedure_spec env ?fns) ?ps (def_spec_map_new, d) = Value (m1, d1)"
    by auto
  have trusted: "\<exists>g. map_of (proc_specs m1) sid = Some g \<and> (\<forall>x. list_all (exportable x) (all_specs g))"
    if elem: "(decl, sid) \<in> set ?decls" for decl sid
  proof -
    obtain l refs where l: "sid = to_def_id l" "map_of ?ps l = Some refs" "refs_trusted refs"
      using assms elem by (auto simp: collector_ok_def list_all_iff as_local_Some bind_eq_Some_conv split: option.splits)
    then obtain g where "graph_of_refs env ?fns l refs = Value g" "map_of (proc_specs m1) sid = Some g"
      using determine_procedures [OF procs dist] map_of_SomeD [OF l(2)] by (fastforce simp: kept_def)
    then show ?thesis using graph_exportable l(3) by blast
  qed
  have "\<forall>(x, g) \<in> set (proc_specs m1). list_all (exportable x) (all_specs g)"
    by (rule procedures_exportable [OF procs]) (simp add: def_spec_map_new_def)
  then obtain m2 d2 where ext: "fold_exec (determine_extern_spec env) ?decls (m1, check_errors env (extern_resolver c) d1) = Value (m2, d2)"
    "type_specs m2 = type_specs m1" "\<forall>(x, g) \<in> set (proc_specs m2). list_all (exportable x) (all_specs g)"
    using externs_return [OF sep, of m1 env "check_errors env (extern_resolver c) d1"] trusted by blast
  have "type_specs m2 = []"
    using ext(2) procedures_keep_types [OF procs] by (simp add: def_spec_map_new_def)
  then show ?thesis
    using rest_of_build_returns [OF ext(3) _ _, of env c d "(m1, d1)" d2] procs ext(1)
    by (simp add: determine_procedure_specs_def determine_extern_specs_def)
qed

end
