(* ===== verification/Spec_Query_Laws.thy ===== *)
theory Spec_Query_Laws
  imports Spec_Query Spec_Build_Laws
begin

text \<open>
  Laws of looking up contracts: what refinement gives, and that the answers do not depend on
  the queries before.
\<close>

section \<open>Refinement\<close>

text \<open>The part of an implementation over that of the trait, which is the value \<open>v\<close>.\<close>

definition over :: "'a \<Rightarrow> 'a specification_item \<Rightarrow> 'a specification_item" where
  "over v i = (case i of Inherent x \<Rightarrow> Refined v x | _ \<Rightarrow> Inherited v)"

fun inherent_value :: "'a specification_item \<Rightarrow> 'a" where
  "inherent_value (Inherent v) = v"
| "inherent_value (Inherited v) = v"
| "inherent_value (Refined _ v) = v"
| "inherent_value Item_Empty = undefined"

definition own_parts :: "proc_spec \<Rightarrow> bool" where
  "own_parts s =
     (own (pres s) \<and> own (posts s) \<and> own (pledges s) \<and> own (proc_kind s) \<and> own (trusted s) \<and> own (terminates s) \<and> own (purity s))"

definition refined_by :: "proc_spec \<Rightarrow> proc_spec \<Rightarrow> proc_spec" where
  "refined_by t s =
     \<lparr>source = source s, extern_spec = (case extern_spec s of Some k \<Rightarrow> Some k | None \<Rightarrow> extern_spec t),
      proc_kind = over (inherent_value (proc_kind t)) (proc_kind s), pres = over (item_iter (pres t)) (pres s),
      posts = over (item_iter (posts t)) (posts s), pledges = over (item_iter (pledges t)) (pledges s),
      trusted = over (inherent_value (trusted t)) (trusted s), terminates = over (inherent_value (terminates t)) (terminates s),
      purity = over (inherent_value (purity t)) (purity s)\<rparr>"

lemma inherent_own: "inherent i \<Longrightarrow> own i"
  by (cases i) simp_all

lemma collected_own: "complete s \<Longrightarrow> own_parts s" "own_parts (empty_inheriting x)" "complete (proc_spec_empty x)"
  by (simp_all add: complete_def own_parts_def inherent_own empty_inheriting_def proc_spec_empty_def)

lemma refine_item_over:
  "own i \<Longrightarrow> inherent j \<Longrightarrow> refine_item i j = Value (over (inherent_value j) i)"
  by (cases i; cases j) (simp_all add: over_def)

lemma refine_list_over:
  "own i \<Longrightarrow> own j \<Longrightarrow> refine_item i (replace_empty j) = Value (over (item_iter j) i)"
  by (cases i; cases j) (simp_all add: over_def replace_empty_def)

lemma refine_spec_over:
  assumes "own_parts s" and "complete t"
  shows "refine_spec s t = Value (refined_by t s)"
  using assms unfolding own_parts_def complete_def
  by (simp add: refine_spec_def refine_item_over refine_list_over refined_by_def del: refine_item.simps)

section \<open>Queries\<close>

definition user_spec :: "def_spec_map \<Rightarrow> 'a spec_query \<Rightarrow> proc_spec option" where
  "user_spec m q = map_option base_spec (map_get_proc_spec m (referred_def_id q))"

text \<open>The contract that a query is about, as a function of the user's specifications.\<close>

definition contract :: "'a tcx \<Rightarrow> def_spec_map \<Rightarrow> 'a spec_query \<Rightarrow> proc_spec option" where
  "contract tcx m q =
     (case refinement_context tcx q of
        Value (Some tq) \<Rightarrow>
          Some (refined_by (unwrap_or (proc_spec_empty (referred_def_id tq)) (user_spec m tq))
            (unwrap_or (empty_inheriting (referred_def_id q)) (user_spec m q)))
      | _ \<Rightarrow> user_spec m q)"

text \<open>The methods that a trait declares are not in an \<^verbatim>\<open>impl\<close> block.\<close>

definition traits_ok :: "'a tcx \<Rightarrow> bool" where
  "traits_ok tcx \<longleftrightarrow> (\<forall>t. list_all (\<lambda>i. impl_of tcx i = None) (associated_items tcx t))"

definition map_collected :: "def_spec_map \<Rightarrow> bool" where
  "map_collected m \<longleftrightarrow> (\<forall>x g. map_of (proc_specs m) x = Some g \<longrightarrow> complete (base_spec g))"

definition sane :: "'a tcx \<Rightarrow> def_spec_map \<Rightarrow> 'a specifications \<Rightarrow> bool" where
  "sane tcx m s \<longleftrightarrow>
     user_typed_specs s = m \<and>
     (\<forall>q r. map_of (refined_specs s) q = Some r \<longrightarrow> contract tcx m q = Some r \<and> (\<exists>tq. refinement_context tcx q = Value (Some tq)))"

lemma sane_new [simp]: "sane tcx m (specifications_new m)"
  by (simp add: sane_def specifications_new_def)

lemma find_trait_method:
  assumes "traits_ok tcx" and "find_trait_method_substs tcx d substs = Value (Some (t, ts))"
  shows "impl_of tcx t = None"
proof -
  obtain trait_id where "get_assoc_item tcx trait_id d = Some t"
    using assms(2) by (auto simp: find_trait_method_substs_def Let_def split: option.splits if_splits prod.splits)
  then have "t \<in> set (associated_items tcx trait_id)"
    by (auto simp: get_assoc_item_def find_Some_iff)
  then show ?thesis using assms(1) by (auto simp: traits_ok_def list_all_iff)
qed

lemma refinement_context_not_impl: "impl_of tcx (referred_def_id q) = None \<Longrightarrow> refinement_context tcx q = Value None"
  by (cases q) (simp_all add: find_trait_method_substs_def)

lemma refinement_context_trait:
  assumes "traits_ok tcx" and "refinement_context tcx q = Value (Some tq)"
  shows "refinement_context tcx tq = Value None"
proof -
  have "impl_of tcx (referred_def_id tq) = None"
    using assms(2) find_trait_method [OF assms(1)] by (cases q) (auto simp: eq_commute [of "Some tq"])
  then show ?thesis by (rule refinement_context_not_impl)
qed

lemma user_spec_collected: "map_collected m \<Longrightarrow> user_spec m q = Some s \<Longrightarrow> complete s"
  by (auto simp: user_spec_def map_get_proc_spec_def map_collected_def)

lemma get_proc_spec_unrefined:
  assumes "sane tcx m s" and "\<nexists>tq. refinement_context tcx q = Value (Some tq)"
  shows "get_proc_spec s q = user_spec m q"
  using assms by (auto simp: get_proc_spec_def sane_def user_spec_def split: option.split)

lemma get_and_refine:
  assumes "sane tcx m s" and "traits_ok tcx" and "map_collected m" and "refinement_context tcx q = Value ctx"
  shows "\<exists>s'. get_and_refine_proc_spec tcx q s = Value (contract tcx m q, s') \<and> sane tcx m s'"
proof (cases "map_of (refined_specs s) q")
  case (Some r)
  then show ?thesis using assms(1) by (auto simp: get_and_refine_proc_spec_def is_refined_def get_proc_spec_def sane_def)
next
  case None
  show ?thesis
  proof (cases ctx)
    case None
    then show ?thesis using \<open>map_of (refined_specs s) q = None\<close> assms get_proc_spec_unrefined [OF assms(1), of q]
      by (simp add: get_and_refine_proc_spec_def is_refined_def contract_def)
  next
    case (Some tq)
    let ?t = "unwrap_or (proc_spec_empty (referred_def_id tq)) (user_spec m tq)"
    let ?i = "unwrap_or (empty_inheriting (referred_def_id q)) (user_spec m q)"
    have "get_proc_spec s tq = user_spec m tq"
      using get_proc_spec_unrefined [OF assms(1)] refinement_context_trait [OF assms(2)] assms(4) Some by simp
    moreover have "get_proc_spec s q = user_spec m q"
      using \<open>map_of (refined_specs s) q = None\<close> assms(1) by (simp add: get_proc_spec_def user_spec_def sane_def)
    moreover have "refine_spec ?i ?t = Value (refined_by ?t ?i)"
      by (rule refine_spec_over)
         (auto simp: unwrap_or_def collected_own split: option.split dest: user_spec_collected [OF assms(3)])
    moreover have "contract tcx m q = Some (refined_by ?t ?i)" using assms(4) Some by (simp add: contract_def)
    ultimately show ?thesis
      using \<open>map_of (refined_specs s) q = None\<close> assms(1,4) Some
      by (auto simp: get_and_refine_proc_spec_def is_refined_def perform_proc_spec_refinement_def get_proc_spec_def
          sane_def unwrap_or_def Let_def)
  qed
qed

section \<open>From the collector to the lookup\<close>

text \<open>A function that is neither the source nor the target of an external specification.\<close>

definition own_contract :: "('u, 'sp) spec_collector \<Rightarrow> local_def_id \<Rightarrow> bool" where
  "own_contract c l =
     (separate (extern_fn_map (extern_resolver c)) \<and>
      to_def_id l \<notin> set (targets (extern_fn_map (extern_resolver c))) \<union> snd ` set (extern_fn_map (extern_resolver c)))"

lemma built_contract:
  assumes "build_def_specs env has_body c d = Value (m, d')" and "distinct (map fst (procedure_specs c))"
    and "own_contract c l" and "map_of (procedure_specs c) l = Some refs"
  obtains g where "graph_of_refs env (spec_functions c) l refs = Value g"
    and "map_get_proc_spec m (to_def_id l) = (if kept refs g then Some g else None)"
proof -
  obtain m1 d1 m2 d2 where *: "determine_procedure_specs env c (def_spec_map_new, d) = Value (m1, d1)"
    "determine_extern_specs env c (m1, d1) = Value (m2, d2)" "proc_specs m = proc_specs m2"
    by (rule build_proc_specs [OF assms(1)])
  have procs: "fold_exec (determine_procedure_spec env (spec_functions c)) (procedure_specs c) (def_spec_map_new, d) = Value (m1, d1)"
    using *(1) by (simp add: determine_procedure_specs_def)
  have "(l, refs) \<in> set (procedure_specs c)" using assms(4) by (rule map_of_SomeD)
  from bspec [OF conjunct2 [OF determine_procedures [OF procs assms(2)]] this]
  obtain g where g: "graph_of_refs env (spec_functions c) l refs = Value g"
    "map_of (proc_specs m1) (to_def_id l) = (if kept refs g then Some g else None)"
    by (auto simp: def_spec_map_new_def)
  let ?decls = "extern_fn_map (extern_resolver c)"
  have "fold_exec (determine_extern_spec env) ?decls (m1, check_errors env (extern_resolver c) d1) = Value (m2, d2)"
    using *(2) by (simp add: determine_extern_specs_def)
  moreover have "separate ?decls" "to_def_id l \<notin> set (targets ?decls) \<union> snd ` set ?decls"
    using assms(3) by (simp_all add: own_contract_def)
  ultimately have "map_of (proc_specs m2) (to_def_id l) = map_of (proc_specs m1) (to_def_id l)"
    using determine_externs by blast
  then show ?thesis using that [of g] g *(3) by (simp add: map_get_proc_spec_def)
qed

lemma built_collected:
  assumes "build_def_specs env has_body c d = Value (m, d')"
  shows "map_collected m"
  unfolding map_collected_def
  using collecting.build_related [OF assms] by (auto simp: related_def all_specs_def)

section \<open>Collecting\<close>

definition keeps_refs :: "(('u, 'sp) spec_collector \<Rightarrow> ('u, 'sp) spec_collector exec) \<Rightarrow> bool" where
  "keeps_refs f \<longleftrightarrow> (\<forall>c c'. f c = Value c' \<longrightarrow> procedure_specs c' = procedure_specs c)"

lemma keeps_refs_bind: "keeps_refs f \<Longrightarrow> keeps_refs g \<Longrightarrow> keeps_refs (\<lambda>c. bind_exec (f c) g)"
  by (fastforce simp: keeps_refs_def)

lemma keeps_refs_when: "keeps_refs f \<Longrightarrow> keeps_refs (when_attr node name f)"
  by (simp add: keeps_refs_def when_attr_def)

lemma keeps_refs_update: "(\<And>c. procedure_specs (f c) = procedure_specs c) \<Longrightarrow> keeps_refs (\<lambda>c. Value (f c))"
  by (simp add: keeps_refs_def)

lemma keeps_refs_const: "(\<And>u. keeps_refs (f u)) \<Longrightarrow> keeps_refs (\<lambda>c. bind_exec x (\<lambda>u. f u c))"
  by (cases x) (auto simp: keeps_refs_def)

lemma update_type_refs [simp]: "procedure_specs (update_type f t c) = procedure_specs c"
  by (simp add: update_type_def)

lemma keeps_refs_self_type: "keeps_refs (update_self_type node f)"
  by (auto simp: keeps_refs_def update_self_type_def split: option.splits)

lemma spec_fn_keeps_refs: "keeps_refs (visit_spec_fn parse_uuid raw node)"
  unfolding visit_spec_fn_def
  by (rule keeps_refs_const)
     (intro keeps_refs_bind keeps_refs_when keeps_refs_self_type keeps_refs_update; simp)

lemma visit_fn_distinct:
  assumes "visit_fn env cenv parse_uuid node (c, d) = Value (c', d')" and "distinct (map fst (procedure_specs c))"
  shows "distinct (map fst (procedure_specs c'))"
proof (cases "read_prusti_attr ''spec_id'' (fn_attrs node)")
  case (Some raw)
  then show ?thesis using assms spec_fn_keeps_refs by (fastforce simp: visit_fn_def keeps_refs_def)
next
  case None
  then obtain c1 refs where 1: "visit_extern_spec cenv node c = Value c1"
    "visit_model node (insert_refs (fn_id node) refs c1) = Value c'"
    using assms(1) by (auto simp: visit_fn_def)
  have "procedure_specs c1 = procedure_specs c"
    using 1(1) by (auto simp: visit_extern_spec_def split: if_splits option.splits)
  moreover have "procedure_specs c' = procedure_specs (insert_refs (fn_id node) refs c1)"
    using 1(2) by (auto simp: visit_model_def split: if_splits option.splits)
  ultimately show ?thesis
    using assms(2) by (simp add: insert_refs_def distinct_update split: option.split)
qed

lemma visit_item_distinct:
  assumes "visit_item env cenv parse_uuid item (c, d) = Value (c', d')" and "distinct (map fst (procedure_specs c))"
  shows "distinct (map fst (procedure_specs c'))"
proof (cases item)
  case (Visit_fn node)
  then show ?thesis using assms visit_fn_distinct by (simp add: visit_item_def)
qed (use assms in \<open>auto simp: visit_item_def insert_refs_def distinct_update split: if_splits option.splits\<close>)

lemma collect_distinct:
  assumes "collect_specs env cenv parse_uuid items (spec_collector_new, d0) = Value (c, d)"
  shows "distinct (map fst (procedure_specs c))"
proof -
  have "distinct (map fst (procedure_specs (fst (c, d))))"
    using assms unfolding collect_specs_def
    by (rule fold_exec_invariant [where P = "\<lambda>x. distinct (map fst (procedure_specs (fst x)))"])
       (auto simp: spec_collector_new_def intro: visit_item_distinct)
  then show ?thesis by simp
qed

section \<open>Looking up\<close>

lemma get_spec_items_iter [simp]: "get_spec_items i = item_iter i"
  by (cases i) simp_all

lemma item_iter_over: "own i \<Longrightarrow> item_iter (over v i) = (if item_is_empty i then v else item_iter i)"
  by (cases i) (simp_all add: over_def spec_simps)

lemma refined_items:
  assumes "own_parts s"
  shows "item_iter (pres (refined_by t s)) = (if item_is_empty (pres s) then item_iter (pres t) else item_iter (pres s))"
    "item_iter (posts (refined_by t s)) = (if item_is_empty (posts s) then item_iter (posts t) else item_iter (posts s))"
    "item_iter (pledges (refined_by t s)) = (if item_is_empty (pledges s) then item_iter (pledges t) else item_iter (pledges s))"
  using assms by (simp_all add: own_parts_def refined_by_def item_iter_over)

definition spec_output :: "proc_spec option \<Rightarrow> spec_enc_output" where
  "spec_output p =
     (case p of
        Some s \<Rightarrow> \<lparr>out_extern_spec = extern_spec s, out_pres = item_iter (pres s), out_posts = item_iter (posts s),
          out_pledges = item_iter (pledges s)\<rparr>
      | None \<Rightarrow> \<lparr>out_extern_spec = None, out_pres = [], out_posts = [], out_pledges = []\<rparr>)"

lemma spec_enc_contract:
  assumes "map_collected m" and "traits_ok tcx"
    and "refinement_context tcx (GetProcKind x (identity_for_item tcx x)) = Value ctx"
  shows "\<exists>s'. spec_enc tcx x (specifications_new m) =
    Value (spec_output (contract tcx m (GetProcKind x (identity_for_item tcx x))), s')"
proof -
  obtain s' where "get_and_refine_proc_spec tcx (GetProcKind x (identity_for_item tcx x)) (specifications_new m) =
    Value (contract tcx m (GetProcKind x (identity_for_item tcx x)), s')"
    using get_and_refine [OF sane_new assms(2,1,3)] by blast
  then show ?thesis
    by (auto simp: spec_enc_def with_proc_spec_def spec_output_def unwrap_or_def split: option.split)
qed

lemma user_own_parts:
  "map_collected m \<Longrightarrow> own_parts (unwrap_or (empty_inheriting x) (user_spec m q))"
  by (auto simp: unwrap_or_def collected_own split: option.split dest: user_spec_collected)

end
