(* ===== verification/Spec_Props.thy ===== *)
theory Spec_Props
  imports Spec_Query_Laws
begin

text \<open>The properties of specifications: how they are collected, combined, and looked up.\<close>

section \<open>An example crate\<close>

text \<open>
  An example: a trusted function with two preconditions and two postconditions, of which the second ones are for type
  arguments with a trait bound.
\<close>

definition cond_attr :: "nat attribute" where
  "cond_attr = Unparsed [''prusti'', ''type_cond_spec_trait_bounds_in_where_clause''] None 0"

definition example_spec_env :: "(nat, nat list) spec_env" where
  "example_spec_env =
     \<lparr>get_local_attributes = (\<lambda>l. if l \<in> {2, 4} then [cond_attr] else []), get_item_name = (\<lambda>_. ''item''),
      krate_name = (\<lambda>_. ''krate''), get_def_span = def_index, from_spans = id, opt_in_verification = False,
      enable_type_invariants = True, skip_unsupported_features = False\<rparr>"

definition example_fns :: "(nat, local_def_id) index_map" where
  "example_fns = [(11, 1), (12, 2), (13, 3), (14, 4)]"

definition example_refs :: "nat proc_spec_refs" where
  "example_refs =
     \<lparr>spec_id_refs = [Ref_Precondition 11, Ref_Precondition 12, Ref_Postcondition 13, Ref_Postcondition 14],
      refs_pure = False, refs_abstract_predicate = False, refs_trusted = True\<rparr>"

lemma example_conditional: "conditional example_spec_env l \<longleftrightarrow> l \<in> {2, 4}"
  by (auto simp: conditional_def get_constraint_def example_spec_env_def has_trait_bounds_type_cond_spec_def
      has_prusti_attr_def get_prusti_attr_def get_prusti_attrs_def cond_attr_def)

lemma example_graph: "\<exists>g. graph_of_refs example_spec_env example_fns 5 example_refs = Value g"
  by (simp add: graph_of_refs_returns example_refs_def example_fns_def)

lemma example_constraints:
  assumes "graph_of_refs example_spec_env example_fns 5 example_refs = Value g"
  shows "\<exists>s. specs_with_constraints g = [(ResolveGenericParamTraitBounds, s)]"
proof -
  have "list_ex (conditional_ref example_spec_env example_fns) (spec_id_refs example_refs)"
    by (simp add: example_refs_def example_fns_def example_conditional)
  then show ?thesis using graph_of_refs_holds(1) [OF assms] by (auto simp: graph_holds_def map_eq_Cons_conv)
qed

text \<open>
  Besides the function above (5), the crate has a pure trait method (20) with a precondition and a postcondition, and
  an implementation of it (21) with a precondition of its own, which is not declared pure.
\<close>

definition trait_refs :: "nat proc_spec_refs" where
  "trait_refs = \<lparr>spec_id_refs = [Ref_Precondition 11, Ref_Postcondition 13], refs_pure = True,
     refs_abstract_predicate = False, refs_trusted = False\<rparr>"

definition impl_refs :: "nat proc_spec_refs" where
  "impl_refs = \<lparr>spec_id_refs = [Ref_Precondition 13], refs_pure = False, refs_abstract_predicate = False, refs_trusted = False\<rparr>"

definition example_collector :: "(nat, nat) spec_collector" where
  "example_collector = spec_collector_new
     \<lparr>spec_functions := example_fns, procedure_specs := [(5, example_refs), (20, trait_refs), (21, impl_refs)]\<rparr>"

definition example_tcx :: "nat tcx" where
  "example_tcx =
     \<lparr>impl_of = (\<lambda>d. if d = to_def_id 21 then Some (to_def_id 30) else None),
      trait_ref = (\<lambda>d. if d = to_def_id 30 then Some (to_def_id 40, [7]) else None),
      item_name = (\<lambda>_. ''f''), associated_items = (\<lambda>d. if d = to_def_id 40 then [to_def_id 20] else []),
      identity_for_item = (\<lambda>d. if d = to_def_id 20 then [0] else []), instantiate = (\<lambda>args _. args)\<rparr>"

lemmas example_defs = example_refs_def example_fns_def trait_refs_def impl_refs_def example_conditional

lemma example_collector_ok: "collector_ok example_spec_env example_collector"
  by (simp add: collector_ok_def example_collector_def spec_collector_new_def extern_resolver_new_def separate_def
      example_defs)

lemma example_traits_ok: "traits_ok example_tcx"
  by (simp add: traits_ok_def example_tcx_def)

lemma example_refinement:
  "refinement_context example_tcx (GetProcKind (to_def_id 21) []) = Value (Some (GetProcKind (to_def_id 20) [7]))"
  "refinement_context example_tcx (GetProcKind (to_def_id 20) ts) = Value None"
  by (simp_all add: find_trait_method_substs_def get_assoc_item_def example_tcx_def)

lemma example_built: "\<exists>m d'. build_def_specs example_spec_env has_body example_collector d = Value (m, d')"
  by (rule build_def_specs_ok [OF example_collector_ok])

lemma example_lookup:
  "map_of (procedure_specs example_collector) 5 = Some example_refs"
  "map_of (procedure_specs example_collector) 20 = Some trait_refs"
  "map_of (procedure_specs example_collector) 21 = Some impl_refs"
  by (simp_all add: example_collector_def)

lemma example_contract:
  assumes "build_def_specs example_spec_env has_body example_collector d = Value (m, d')"
    and "map_of (procedure_specs example_collector) l = Some refs" and "refs_trusted refs \<or> refs \<in> {trait_refs, impl_refs}"
  obtains g where "graph_of_refs example_spec_env example_fns l refs = Value g" "map_of (proc_specs m) (to_def_id l) = Some g"
proof -
  have c: "distinct (map fst (procedure_specs example_collector))" "own_contract example_collector l"
    "spec_functions example_collector = example_fns"
    using example_collector_ok
    by (simp_all add: collector_ok_def own_contract_def example_collector_def spec_collector_new_def extern_resolver_new_def)
  obtain g where g: "graph_of_refs example_spec_env (spec_functions example_collector) l refs = Value g"
    "map_get_proc_spec m (to_def_id l) = (if kept refs g then Some g else None)"
    by (rule built_contract [OF assms(1) c(1,2) assms(2)])
  have "kept refs g"
    using graph_of_refs_holds(1) [OF g(1)] assms(3) by (auto simp: kept_def graph_holds_def c(3) example_defs)
  then show ?thesis using that g c(3) by (simp add: map_get_proc_spec_def)
qed

section \<open>Contracts\<close>

text \<open>C10: In every contract that is built, the specs with a constraint agree with the base spec: they have its
  postconditions, in the same order, and the same pledges, trust, termination and external specification. The
  kind is the same as well, unless the spec with the constraint has been declared pure.\<close>

theorem spec_graph_consistent:
  assumes "build_def_specs env has_body c d = Value (m, d')" and "map_of (proc_specs m) x = Some g"
    and "(k, s) \<in> set (specs_with_constraints g)"
  shows "subseq (item_iter (posts (base_spec g))) (item_iter (posts s)) \<and> pledges s = pledges (base_spec g) \<and>
    trusted s = trusted (base_spec g) \<and> terminates s = terminates (base_spec g) \<and>
    extern_spec s = extern_spec (base_spec g) \<and> (proc_kind s = proc_kind (base_spec g) \<or> proc_kind s = Inherent Pure)"
proof -
  have "s \<in> set (all_specs g)" using assms(3) by (force simp: all_specs_def)
  then show ?thesis
    using copied.build_related [OF assms(1,2)] shared.build_related [OF assms(1,2)] kinds.build_related [OF assms(1,2)]
    by (auto simp: related_def list_all_iff posts_copied_def parts_shared_def kind_shared_def)
qed

theorem spec_graph_consistent_witness:
  "\<exists>m d' g s. build_def_specs example_spec_env (\<lambda>_. True) example_collector env_diagnostic_new = Value (m, d') \<and>
     map_of (proc_specs m) (to_def_id 5) = Some g \<and> specs_with_constraints g = [(ResolveGenericParamTraitBounds, s)] \<and>
     subseq (item_iter (posts (base_spec g))) (item_iter (posts s))"
proof -
  obtain m d' where m: "build_def_specs example_spec_env (\<lambda>_. True) example_collector env_diagnostic_new = Value (m, d')"
    using example_built by blast
  obtain g where g: "graph_of_refs example_spec_env example_fns 5 example_refs = Value g"
    "map_of (proc_specs m) (to_def_id 5) = Some g"
    by (rule example_contract [OF m, of 5 example_refs]) (simp_all add: example_lookup kept_def example_refs_def)
  obtain s where s: "specs_with_constraints g = [(ResolveGenericParamTraitBounds, s)]" using example_constraints [OF g(1)] by blast
  then show ?thesis using spec_graph_consistent [OF m g(2), of ResolveGenericParamTraitBounds s] m g(2) s by auto
qed

text \<open>C35: The preconditions of a spec with a constraint: besides those with the constraint, it has the
  unconditional ones that come before the first reference with a constraint, because it starts as a copy of the base
  spec. Unconditional preconditions after that are not copied.\<close>

theorem constrained_preconditions:
  assumes "graph_of_refs env fns l refs = Value g" and "(k, s) \<in> set (specs_with_constraints g)"
  shows "item_iter (pres s) = map to_def_id
    (named_fns pre_ref fns (takeWhile (\<lambda>r. \<not> conditional_ref env fns r) (spec_id_refs refs)) @
     filter (conditional env) (named_fns pre_ref fns (spec_id_refs refs)))"
proof -
  have "s \<in> set (map snd (specs_with_constraints g))" using assms(2) by force
  then show ?thesis using graph_of_refs_holds(1) [OF assms(1)]
    by (auto simp: graph_holds_def list_all_iff constrained_holds_def)
qed

theorem constrained_preconditions_witness:
  "\<exists>g s. graph_of_refs example_spec_env example_fns 5 example_refs = Value g \<and>
     specs_with_constraints g = [(ResolveGenericParamTraitBounds, s)] \<and> item_iter (pres s) = map to_def_id [1, 2]"
proof -
  obtain g where g: "graph_of_refs example_spec_env example_fns 5 example_refs = Value g" using example_graph by blast
  obtain s where s: "specs_with_constraints g = [(ResolveGenericParamTraitBounds, s)]" using example_constraints [OF g] by blast
  then have "item_iter (pres s) = map to_def_id [1, 2]"
    using constrained_preconditions [OF g, of ResolveGenericParamTraitBounds s]
    by (simp add: example_refs_def example_fns_def example_conditional named_fns_def map_filter_simps)
  then show ?thesis using g s by blast
qed

text \<open>C19: If the spec functions that are referred to have been visited, if those for purity have a constraint, and if
  the functions that stand for external specifications are trusted and have different targets, then building the
  contracts and choosing the bodies for export does not panic.\<close>

theorem build_def_specs_returns:
  assumes "collector_ok env c"
  shows "\<exists>m d'. build_def_specs env has_body c d = Value (m, d')"
  by (rule build_def_specs_ok [OF assms])

theorem build_def_specs_returns_witness:
  "\<exists>m d'. build_def_specs example_spec_env (\<lambda>_. True) example_collector env_diagnostic_new = Value (m, d')"
  by (rule build_def_specs_returns [OF example_collector_ok])

section \<open>From attributes to the encoder\<close>










section \<open>Lookup and refinement\<close>

text \<open>A query whose answer is not used.\<close>

definition run_query :: "'a tcx \<Rightarrow> 'a spec_query \<Rightarrow> 'a specifications \<Rightarrow> 'a specifications exec" where
  "run_query tcx q s = map_exec snd (get_and_refine_proc_spec tcx q s)"

lemma queries_sane:
  assumes "traits_ok tcx" and "map_collected m" and "list_all (\<lambda>q. returns (refinement_context tcx q)) qs"
  shows "\<exists>s. fold_exec (run_query tcx) qs (specifications_new m) = Value s \<and> sane tcx m s"
proof (rule fold_exec_returns)
  show "\<exists>s'. run_query tcx q s = Value s' \<and> sane tcx m s'" if q: "q \<in> set qs" and s: "sane tcx m s" for q s
  proof -
    obtain ctx where "refinement_context tcx q = Value ctx" using assms(3) q by (auto simp: list_all_iff returns_iff)
    then show ?thesis using get_and_refine [OF s assms(1,2)] by (force simp: run_query_def)
  qed
qed simp

text \<open>C6: The lookup of contracts refines the specification that is a function of the query: whatever queries come before,
  their refined contracts being stored, the answer is that of the user's contract, over the contract of the trait method
  if the function implements one.\<close>

theorem queries_independent:
  assumes "build_def_specs env has_body c d = Value (m, d')" and "traits_ok tcx"
    and "list_all (\<lambda>q. returns (refinement_context tcx q)) (q # qs)"
  shows "\<exists>s s'. fold_exec (run_query tcx) qs (specifications_new m) = Value s \<and>
    get_and_refine_proc_spec tcx q s = Value (contract tcx m q, s')"
proof -
  obtain s where s: "fold_exec (run_query tcx) qs (specifications_new m) = Value s" "sane tcx m s"
    using queries_sane [OF assms(2) built_collected [OF assms(1)]] assms(3) by auto
  obtain ctx where "refinement_context tcx q = Value ctx" using assms(3) by (auto simp: returns_iff)
  then show ?thesis using get_and_refine [OF s(2) assms(2) built_collected [OF assms(1)]] s(1) by blast
qed

theorem queries_independent_witness:
  "\<exists>m d' s s'. build_def_specs example_spec_env (\<lambda>_. True) example_collector env_diagnostic_new = Value (m, d') \<and>
     fold_exec (run_query example_tcx) [GetProcKind (to_def_id 20) [7], GetProcKind (to_def_id 21) []] (specifications_new m) = Value s \<and>
     get_and_refine_proc_spec example_tcx (GetProcKind (to_def_id 21) []) s =
       Value (contract example_tcx m (GetProcKind (to_def_id 21) []), s')"
proof -
  obtain m d' where m: "build_def_specs example_spec_env (\<lambda>_. True) example_collector env_diagnostic_new = Value (m, d')"
    using example_built by blast
  have "list_all (\<lambda>q. returns (refinement_context example_tcx q))
    [GetProcKind (to_def_id 21) [], GetProcKind (to_def_id 20) [7], GetProcKind (to_def_id 21) []]"
    by (simp add: example_refinement del: refinement_context.simps)
  then show ?thesis using queries_independent [OF m example_traits_ok] m by blast
qed

text \<open>C11: The contract of the implementation of a trait method: the encoder gets the preconditions of the implementation
  if it has any and those of the trait method otherwise, and the same for the postconditions and the pledges. An
  implementation without annotations gets the contract of the trait method.\<close>

theorem impl_contract:
  assumes "build_def_specs env has_body c d = Value (m, d')" and "traits_ok tcx"
    and "refinement_context tcx (GetProcKind x (identity_for_item tcx x)) = Value (Some tq)"
    and "t = unwrap_or (proc_spec_empty (referred_def_id tq)) (map_option base_spec (map_get_proc_spec m (referred_def_id tq)))"
    and "i = unwrap_or (empty_inheriting x) (map_option base_spec (map_get_proc_spec m x))"
  shows "\<exists>s. spec_enc tcx x (specifications_new m) =
    Value (\<lparr>out_extern_spec = (case extern_spec i of Some k \<Rightarrow> Some k | None \<Rightarrow> extern_spec t),
      out_pres = (if item_is_empty (pres i) then item_iter (pres t) else item_iter (pres i)),
      out_posts = (if item_is_empty (posts i) then item_iter (posts t) else item_iter (posts i)),
      out_pledges = (if item_is_empty (pledges i) then item_iter (pledges t) else item_iter (pledges i))\<rparr>, s)"
proof -
  let ?q = "GetProcKind x (identity_for_item tcx x)"
  have "own_parts i" using user_own_parts [OF built_collected [OF assms(1)], of x ?q] assms(5) by (simp add: user_spec_def)
  moreover have "contract tcx m ?q = Some (refined_by t i)" using assms(3-5) by (simp add: contract_def user_spec_def del: refinement_context.simps)
  moreover have "extern_spec (refined_by t i) = (case extern_spec i of Some k \<Rightarrow> Some k | None \<Rightarrow> extern_spec t)"
    by (simp add: refined_by_def)
  ultimately show ?thesis
    using spec_enc_contract [OF built_collected [OF assms(1)] assms(2,3)] by (simp add: spec_output_def refined_items)
qed

lemma example_trait_impl:
  assumes "build_def_specs example_spec_env has_body example_collector d = Value (m, d')"
  obtains gt gi where "map_get_proc_spec m (to_def_id 20) = Some gt" "map_get_proc_spec m (to_def_id 21) = Some gi"
    "pres (base_spec gi) = Inherent [to_def_id 3]" "posts (base_spec gi) = Item_Empty" "pledges (base_spec gi) = Item_Empty"
    "item_iter (posts (base_spec gt)) = [to_def_id 3]" "item_iter (pledges (base_spec gt)) = []"
    "extern_spec (base_spec gt) = None" "extern_spec (base_spec gi) = None" "proc_kind (base_spec gt) = Inherent Pure"
proof -
  obtain gt where gt: "graph_of_refs example_spec_env example_fns 20 trait_refs = Value gt" "map_of (proc_specs m) (to_def_id 20) = Some gt"
    by (rule example_contract [OF assms example_lookup(2)]) simp_all
  obtain gi where gi: "graph_of_refs example_spec_env example_fns 21 impl_refs = Value gi" "map_of (proc_specs m) (to_def_id 21) = Some gi"
    by (rule example_contract [OF assms example_lookup(3)]) simp_all
  have "pres (base_spec gi) = Inherent [to_def_id 3]" "posts (base_spec gi) = Item_Empty" "pledges (base_spec gi) = Item_Empty"
    using gi(1) example_conditional [of 3]
    by (auto simp: graph_of_refs_def example_defs spec_function_def conditional_def add_precondition_def graph_new_def
        proc_spec_empty_def update_all_def set_trusted_def set_kind_def)
  moreover have "proc_kind (base_spec gt) = Inherent Pure"
    using graph_of_refs_holds(3) [OF gt(1)] 
    by (simp add: final_kind_def predicate_kind_def kind_of_refs_def trait_refs_def named_fns_def map_filter_simps)
  moreover have "item_iter (posts (base_spec gt)) = [to_def_id 3]" "item_iter (pledges (base_spec gt)) = []"
    using graph_of_refs_holds(1) [OF gt(1)]
    by (simp_all add: graph_holds_def base_holds_def example_defs named_fns_def map_filter_simps)
  ultimately show ?thesis
    using that gt(2) gi(2) graph_of_refs_holds(6) [OF gt(1)] graph_of_refs_holds(6) [OF gi(1)] by (simp add: map_get_proc_spec_def)
qed

lemma refined_kind_pure:
  assumes "proc_kind b = Inherent k" and "k \<noteq> Impure"
  shows "kind_is_pure (proc_kind (refined_by b i)) \<or>
    report_kind_refinement_error name sp pure_span (proc_kind (refined_by b i)) \<noteq> None"
  using assms
  by (cases "proc_kind i"; cases k)
     (auto simp: refined_by_def over_def kind_is_pure_def is_pure_def report_kind_refinement_error_def
       spec_simps split: sum.split proc_kind.split)

theorem impl_contract_witness:
  "\<exists>m d' s. build_def_specs example_spec_env (\<lambda>_. True) example_collector env_diagnostic_new = Value (m, d') \<and>
     spec_enc example_tcx (to_def_id 21) (specifications_new m) =
       Value (\<lparr>out_extern_spec = None, out_pres = [to_def_id 3], out_posts = [to_def_id 3], out_pledges = []\<rparr>, s)"
proof -
  obtain m d' where m: "build_def_specs example_spec_env (\<lambda>_. True) example_collector env_diagnostic_new = Value (m, d')"
    using example_built by blast
  obtain gt gi where g: "map_get_proc_spec m (to_def_id 20) = Some gt" "map_get_proc_spec m (to_def_id 21) = Some gi"
    "pres (base_spec gi) = Inherent [to_def_id 3]" "posts (base_spec gi) = Item_Empty" "pledges (base_spec gi) = Item_Empty"
    "item_iter (posts (base_spec gt)) = [to_def_id 3]" "item_iter (pledges (base_spec gt)) = []"
    "extern_spec (base_spec gt) = None" "extern_spec (base_spec gi) = None"
    by (rule example_trait_impl [OF m])
  have "identity_for_item example_tcx (to_def_id 21) = []" by (simp add: example_tcx_def)
  then show ?thesis
    using impl_contract [OF m example_traits_ok, of "to_def_id 21", OF _ refl refl] example_refinement(1) m
    by (simp add: g unwrap_or_def item_is_empty_def del: refinement_context.simps)
qed

text \<open>C18: Purity cannot be lost: if a trait method is pure, then the implementation is pure as well, or its kind is reported as an
  error.\<close>

theorem trait_purity_enforced:
  assumes "build_def_specs env has_body c d = Value (m, d')" and "traits_ok tcx"
    and "refinement_context tcx (GetProcKind x args) = Value (Some (GetProcKind t targs))"
    and "is_function_pure tcx t targs (specifications_new m) = Value (True, s1)"
  shows "\<exists>p s. get_and_refine_proc_spec tcx (GetProcKind x args) (specifications_new m) = Value (Some p, s) \<and>
    (is_function_pure tcx x args (specifications_new m) = Value (True, s) \<or>
     report_kind_refinement_error name sp pure_span (proc_kind p) \<noteq> None)"
proof -
  let ?q = "GetProcKind x args" and ?tq = "GetProcKind t targs"
  note m = built_collected [OF assms(1)]
  have tctx: "refinement_context tcx ?tq = Value None" by (rule refinement_context_trait [OF assms(2,3)])
  then have "contract tcx m ?tq = user_spec m ?tq" by (simp add: contract_def del: refinement_context.simps)
  then obtain b where b: "user_spec m ?tq = Some b" "kind_is_pure (proc_kind b)"
    using get_and_refine [OF sane_new assms(2) m tctx] assms(4)
    by (cases "user_spec m ?tq") (auto simp: is_function_pure_def with_proc_spec_def unwrap_or_def)
  obtain k where k: "proc_kind b = Inherent k" "k \<noteq> Impure"
    using b user_spec_collected [OF m b(1)] inherent_cases
    by (force simp: complete_def kind_is_pure_def is_pure_def)
  let ?i = "unwrap_or (empty_inheriting x) (user_spec m ?q)"
  have p: "contract tcx m ?q = Some (refined_by b ?i)"
    using assms(3) b(1) by (simp add: contract_def unwrap_or_def del: refinement_context.simps)
  obtain s where s: "get_and_refine_proc_spec tcx ?q (specifications_new m) = Value (Some (refined_by b ?i), s)"
    using get_and_refine [OF sane_new assms(2) m assms(3)] p by auto
  have "kind_is_pure (proc_kind (refined_by b ?i)) \<or>
      report_kind_refinement_error name sp pure_span (proc_kind (refined_by b ?i)) \<noteq> None"
    by (rule refined_kind_pure [OF k])
  then show ?thesis using s by (auto simp: is_function_pure_def with_proc_spec_def unwrap_or_def)
qed

theorem trait_purity_enforced_witness:
  "\<exists>m d' p s. build_def_specs example_spec_env (\<lambda>_. True) example_collector env_diagnostic_new = Value (m, d') \<and>
     get_and_refine_proc_spec example_tcx (GetProcKind (to_def_id 21) []) (specifications_new m) = Value (Some p, s) \<and>
     (is_function_pure example_tcx (to_def_id 21) [] (specifications_new m) = Value (True, s) \<or>
      report_kind_refinement_error ''f'' (0 :: nat) None (proc_kind p) \<noteq> None)"
proof -
  obtain m d' where m: "build_def_specs example_spec_env (\<lambda>_. True) example_collector env_diagnostic_new = Value (m, d')"
    using example_built by blast
  obtain gt where g: "map_get_proc_spec m (to_def_id 20) = Some gt" "proc_kind (base_spec gt) = Inherent Pure"
    by (rule example_trait_impl [OF m])
  have "is_function_pure example_tcx (to_def_id 20) [7] (specifications_new m) = Value (True, specifications_new m)"
    using g by (simp add: is_function_pure_def with_proc_spec_def get_and_refine_proc_spec_def is_refined_def get_proc_spec_def
        specifications_new_def example_refinement unwrap_or_def kind_is_pure_def is_pure_def del: refinement_context.simps)
  from trait_purity_enforced [OF m example_traits_ok example_refinement(1) this, where name = "''f''" and sp = "0 :: nat" and pure_span = None]
  show ?thesis using m by blast
qed

section \<open>Type-conditional specifications\<close>

definition without_constraints :: "def_spec_map \<Rightarrow> def_spec_map" where
  "without_constraints m = m\<lparr>proc_specs := map (\<lambda>(x, g). (x, g\<lparr>specs_with_constraints := []\<rparr>)) (proc_specs m)\<rparr>"

lemma base_without_constraints:
  "map_option base_spec (map_get_proc_spec (without_constraints m) x) = map_option base_spec (map_get_proc_spec m x)"
  by (simp add: map_get_proc_spec_def without_constraints_def map_of_map option.map_comp comp_def)

lemma get_proc_spec_without:
  "get_proc_spec \<lparr>user_typed_specs = without_constraints m, refined_specs = r\<rparr> q = get_proc_spec \<lparr>user_typed_specs = m, refined_specs = r\<rparr> q"
  by (simp add: get_proc_spec_def base_without_constraints split: option.split)

text \<open>C34: Specs with a constraint are never used in a lookup: the answer to every query is the same after all of them have been
  removed. The conditional preconditions and postconditions of a trusted function are therefore ignored.\<close>

theorem constraints_ignored:
  "map_exec fst (get_and_refine_proc_spec tcx q (specifications_new (without_constraints m))) =
   map_exec fst (get_and_refine_proc_spec tcx q (specifications_new m))"
proof (cases "refinement_context tcx q")
  case (Value ctx)
  have impl: "map_exec fst (perform_proc_spec_refinement q tq (specifications_new (without_constraints m))) =
    map_exec fst (perform_proc_spec_refinement q tq (specifications_new m))" for tq
    by (cases "refine_spec (case get_proc_spec (specifications_new m) q of Some t \<Rightarrow> t | None \<Rightarrow> empty_inheriting (referred_def_id q))
      (case get_proc_spec (specifications_new m) tq of Some t \<Rightarrow> t | None \<Rightarrow> proc_spec_empty (referred_def_id tq))")
      (simp_all add: perform_proc_spec_refinement_def specifications_new_def get_proc_spec_without Let_def)
  show ?thesis
  proof (cases ctx)
    case None
    then show ?thesis using Value
      by (simp add: get_and_refine_proc_spec_def is_refined_def specifications_new_def get_proc_spec_without)
  next
    case (Some tq)
    then show ?thesis using Value impl [of tq]
      by (cases "perform_proc_spec_refinement q tq (specifications_new (without_constraints m))";
          cases "perform_proc_spec_refinement q tq (specifications_new m)")
         (auto simp: get_and_refine_proc_spec_def is_refined_def specifications_new_def)
  qed
qed (simp add: get_and_refine_proc_spec_def is_refined_def specifications_new_def)

end
