(* ===== verification/Spec2Isabelle.thy ===== *)
theory Spec2Isabelle
  imports Viper_Ident Task_Encoder_Props Preparser_Props Smt_Log_Props Vir_Spans_Props Prusti_Error_Props
    Verify_Stream_Props Verify_Clients Verify_Programs_Laws Vir_To_Viper_Props Spec_Props
begin

text \<open>
  Prusti verifies Rust programs with Viper. It is a compiler plugin with these parts.

  \<^item> The procedural macros of \<^verbatim>\<open>prusti-contracts\<close> turn specifications into Rust code. Their first stage,
    \<^verbatim>\<open>preparser.rs\<close>, translates the syntax that Prusti adds to Rust.
  \<^item> \<^verbatim>\<open>prusti-interface\<close> finds the functions into which the macros have turned the specifications, by the attributes
    left on them, and builds the contracts; the encoders ask for the contract of a function, which is refined by that
    of the trait method it implements.
  \<^item> The encoders of \<^verbatim>\<open>prusti-encoder\<close> turn Rust items into VIR, an intermediate form of Viper
    programs. Each encoder is a cached task of the framework in \<^verbatim>\<open>task-encoder\<close>. While an encoder runs, the
    span manager of \<^verbatim>\<open>vir/src/spans.rs\<close> knows for which piece of Rust it runs, and which handler explains
    an error there.
  \<^item> \<^verbatim>\<open>prusti-viper\<close> translates VIR into the syntax tree of Viper, by calls to the factory of the
    crate \<^verbatim>\<open>viper\<close>. The position of a Viper node is the id of a span.
  \<^item> \<^verbatim>\<open>prusti-server\<close> sends programs to the verifier, in the same process or on a server, with a cache of
    results. The verifier runs in a Java virtual machine; its messages are polled and sent to the client.
    The client translates the errors back through the span manager and reports them to the user.
  \<^item> \<^verbatim>\<open>smt-log-analyzer\<close> counts quantifier instantiations in the logs of the SMT solver and checks bounds.

  \<^bold>\<open>Theories.\<close> Names are those of the source, with a suffix or prefix where HOL has the name already. A group of
  theories \<open>X\<close>, \<open>X_Laws\<close>, \<open>X_Props\<close> holds the model of a component, the lemmas about it, and its properties.

  \<^item> \<open>Prusti_Prelude\<close>: \<open>exec\<close> is the outcome of Rust code that returns or panics, \<open>error + 'a\<close> is
    \<^verbatim>\<open>Result\<close>, \<open>index_map\<close> is \<^verbatim>\<open>FxIndexMap\<close>; \<open>digits\<close> and \<open>parse_usize\<close> print and read numbers.
  \<^item> \<open>Viper_Ident\<close>: \<^verbatim>\<open>vir/src/viper_ident.rs\<close>.
  \<^item> \<open>Task_Encoder\<close>: \<^verbatim>\<open>task-encoder/src\<close>. The state of all encoders (caches, watchers, pending actions) is the
    record \<open>enc_state\<close>; \<open>encode\<close>, \<open>encode_ref\<close>, \<open>require\<close>, \<open>emit_output_ref\<close> and \<open>drain_triggers\<close> are the
    functions of these names. Encoder bodies are programs \<open>enc_prog\<close> over the calls that the framework
    offers, so the results hold for every encoder.
  \<^item> \<open>Preparser_Tokens\<close>, \<open>Preparser\<close>: \<^verbatim>\<open>prusti-specs/src/specifications/preparser.rs\<close>.
  \<^item> \<open>Spec_Typed\<close>: \<^verbatim>\<open>prusti-interface/src/specs/typed.rs\<close> and the readers of attributes in \<^verbatim>\<open>utils.rs\<close>; contracts are
    the record \<open>proc_spec\<close>, those of a function the record \<open>spec_graph\<close>. \<open>Spec_Collect\<close>: \<^verbatim>\<open>specs/mod.rs\<close> and
    \<^verbatim>\<open>external.rs\<close>; the record \<open>spec_collector\<close> is \<^verbatim>\<open>SpecCollector\<close>, and the walk over the crate is the list of
    the visited items. \<open>Spec_Query\<close>: \<^verbatim>\<open>specs/specifications.rs\<close> and \<^verbatim>\<open>prusti-encoder/src/encoders/spec.rs\<close>.
    \<open>Spec_Graph_Laws\<close>, \<open>Spec_Graph_Content\<close>, \<open>Spec_Build_Laws\<close> and \<open>Spec_Query_Laws\<close> hold the lemmas.
  \<^item> \<open>Vir_Spans\<close>: \<^verbatim>\<open>vir/src/spans.rs\<close>. The record \<open>span_manager\<close> is \<^verbatim>\<open>VirSpanManager\<close>; code that runs within
    spans is a value of \<open>span_prog\<close>.
  \<^item> \<open>Vir_Data\<close>: the data of \<^verbatim>\<open>vir/src/data.rs\<close> and \<^verbatim>\<open>gendata.rs\<close>. \<open>Viper_Ast\<close>: \<^verbatim>\<open>viper/src/ast_factory\<close>.
    \<open>Vir_To_Viper\<close>: \<^verbatim>\<open>prusti-viper/src/lib.rs\<close>, one definition for each \<^verbatim>\<open>impl ToViper\<close>.
  \<^item> \<open>Viper_Cache\<close>: \<^verbatim>\<open>viper/src/cache.rs\<close> and \<^verbatim>\<open>verification_result.rs\<close>. \<open>Viper_Verifier\<close>:
    \<^verbatim>\<open>viper/src/verifier.rs\<close> and \<^verbatim>\<open>smt_manager.rs\<close>; the answers of the Java side are the record \<open>viper_jvm\<close>.
  \<^item> \<open>Verify_Server\<close>: requests, polling and streams of messages in \<^verbatim>\<open>prusti-server/src\<close>. \<open>Verify_Stream\<close>: the
    client in \<^verbatim>\<open>prusti-server/src/lib.rs\<close>. \<open>Verify_Clients\<close>: the steps of several clients of one server.
  \<^item> \<open>Prusti_Error\<close>: \<^verbatim>\<open>prusti-interface/src/prusti_error.rs\<close> and \<^verbatim>\<open>environment/diagnostic.rs\<close>.
  \<^item> \<open>Smt_Log_Parser\<close>, \<open>Smt_Log_State\<close>, \<open>Smt_Log_Analyzer\<close>: \<^verbatim>\<open>smt-log-analyzer/src\<close>. \<open>Smt_Log_Spec\<close> is the
    abstract specification: stacks of counters.

  \<^bold>\<open>What is shown.\<close>

  \<^item> The whole way of a program (this theory): Prusti reports success exactly when Viper verifies all programs;
    every error of Viper reaches the user; an error at a Viper node is explained by the handlers of
    the span in which the node was built.
  \<^item> Task encoder: entries of the cache only move forward, \<open>encode\<close> returns what the cache records, panics of
    bodies stay inside, encoders without cycles terminate, and the trigger queue is drained. The
    locale \<open>task_evolution\<close> lifts a relation from the elementary updates to whole runs.
  \<^item> Preparser: it always ends, it is the identity on plain Rust, and it parses expressions according to the
    binding powers.
  \<^item> Specifications: the conditions that a function refers to reach the encoder, the specs of a contract agree (locale
    \<open>spec_relation\<close>, which lifts a relation from the updates of a contract to all contracts that are built), building
    does not panic on resolved references, lookups are a function of the query, implementations inherit from their trait
    methods and cannot lose purity. Two theorems show what constrained specs are: they copy earlier preconditions,
    and they are never used.
  \<^item> Spans: ids are indices and stay valid, and handlers are asked from the inside out. The locale
    \<open>span_evolution\<close> lifts a relation from the operations to all programs.
  \<^item> Translation to Viper: when it panics, that literals keep their value, that branches take the first
    matching target, that all jumps go to declared labels, that labels are different, and where
    positions are kept.
  \<^item> Server and client: each error is sent once, the cache survives a restart (locale \<open>result_store\<close>),
    and the client collects all errors (locale \<open>stream_handler\<close>). Some theorems describe faults: what a
    cache hit loses, what a failed consistency check leaves behind, how clients get each other's results.
  \<^item> SMT log analyzer: every line does to the abstract counters what its event says (locale \<open>scoped_log\<close>),
    logs of well-nested events are accepted, and the reports hold the peaks and totals.

  \<^bold>\<open>Bounds.\<close> All definitions are total. The nesting of calls to encoders is bounded by a number, at which a run is
  \<open>None\<close>; \<open>encode_terminates\<close> shows that encoders without cycles do not reach a sufficient bound and that the
  result does not depend on it. A verification that hangs is \<open>None\<close> as well; \<open>verify_programs_sound\<close> shows
  when this does not happen. Scope levels are words of 32 bits, integer constants of 128 bits;
  sizes and ids are natural numbers, with the bound of 64 bits as a hypothesis where an id is printed and read.

  \<^bold>\<open>Not modelled.\<close> The encoders of \<^verbatim>\<open>prusti-encoder\<close> other than the spec encoder, the environment of \<^verbatim>\<open>prusti-interface\<close> and the
  compiler driver read types and bodies from the Rust compiler at every step, which is not part
  of the repository; what the specification collector asks the compiler is part of the visited items and of the
  records \<open>spec_env\<close>, \<open>call_env\<close> and \<open>tcx\<close>. Specifications of other crates are merged by \<open>import_external\<close>, but not
  read from files; \<^verbatim>\<open>prusti-encoder/src/loops.rs\<close> and several modules of the environment are not compiled.
  The macros of \<^verbatim>\<open>prusti-specs\<close> other than the preparser rewrite trees of the package \<^verbatim>\<open>syn\<close>. The builders,
  callables and reification of VIR (\<^verbatim>\<open>make.rs\<close>, \<^verbatim>\<open>callable.rs\<close>, \<^verbatim>\<open>reify.rs\<close>) are generated by macros or forward to
  the constructors of the data. Serialisation, sockets, threads, start of the virtual machine,
  configuration and launching are input and output. The crates \<^verbatim>\<open>analysis\<close> and \<^verbatim>\<open>mir-ssa-analysis\<close> are not
  members of the workspace.
\<close>

section \<open>From the verifier to the user\<close>

text \<open>C1: Prusti reports success exactly when Viper verifies all programs, whether the verification runs
  on a server or in the same process. This holds if every verification ends with a result whose
  errors have positions, and if the cache only holds results that agree with what Viper says about the
  programs; then the cache still does so afterwards.\<close>

theorem verify_programs_sound:
  assumes "\<not> show_ide_info cfg"
    and "\<forall>(h, r) \<in> set programs. program_ok cfg (get_viper_identifiers (vcx env)) (verdict h) r"
    and "cache_agrees verdict c"
  shows "\<exists>d' c'. verify_programs primary cfg hasher env remote programs c d =
      Some ((Value (if list_ex (\<lambda>(h, r). verdict h \<noteq> ViperSuccess) programs then Overall_Failure else Overall_Success), d'), c') \<and>
    cache_agrees verdict c'"
proof -
  let ?reqs = "map (\<lambda>(h, r). (h, process cfg hasher (get_viper_identifiers (vcx env)) r)) programs"
  let ?stream = "if remote then verify_requests_server cfg ?reqs c else verify_requests_local cfg ?reqs c"
  have "stream_agrees env verdict (map fst programs) ?stream"
    using server_agrees [OF assms(2,3), of env hasher] local_agrees [OF assms(2,3), of env hasher] by simp
  then obtain msgs c' where s: "?stream = (msgs, Stream_done, c')" "list_all (plain_message env) msgs" "cache_agrees verdict c'"
    "list_ex (fails env) msgs \<longleftrightarrow> list_ex (\<lambda>h. verdict h \<noteq> ViperSuccess) (map fst programs)"
    by (cases ?stream) (auto simp: stream_agrees_def)
  obtain d' where "handle_stream primary cfg env msgs d =
      (Value (if list_ex (fails env) msgs then Overall_Failure else Overall_Success), d')"
    using handle_stream_plain [OF assms(1), of env msgs d primary] s(2) by (auto simp: plain_message_def [abs_def])
  moreover have "list_ex (\<lambda>h. verdict h \<noteq> ViperSuccess) (map fst programs) \<longleftrightarrow> list_ex (\<lambda>(h, r). verdict h \<noteq> ViperSuccess) programs"
    by (simp add: list_ex_iff case_prod_beta)
  ultimately show ?thesis using s verify_programs_done [OF s(1) refl, of primary d] by simp
qed

text \<open>An example: one program with a failing assertion in the method of a known function.\<close>

lemma example_program_ok:
  "program_ok example_config (get_viper_identifiers (vcx example_env)) (ViperFailure [VerificationError example_error]) example_run"
proof -
  have "get_viper_identifiers (vcx example_env) = {''m_f''}"
    by (simp add: example_env_def get_viper_identifiers_def)
  moreover have "located (extract_error example_error)"
    using parse_usize_digits [of 1] by (simp add: located_def extract_error_def example_error_def extract_pos_id_def digits.simps)
  ultimately show ?thesis using example_run_ok
    by (simp add: program_ok_def verdict_errors_def example_run_def reported_errors_def)
qed

theorem verify_programs_sound_witness:
  "\<exists>d' c'. verify_programs (Some :: nat \<Rightarrow> nat option) example_config (\<lambda>_. 0) example_env True
     [(5, example_run)] empty_cache env_diagnostic_new = Some ((Value Overall_Failure, d'), c')"
proof -
  let ?verdict = "\<lambda>h :: request_hash. ViperFailure [VerificationError example_error]"
  have "\<not> show_ide_info example_config" by (simp add: example_config_def)
  moreover have "\<forall>(h, r) \<in> set [(5, example_run)]. program_ok example_config (get_viper_identifiers (vcx example_env)) (?verdict h) r"
    using example_program_ok by simp
  moreover have "cache_agrees ?verdict empty_cache" by (simp add: cache_agrees_def empty_cache_def cache_get_def)
  ultimately show ?thesis
    using verify_programs_sound [of example_config "[(5, example_run)]" example_env ?verdict empty_cache Some "\<lambda>_. 0" True env_diagnostic_new]
    by auto
qed

text \<open>C2: Every error that Viper gives for a program that is not in the cache reaches the user: what it
  is translated back to is given to the compiler, or is a warning that waits for an error, unless it
  is disabled. With polling the hashes of the errors must not collide.\<close>

theorem every_error_reported:
  fixes r :: "('cx, 'ex) viper_run" and env :: "('sp, 'ms, 'd, 'c, 'ex) client_env"
  assumes "\<not> show_ide_info cfg" and "program_ok cfg (get_viper_identifiers (vcx env)) (ViperFailure es) r"
    and "enable_cache cfg \<longrightarrow> cache_get h c = None"
    and "inj_on hasher (key_of ` set (extracted es @
      concat (map (reported_errors (get_viper_identifiers (vcx env))) (before_end (run_reports r)))))"
    and "e \<in> set (extracted es)" and "pe \<in> set (translated cfg env e)" and "\<not> is_disabled pe"
  shows "\<exists>d' c'. verify_programs primary cfg hasher env remote [(h, r)] c d = Some ((Value Overall_Failure, d'), c') \<and>
    diag_of pe \<in> set (emitted d') \<union> set (warn_buffer d')"
proof -
  let ?procs = "get_viper_identifiers (vcx env)"
  have ok: "run_ok cfg ?procs (ViperFailure es) r" using assms(2) by (simp add: program_ok_def)
  obtain k sent where p: "process cfg hasher ?procs r = (sent @ [Termination (final_result k (run_elapsed r))], Process_done)"
    "answers cfg hasher ?procs (ViperFailure es) (run_reports r) sent k" by (rule process_ok [OF ok])
  let ?msgs = "sent @ [Termination (final_result k (run_elapsed r))]"
  have "key_of e \<in> key_of ` set (all_errors ?msgs)" by (rule answers_keys [OF p(2) assms(4,5)])
  then obtain e' where e': "e' \<in> set (all_errors ?msgs)" "key_of e = key_of e'" by blast
  then have "pe \<in> set (translated cfg env e')" using assms(6) translated_key [OF e'(2), of cfg env] by simp
  then have pe: "pe \<in> set (sort_key (error_key primary) (concat (map (collected cfg env) ?msgs)))"
    unfolding collected_errors [OF p(2)] set_sort set_filter set_concat set_map using e'(1) assms(7) by blast
  have "list_all (plain_message env) ?msgs \<and> list_ex (fails env) ?msgs"
    using program_ok_plain [OF assms(2) p(1)] answers_success [OF p(2)] by (simp add: fails_def seen_kind_def final_result_def)
  then obtain d1 where h: "handle_stream primary cfg env ?msgs d = (Value Overall_Failure,
      fold report_error (sort_key (error_key primary) (concat (map (collected cfg env) ?msgs))) d1)"
    using handle_stream_plain [OF assms(1), of env ?msgs d primary] by (auto simp: plain_message_def [abs_def])
  obtain c' where c': "(if remote then verify_requests_server cfg [(h, ?msgs, Process_done)] c
      else verify_requests_local cfg [(h, ?msgs, Process_done)] c) = (?msgs, Stream_done, c')"
    using request_not_cached [OF assms(3) answers_no_termination [OF p(2)]] by blast
  have "verify_programs primary cfg hasher env remote [(h, r)] c d = Some (handle_stream primary cfg env ?msgs d, c')"
    by (rule verify_programs_done [OF c']) (simp add: p(1))
  then show ?thesis using h reported_in [OF pe, of d1] by auto
qed

theorem every_error_reported_witness:
  "\<exists>d' c'. verify_programs (Some :: nat \<Rightarrow> nat option) example_config (\<lambda>_. 0) example_env True
     [(5, example_run)] empty_cache env_diagnostic_new = Some ((Value Overall_Failure, d'), c') \<and>
     (emitted d' \<noteq> [] \<or> warn_buffer d' \<noteq> [])"
proof -
  let ?e = "extract_error example_error"
  let ?pe = "internal_value False (no_handler_message ''assert.failed'') (8 :: nat)"
  have parse: "parse_usize ''1'' = Some 1" using parse_usize_digits [of 1] by (simp add: digits.simps)
  have "\<not> show_ide_info example_config" "enable_cache example_config \<longrightarrow> cache_get 5 empty_cache = None"
    by (simp_all add: example_config_def empty_cache_def cache_get_def)
  moreover have "inj_on (\<lambda>_. 0 :: 64 word) (key_of ` set (extracted [VerificationError example_error] @
      concat (map (reported_errors (get_viper_identifiers (vcx example_env))) (before_end (run_reports example_run)))))"
    by (simp add: example_run_def before_end_def reported_errors_def example_env_def get_viper_identifiers_def)
  moreover have "?e \<in> set (extracted [VerificationError example_error])" by simp
  moreover have "?pe \<in> set (translated example_config example_env ?e)"
    by (simp add: translated_def backtranslate_error_def extract_error_def example_error_def extract_pos_id_def parse
        backtranslate_def Let_def example_env_def open_span_def span_manager_default_def nth_option_def get_span_from_id_def
        top_span_def last_option_def example_config_def)
  moreover have "\<not> is_disabled ?pe" by (simp add: internal_value_def add_note_mut_def prusti_error_new_def Let_def)
  ultimately show ?thesis
    using every_error_reported [of example_config example_env "[VerificationError example_error]" example_run 5 empty_cache
        "\<lambda>_. 0" ?e ?pe Some True env_diagnostic_new] example_program_ok
    by fastforce
qed

section \<open>From the program to the verifier and back\<close>

text \<open>What is built while spans are open has a span of the manager.\<close>

lemma new_nodes_have_spans:
  assumes "spans_ok m" and "set_expr_kind k \<subseteq> set (all_spans m)" and "set_stmt_kind st \<subseteq> set (all_spans m)"
  shows "set_expr (expr_new k m) \<subseteq> set (all_spans m) \<and> set_stmt (stmt_new st m) \<subseteq> set (all_spans m)"
proof -
  have "set_option (top_span m) \<subseteq> set (all_spans m)"
    using assms(1) by (auto simp: spans_ok_def top_span_def last_option_def split: if_splits)
  then show ?thesis using assms by (simp add: expr_new_def expr_new_with_ty_def expr_new_inner_def stmt_new_def)
qed




end
